(* ===== verification/Prelude.thy ===== *)
theory Prelude
  imports Main "HOL-Library.Word"
begin

unbundle bit_operations_syntax

text \<open>
  Shared vocabulary of the development: the machine integer types of the Rust sources, the
  result type in which every fallible operation of the code answers (an operating-system or
  library error, or a panic), the byte-level helpers of the formats the code writes
  (little-endian 32-bit words), and the exclusive-or facts on which the bidirectional log
  rests.  The facts that many components use are collected in named theorem lists.

  Arithmetic follows the release profile that the Makefile builds by default: unsigned
  additions and subtractions wrap around, while slices out of range, failed assertions,
  \<open>unwrap\<close> and \<open>expect\<close> panic.
\<close>

section \<open>Machine integers\<close>

type_synonym u8 = "8 word"
type_synonym u32 = "32 word"
type_synonym u64 = "64 word"
type_synonym i32 = "32 word"
type_synonym i64 = "64 word"
type_synonym bytes = "u8 list"

named_theorems result_simps "how results compose"
named_theorems xor_simps "cancellation laws of exclusive or"

section \<open>Results, errors and panics\<close>

text \<open>
  An \<open>io::Error\<close> is an operating-system error number, the end-of-file error of the
  \<open>read_exact\<close> family, or an error of kind \<open>Other\<close> with a message.  A failing
  operation either returns such an error or panics.  The \<open>trace!\<close> macro of
  \<open>error.rs\<close> adds the source position to an error that passes through; positions are
  diagnostics only and are not kept.
\<close>

datatype io_error = Os int | UnexpectedEof | Other string

datatype failure = IoErr io_error | Panicked string

type_synonym 'a result = "failure + 'a"

definition ENOENT :: int where "ENOENT = 2"
definition ENODATA :: int where "ENODATA = 61"
definition EINVAL :: int where "EINVAL = 22"

definition not_found :: "failure \<Rightarrow> bool" where
  "not_found e \<longleftrightarrow> e = IoErr (Os ENOENT)"

definition rbind :: "'e + 'a \<Rightarrow> ('a \<Rightarrow> 'e + 'b) \<Rightarrow> 'e + 'b" where
  "rbind m f = (case m of Inl e \<Rightarrow> Inl e | Inr x \<Rightarrow> f x)"

definition rmap :: "('a \<Rightarrow> 'b) \<Rightarrow> 'e + 'a \<Rightarrow> 'e + 'b" where
  "rmap f m = rbind m (\<lambda>x. Inr (f x))"

definition require :: "bool \<Rightarrow> string \<Rightarrow> unit result" where
  "require b msg = (if b then Inr () else Inl (Panicked msg))"

definition unwrap :: "string \<Rightarrow> 'a option \<Rightarrow> 'a result" where
  "unwrap msg x = (case x of None \<Rightarrow> Inl (Panicked msg) | Some v \<Rightarrow> Inr v)"

definition is_ok :: "'e + 'a \<Rightarrow> bool" where
  "is_ok m = (case m of Inl _ \<Rightarrow> False | Inr _ \<Rightarrow> True)"

lemma rbind_Inl [simp, result_simps]: "rbind (Inl e) f = Inl e"
  by (simp add: rbind_def)

lemma rbind_Inr [simp, result_simps]: "rbind (Inr x) f = f x"
  by (simp add: rbind_def)

lemma rbind_assoc: "rbind (rbind m f) g = rbind m (\<lambda>x. rbind (f x) g)"
  by (cases m) simp_all

lemma rbind_eq_Inr: "rbind m f = Inr y \<longleftrightarrow> (\<exists>x. m = Inr x \<and> f x = Inr y)"
  by (cases m) auto

lemma rbind_eq_Inl: "rbind m f = Inl e \<longleftrightarrow> m = Inl e \<or> (\<exists>x. m = Inr x \<and> f x = Inl e)"
  by (cases m) auto

lemma rbindE:
  assumes "rbind m f = Inr y"
  obtains x where "m = Inr x" and "f x = Inr y"
  using assms by (auto simp: rbind_eq_Inr)

lemma rmap_simps [simp, result_simps]: "rmap f (Inl e) = Inl e" "rmap f (Inr x) = Inr (f x)"
  by (simp_all add: rmap_def)

lemma rmap_eq_Inr: "rmap f m = Inr y \<longleftrightarrow> (\<exists>x. m = Inr x \<and> y = f x)"
  by (cases m) auto

lemma require_True [simp, result_simps]: "require True msg = Inr ()"
  by (simp add: require_def)

lemma require_False [simp, result_simps]: "require False msg = Inl (Panicked msg)"
  by (simp add: require_def)

lemma require_eq_Inr [simp]: "require b msg = Inr u \<longleftrightarrow> b"
  by (simp add: require_def)

lemma unwrap_simps [simp, result_simps]:
  "unwrap msg None = Inl (Panicked msg)" "unwrap msg (Some v) = Inr v"
  by (simp_all add: unwrap_def)

lemma unwrap_eq_Inr: "unwrap msg x = Inr v \<longleftrightarrow> x = Some v"
  by (cases x) auto

lemma is_ok_simps [simp]: "is_ok (Inr x)" "\<not> is_ok (Inl e)"
  by (simp_all add: is_ok_def)

lemma is_ok_iff: "is_ok m \<longleftrightarrow> (\<exists>x. m = Inr x)"
  by (cases m) auto

section \<open>Exclusive or\<close>

lemma word_xor_cancel [simp, xor_simps]:
  fixes x y :: "'a::len word"
  shows "x XOR (x XOR y) = y" "(x XOR y) XOR y = x" "(x XOR y) XOR x = y" "y XOR (x XOR y) = x"
  by (simp_all add: bit_eq_iff bit_xor_iff) auto

lemma word_xor_cancel_mid [simp, xor_simps]:
  fixes x y z :: "'a::len word"
  shows "(x XOR y = x XOR z) = (y = z)" "(y XOR x = z XOR x) = (y = z)"
proof -
  have inj: "x XOR y = x XOR z \<Longrightarrow> y = z"
    by (drule arg_cong [of _ _ "\<lambda>w. x XOR w"]) simp
  then show "(x XOR y = x XOR z) = (y = z)" by blast
  then show "(y XOR x = z XOR x) = (y = z)" by (simp add: xor.commute)
qed

section \<open>Little-endian words\<close>

definition le32 :: "u32 \<Rightarrow> bytes" where
  "le32 w = [ucast w, ucast (drop_bit 8 w), ucast (drop_bit 16 w), ucast (drop_bit 24 w)]"

definition rd32 :: "bytes \<Rightarrow> u32" where
  "rd32 b = (ucast (b ! 0) OR push_bit 8 (ucast (b ! 1)) OR push_bit 16 (ucast (b ! 2))
     OR push_bit 24 (ucast (b ! 3)))"

lemma length_le32 [simp]: "length (le32 w) = 4"
  by (simp add: le32_def)

lemma rd32_le32 [simp]: "rd32 (le32 w) = w"
proof (rule bit_word_eqI)
  fix n
  assume "n < LENGTH(32)"
  then have n: "n < 32" by simp
  have "bit (rd32 (le32 w)) n =
      ((n < 8 \<and> bit w n) \<or> (8 \<le> n \<and> n - 8 < 8 \<and> bit w n) \<or>
       (16 \<le> n \<and> n - 16 < 8 \<and> bit w n) \<or> (24 \<le> n \<and> n - 24 < 8 \<and> bit w n))"
    using n by (auto simp: rd32_def le32_def bit_or_iff bit_push_bit_iff bit_ucast_iff
        bit_drop_bit_eq possible_bit_word)
  then show "bit (rd32 (le32 w)) n = bit w n"
    using n by auto
qed

lemma le32_inject [simp]: "le32 v = le32 w \<longleftrightarrow> v = w"
  by (metis rd32_le32)

lemma le32_eq_zero: "le32 w = [0, 0, 0, 0] \<longleftrightarrow> w = 0"
proof -
  have "le32 0 = [0, 0, 0, 0]" by (simp add: le32_def)
  then show ?thesis by (metis le32_inject)
qed

section \<open>Lists\<close>

lemma take_drop_append_exact:
  "length a = n \<Longrightarrow> take n (a @ b) = a" "length a = n \<Longrightarrow> drop n (a @ b) = b"
  by auto

lemma list_all2_nthI:
  assumes "length xs = length ys" "\<And>i. i < length xs \<Longrightarrow> xs ! i = ys ! i"
  shows "xs = ys"
  using assms by (simp add: nth_equalityI)

lemma sorted_wrt_less_mono:
  fixes xs :: "'a::linorder list"
  assumes "sorted_wrt (<) xs"
  shows "distinct xs" "sorted xs"
  using assms strict_sorted_iff by auto

end
