(* ===== verification/Common.thy ===== *)
theory Common
  imports Prelude "HOL-Library.Char_ord" "HOL-Library.List_Lexorder"
begin

unbundle bit_operations_syntax

text \<open>
  The vocabulary shared by the server, the client, the journal and the snapshots:
  \<open>common/mod.rs\<close>, \<open>common/file_security.rs\<close>, \<open>common/ffi.rs\<close> and
  \<open>common/security_unix.rs\<close>.  Paths are lists of components with the order of
  \<open>std::path\<close>; the intercepted file-system calls, the messages of the replication
  protocol and the connection options are datatypes; \<open>translate_path\<close>,
  \<open>parse_human_size\<close>, \<open>xor_buf\<close>, the zero run-length coder and decoder and the
  lazily computed value are functions.
\<close>

section \<open>Paths\<close>

text \<open>
  \<open>std::path::Path\<close> compares and orders paths by their components, and a component is
  the root directory, the current directory, the parent directory or a name, ordered as
  listed.
\<close>

datatype component = RootDir | CurDir | ParentDir | Normal string

type_synonym path = "component list"

fun component_key :: "component \<Rightarrow> nat \<times> string" where
  "component_key RootDir = (0, [])"
| "component_key CurDir = (1, [])"
| "component_key ParentDir = (2, [])"
| "component_key (Normal s) = (3, s)"

fun component_le :: "component \<Rightarrow> component \<Rightarrow> bool" where
  "component_le a b = (fst (component_key a) < fst (component_key b) \<or>
     fst (component_key a) = fst (component_key b) \<and> snd (component_key a) \<le> snd (component_key b))"

lemma component_key_inject: "component_key a = component_key b \<Longrightarrow> a = b"
  by (cases a; cases b) simp_all

instantiation component :: linorder
begin

definition less_eq_component :: "component \<Rightarrow> component \<Rightarrow> bool" where
  "less_eq_component a b = component_le a b"

definition less_component :: "component \<Rightarrow> component \<Rightarrow> bool" where
  "less_component a b = (component_le a b \<and> \<not> component_le b a)"

instance
proof
  fix x y z :: component
  show "(x < y) = (x \<le> y \<and> \<not> y \<le> x)"
    by (simp add: less_component_def less_eq_component_def)
  show "x \<le> x"
    by (simp add: less_eq_component_def)
  show "x \<le> y \<Longrightarrow> y \<le> z \<Longrightarrow> x \<le> z"
    by (auto simp: less_eq_component_def)
  show "x \<le> y \<Longrightarrow> y \<le> x \<Longrightarrow> x = y"
    by (rule component_key_inject) (auto simp: less_eq_component_def prod_eq_iff)
  show "x \<le> y \<or> y \<le> x"
    by (auto simp: less_eq_component_def)
qed

end

text \<open>
  \<open>Path::join\<close> replaces the base when the argument is absolute.
\<close>

definition path_join :: "path \<Rightarrow> path \<Rightarrow> path" where
  "path_join root p = (case p of RootDir # _ \<Rightarrow> p | _ \<Rightarrow> root @ p)"

definition starts_with_root :: "path \<Rightarrow> bool" where
  "starts_with_root p = (case p of RootDir # _ \<Rightarrow> True | _ \<Rightarrow> False)"

definition translate_path :: "path \<Rightarrow> path \<Rightarrow> path" where
  "translate_path p root = path_join root (if starts_with_root p then tl p else p)"

text \<open>
  \<open>into_cstring\<close> (\<open>ffi.rs\<close>) panics on a path with a zero byte.
\<close>

fun component_chars :: "component \<Rightarrow> string" where
  "component_chars (Normal s) = s"
| "component_chars _ = []"

definition into_cstring :: "path \<Rightarrow> path result" where
  "into_cstring p = (if CHR 0x00 \<in> set (concat (map component_chars p))
     then Inl (Panicked ''NulError'') else Inr p)"

definition trans_cstr :: "path \<Rightarrow> path \<Rightarrow> path result" where
  "trans_cstr p root = into_cstring (translate_path p root)"

text \<open>
  \<open>to_str().unwrap()\<close> panics on a path that is not valid UTF-8.
\<close>

definition cont_byte :: "nat \<Rightarrow> bool" where
  "cont_byte b \<longleftrightarrow> 0x80 \<le> b \<and> b \<le> 0xBF"

fun utf8_valid :: "nat list \<Rightarrow> bool" where
  "utf8_valid [] = True"
| "utf8_valid (a # bs) =
     (if a < 0x80 then utf8_valid bs
      else if 0xC2 \<le> a \<and> a \<le> 0xDF then
        (case bs of b # rest \<Rightarrow> cont_byte b \<and> utf8_valid rest | _ \<Rightarrow> False)
      else if 0xE0 \<le> a \<and> a \<le> 0xEF then
        (case bs of b # c # rest \<Rightarrow>
           cont_byte b \<and> (a = 0xE0 \<longrightarrow> 0xA0 \<le> b) \<and> (a = 0xED \<longrightarrow> b \<le> 0x9F) \<and> cont_byte c \<and> utf8_valid rest
         | _ \<Rightarrow> False)
      else if 0xF0 \<le> a \<and> a \<le> 0xF4 then
        (case bs of b # c # d # rest \<Rightarrow>
           cont_byte b \<and> (a = 0xF0 \<longrightarrow> 0x90 \<le> b) \<and> (a = 0xF4 \<longrightarrow> b \<le> 0x8F) \<and> cont_byte c \<and> cont_byte d
           \<and> utf8_valid rest
         | _ \<Rightarrow> False)
      else False)"

definition path_to_str :: "path \<Rightarrow> path result" where
  "path_to_str p = (if list_all (\<lambda>c. utf8_valid (map of_char (component_chars c))) p
     then Inr p else Inl (Panicked ''called Option::unwrap() on a None value''))"

text \<open>
  A well-formed path has the root directory only in front, as every path that
  \<open>Path::components\<close> yields.
\<close>

definition wf_path :: "path \<Rightarrow> bool" where
  "wf_path p \<longleftrightarrow> RootDir \<notin> set (tl p)"

section \<open>File types\<close>

text \<open>The constants of \<open>libc\<close>.\<close>

definition S_IFMT :: u32 where "S_IFMT = 0xF000"
definition S_IFLNK :: u32 where "S_IFLNK = 0xA000"
definition S_IFREG :: u32 where "S_IFREG = 0x8000"
definition S_IFBLK :: u32 where "S_IFBLK = 0x6000"
definition S_IFCHR :: u32 where "S_IFCHR = 0x2000"
definition S_IFIFO :: u32 where "S_IFIFO = 0x1000"
definition S_IFSOCK :: u32 where "S_IFSOCK = 0xC000"

section \<open>Calls and messages\<close>

record Timespec =
  high :: i64
  low :: i64

definition timespec_xor :: "Timespec \<Rightarrow> Timespec \<Rightarrow> Timespec" where
  "timespec_xor a b = \<lparr>high = high a XOR high b, low = low a XOR low b\<rparr>"

datatype FileSecurity =
    Windows string "u32 option"
  | Unix u32 u32
  | Portable "string option" "string option"

text \<open>\<open>[Timespec; 3]\<close> is a triple.\<close>

type_synonym timespec3 = "Timespec \<times> Timespec \<times> Timespec"

datatype VFSCall =
    VFS_mknod path u32 u64 FileSecurity
  | VFS_mkdir path FileSecurity u32
  | VFS_unlink path
  | VFS_rmdir path
  | VFS_symlink path path FileSecurity
  | VFS_rename path path u32
  | VFS_link path path FileSecurity
  | VFS_chmod path u32
  | VFS_truncate path i64
  | VFS_write path i64 bytes
  | VFS_diff_write path i64 bytes
  | VFS_fallocate path i32 i64 i64
  | VFS_setxattr path bytes bytes i32
  | VFS_removexattr path bytes
  | VFS_create path i32 FileSecurity u32
  | VFS_utimens path timespec3
  | VFS_fsync path i32
  | VFS_truncating_write path i64 bytes i64
  | VFS_security path FileSecurity

datatype ClientMode = MODE_ASYNC | MODE_SYNC | MODE_SEMISYNC | MODE_FLUSHSYNC | MODE_CONTROL

datatype ClientAck = AckOk | Dead | RetCode i32

record AckMsg =
  retcode :: ClientAck
  ack_tid :: u64

text \<open>The bit sets \<open>Options\<close> and \<open>CompMode\<close>.\<close>

definition INITIAL_RSYNC :: u32 where "INITIAL_RSYNC = 0b000001"
definition RT_DSSC_ZLIB :: u32 where "RT_DSSC_ZLIB = 0b000001"
definition RT_DSSC_CHUNKED :: u32 where "RT_DSSC_CHUNKED = 0b000010"
definition RT_DSSC_ZSTD :: u32 where "RT_DSSC_ZSTD = 0b000100"
definition RT_MASK :: u32 where "RT_MASK = 0b000111"
definition STREAM_ZSTD :: u32 where "STREAM_ZSTD = 0b001000"
definition STREAM_LZ4 :: u32 where "STREAM_LZ4 = 0b010000"
definition STREAM_MASK :: u32 where "STREAM_MASK = 0b011000"

definition flags_contains :: "u32 \<Rightarrow> u32 \<Rightarrow> bool" where
  "flags_contains s f \<longleftrightarrow> s AND f = f"

definition flags_intersects :: "u32 \<Rightarrow> u32 \<Rightarrow> bool" where
  "flags_intersects s f \<longleftrightarrow> s AND f \<noteq> 0"

record InitMsg =
  init_mode :: ClientMode
  dsthash :: u64
  compress :: u32
  iolimit_bps :: u64
  init_options :: u32

datatype FsyncerMsg =
    InitMsg InitMsg
  | AsyncOp VFSCall
  | SyncOp VFSCall u64
  | Ack AckMsg
  | Cork u64
  | AckCork u64
  | Uncork
  | NOP

section \<open>Sizes\<close>

text \<open>
  \<open>str::parse::<usize>\<close>: an optional plus sign and at least one decimal digit; a value
  beyond 64 bits is an error.
\<close>

definition digit_val :: "char \<Rightarrow> nat option" where
  "digit_val c = (if CHR ''0'' \<le> c \<and> c \<le> CHR ''9'' then Some (of_char c - of_char CHR ''0'') else None)"

fun parse_digits :: "nat \<Rightarrow> string \<Rightarrow> nat option" where
  "parse_digits acc [] = Some acc"
| "parse_digits acc (c # cs) =
     (case digit_val c of None \<Rightarrow> None
      | Some d \<Rightarrow> if acc * 10 + d < 2 ^ 64 then parse_digits (acc * 10 + d) cs else None)"

definition parse_usize :: "string \<Rightarrow> nat option" where
  "parse_usize s =
     (let t = (if s \<noteq> [] \<and> hd s = CHR ''+'' then tl s else s)
      in if t = [] then None else parse_digits 0 t)"

text \<open>Decimal output of an unsigned number (\<open>Display\<close>).\<close>

definition digit_char :: "nat \<Rightarrow> char" where
  "digit_char d = char_of (of_char CHR ''0'' + d)"

fun show_nat :: "nat \<Rightarrow> string" where
  "show_nat n = (if n < 10 then [digit_char n] else show_nat (n div 10) @ [digit_char (n mod 10)])"

declare show_nat.simps [simp del]

definition mul_usize :: "nat \<Rightarrow> nat \<Rightarrow> nat" where
  "mul_usize a b = (a * b) mod 2 ^ 64"

definition usize_add :: "nat \<Rightarrow> nat \<Rightarrow> nat" where
  "usize_add a b = (a + b) mod 2 ^ 64"

definition usize_sub :: "nat \<Rightarrow> nat \<Rightarrow> nat" where
  "usize_sub a b = (a + 2 ^ 64 - b) mod 2 ^ 64"

definition parse_human_size :: "string \<Rightarrow> nat option result" where
  "parse_human_size s =
     (if s = [] then Inl (Panicked ''called Option::unwrap() on a None value'')
      else let c = last s in
        if c = CHR ''K'' \<or> c = CHR ''k'' then
          Inr (map_option (\<lambda>n. mul_usize n 1024) (parse_usize (butlast s)))
        else if c = CHR ''M'' \<or> c = CHR ''m'' then
          Inr (map_option (\<lambda>n. mul_usize (mul_usize n 1024) 1024) (parse_usize (butlast s)))
        else if c = CHR ''G'' \<or> c = CHR ''g'' then
          Inr (map_option (\<lambda>n. mul_usize (mul_usize (mul_usize n 1024) 1024) 1024)
                (parse_usize (butlast s)))
        else Inr (parse_usize s))"

section \<open>Exclusive or of buffers\<close>

text \<open>
  \<open>xor_buf(new, old)\<close> requires the old buffer to be no longer than the new one and
  changes the common prefix of \<open>new\<close> in place.
\<close>

definition xor_prefix :: "bytes \<Rightarrow> bytes \<Rightarrow> bytes" where
  "xor_prefix new old = map2 (\<lambda>a b. a XOR b) new old @ drop (length old) new"

definition xor_buf :: "bytes \<Rightarrow> bytes \<Rightarrow> bytes result" where
  "xor_buf new old =
     (if length old \<le> length new then Inr (xor_prefix new old)
      else Inl (Panicked ''assertion failed: new.len() >= old.len()''))"

section \<open>Zero run-length coding\<close>

text \<open>
  \<open>zrle\<close> compresses a buffer in place: a run of at most 255 zero bytes becomes a zero and
  its length, other bytes are moved down by the number of bytes saved so far.  \<open>saved\<close> is
  a \<open>usize\<close> and wraps; an index out of range panics.
\<close>

function zero_run :: "bytes \<Rightarrow> nat \<Rightarrow> nat \<Rightarrow> nat \<times> nat" where
  "zero_run buf i run =
     (if i < length buf \<and> buf ! i = 0 \<and> run \<noteq> 255 then zero_run buf (Suc i) (Suc run) else (i, run))"
  by pat_completeness auto
termination
  by (relation "measure (\<lambda>(buf, i, run). length buf - i)") auto

definition buf_set :: "bytes \<Rightarrow> nat \<Rightarrow> u8 \<Rightarrow> bytes result" where
  "buf_set buf i v = (if i < length buf then Inr (buf[i := v]) else Inl (Panicked ''index out of bounds''))"

lemma buf_set_length: "buf_set buf i v = Inr buf' \<Longrightarrow> length buf' = length buf"
  by (auto simp: buf_set_def split: if_splits)

function move_literals :: "bytes \<Rightarrow> nat \<Rightarrow> nat \<Rightarrow> (bytes \<times> nat) result" where
  "move_literals buf i saved =
     (if i < length buf \<and> buf ! i \<noteq> 0 then
        (case buf_set buf (usize_sub i saved) (buf ! i) of
           Inl e \<Rightarrow> Inl e
         | Inr buf' \<Rightarrow> move_literals buf' (Suc i) saved)
      else Inr (buf, i))"
  by pat_completeness auto
termination
  by (relation "measure (\<lambda>(buf, i, saved). length buf - i)") (auto dest: buf_set_length)

declare zero_run.simps [simp del] move_literals.simps [simp del]

lemma zero_run_mono: "i \<le> fst (zero_run buf i run)"
proof (induction buf i run rule: zero_run.induct)
  case (1 buf i run)
  then show ?case
    by (subst zero_run.simps) (auto dest: Suc_leD)
qed

lemma zero_run_strict:
  assumes "i < length buf" "buf ! i = 0" "run < 255"
  shows "i < fst (zero_run buf i run)"
proof -
  have "fst (zero_run buf i run) = fst (zero_run buf (Suc i) (Suc run))"
    using assms by (subst zero_run.simps) simp
  then show ?thesis
    using zero_run_mono [of "Suc i" buf "Suc run"] by simp
qed

lemma zero_run_stuck: "buf ! i \<noteq> 0 \<Longrightarrow> zero_run buf i run = (i, run)"
  by (subst zero_run.simps) simp

lemma move_literals_mono:
  "move_literals buf i saved = Inr (buf', j) \<Longrightarrow> i \<le> j \<and> length buf' = length buf"
proof (induction buf i saved rule: move_literals.induct)
  case (1 buf i saved)
  show ?case
  proof (cases "i < length buf \<and> buf ! i \<noteq> 0")
    case True
    then obtain b where b: "buf_set buf (usize_sub i saved) (buf ! i) = Inr b"
      using "1.prems" by (subst (asm) move_literals.simps) (auto split: sum.splits)
    then have "move_literals b (Suc i) saved = Inr (buf', j)"
      using "1.prems" True by (subst (asm) move_literals.simps) auto
    then show ?thesis
      using "1.IH" [OF True b] buf_set_length [OF b] by auto
  next
    case False
    then show ?thesis
      using "1.prems" by (subst (asm) move_literals.simps) auto
  qed
qed

lemma move_literals_strict:
  assumes "move_literals buf i saved = Inr (buf', j)" "i < length buf" "buf ! i \<noteq> 0"
  shows "i < j"
proof -
  obtain b where b: "buf_set buf (usize_sub i saved) (buf ! i) = Inr b"
    using assms by (subst (asm) move_literals.simps) (auto split: sum.splits)
  then have "move_literals b (Suc i) saved = Inr (buf', j)"
    using assms by (subst (asm) move_literals.simps) auto
  then show ?thesis
    using move_literals_mono by fastforce
qed

function zrle_loop :: "bytes \<Rightarrow> nat \<Rightarrow> nat \<Rightarrow> (bytes \<times> nat) option result" where
  "zrle_loop buf i saved =
     (if i < length buf then
        (let (j, run) = zero_run buf i 0 in
         if run = 1 \<and> saved = 0 then Inr None
         else let saved' = usize_sub ((saved + run) mod 2 ^ 64) 2 in
           case buf_set buf (usize_sub (usize_sub j saved') 2) 0 of Inl e \<Rightarrow> Inl e
           | Inr b1 \<Rightarrow>
           (case buf_set b1 (usize_sub (usize_sub j saved') 1) (of_nat run) of Inl e \<Rightarrow> Inl e
            | Inr b2 \<Rightarrow>
            (case move_literals b2 j saved' of Inl e \<Rightarrow> Inl e
             | Inr r \<Rightarrow> zrle_loop (fst r) (snd r) saved')))
      else Inr (Some (buf, saved)))"
  by pat_completeness auto
termination
proof (relation "measure (\<lambda>(buf, i, saved). 2 * (length buf - i) + (if buf ! i \<noteq> 0 then 1 else 0))",
    goal_cases)
  case 1
  show ?case by simp
next
  case (2 buf i saved x j run saved' b1 b2 r)
  obtain b3 k where r: "r = (b3, k)" by (cases r)
  have len: "length b2 = length buf"
    using 2 buf_set_length by metis
  have mono: "j \<le> k" "length b3 = length buf"
    using move_literals_mono [of b2 j saved' b3 k] 2(8) r len by simp_all
  show ?case
  proof (cases "buf ! i = 0")
    case True
    then have "i < j"
      using 2(1-3) zero_run_strict [of i buf 0] by (metis fst_conv zero_less_numeral)
    then show ?thesis
      using mono r True 2(1) by auto
  next
    case False
    then have j: "j = i"
      using 2(2,3) zero_run_stuck by (metis Pair_inject)
    show ?thesis
    proof (cases "b2 ! i = 0")
      case zero: True
      have "move_literals b2 j saved' = Inr (b2, j)"
        using zero j by (subst move_literals.simps) simp
      then show ?thesis
        using 2(8) r zero False j len by auto
    next
      case nonzero: False
      then have "j < k"
        using move_literals_strict [of b2 j saved' b3 k] 2(1,8) r j len by simp
      then show ?thesis
        using mono r False j 2(1) by auto
    qed
  qed
qed

declare zrle_loop.simps [simp del]

definition zrle :: "bytes \<Rightarrow> bytes option result" where
  "zrle buf = rmap (map_option (\<lambda>(b, saved). take (usize_sub (length buf) saved) b)) (zrle_loop buf 0 0)"

text \<open>
  \<open>zrld\<close> expands the runs again.  A zero at the very end has no length byte after it and
  the read panics.
\<close>

function zrld_loop :: "bytes \<Rightarrow> nat \<Rightarrow> bytes \<Rightarrow> bytes result" where
  "zrld_loop buf i vec =
     (if i < length buf then
        (if buf ! i = 0 \<and> \<not> Suc i < length buf then Inl (Panicked ''index out of bounds'')
         else let (i', vec') = (if buf ! i = 0 then (i + 2, vec @ replicate (unat (buf ! Suc i)) 0) else (i, vec));
                  lit = takeWhile (\<lambda>b. b \<noteq> 0) (drop i' buf)
              in zrld_loop buf (i' + length lit) (vec' @ lit))
      else Inr vec)"
  by pat_completeness auto
termination
proof (relation "measure (\<lambda>(buf, i, vec). length buf - i)", goal_cases)
  case 1
  show ?case by simp
next
  case (2 buf i vec x i' vec' lit)
  show ?case
  proof (cases "buf ! i = 0")
    case True
    then show ?thesis using 2 by (auto split: if_splits)
  next
    case False
    then have "drop i' buf = buf ! i # drop (Suc i) buf"
      using 2 by (simp add: Cons_nth_drop_Suc)
    then have "0 < length lit"
      using 2 False by simp
    then have "length buf - (i + length lit) < length buf - i"
      using 2(1) by linarith
    then show ?thesis using 2 False by auto
  qed
qed

declare zrld_loop.simps [simp del]

definition zrld :: "bytes \<Rightarrow> bytes result" where
  "zrld buf = zrld_loop buf 0 []"

section \<open>Lazily computed values\<close>

text \<open>
  \<open>Lazy\<close> holds either the closure or the value it produced; \<open>get_or_create\<close> runs the
  closure at most once and panics when neither is there.
\<close>

record 'a Lazy =
  lazy_f :: "(unit \<Rightarrow> 'a) option"
  lazy_t :: "'a option"

definition lazy_new :: "(unit \<Rightarrow> 'a) \<Rightarrow> 'a Lazy" where
  "lazy_new f = \<lparr>lazy_f = Some f, lazy_t = None\<rparr>"

definition get_or_create :: "'a Lazy \<Rightarrow> ('a \<times> 'a Lazy) result" where
  "get_or_create l = (case lazy_t l of
       Some t \<Rightarrow> Inr (t, l)
     | None \<Rightarrow> rbind (unwrap ''called Option::unwrap() on a None value'' (lazy_f l))
         (\<lambda>f. Inr (f (), l\<lparr>lazy_f := None, lazy_t := Some (f ())\<rparr>)))"

definition lazy_take :: "'a Lazy \<Rightarrow> 'a result" where
  "lazy_take l = (case lazy_t l of
       Some t \<Rightarrow> Inr t
     | None \<Rightarrow> rbind (unwrap ''called Option::unwrap() on a None value'' (lazy_f l)) (\<lambda>f. Inr (f ())))"

definition err_or_ok :: "'a + 'a \<Rightarrow> 'a" where
  "err_or_ok r = (case r of Inl t \<Rightarrow> t | Inr t \<Rightarrow> t)"

end
