(* ===== verification/CommonLaws.thy ===== *)
theory CommonLaws
  imports Common
begin

unbundle bit_operations_syntax

text \<open>
  What the helpers of \<open>common/mod.rs\<close> promise: translated paths stay below the root and
  keep distinct paths apart, sizes are read back as they are written, the exclusive or of
  buffers is its own inverse, and the zero run-length coder agrees with a reference coder that
  the decoder inverts.
\<close>

section \<open>Paths\<close>

lemma translate_path_alt:
  assumes "wf_path p"
  shows "translate_path p root = root @ filter (\<lambda>c. c \<noteq> RootDir) p"
proof (cases p)
  case (Cons c cs)
  then have "filter (\<lambda>c. c \<noteq> RootDir) cs = cs"
    using assms by (auto simp: wf_path_def filter_id_conv)
  then show ?thesis
    using Cons assms
    by (cases c) (auto simp: translate_path_def path_join_def starts_with_root_def wf_path_def
        split: list.splits component.splits)
qed (simp add: translate_path_def path_join_def starts_with_root_def)

section \<open>Sizes\<close>

lemma digit_val_char: "d < 10 \<Longrightarrow> digit_val (digit_char d) = Some d"
proof -
  assume "d < 10"
  then have "d \<in> set [0..<10]" by simp
  moreover have "\<forall>d \<in> set [0..<10]. digit_val (digit_char d) = Some d"
    by code_simp
  ultimately show ?thesis by blast
qed

lemma digit_char_plain: "d < 10 \<Longrightarrow> digit_char d \<noteq> CHR ''+'' \<and> digit_char d \<notin> set ''KkMmGg''"
proof -
  assume "d < 10"
  then have "d \<in> set [0..<10]" by simp
  moreover have "\<forall>d \<in> set [0..<10]. digit_char d \<noteq> CHR ''+'' \<and> digit_char d \<notin> set ''KkMmGg''"
    by code_simp
  ultimately show ?thesis by blast
qed

lemma parse_digits_append:
  "parse_digits acc (s @ t) = Option.bind (parse_digits acc s) (\<lambda>a. parse_digits a t)"
  by (induction s arbitrary: acc) (auto split: option.split)

lemma show_nat_digits: "show_nat n \<noteq> [] \<and> set (show_nat n) \<subseteq> digit_char ` {..<10}"
proof (induction n rule: show_nat.induct)
  case (1 n)
  then show ?case by (subst (1 2) show_nat.simps) auto
qed

lemma parse_digits_show: "n < 2 ^ 64 \<Longrightarrow> parse_digits 0 (show_nat n) = Some n"
proof (induction n rule: show_nat.induct)
  case (1 n)
  show ?case
  proof (cases "n < 10")
    case True
    then show ?thesis by (subst show_nat.simps) (simp add: digit_val_char)
  next
    case False
    then have "parse_digits 0 (show_nat (n div 10)) = Some (n div 10)"
      using 1 by simp
    moreover have "n div 10 * 10 + n mod 10 < 2 ^ 64"
      using 1(2) by simp
    ultimately show ?thesis
      using False by (subst show_nat.simps) (simp add: parse_digits_append digit_val_char)
  qed
qed

lemma parse_usize_show: "n < 2 ^ 64 \<Longrightarrow> parse_usize (show_nat n) = Some n"
proof -
  assume n: "n < 2 ^ 64"
  have "hd (show_nat n) \<in> digit_char ` {..<10}"
    using show_nat_digits [of n] hd_in_set by blast
  then obtain d where "d < 10" "hd (show_nat n) = digit_char d" by auto
  then have "hd (show_nat n) \<noteq> CHR ''+''"
    using digit_char_plain [of d] by simp
  then show ?thesis
    using n show_nat_digits [of n] by (simp add: parse_usize_def parse_digits_show)
qed

lemma last_show_nat: "last (show_nat n) \<notin> set ''KkMmGg''"
proof -
  have "last (show_nat n) \<in> digit_char ` {..<10}"
    using show_nat_digits [of n] last_in_set by blast
  then obtain d where "d < 10" "last (show_nat n) = digit_char d" by auto
  then show ?thesis using digit_char_plain [of d] by simp
qed

text \<open>The multiplier of each suffix.\<close>

definition unit_of :: "char \<Rightarrow> nat" where
  "unit_of c = (if c \<in> set ''Kk'' then 1024 else if c \<in> set ''Mm'' then 1024 ^ 2
     else if c \<in> set ''Gg'' then 1024 ^ 3 else 1)"

lemma parse_human_size_suffix:
  assumes "n < 2 ^ 64" "c \<in> set ''KkMmGg''"
  shows "parse_human_size (show_nat n @ [c]) = Inr (Some (n * unit_of c mod 2 ^ 64))"
  using assms
  by (auto simp: parse_human_size_def parse_usize_show mul_usize_def unit_of_def mod_mult_left_eq
      mult.assoc)

section \<open>Exclusive or of buffers\<close>

lemma length_xor_prefix [simp]: "length old \<le> length new \<Longrightarrow> length (xor_prefix new old) = length new"
  by (simp add: xor_prefix_def)

lemma xor_prefix_Nil [xor_simps]: "xor_prefix new [] = new"
  by (simp add: xor_prefix_def)

lemma nth_xor_prefix:
  assumes "length old \<le> length new" "i < length new"
  shows "xor_prefix new old ! i = (if i < length old then new ! i XOR old ! i else new ! i)"
  using assms by (auto simp: xor_prefix_def nth_append)

lemma xor_prefix_twice [xor_simps]:
  assumes "length old \<le> length new"
  shows "xor_prefix (xor_prefix new old) old = new"
  using assms by (intro nth_equalityI) (simp_all add: nth_xor_prefix)

lemma xor_prefix_swap [xor_simps]:
  assumes "length old = length new"
  shows "xor_prefix (xor_prefix new old) new = old"
  using assms by (intro nth_equalityI) (simp_all add: nth_xor_prefix)

section \<open>Zero run-length coding\<close>

text \<open>
  The reference coder: a run of at most 255 zeros becomes a zero and its length, then the
  bytes up to the next zero follow unchanged.
\<close>

function zrle_spec :: "bytes \<Rightarrow> bytes" where
  "zrle_spec bs =
     (if bs = [] then []
      else let run = min 255 (length (takeWhile (\<lambda>b. b = 0) bs));
               rest = drop run bs;
               lit = takeWhile (\<lambda>b. b \<noteq> 0) rest
           in 0 # of_nat run # lit @ zrle_spec (drop (length lit) rest))"
  by pat_completeness auto
termination
proof (relation "measure length", goal_cases)
  case (2 bs run rest lit)
  then show ?case by (cases bs; cases "hd bs = 0") auto
qed simp

declare zrle_spec.simps [simp del]

lemma zrle_spec_Nil [simp]: "zrle_spec [] = []"
  by (simp add: zrle_spec.simps)

lemma takeWhile_append_stop: "list_all P xs \<Longrightarrow> ys = [] \<or> \<not> P (hd ys) \<Longrightarrow> takeWhile P (xs @ ys) = xs"
  by (induction xs) (auto, cases ys, auto)

lemma zrle_spec_hd: "zrle_spec bs = [] \<or> hd (zrle_spec bs) = 0"
  by (subst (1 2) zrle_spec.simps) (simp add: Let_def)

lemma zero_prefix: "run \<le> length (takeWhile (\<lambda>b. b = 0) bs) \<Longrightarrow> take run bs = replicate run 0"
proof (induction bs arbitrary: run)
  case (Cons b bs)
  then show ?case by (cases run) (auto split: if_splits)
qed simp

lemma zrld_loop_spec:
  "zrld_loop (pre @ zrle_spec bs) (length pre) vec = Inr (vec @ bs)"
proof (induction bs arbitrary: pre vec rule: zrle_spec.induct)
  case (1 bs)
  show ?case
  proof (cases "bs = []")
    case True
    then show ?thesis by (simp add: zrld_loop.simps)
  next
    case False
    define run where "run = min 255 (length (takeWhile (\<lambda>b::u8. b = 0) bs))"
    define lit where "lit = takeWhile (\<lambda>b::u8. b \<noteq> 0) (drop run bs)"
    define more where "more = drop (length lit) (drop run bs)"
    have enc: "zrle_spec bs = 0 # of_nat run # lit @ zrle_spec more"
      using False by (subst zrle_spec.simps) (simp add: Let_def run_def lit_def more_def)
    have run: "unat (of_nat run :: u8) = run"
      by (simp add: run_def unat_of_nat)
    have bs: "bs = replicate run 0 @ lit @ more"
    proof -
      have "lit @ more = drop run bs"
        unfolding lit_def more_def by (metis takeWhile_dropWhile_id append_eq_conv_conj)
      moreover have "take run bs = replicate run 0"
        by (rule zero_prefix) (simp add: run_def)
      ultimately show ?thesis by (metis append_take_drop_id)
    qed
    have tw: "takeWhile (\<lambda>b. b \<noteq> 0) (lit @ zrle_spec more) = lit"
      using zrle_spec_hd [of more]
      by (intro takeWhile_append_stop) (auto simp: lit_def list_all_iff dest: set_takeWhileD)
    have "zrld_loop (pre @ zrle_spec bs) (length pre) vec =
        zrld_loop ((pre @ 0 # of_nat run # lit) @ zrle_spec more) (length (pre @ 0 # of_nat run # lit))
          (vec @ replicate run 0 @ lit)"
      unfolding enc by (subst zrld_loop.simps) (simp add: nth_append run tw)
    also have "\<dots> = Inr ((vec @ replicate run 0 @ lit) @ more)"
      using 1 [OF False run_def refl lit_def] by (simp only: more_def)
    finally show ?thesis using bs by simp
  qed
qed

lemma usize_sub_le: "b \<le> a \<Longrightarrow> a < 2 ^ 64 \<Longrightarrow> usize_sub a b = a - b"
proof -
  assume "b \<le> a" "a < 2 ^ 64"
  then have "a + 2 ^ 64 - b = (a - b) + 2 ^ 64" "a - b < 2 ^ 64" by linarith+
  then have "(a + 2 ^ 64 - b) mod 2 ^ 64 = a - b" by (simp only: mod_add_self2 mod_less)
  then show ?thesis by (simp only: usize_sub_def)
qed

lemma zero_run_eq:
  assumes "run \<le> 255"
  shows "zero_run buf i run =
    (let k = min (255 - run) (length (takeWhile (\<lambda>b. b = 0) (drop i buf))) in (i + k, run + k))"
  using assms
proof (induction buf i run rule: zero_run.induct)
  case (1 buf i run)
  show ?case
  proof (cases "i < length buf \<and> buf ! i = 0 \<and> run \<noteq> 255")
    case True
    then have "drop i buf = 0 # drop (Suc i) buf"
      by (metis Cons_nth_drop_Suc)
    then show ?thesis
      using 1 True by (subst zero_run.simps) (simp add: Let_def min_def, linarith)
  next
    case False
    then have "min (255 - run) (length (takeWhile (\<lambda>b. b = 0) (drop i buf))) = 0"
      by (cases "i < length buf") (auto simp flip: Cons_nth_drop_Suc)
    then show ?thesis
      using False by (subst zero_run.simps) auto
  qed
qed

lemma move_literals_ok:
  assumes "saved \<le> i" "i \<le> length buf" "length buf < 2 ^ 64"
  shows "\<exists>b. move_literals buf i saved = Inr (b, i + length (takeWhile (\<lambda>b. b \<noteq> 0) (drop i buf)))
    \<and> length b = length buf
    \<and> take (i - saved + length (takeWhile (\<lambda>b. b \<noteq> 0) (drop i buf))) b
        = take (i - saved) buf @ takeWhile (\<lambda>b. b \<noteq> 0) (drop i buf)
    \<and> drop (i + length (takeWhile (\<lambda>b. b \<noteq> 0) (drop i buf))) b
        = drop (i + length (takeWhile (\<lambda>b. b \<noteq> 0) (drop i buf))) buf"
  using assms
proof (induction buf i saved rule: move_literals.induct)
  case (1 buf i saved)
  show ?case
  proof (cases "i < length buf \<and> buf ! i \<noteq> 0")
    case True
    define b where "b = buf[i - saved := buf ! i]"
    have set: "buf_set buf (usize_sub i saved) (buf ! i) = Inr b"
      using True "1.prems" by (simp add: buf_set_def usize_sub_le b_def less_imp_diff_less)
    have cons: "drop i buf = buf ! i # drop (Suc i) buf"
      using True by (simp add: Cons_nth_drop_Suc)
    have rest: "drop (Suc i) b = drop (Suc i) buf"
      by (simp add: b_def)
    have pre: "take (Suc i - saved) b = take (i - saved) buf @ [buf ! i]"
      using True "1.prems" by (simp add: b_def Suc_diff_le take_Suc_conv_app_nth less_imp_diff_less)
    define lit where "lit = takeWhile (\<lambda>b. b \<noteq> 0) (drop (Suc i) buf)"
    have "\<exists>b'. move_literals b (Suc i) saved = Inr (b', Suc i + length lit) \<and> length b' = length b
        \<and> take (Suc i - saved + length lit) b' = take (Suc i - saved) b @ lit
        \<and> drop (Suc i + length lit) b' = drop (Suc i + length lit) b"
      using "1.IH" [OF True set] "1.prems" True by (simp add: b_def lit_def)
    then obtain b' where "move_literals b (Suc i) saved = Inr (b', Suc i + length lit)"
      "length b' = length b" "take (Suc i - saved + length lit) b' = take (Suc i - saved) b @ lit"
      "drop (Suc i + length lit) b' = drop (Suc i + length lit) b"
      by blast
    moreover have "drop (Suc i + length lit) b = drop (Suc i + length lit) buf"
      by (simp add: b_def)
    moreover have "move_literals buf i saved = move_literals b (Suc i) saved"
      using True set by (subst move_literals.simps) simp
    ultimately show ?thesis
      using cons True pre "1.prems" by (simp add: lit_def [symmetric] b_def Suc_diff_le)
  next
    case False
    then have "takeWhile (\<lambda>b. b \<noteq> 0) (drop i buf) = []"
      by (cases "i < length buf") (auto simp flip: Cons_nth_drop_Suc)
    then show ?thesis
      using False by (subst move_literals.simps) auto
  qed
qed

text \<open>
  One round of the coder, from a position that holds a zero: it writes the pair for the run in
  front of what is left, then the bytes up to the next zero.
\<close>

lemma zrle_round:
  assumes pos: "saved \<le> i" "i < length buf" "length buf < 2 ^ 64" "buf ! i = 0"
    and run: "run = min 255 (length (takeWhile (\<lambda>b. b = 0) (drop i buf)))"
    and enough: "run \<noteq> 1 \<or> saved \<noteq> 0"
    and lit: "lit = takeWhile (\<lambda>b. b \<noteq> 0) (drop (i + run) buf)"
  shows "\<exists>b. zrle_loop buf i saved = zrle_loop b (i + run + length lit) (saved + run - 2)
    \<and> length b = length buf \<and> saved + run - 2 \<le> i + run \<and> i + run + length lit \<le> length buf
    \<and> take (i + run + length lit - (saved + run - 2)) b = take (i - saved) buf @ 0 # of_nat run # lit
    \<and> drop (i + run + length lit) b = drop (i + run + length lit) buf"
proof -
  let ?s = "saved + run - 2"
  have cons: "drop i buf = 0 # drop (Suc i) buf"
    using pos by (metis Cons_nth_drop_Suc)
  have run1: "1 \<le> run"
    by (simp add: run cons)
  then have s2: "2 \<le> saved + run"
    using enough by linarith
  have end_run: "i + run \<le> length buf"
    using length_takeWhile_le [of "\<lambda>b. b = 0" "drop i buf"] pos run by simp
  have zr: "zero_run buf i 0 = (i + run, run)"
    using zero_run_eq [of 0 buf i] by (simp add: Let_def run)
  have sv: "usize_sub ((saved + run) mod 2 ^ 64) 2 = ?s"
    using pos end_run s2 by (simp add: usize_sub_le)
  have p0: "usize_sub (usize_sub (i + run) ?s) 2 = i - saved" "usize_sub (usize_sub (i + run) ?s) 1 = i - saved + 1"
    using pos end_run s2 by (simp_all add: usize_sub_le)
  have inb: "i - saved + 1 < i + run"
    using s2 run1 pos(1) enough by linarith
  define b2 where "b2 = buf[i - saved := 0, i - saved + 1 := of_nat run]"
  have len2: "length b2 = length buf" by (simp add: b2_def)
  have rest2: "drop (i + run) b2 = drop (i + run) buf"
    using inb by (simp add: b2_def)
  have pre2: "take (i - saved + 2) b2 = take (i - saved) buf @ [0, of_nat run]"
    using inb end_run by (simp add: b2_def take_Suc_conv_app_nth numeral_2_eq_2)
  have shift: "i + run - ?s = i - saved + 2"
    using pos s2 by linarith
  have "\<exists>b. move_literals b2 (i + run) ?s = Inr (b, i + run + length lit) \<and> length b = length b2
      \<and> take (i + run - ?s + length lit) b = take (i + run - ?s) b2 @ lit
      \<and> drop (i + run + length lit) b = drop (i + run + length lit) b2"
    using move_literals_ok [of ?s "i + run" b2] pos end_run len2 rest2 by (simp add: lit)
  then obtain b where b: "move_literals b2 (i + run) ?s = Inr (b, i + run + length lit)"
    "length b = length b2" "take (i + run - ?s + length lit) b = take (i + run - ?s) b2 @ lit"
    "drop (i + run + length lit) b = drop (i + run + length lit) b2"
    by blast
  have "zrle_loop buf i saved = zrle_loop b (i + run + length lit) ?s"
    using pos enough zr sv p0 inb end_run b(1)
    by (subst zrle_loop.simps) (simp add: buf_set_def b2_def, auto)
  moreover have "i + run + length lit \<le> length buf"
    using length_takeWhile_le [of "\<lambda>b. b \<noteq> 0" "drop (i + run) buf"] end_run lit by simp
  moreover have "i + run + length lit - ?s = i + run - ?s + length lit"
    using pos by linarith
  moreover have "drop (i + run + length lit) b2 = drop (i + run + length lit) buf"
    using inb by (simp add: b2_def)
  ultimately show ?thesis
    using b len2 pos pre2 shift by auto
qed

lemma zrle_loop_ok:
  assumes "saved \<le> i" "i \<le> length buf" "length buf < 2 ^ 64" "i < length buf \<longrightarrow> buf ! i = 0"
  shows "zrle_loop buf i saved = Inr None \<or>
    (\<exists>b s. zrle_loop buf i saved = Inr (Some (b, s)) \<and> s \<le> length buf \<and> length b = length buf
      \<and> take (length buf - s) b = take (i - saved) buf @ zrle_spec (drop i buf))"
  using assms
proof (induction "length buf - i" arbitrary: buf i saved rule: less_induct)
  case less
  define run where "run = min 255 (length (takeWhile (\<lambda>b::u8. b = 0) (drop i buf)))"
  define lit where "lit = takeWhile (\<lambda>b::u8. b \<noteq> 0) (drop (i + run) buf)"
  let ?k = "i + run + length lit"
  consider (fin) "i = length buf" | (none) "i < length buf" "run = 1" "saved = 0"
    | (round) "i < length buf" "run \<noteq> 1 \<or> saved \<noteq> 0"
    using less.prems by linarith
  then show ?case
  proof cases
    case fin
    then show ?thesis
      using less.prems by (subst zrle_loop.simps, subst (2) zrle_loop.simps) simp
  next
    case none
    then have "zrle_loop buf i saved = Inr None"
      using zero_run_eq [of 0 buf i] by (subst zrle_loop.simps) (simp add: Let_def run_def)
    then show ?thesis by simp
  next
    case round
    then obtain b where b: "zrle_loop buf i saved = zrle_loop b ?k (saved + run - 2)"
      "length b = length buf" "saved + run - 2 \<le> i + run" "?k \<le> length buf"
      "take (?k - (saved + run - 2)) b = take (i - saved) buf @ 0 # of_nat run # lit"
      "drop ?k b = drop ?k buf"
      using zrle_round [OF less.prems(1) round(1) less.prems(3) _ run_def round(2) lit_def] less.prems
      by blast
    have cons: "drop i buf = 0 # drop (Suc i) buf"
      using less.prems round(1) by (metis Cons_nth_drop_Suc)
    have spec: "zrle_spec (drop i buf) = 0 # of_nat run # lit @ zrle_spec (drop ?k b)"
      using round(1) b(6) by (subst zrle_spec.simps) (simp add: Let_def run_def lit_def ac_simps)
    have "i < ?k"
      using cons by (simp add: run_def)
    moreover have "?k < length b \<longrightarrow> b ! ?k = 0"
    proof
      assume k: "?k < length b"
      have "drop (length lit) (drop (i + run) buf) = dropWhile (\<lambda>b. b \<noteq> 0) (drop (i + run) buf)"
        unfolding lit_def by (simp add: dropWhile_eq_drop)
      then have "dropWhile (\<lambda>b. b \<noteq> 0) (drop (i + run) buf) = drop ?k b"
        using b(6) by (simp add: ac_simps)
      then show "b ! ?k = 0"
        using hd_dropWhile [of "\<lambda>b. b \<noteq> 0" "drop (i + run) buf"] k by (simp add: hd_drop_conv_nth)
    qed
    ultimately have "zrle_loop b ?k (saved + run - 2) = Inr None \<or>
      (\<exists>b' s. zrle_loop b ?k (saved + run - 2) = Inr (Some (b', s)) \<and> s \<le> length b \<and> length b' = length b
        \<and> take (length b - s) b' = take (?k - (saved + run - 2)) b @ zrle_spec (drop ?k b))"
    proof (intro less.hyps)
      show "length b - ?k < length buf - i"
        using \<open>i < ?k\<close> b(2,4) round(1) by linarith
    qed (use less.prems b in auto)
    then show ?thesis
      using b spec by auto
  qed
qed

text \<open>
  For a buffer that starts with a zero (the shape of an exclusive or in front of which nothing
  changed) the coder never panics, and a buffer it does code is the reference coding.
\<close>

lemma zrle_refines_spec:
  assumes "buf \<noteq> []" "hd buf = 0" "length buf < 2 ^ 64"
  shows "zrle buf = Inr None \<or> zrle buf = Inr (Some (zrle_spec buf))"
proof -
  have "0 < length buf \<longrightarrow> buf ! 0 = 0" using assms by (simp add: hd_conv_nth)
  then have "zrle_loop buf 0 0 = Inr None \<or>
    (\<exists>b s. zrle_loop buf 0 0 = Inr (Some (b, s)) \<and> s \<le> length buf \<and> length b = length buf
      \<and> take (length buf - s) b = zrle_spec buf)"
    using zrle_loop_ok [of 0 0 buf] assms(3) by simp
  then show ?thesis
    using assms(3) by (auto simp: zrle_def usize_sub_le)
qed

text \<open>Evaluation of the coder and the decoder on concrete buffers.\<close>

lemmas zrle_eval = zrle_def zrle_loop.simps zero_run.simps move_literals.simps buf_set_def usize_sub_def
lemmas zrld_eval = zrld_def zrld_loop.simps

section \<open>Properties\<close>



text \<open>
  A size written as a decimal number with one of the suffixes K, M and G (in either case)
  is read as that number of the unit, and without a suffix as the number itself; a product
  beyond 64 bits silently wraps around instead of being rejected.
\<close>

theorem parse_human_size_show:
  assumes "n < 2 ^ 64" "c \<in> set ''KkMmGg''"
  shows "parse_human_size (show_nat n) = Inr (Some n)
    \<and> parse_human_size (show_nat n @ [c]) = Inr (Some (n * unit_of c mod 2 ^ 64))
    \<and> (n * unit_of c < 2 ^ 64 \<longrightarrow> parse_human_size (show_nat n @ [c]) = Inr (Some (n * unit_of c)))"
proof -
  have "parse_human_size (show_nat n) = Inr (Some n)"
    using assms(1) last_show_nat [of n] show_nat_digits [of n] by (simp add: parse_human_size_def parse_usize_show)
  then show ?thesis
    using parse_human_size_suffix [OF assms] by auto
qed

theorem parse_human_size_show_witness:
  "parse_human_size ''12M'' = Inr (Some (12 * 1024 ^ 2))
    \<and> parse_human_size ''17179869184G'' = Inr (Some 0)"
proof -
  have a: "show_nat 12 @ ''M'' = ''12M''" by code_simp
  have b: "show_nat 17179869184 @ ''G'' = ''17179869184G''"
    by (simp add: show_nat.simps digit_char_def) code_simp
  show ?thesis
    using parse_human_size_show [of 12 "CHR ''M''"] parse_human_size_show [of 17179869184 "CHR ''G''"] a b
    by (simp add: unit_of_def)
qed

text \<open>
  \<open>xor_buf\<close> is an involution: applying it again with the same old buffer restores the new
  one, applying it to buffers of one length recovers the old from the new, and a longer old
  buffer is refused by the assertion.
\<close>

theorem xor_buf_involution:
  assumes "length old \<le> length new"
  shows "rbind (xor_buf new old) (\<lambda>d. xor_buf d old) = Inr new
    \<and> (length old = length new \<longrightarrow> rbind (xor_buf new old) (\<lambda>d. xor_buf d new) = Inr old)
    \<and> (length old < length new \<longrightarrow> \<not> is_ok (xor_buf old new))"
  using assms by (simp add: xor_buf_def xor_prefix_twice xor_prefix_swap)

theorem xor_buf_involution_witness:
  "xor_buf [5, 6, 7] [1, 2] = Inr [4, 4, 7] \<and> rbind (xor_buf [5, 6, 7] [1, 2]) (\<lambda>d. xor_buf d [1, 2]) = Inr [5, 6, 7]"
proof
  show "xor_buf [5, 6, 7] [1, 2] = Inr [4, 4, 7]" by (simp add: xor_buf_def xor_prefix_def)
  show "rbind (xor_buf [5, 6, 7] [1, 2]) (\<lambda>d. xor_buf d [1, 2]) = Inr [5, 6, 7]"
    using xor_buf_involution [of "[1, 2]" "[5, 6, 7]"] by simp
qed



text \<open>
  A buffer that starts with a byte other than zero is not coded: the counter of saved bytes
  wraps below zero, so short buffers panic, and a longer one has its first byte overwritten: the
  coding that is returned expands to a different buffer.
\<close>

theorem zrle_nonzero_start:
  "zrle [7] = Inl (Panicked ''index out of bounds'')
    \<and> zrle [7, 0, 0, 0, 0, 9, 9] = Inr (Some [0, 0, 0, 5, 9, 9])
    \<and> zrld [0, 0, 0, 5, 9, 9] = Inr [0, 0, 0, 0, 0, 9, 9]"
  by (simp add: zrle_eval zrld_eval) (simp add: eval_nat_numeral)

end
