(* ===== verification/ByteFile.thy ===== *)
theory ByteFile
  imports Prelude
begin

text \<open>
  Positioned file access: what the journal, the snapshots and the bidirectional log use of
  \<open>std::os::unix::fs::FileExt\<close>.  A file is its bytes; \<open>read_exact_at\<close> fails with the
  end-of-file error when the range is not inside the file, \<open>write_all_at\<close> overwrites and
  extends, filling a gap with zeros.  Either may fail with an error of the device.  The locale
  states the contract that the clients use: which bytes a read returns after a write.
\<close>

record bfile =
  fdata :: bytes
  rd_fault :: "io_error option"
  wr_fault :: "io_error option"

definition flen :: "bfile \<Rightarrow> nat" where
  "flen f = length (fdata f)"

definition fbyte :: "bfile \<Rightarrow> nat \<Rightarrow> u8" where
  "fbyte f i = (if i < length (fdata f) then fdata f ! i else 0)"

definition no_fault :: "bfile \<Rightarrow> bool" where
  "no_fault f \<longleftrightarrow> rd_fault f = None \<and> wr_fault f = None"

definition read_exact_at :: "bfile \<Rightarrow> nat \<Rightarrow> nat \<Rightarrow> bytes result" where
  "read_exact_at f off n = (case rd_fault f of
       Some e \<Rightarrow> Inl (IoErr e)
     | None \<Rightarrow> if n = 0 \<or> off + n \<le> length (fdata f) then Inr (take n (drop off (fdata f)))
               else Inl (IoErr UnexpectedEof))"

definition put_bytes :: "bytes \<Rightarrow> nat \<Rightarrow> bytes \<Rightarrow> bytes" where
  "put_bytes d off b = (if b = [] then d
     else take off d @ replicate (off - length d) 0 @ b @ drop (off + length b) d)"

definition fput :: "bfile \<Rightarrow> nat \<Rightarrow> bytes \<Rightarrow> bfile" where
  "fput f off b = f\<lparr>fdata := put_bytes (fdata f) off b\<rparr>"

definition write_all_at :: "bfile \<Rightarrow> nat \<Rightarrow> bytes \<Rightarrow> bfile result" where
  "write_all_at f off b = (case wr_fault f of
       Some e \<Rightarrow> Inl (IoErr e)
     | None \<Rightarrow> Inr (fput f off b))"

definition set_len :: "bfile \<Rightarrow> nat \<Rightarrow> bfile result" where
  "set_len f n = (case wr_fault f of
       Some e \<Rightarrow> Inl (IoErr e)
     | None \<Rightarrow> Inr (f\<lparr>fdata := take n (fdata f) @ replicate (n - length (fdata f)) 0\<rparr>))"

lemma length_put_bytes: "b \<noteq> [] \<Longrightarrow> length (put_bytes d off b) = max (length d) (off + length b)"
  by (auto simp: put_bytes_def)

lemma nth_put_bytes:
  assumes "i < length (put_bytes d off b)"
  shows "put_bytes d off b ! i =
    (if off \<le> i \<and> i < off + length b then b ! (i - off) else if i < length d then d ! i else 0)"
proof (cases "b = []")
  case True
  then show ?thesis using assms by (auto simp: put_bytes_def)
next
  case False
  have len: "i < max (length d) (off + length b)"
    using assms length_put_bytes [OF False] by simp
  consider "i < off" "i < length d" | "i < off" "length d \<le> i"
    | "off \<le> i" "i < off + length b" | "off + length b \<le> i"
    by linarith
  then show ?thesis
    using False len by cases (auto simp: put_bytes_def nth_append min_def)
qed

section \<open>The contract of a positioned file\<close>

locale pfile =
  fixes rd :: "'f \<Rightarrow> nat \<Rightarrow> nat \<Rightarrow> bytes result"
    and wr :: "'f \<Rightarrow> nat \<Rightarrow> bytes \<Rightarrow> 'f result"
    and put :: "'f \<Rightarrow> nat \<Rightarrow> bytes \<Rightarrow> 'f"
    and len :: "'f \<Rightarrow> nat"
    and byte :: "'f \<Rightarrow> nat \<Rightarrow> u8"
    and good :: "'f \<Rightarrow> bool"
  assumes rd_in: "good f \<Longrightarrow> off + n \<le> len f \<Longrightarrow> rd f off n = Inr (map (byte f) [off..<off + n])"
    and rd_eof: "good f \<Longrightarrow> 0 < n \<Longrightarrow> len f < off + n \<Longrightarrow> rd f off n = Inl (IoErr UnexpectedEof)"
    and wr_put: "good f \<Longrightarrow> wr f off b = Inr (put f off b)"
    and good_put: "good f \<Longrightarrow> good (put f off b)"
    and byte_put: "byte (put f off b) i =
          (if off \<le> i \<and> i < off + length b then b ! (i - off) else byte f i)"
    and len_put: "len (put f off b) = (if b = [] then len f else max (len f) (off + length b))"
begin

lemma rd_put_same:
  assumes "good f" "b \<noteq> []"
  shows "rd (put f off b) off (length b) = Inr b"
proof -
  have "map (byte (put f off b)) [off..<off + length b] = b"
    by (rule nth_equalityI) (auto simp: byte_put)
  then show ?thesis
    using assms by (simp add: rd_in good_put len_put)
qed

lemma rd_put_disjoint:
  assumes "good f" "off' + n \<le> len f" "off + length b \<le> off' \<or> off' + n \<le> off"
  shows "rd (put f off b) off' n = rd f off' n"
proof -
  have "map (byte (put f off b)) [off'..<off' + n] = map (byte f) [off'..<off' + n]"
    using assms(3) by (auto simp: byte_put)
  moreover have "off' + n \<le> len (put f off b)"
    using assms(2) by (auto simp: len_put)
  ultimately show ?thesis
    using assms by (simp add: rd_in good_put)
qed

lemma rd_put_inside:
  assumes "good f" "b \<noteq> []" "off \<le> off'" "off' + n \<le> off + length b"
  shows "rd (put f off b) off' n = Inr (take n (drop (off' - off) b))"
proof -
  have "map (byte (put f off b)) [off'..<off' + n] = take n (drop (off' - off) b)"
    using assms by (intro nth_equalityI) (auto simp: byte_put)
  then show ?thesis
    using assms by (simp add: rd_in good_put len_put)
qed

lemma rd_cong:
  assumes "good f" "good g" "off + n \<le> len f" "off + n \<le> len g"
    and "\<And>i. off \<le> i \<Longrightarrow> i < off + n \<Longrightarrow> byte g i = byte f i"
  shows "rd g off n = rd f off n"
proof -
  have "map (byte g) [off..<off + n] = map (byte f) [off..<off + n]"
    using assms(5) by auto
  then show ?thesis using assms(1-4) by (simp add: rd_in)
qed

end

interpretation bf: pfile read_exact_at write_all_at fput flen fbyte no_fault
proof
  fix f :: bfile and off n :: nat and b :: bytes and i :: nat
  show "no_fault f \<Longrightarrow> off + n \<le> flen f \<Longrightarrow>
      read_exact_at f off n = Inr (map (fbyte f) [off..<off + n])"
    by (auto simp: read_exact_at_def no_fault_def flen_def fbyte_def intro!: nth_equalityI)
  show "no_fault f \<Longrightarrow> 0 < n \<Longrightarrow> flen f < off + n \<Longrightarrow>
      read_exact_at f off n = Inl (IoErr UnexpectedEof)"
    by (auto simp: read_exact_at_def no_fault_def flen_def)
  show "no_fault f \<Longrightarrow> write_all_at f off b = Inr (fput f off b)"
    by (simp add: write_all_at_def no_fault_def)
  show "no_fault f \<Longrightarrow> no_fault (fput f off b)"
    by (simp add: no_fault_def fput_def)
  show "fbyte (fput f off b) i = (if off \<le> i \<and> i < off + length b then b ! (i - off) else fbyte f i)"
  proof (cases "i < length (put_bytes (fdata f) off b)")
    case True
    then show ?thesis
      by (simp add: fbyte_def fput_def nth_put_bytes)
  next
    case False
    then show ?thesis
      by (auto simp: fbyte_def fput_def length_put_bytes put_bytes_def split: if_splits)
  qed
  show "flen (fput f off b) = (if b = [] then flen f else max (flen f) (off + length b))"
    by (auto simp: flen_def fput_def length_put_bytes) (simp add: put_bytes_def)
qed

lemmas file_rules = bf.rd_in bf.wr_put bf.good_put bf.byte_put bf.len_put

end
