(* ===== verification/Bilog.thy ===== *)
theory Bilog
  imports Common ByteFile
begin

unbundle bit_operations_syntax

text \<open>
  The bidirectional log (\<open>journal/bilog.rs\<close>) with the helpers of \<open>journal/mod.rs\<close>, and
  the forward and metadata entries (\<open>journal/forward.rs\<close>, \<open>journal/mdata.rs\<close>).

  A bidirectional entry stores the exclusive or of the old and the new state of what a call
  changes, so that applying it to the old state gives the new one and applying it to the new
  state gives the old one.  For each kind of entry the code has four functions: \<open>new\<close> (the
  state the call asks for), \<open>old\<close> (the state on disk), \<open>xor\<close> and \<open>apply\<close>.  The phantom
  type parameter that marks a value as old, new or exclusive or holds no data, so one record
  stands for the three.

  Parameters: the file system under the mount (a record of look-up functions) and the
  checksum of a sequence of hashed values (the \<open>crc\<close> crate fed by \<open>std::hash\<close>).
\<close>

section \<open>The file system as the log sees it\<close>

record stat =
  st_mode :: u32
  st_uid :: u32
  st_gid :: u32
  st_size :: i64
  st_nlink :: u64
  st_ino :: u64
  st_rdev :: u64
  st_atime :: i64
  st_atime_nsec :: i64
  st_mtime :: i64
  st_mtime_nsec :: i64

record fs_view =
  fs_lstat :: "path \<Rightarrow> io_error + stat"
  fs_readlink :: "path \<Rightarrow> io_error + path"
  fs_open :: "path \<Rightarrow> io_error + bfile"
  fs_lgetxattr :: "path \<Rightarrow> bytes \<Rightarrow> int + bytes"
  fs_walk :: "path \<Rightarrow> (io_error + u64 \<times> path) list"

datatype hashable = HU32 u32 | HI64 i64 | HBytes bytes | HOptBytes "bytes option" | HTimes timespec3

type_synonym crc = "hashable list \<Rightarrow> u32"

definition io_result :: "io_error + 'a \<Rightarrow> 'a result" where
  "io_result r = (case r of Inl e \<Rightarrow> Inl (IoErr e) | Inr x \<Rightarrow> Inr x)"

lemma io_result_simps [simp, result_simps]:
  "io_result (Inl e) = Inl (IoErr e)" "io_result (Inr x) = Inr x"
  by (simp_all add: io_result_def)

definition translate_and_stat :: "fs_view \<Rightarrow> path \<Rightarrow> path \<Rightarrow> stat result" where
  "translate_and_stat fs p fspath = rbind (trans_cstr p fspath) (\<lambda>rp. io_result (fs_lstat fs rp))"

text \<open>The walk ends at the first entry with the inode, or at the first error.\<close>

fun find_ino :: "u64 \<Rightarrow> (io_error + u64 \<times> path) list \<Rightarrow> path option result" where
  "find_ino ino [] = Inr None"
| "find_ino ino (Inl e # es) = Inl (IoErr (Other ''walkdir''))"
| "find_ino ino (Inr (i, p) # es) = (if i = ino then Inr (Some p) else find_ino ino es)"

definition find_hardlink :: "fs_view \<Rightarrow> u64 \<Rightarrow> path \<Rightarrow> path option result" where
  "find_hardlink fs ino intree = find_ino ino (fs_walk fs intree)"

text \<open>\<open>r.either(f, g)\<close> on an \<open>Either<&N, &X>\<close>.\<close>

definition either :: "('a \<Rightarrow> 'c) \<Rightarrow> ('b \<Rightarrow> 'c) \<Rightarrow> 'a + 'b \<Rightarrow> 'c" where
  "either f g r = (case r of Inl a \<Rightarrow> f a | Inr b \<Rightarrow> g b)"

lemma either_simps [simp]: "either f g (Inl a) = f a" "either f g (Inr b) = g b"
  by (simp_all add: either_def)

definition mismatch :: failure where
  "mismatch = IoErr (Other ''Cannot apply bilog entry, state checksum mismatch'')"

definition cannot_generate :: "'a result" where
  "cannot_generate = Inl (Panicked ''Cannot generate from call'')"

text \<open>
  \<open>old\<close> of the entries that record whether a path exists: the state when it does not, and
  what to build from its metadata when it does.
\<close>

definition stat_or_absent :: "stat result \<Rightarrow> 'a \<Rightarrow> (stat \<Rightarrow> 'a result) \<Rightarrow> 'a result" where
  "stat_or_absent r absent present = (case r of
       Inl e \<Rightarrow> if not_found e then Inr absent else Inl e
     | Inr st \<Rightarrow> present st)"

section \<open>Mode\<close>

record bilog_chmod =
  chmod_path :: path
  chmod_mode :: u32
  chmod_csum :: u32

definition chmod_crc32 :: "crc \<Rightarrow> bilog_chmod \<Rightarrow> u32" where
  "chmod_crc32 crc b = crc [HU32 (chmod_mode b)]"

definition chmod_set_csum :: "crc \<Rightarrow> bilog_chmod \<Rightarrow> bilog_chmod" where
  "chmod_set_csum crc b = b\<lparr>chmod_csum := chmod_crc32 crc b\<rparr>"

fun chmod_new :: "crc \<Rightarrow> VFSCall \<Rightarrow> bilog_chmod result" where
  "chmod_new crc (VFS_chmod p mode) =
     Inr (chmod_set_csum crc \<lparr>chmod_path = p, chmod_mode = mode, chmod_csum = 0\<rparr>)"
| "chmod_new crc _ = cannot_generate"

definition chmod_xor :: "bilog_chmod \<Rightarrow> bilog_chmod \<Rightarrow> bilog_chmod" where
  "chmod_xor ov n = \<lparr>chmod_path = chmod_path n, chmod_mode = chmod_mode n XOR chmod_mode ov,
     chmod_csum = chmod_csum n XOR chmod_csum ov\<rparr>"

definition chmod_apply :: "crc \<Rightarrow> bilog_chmod \<Rightarrow> bilog_chmod \<Rightarrow> VFSCall result" where
  "chmod_apply crc x ov =
     (if crc [HU32 (chmod_mode x XOR chmod_mode ov)] XOR chmod_csum ov \<noteq> chmod_csum x
      then Inl mismatch
      else Inr (VFS_chmod (chmod_path x) (chmod_mode x XOR chmod_mode ov)))"

definition chmod_old :: "crc \<Rightarrow> fs_view \<Rightarrow> bilog_chmod + bilog_chmod \<Rightarrow> path \<Rightarrow> bilog_chmod result" where
  "chmod_old crc fs r fspath =
     (let p = either chmod_path chmod_path r in
      rbind (translate_and_stat fs p fspath) (\<lambda>st.
        Inr (chmod_set_csum crc \<lparr>chmod_path = p, chmod_mode = st_mode st, chmod_csum = 0\<rparr>)))"

section \<open>Ownership\<close>

record bilog_chown =
  chown_path :: path
  chown_uid :: u32
  chown_gid :: u32
  chown_csum :: u32

definition chown_crc32 :: "crc \<Rightarrow> bilog_chown \<Rightarrow> u32" where
  "chown_crc32 crc b = crc [HU32 (chown_uid b), HU32 (chown_gid b)]"

definition chown_set_csum :: "crc \<Rightarrow> bilog_chown \<Rightarrow> bilog_chown" where
  "chown_set_csum crc b = b\<lparr>chown_csum := chown_crc32 crc b\<rparr>"

fun chown_new :: "crc \<Rightarrow> VFSCall \<Rightarrow> bilog_chown result" where
  "chown_new crc (VFS_security p (Unix uid gid)) =
     Inr (chown_set_csum crc \<lparr>chown_path = p, chown_uid = uid, chown_gid = gid, chown_csum = 0\<rparr>)"
| "chown_new crc _ = cannot_generate"

definition chown_xor :: "bilog_chown \<Rightarrow> bilog_chown \<Rightarrow> bilog_chown" where
  "chown_xor ov n = \<lparr>chown_path = chown_path n, chown_uid = chown_uid n XOR chown_uid ov,
     chown_gid = chown_gid n XOR chown_gid ov, chown_csum = chown_csum n XOR chown_csum ov\<rparr>"

definition chown_apply :: "crc \<Rightarrow> bilog_chown \<Rightarrow> bilog_chown \<Rightarrow> VFSCall result" where
  "chown_apply crc x ov =
     (if crc [HU32 (chown_uid x XOR chown_uid ov), HU32 (chown_gid x XOR chown_gid ov)]
         XOR chown_csum ov \<noteq> chown_csum x
      then Inl mismatch
      else Inr (VFS_security (chown_path x)
        (Unix (chown_uid x XOR chown_uid ov) (chown_gid x XOR chown_gid ov))))"

definition chown_old :: "crc \<Rightarrow> fs_view \<Rightarrow> bilog_chown + bilog_chown \<Rightarrow> path \<Rightarrow> bilog_chown result" where
  "chown_old crc fs r fspath =
     (let p = either chown_path chown_path r in
      rbind (translate_and_stat fs p fspath) (\<lambda>st.
        Inr (chown_set_csum crc
          \<lparr>chown_path = p, chown_uid = st_uid st, chown_gid = st_gid st, chown_csum = 0\<rparr>)))"

section \<open>Times\<close>

record bilog_utimens =
  utimens_path :: path
  utimens_ts :: timespec3
  utimens_csum :: u32

definition utimens_crc32 :: "crc \<Rightarrow> bilog_utimens \<Rightarrow> u32" where
  "utimens_crc32 crc b = crc [HTimes (utimens_ts b)]"

definition utimens_set_csum :: "crc \<Rightarrow> bilog_utimens \<Rightarrow> bilog_utimens" where
  "utimens_set_csum crc b = b\<lparr>utimens_csum := utimens_crc32 crc b\<rparr>"

fun utimens_new :: "crc \<Rightarrow> VFSCall \<Rightarrow> bilog_utimens result" where
  "utimens_new crc (VFS_utimens p ts) =
     Inr (utimens_set_csum crc \<lparr>utimens_path = p, utimens_ts = ts, utimens_csum = 0\<rparr>)"
| "utimens_new crc _ = cannot_generate"

fun xor3 :: "timespec3 \<Rightarrow> timespec3 \<Rightarrow> timespec3" where
  "xor3 (a0, a1, a2) (b0, b1, b2) = (timespec_xor a0 b0, timespec_xor a1 b1, timespec_xor a2 b2)"

definition utimens_xor :: "bilog_utimens \<Rightarrow> bilog_utimens \<Rightarrow> bilog_utimens" where
  "utimens_xor ov n = \<lparr>utimens_path = utimens_path n, utimens_ts = xor3 (utimens_ts n) (utimens_ts ov),
     utimens_csum = utimens_csum n XOR utimens_csum ov\<rparr>"

definition utimens_apply :: "crc \<Rightarrow> bilog_utimens \<Rightarrow> bilog_utimens \<Rightarrow> VFSCall result" where
  "utimens_apply crc x ov =
     (if crc [HTimes (xor3 (utimens_ts x) (utimens_ts ov))] XOR utimens_csum ov \<noteq> utimens_csum x
      then Inl mismatch
      else Inr (VFS_utimens (utimens_path x) (xor3 (utimens_ts x) (utimens_ts ov))))"

definition utimens_old :: "crc \<Rightarrow> fs_view \<Rightarrow> bilog_utimens + bilog_utimens \<Rightarrow> path \<Rightarrow> bilog_utimens result" where
  "utimens_old crc fs r fspath =
     (let p = either utimens_path utimens_path r in
      rbind (translate_and_stat fs p fspath) (\<lambda>st.
        Inr (utimens_set_csum crc \<lparr>utimens_path = p,
          utimens_ts = (\<lparr>high = st_atime st, low = st_atime_nsec st\<rparr>,
                        \<lparr>high = st_mtime st, low = st_mtime_nsec st\<rparr>,
                        \<lparr>high = 0, low = 0\<rparr>),
          utimens_csum = 0\<rparr>)))"

section \<open>Renaming\<close>

record bilog_rename =
  rename_from :: path
  rename_to :: path
  rename_from_exists :: bool

definition rename_new :: "VFSCall \<Rightarrow> bilog_rename result" where
  "rename_new call = Inl (Panicked ''Stub method, dont call it'')"

definition rename_xor :: "bilog_rename \<Rightarrow> bilog_rename \<Rightarrow> bilog_rename result" where
  "rename_xor ov n = Inl (Panicked ''Stub method, dont call it'')"

definition rename_apply :: "bilog_rename \<Rightarrow> bilog_rename \<Rightarrow> VFSCall result" where
  "rename_apply x ov = Inr (if rename_from_exists ov then VFS_rename (rename_from x) (rename_to x) 0
     else VFS_rename (rename_to x) (rename_from x) 0)"

definition rename_old :: "bilog_rename + bilog_rename \<Rightarrow> path \<Rightarrow> bilog_rename result" where
  "rename_old r fspath = Inr \<lparr>rename_from = either rename_from rename_from r,
     rename_to = either rename_to rename_to r, rename_from_exists = True\<rparr>"

section \<open>Directories\<close>

record bilog_dir =
  dir_path :: path
  dir_mode :: u32
  dir_exists :: bool
  dir_uid :: u32
  dir_gid :: u32

fun dir_new :: "VFSCall \<Rightarrow> bilog_dir result" where
  "dir_new (VFS_rmdir p) =
     Inr \<lparr>dir_path = p, dir_mode = 0, dir_exists = True, dir_uid = 0, dir_gid = 0\<rparr>"
| "dir_new _ = cannot_generate"

definition dir_xor :: "bilog_dir \<Rightarrow> bilog_dir \<Rightarrow> bilog_dir" where
  "dir_xor ov n = \<lparr>dir_path = dir_path ov, dir_mode = dir_mode ov XOR dir_mode n, dir_exists = True,
     dir_uid = dir_uid ov XOR dir_uid n, dir_gid = dir_gid ov XOR dir_gid n\<rparr>"

definition dir_apply :: "bilog_dir \<Rightarrow> bilog_dir \<Rightarrow> VFSCall result" where
  "dir_apply x ov = Inr (if dir_exists ov then VFS_rmdir (dir_path x)
     else VFS_mkdir (dir_path x) (Unix (dir_uid x) (dir_gid x)) (dir_mode x))"

definition dir_old :: "fs_view \<Rightarrow> bilog_dir + bilog_dir \<Rightarrow> path \<Rightarrow> bilog_dir result" where
  "dir_old fs r fspath =
     (let p = either dir_path dir_path r in
      stat_or_absent (translate_and_stat fs p fspath)
        \<lparr>dir_path = p, dir_mode = 0, dir_exists = False, dir_uid = 0, dir_gid = 0\<rparr>
        (\<lambda>st. Inr \<lparr>dir_path = p, dir_mode = st_mode st, dir_exists = True,
           dir_uid = st_uid st, dir_gid = st_gid st\<rparr>))"

section \<open>Symbolic links\<close>

record bilog_symlink =
  symlink_from :: path
  symlink_to :: path
  symlink_to_exists :: bool
  symlink_uid :: u32
  symlink_gid :: u32

fun symlink_new :: "VFSCall \<Rightarrow> bilog_symlink result" where
  "symlink_new (VFS_unlink p) = Inr \<lparr>symlink_from = [], symlink_to = p, symlink_to_exists = True,
     symlink_uid = 0, symlink_gid = 0\<rparr>"
| "symlink_new _ = cannot_generate"

definition symlink_xor :: "bilog_symlink \<Rightarrow> bilog_symlink \<Rightarrow> bilog_symlink" where
  "symlink_xor ov n = \<lparr>symlink_from = (if symlink_to_exists ov then symlink_from ov else symlink_from n),
     symlink_to = symlink_to ov, symlink_to_exists = True,
     symlink_uid = symlink_uid ov XOR symlink_uid n, symlink_gid = symlink_gid ov XOR symlink_gid n\<rparr>"

definition symlink_apply :: "bilog_symlink \<Rightarrow> bilog_symlink \<Rightarrow> VFSCall result" where
  "symlink_apply x ov = Inr (if symlink_to_exists ov then VFS_unlink (symlink_to x)
     else VFS_symlink (symlink_from x) (symlink_to x) (Unix (symlink_uid x) (symlink_gid x)))"

definition symlink_old :: "fs_view \<Rightarrow> bilog_symlink + bilog_symlink \<Rightarrow> path \<Rightarrow> bilog_symlink result" where
  "symlink_old fs r fspath =
     (let to = either symlink_to symlink_to r in
      stat_or_absent (translate_and_stat fs to fspath)
        \<lparr>symlink_from = [], symlink_to = to, symlink_to_exists = False, symlink_uid = 0, symlink_gid = 0\<rparr>
        (\<lambda>st. rbind (path_to_str (translate_path to fspath)) (\<lambda>rp.
           rbind (io_result (fs_readlink fs rp)) (\<lambda>from.
           Inr \<lparr>symlink_from = from, symlink_to = to, symlink_to_exists = True,
             symlink_uid = st_uid st, symlink_gid = st_gid st\<rparr>))))"

section \<open>Hard links\<close>

record bilog_link =
  link_from :: path
  link_to :: path
  link_to_exists :: bool
  link_uid :: u32
  link_gid :: u32

fun link_new :: "VFSCall \<Rightarrow> bilog_link result" where
  "link_new (VFS_unlink p) = Inr \<lparr>link_from = [], link_to = p, link_to_exists = True,
     link_uid = 0, link_gid = 0\<rparr>"
| "link_new _ = cannot_generate"

definition link_xor :: "bilog_link \<Rightarrow> bilog_link \<Rightarrow> bilog_link" where
  "link_xor ov n = \<lparr>link_from = (if link_to_exists ov then link_from ov else link_from n),
     link_to = link_to ov, link_to_exists = True,
     link_uid = link_uid ov XOR link_uid n, link_gid = link_gid ov XOR link_gid n\<rparr>"

definition link_apply :: "bilog_link \<Rightarrow> bilog_link \<Rightarrow> VFSCall result" where
  "link_apply x ov = Inr (if link_to_exists ov then VFS_unlink (link_to x)
     else VFS_link (link_from x) (link_to x) (Unix (link_uid x) (link_gid x)))"

definition link_old :: "fs_view \<Rightarrow> bilog_link + bilog_link \<Rightarrow> path \<Rightarrow> bilog_link result" where
  "link_old fs r fspath =
     (let to = either link_to link_to r in
      stat_or_absent (translate_and_stat fs to fspath)
        \<lparr>link_from = [], link_to = to, link_to_exists = False, link_uid = 0, link_gid = 0\<rparr>
        (\<lambda>st. rbind (find_hardlink fs (st_ino st) fspath) (\<lambda>from.
           case from of
             None \<Rightarrow> Inl (IoErr (Other ''Hardlink source could not be found''))
           | Some src \<Rightarrow> Inr \<lparr>link_from = src, link_to = to, link_to_exists = True,
               link_uid = st_uid st, link_gid = st_gid st\<rparr>)))"

section \<open>Special files\<close>

record bilog_node =
  node_path :: path
  node_mode :: u32
  node_rdev :: u64
  node_exists :: bool
  node_uid :: u32
  node_gid :: u32

fun node_new :: "VFSCall \<Rightarrow> bilog_node result" where
  "node_new (VFS_unlink p) = Inr \<lparr>node_path = p, node_mode = 0, node_rdev = 0, node_exists = True,
     node_uid = 0, node_gid = 0\<rparr>"
| "node_new _ = cannot_generate"

definition node_xor :: "bilog_node \<Rightarrow> bilog_node \<Rightarrow> bilog_node" where
  "node_xor ov n = \<lparr>node_path = node_path ov, node_mode = node_mode n XOR node_mode ov,
     node_rdev = node_rdev n XOR node_rdev ov, node_exists = True,
     node_uid = node_uid ov XOR node_uid n, node_gid = node_gid ov XOR node_gid n\<rparr>"

definition node_apply :: "bilog_node \<Rightarrow> bilog_node \<Rightarrow> VFSCall result" where
  "node_apply x ov = Inr (if node_exists ov then VFS_unlink (node_path x)
     else VFS_mknod (node_path x) (node_mode x) (node_rdev x) (Unix (node_uid x) (node_gid x)))"

definition node_old :: "fs_view \<Rightarrow> bilog_node + bilog_node \<Rightarrow> path \<Rightarrow> bilog_node result" where
  "node_old fs r fspath =
     (let p = either node_path node_path r in
      stat_or_absent (translate_and_stat fs p fspath)
        \<lparr>node_path = p, node_mode = 0, node_rdev = 0, node_exists = False, node_uid = 0, node_gid = 0\<rparr>
        (\<lambda>st. Inr \<lparr>node_path = p, node_mode = st_mode st, node_rdev = st_rdev st, node_exists = True,
           node_uid = st_uid st, node_gid = st_gid st\<rparr>))"

section \<open>Empty regular files\<close>

record bilog_file =
  file_path :: path
  file_mode :: u32
  file_exists :: bool
  file_uid :: u32
  file_gid :: u32

fun file_new :: "VFSCall \<Rightarrow> bilog_file result" where
  "file_new (VFS_unlink p) =
     Inr \<lparr>file_path = p, file_mode = 0, file_exists = True, file_uid = 0, file_gid = 0\<rparr>"
| "file_new _ = cannot_generate"

definition file_xor :: "bilog_file \<Rightarrow> bilog_file \<Rightarrow> bilog_file" where
  "file_xor ov n = \<lparr>file_path = file_path ov, file_mode = file_mode n XOR file_mode ov, file_exists = True,
     file_uid = file_uid ov XOR file_uid n, file_gid = file_gid ov XOR file_gid n\<rparr>"

text \<open>\<open>O_CREAT | O_RDONLY\<close>\<close>

definition O_CREAT_RDONLY :: i32 where "O_CREAT_RDONLY = 0x40"

definition file_apply :: "bilog_file \<Rightarrow> bilog_file \<Rightarrow> VFSCall result" where
  "file_apply x ov = Inr (if file_exists ov then VFS_unlink (file_path x)
     else VFS_create (file_path x) O_CREAT_RDONLY (Unix (file_uid x) (file_gid x)) (file_mode x))"

definition file_old :: "fs_view \<Rightarrow> bilog_file + bilog_file \<Rightarrow> path \<Rightarrow> bilog_file result" where
  "file_old fs r fspath =
     (let p = either file_path file_path r in
      stat_or_absent (translate_and_stat fs p fspath)
        \<lparr>file_path = p, file_mode = 0, file_exists = False, file_uid = 0, file_gid = 0\<rparr>
        (\<lambda>st. Inr \<lparr>file_path = p, file_mode = st_mode st, file_exists = True,
           file_uid = st_uid st, file_gid = st_gid st\<rparr>))"

section \<open>File sizes\<close>

record bilog_truncate =
  trunc_path :: path
  trunc_size :: i64
  trunc_buf :: bytes
  trunc_csum :: u32

definition trunc_crc32 :: "crc \<Rightarrow> bilog_truncate \<Rightarrow> u32" where
  "trunc_crc32 crc b = crc [HBytes (trunc_buf b), HI64 (trunc_size b)]"

definition trunc_set_csum :: "crc \<Rightarrow> bilog_truncate \<Rightarrow> bilog_truncate" where
  "trunc_set_csum crc b = b\<lparr>trunc_csum := trunc_crc32 crc b\<rparr>"

fun trunc_new :: "crc \<Rightarrow> VFSCall \<Rightarrow> bilog_truncate result" where
  "trunc_new crc (VFS_truncate p sz) =
     Inr (trunc_set_csum crc \<lparr>trunc_path = p, trunc_size = sz, trunc_buf = [], trunc_csum = 0\<rparr>)"
| "trunc_new crc _ = cannot_generate"

definition trunc_xor :: "bilog_truncate \<Rightarrow> bilog_truncate \<Rightarrow> bilog_truncate" where
  "trunc_xor ov n = \<lparr>trunc_path = trunc_path n, trunc_size = trunc_size ov XOR trunc_size n,
     trunc_buf = trunc_buf ov, trunc_csum = trunc_csum n XOR trunc_csum ov\<rparr>"

definition trunc_apply :: "crc \<Rightarrow> bilog_truncate \<Rightarrow> bilog_truncate \<Rightarrow> VFSCall result" where
  "trunc_apply crc x ov =
     (let nsize = trunc_size x XOR trunc_size ov in
      if crc [HBytes (trunc_buf x), HI64 nsize] XOR trunc_csum ov \<noteq> trunc_csum x then Inl mismatch
      else Inr (if sint nsize > sint (trunc_size ov) \<and> trunc_buf x = []
                then VFS_write (trunc_path x) (trunc_size ov) (trunc_buf x)
                else VFS_truncate (trunc_path x) (trunc_size x XOR trunc_size ov)))"

definition trunc_old :: "crc \<Rightarrow> fs_view \<Rightarrow> bilog_truncate + bilog_truncate \<Rightarrow> path \<Rightarrow> bilog_truncate result" where
  "trunc_old crc fs r fspath =
     (let p = either trunc_path trunc_path r in
      rbind (translate_and_stat fs p fspath) (\<lambda>st.
      let osize = st_size st;
          nsize = either trunc_size (\<lambda>x. trunc_size x XOR osize) r in
      rbind (if sint osize < sint nsize then
               rbind (io_result (fs_open fs (translate_path p fspath))) (\<lambda>f.
                 read_exact_at f (unat osize) (unat (nsize - osize)))
             else Inr [])
        (\<lambda>buf. Inr (trunc_set_csum crc
          \<lparr>trunc_path = p, trunc_size = osize, trunc_buf = buf, trunc_csum = 0\<rparr>))))"

section \<open>File contents\<close>

record bilog_write =
  write_path :: path
  write_offset :: i64
  write_buf :: bytes
  write_length :: i64
  write_csum :: u32

definition write_crc32 :: "crc \<Rightarrow> bilog_write \<Rightarrow> u32" where
  "write_crc32 crc b = crc [HBytes (write_buf b), HI64 (write_length b)]"

definition write_set_csum :: "crc \<Rightarrow> bilog_write \<Rightarrow> bilog_write" where
  "write_set_csum crc b = b\<lparr>write_csum := write_crc32 crc b\<rparr>"

fun write_new :: "crc \<Rightarrow> VFSCall \<Rightarrow> bilog_write result" where
  "write_new crc (VFS_write p offset buf) =
     Inr (write_set_csum crc \<lparr>write_path = p, write_offset = offset, write_buf = buf,
       write_length = 0, write_csum = 0\<rparr>)"
| "write_new crc _ = cannot_generate"

definition write_xor :: "bilog_write \<Rightarrow> bilog_write \<Rightarrow> bilog_write result" where
  "write_xor ov n =
     rbind (xor_buf (write_buf n) (write_buf ov)) (\<lambda>buf.
     let nsize0 = write_offset n + of_nat (length (write_buf n));
         nsize = (if sint nsize0 < sint (write_length ov) then write_length ov else nsize0)
     in Inr \<lparr>write_path = write_path n, write_offset = write_offset n, write_buf = buf,
          write_length = nsize XOR write_length ov, write_csum = write_csum n XOR write_csum ov\<rparr>)"

definition write_apply :: "crc \<Rightarrow> bilog_write \<Rightarrow> bilog_write \<Rightarrow> VFSCall result" where
  "write_apply crc x ov =
     rbind (if write_buf ov = [] then Inr (write_buf x) else xor_buf (write_buf x) (write_buf ov)) (\<lambda>buf.
     if crc [HBytes buf, HI64 (write_length x XOR write_length ov)] XOR write_csum ov \<noteq> write_csum x
     then Inl mismatch
     else Inr (if sint (write_length ov) \<le> sint (write_length x XOR write_length ov)
               then VFS_write (write_path x) (write_offset x) buf
               else VFS_truncating_write (write_path x) (write_offset x) buf
                      (write_length ov XOR write_length x)))"

definition write_old :: "crc \<Rightarrow> fs_view \<Rightarrow> bilog_write + bilog_write \<Rightarrow> path \<Rightarrow> bilog_write result" where
  "write_old crc fs r fspath =
     (let p = either write_path write_path r;
          offset = either write_offset write_offset r;
          write_len = either (\<lambda>n. length (write_buf n)) (\<lambda>x. length (write_buf x)) r in
      rbind (io_result (fs_open fs (translate_path p fspath))) (\<lambda>f.
      let osize = flen f in
      rbind (if unat offset < osize
             then read_exact_at f (unat offset) (min (osize - unat offset) write_len)
             else Inr [])
        (\<lambda>buf. Inr (write_set_csum crc \<lparr>write_path = p, write_offset = offset, write_buf = buf,
           write_length = of_nat osize, write_csum = 0\<rparr>))))"

section \<open>Extended attributes\<close>

record bilog_xattr =
  xattr_path :: path
  xattr_name :: bytes
  xattr_value :: "bytes option"
  xattr_remove :: bool
  xattr_csum :: u32

definition xattr_crc32 :: "crc \<Rightarrow> bilog_xattr \<Rightarrow> u32" where
  "xattr_crc32 crc b = crc [HOptBytes (xattr_value b)]"

definition xattr_set_csum :: "crc \<Rightarrow> bilog_xattr \<Rightarrow> bilog_xattr" where
  "xattr_set_csum crc b = b\<lparr>xattr_csum := xattr_crc32 crc b\<rparr>"

fun xattr_new :: "crc \<Rightarrow> VFSCall \<Rightarrow> bilog_xattr result" where
  "xattr_new crc (VFS_setxattr p name val flags) =
     Inr (xattr_set_csum crc \<lparr>xattr_path = p, xattr_name = name, xattr_value = Some val,
       xattr_remove = False, xattr_csum = 0\<rparr>)"
| "xattr_new crc (VFS_removexattr p name) =
     Inr (xattr_set_csum crc \<lparr>xattr_path = p, xattr_name = name, xattr_value = None,
       xattr_remove = True, xattr_csum = 0\<rparr>)"
| "xattr_new crc _ = cannot_generate"

text \<open>The value and the remove flag of the exclusive or.\<close>

definition xattr_xor_value :: "bytes option \<Rightarrow> bytes option \<Rightarrow> (bytes \<times> bool) result" where
  "xattr_xor_value ov nv = (case nv of
       None \<Rightarrow> rbind (unwrap ''If new state removes the value, oldstate must have it'' ov)
                 (\<lambda>v. Inr (v, True))
     | Some nvalue \<Rightarrow> (case ov of
         None \<Rightarrow> Inr (nvalue, True)
       | Some ovalue \<Rightarrow>
           if length ovalue > length nvalue
           then rmap (\<lambda>buf. (buf, False)) (xor_buf ovalue nvalue)
           else rmap (\<lambda>buf. (buf, False)) (xor_buf nvalue ovalue)))"

definition xattr_xor :: "bilog_xattr \<Rightarrow> bilog_xattr \<Rightarrow> bilog_xattr result" where
  "xattr_xor ov n = rmap (\<lambda>(v, remove). \<lparr>xattr_path = xattr_path n, xattr_name = xattr_name n,
       xattr_value = Some v, xattr_remove = remove, xattr_csum = xattr_csum n XOR xattr_csum ov\<rparr>)
     (xattr_xor_value (xattr_value ov) (xattr_value n))"

text \<open>\<open>for v in 0..value.len() { value[v] ^= ovalue[v] }\<close> indexes both buffers.\<close>

definition xor_each :: "bytes \<Rightarrow> bytes \<Rightarrow> bytes result" where
  "xor_each val ovalue = (if length val \<le> length ovalue then Inr (map2 (\<lambda>a b. a XOR b) val ovalue)
     else Inl (Panicked ''index out of bounds''))"

definition xattr_apply :: "crc \<Rightarrow> bilog_xattr \<Rightarrow> bilog_xattr \<Rightarrow> VFSCall result" where
  "xattr_apply crc x ov = (case xattr_value ov of
       Some ovalue \<Rightarrow>
         if xattr_remove x then Inr (VFS_removexattr (xattr_path x) (xattr_name x))
         else rbind (unwrap ''called Option::unwrap() on a None value'' (xattr_value x)) (\<lambda>xv.
           rbind (xor_each xv ovalue) (\<lambda>val.
             if crc [HOptBytes (Some val)] XOR xattr_csum ov \<noteq> xattr_csum x then Inl mismatch
             else Inr (VFS_setxattr (xattr_path x) (xattr_name x) val 0)))
     | None \<Rightarrow> rbind (unwrap ''Old value is not set, xor state must have it'' (xattr_value x)) (\<lambda>xv.
         Inr (VFS_setxattr (xattr_path x) (xattr_name x) xv 0)))"

definition xattr_old :: "crc \<Rightarrow> fs_view \<Rightarrow> bilog_xattr + bilog_xattr \<Rightarrow> path \<Rightarrow> bilog_xattr result" where
  "xattr_old crc fs r fspath =
     (let p = either xattr_path xattr_path r; name = either xattr_name xattr_name r in
      rbind (trans_cstr p fspath) (\<lambda>rp.
      case fs_lgetxattr fs rp name of
        Inl err \<Rightarrow> if err = ENODATA
          then Inr (xattr_set_csum crc \<lparr>xattr_path = p, xattr_name = name, xattr_value = None,
                 xattr_remove = True, xattr_csum = 0\<rparr>)
          else Inl (IoErr (Os err))
      | Inr val \<Rightarrow> Inr (xattr_set_csum crc \<lparr>xattr_path = p, xattr_name = name, xattr_value = Some val,
          xattr_remove = False, xattr_csum = 0\<rparr>)))"

section \<open>Entries\<close>

datatype BilogEntry =
    BE_chmod bilog_chmod
  | BE_chown bilog_chown
  | BE_utimens bilog_utimens
  | BE_rename bilog_rename
  | BE_dir bilog_dir
  | BE_symlink bilog_symlink
  | BE_link bilog_link
  | BE_node bilog_node
  | BE_file bilog_file
  | BE_filestore path u64
  | BE_truncate bilog_truncate
  | BE_write bilog_write
  | BE_xattr bilog_xattr

definition is_type :: "u32 \<Rightarrow> u32 \<Rightarrow> bool" where
  "is_type mode ftype \<longleftrightarrow> mode AND S_IFMT = ftype"

text \<open>
  \<open>let new = T::new(call); let old = T::old(Left(&new), fspath)?; T::xor(&old, &new)\<close>
\<close>

definition new_old_xor ::
    "'b result \<Rightarrow> ('b + 'b \<Rightarrow> 'b result) \<Rightarrow> ('b \<Rightarrow> 'b \<Rightarrow> 'b result) \<Rightarrow> 'b result" where
  "new_old_xor new old mk = rbind new (\<lambda>n. rbind (old (Inl n)) (\<lambda>ov. mk ov n))"

text \<open>\<open>BilogEntry::try_from\<close> on \<open>unlink\<close>: which entry depends on the file type.\<close>

definition bilog_unlink :: "fs_view \<Rightarrow> path \<Rightarrow> path \<Rightarrow> BilogEntry result" where
  "bilog_unlink fs p fspath =
     rbind (translate_and_stat fs p fspath) (\<lambda>st.
     let m = st_mode st; call = VFS_unlink p in
     if is_type m S_IFLNK then
       rmap BE_symlink (new_old_xor (symlink_new call) (\<lambda>r. symlink_old fs r fspath)
         (\<lambda>ov n. Inr (symlink_xor ov n)))
     else if is_type m S_IFREG then
       (if 1 < st_nlink st then
          rmap BE_link (new_old_xor (link_new call) (\<lambda>r. link_old fs r fspath) (\<lambda>ov n. Inr (link_xor ov n)))
        else if st_size st = 0 then
          rmap BE_file (new_old_xor (file_new call) (\<lambda>r. file_old fs r fspath) (\<lambda>ov n. Inr (file_xor ov n)))
        else Inr (BE_filestore p 0))
     else if is_type m S_IFBLK \<or> is_type m S_IFCHR \<or> is_type m S_IFIFO \<or> is_type m S_IFSOCK then
       rmap BE_node (new_old_xor (node_new call) (\<lambda>r. node_old fs r fspath) (\<lambda>ov n. Inr (node_xor ov n)))
     else Inl (Panicked ''Unknown file type deleted''))"

fun bilog_try_from :: "crc \<Rightarrow> fs_view \<Rightarrow> VFSCall \<Rightarrow> path \<Rightarrow> BilogEntry result" where
  "bilog_try_from crc fs (VFS_mknod p mode rdev (Unix uid gid)) fspath =
     Inr (BE_node \<lparr>node_path = p, node_mode = mode, node_rdev = rdev, node_exists = True,
       node_uid = uid, node_gid = gid\<rparr>)"
| "bilog_try_from crc fs (VFS_mkdir p (Unix uid gid) mode) fspath =
     Inr (BE_dir \<lparr>dir_path = p, dir_mode = mode, dir_exists = True, dir_uid = uid, dir_gid = gid\<rparr>)"
| "bilog_try_from crc fs (VFS_rmdir p) fspath =
     rmap BE_dir (new_old_xor (dir_new (VFS_rmdir p)) (\<lambda>r. dir_old fs r fspath) (\<lambda>ov n. Inr (dir_xor ov n)))"
| "bilog_try_from crc fs (VFS_unlink p) fspath = bilog_unlink fs p fspath"
| "bilog_try_from crc fs (VFS_symlink from to (Unix uid gid)) fspath =
     Inr (BE_symlink \<lparr>symlink_from = from, symlink_to = to, symlink_to_exists = True,
       symlink_uid = uid, symlink_gid = gid\<rparr>)"
| "bilog_try_from crc fs (VFS_rename from to flags) fspath =
     Inr (BE_rename \<lparr>rename_from = from, rename_to = to, rename_from_exists = True\<rparr>)"
| "bilog_try_from crc fs (VFS_link from to (Unix uid gid)) fspath =
     Inr (BE_link \<lparr>link_from = from, link_to = to, link_to_exists = True, link_uid = uid, link_gid = gid\<rparr>)"
| "bilog_try_from crc fs (VFS_chmod p mode) fspath =
     rmap BE_chmod (new_old_xor (chmod_new crc (VFS_chmod p mode)) (\<lambda>r. chmod_old crc fs r fspath)
       (\<lambda>ov n. Inr (chmod_xor ov n)))"
| "bilog_try_from crc fs (VFS_security p sec) fspath =
     rmap BE_chown (new_old_xor (chown_new crc (VFS_security p sec)) (\<lambda>r. chown_old crc fs r fspath)
       (\<lambda>ov n. Inr (chown_xor ov n)))"
| "bilog_try_from crc fs (VFS_truncate p sz) fspath =
     rmap BE_truncate (new_old_xor (trunc_new crc (VFS_truncate p sz)) (\<lambda>r. trunc_old crc fs r fspath)
       (\<lambda>ov n. Inr (trunc_xor ov n)))"
| "bilog_try_from crc fs (VFS_write p offset buf) fspath =
     rmap BE_write (new_old_xor (write_new crc (VFS_write p offset buf)) (\<lambda>r. write_old crc fs r fspath) write_xor)"
| "bilog_try_from crc fs (VFS_setxattr p name val flags) fspath =
     rmap BE_xattr (new_old_xor (xattr_new crc (VFS_setxattr p name val flags))
       (\<lambda>r. xattr_old crc fs r fspath) xattr_xor)"
| "bilog_try_from crc fs (VFS_removexattr p name) fspath =
     rmap BE_xattr (new_old_xor (xattr_new crc (VFS_removexattr p name))
       (\<lambda>r. xattr_old crc fs r fspath) xattr_xor)"
| "bilog_try_from crc fs (VFS_create p flags (Unix uid gid) mode) fspath =
     Inr (BE_file \<lparr>file_path = p, file_mode = mode, file_exists = False, file_uid = uid, file_gid = gid\<rparr>)"
| "bilog_try_from crc fs (VFS_utimens p ts) fspath =
     rmap BE_utimens (new_old_xor (utimens_new crc (VFS_utimens p ts)) (\<lambda>r. utimens_old crc fs r fspath)
       (\<lambda>ov n. Inr (utimens_xor ov n)))"
| "bilog_try_from crc fs (VFS_truncating_write p offset buf len) fspath = Inl (Panicked ''Not a fuse syscall'')"
| "bilog_try_from crc fs (VFS_fallocate p mode offset len) fspath = Inl (Panicked ''Not implemented'')"
| "bilog_try_from crc fs (VFS_fsync p isdatasync) fspath = Inl (Panicked ''Not an IO call'')"
| "bilog_try_from crc fs _ fspath = Inl (Panicked ''Not implemented'')"

text \<open>\<open>FileStore::recover\<close>: the call that links the stored file back.\<close>

definition filestore_dir :: "component" where
  "filestore_dir = Normal ''.fsyncer-deleted''"

definition token_path :: "nat \<Rightarrow> path" where
  "token_path token = [filestore_dir, Normal (show_nat token)]"

definition filestore_recover :: "fs_view \<Rightarrow> path \<Rightarrow> u64 \<Rightarrow> path \<Rightarrow> VFSCall result" where
  "filestore_recover fs vfsroot token p =
     rbind (io_result (fs_lstat fs (vfsroot @ token_path (unat token)))) (\<lambda>st.
       Inr (VFS_link (RootDir # token_path (unat token)) p (Unix (st_uid st) (st_gid st))))"

fun bilog_apply :: "crc \<Rightarrow> fs_view \<Rightarrow> BilogEntry \<Rightarrow> path \<Rightarrow> VFSCall result" where
  "bilog_apply crc fs (BE_chmod x) fspath = rbind (chmod_old crc fs (Inr x) fspath) (chmod_apply crc x)"
| "bilog_apply crc fs (BE_chown x) fspath = rbind (chown_old crc fs (Inr x) fspath) (chown_apply crc x)"
| "bilog_apply crc fs (BE_utimens x) fspath = rbind (utimens_old crc fs (Inr x) fspath) (utimens_apply crc x)"
| "bilog_apply crc fs (BE_rename x) fspath = rbind (rename_old (Inr x) fspath) (rename_apply x)"
| "bilog_apply crc fs (BE_dir x) fspath = rbind (dir_old fs (Inr x) fspath) (dir_apply x)"
| "bilog_apply crc fs (BE_symlink x) fspath = rbind (symlink_old fs (Inr x) fspath) (symlink_apply x)"
| "bilog_apply crc fs (BE_link x) fspath = rbind (link_old fs (Inr x) fspath) (link_apply x)"
| "bilog_apply crc fs (BE_node x) fspath = rbind (node_old fs (Inr x) fspath) (node_apply x)"
| "bilog_apply crc fs (BE_file x) fspath = rbind (file_old fs (Inr x) fspath) (file_apply x)"
| "bilog_apply crc fs (BE_truncate x) fspath = rbind (trunc_old crc fs (Inr x) fspath) (trunc_apply crc x)"
| "bilog_apply crc fs (BE_write x) fspath = rbind (write_old crc fs (Inr x) fspath) (write_apply crc x)"
| "bilog_apply crc fs (BE_xattr x) fspath = rbind (xattr_old crc fs (Inr x) fspath) (xattr_apply crc x)"
| "bilog_apply crc fs (BE_filestore p token) fspath = (case translate_and_stat fs p fspath of
       Inl e \<Rightarrow> if not_found e then filestore_recover fs fspath token p else Inl e
     | Inr st \<Rightarrow> Inr (VFS_unlink p))"

fun bilog_affected_paths :: "BilogEntry \<Rightarrow> path list" where
  "bilog_affected_paths (BE_chmod c) = [chmod_path c]"
| "bilog_affected_paths (BE_chown c) = [chown_path c]"
| "bilog_affected_paths (BE_utimens c) = [utimens_path c]"
| "bilog_affected_paths (BE_rename c) = [rename_from c, rename_to c]"
| "bilog_affected_paths (BE_dir c) = [dir_path c]"
| "bilog_affected_paths (BE_symlink c) = [symlink_to c]"
| "bilog_affected_paths (BE_link c) = [link_to c]"
| "bilog_affected_paths (BE_node c) = [node_path c]"
| "bilog_affected_paths (BE_file c) = [file_path c]"
| "bilog_affected_paths (BE_filestore p token) = [p]"
| "bilog_affected_paths (BE_truncate c) = [trunc_path c]"
| "bilog_affected_paths (BE_write c) = [write_path c]"
| "bilog_affected_paths (BE_xattr c) = [xattr_path c]"

section \<open>Forward and metadata entries\<close>

fun vfs_affected_paths :: "VFSCall \<Rightarrow> path list" where
  "vfs_affected_paths (VFS_chmod p _) = [p]"
| "vfs_affected_paths (VFS_security p _) = [p]"
| "vfs_affected_paths (VFS_utimens p _) = [p]"
| "vfs_affected_paths (VFS_rename from to _) = [from, to]"
| "vfs_affected_paths (VFS_mkdir p _ _) = [p]"
| "vfs_affected_paths (VFS_rmdir p) = [p]"
| "vfs_affected_paths (VFS_symlink _ to _) = [to]"
| "vfs_affected_paths (VFS_link _ to _) = [to]"
| "vfs_affected_paths (VFS_mknod p _ _ _) = [p]"
| "vfs_affected_paths (VFS_unlink p) = [p]"
| "vfs_affected_paths (VFS_create p _ _ _) = [p]"
| "vfs_affected_paths (VFS_truncate p _) = [p]"
| "vfs_affected_paths (VFS_write p _ _) = [p]"
| "vfs_affected_paths (VFS_diff_write p _ _) = [p]"
| "vfs_affected_paths (VFS_fallocate p _ _ _) = [p]"
| "vfs_affected_paths (VFS_setxattr p _ _ _) = [p]"
| "vfs_affected_paths (VFS_removexattr p _) = [p]"
| "vfs_affected_paths (VFS_fsync p _) = [p]"
| "vfs_affected_paths (VFS_truncating_write p _ _ _) = [p]"

definition forward_apply :: "VFSCall \<Rightarrow> path \<Rightarrow> VFSCall result" where
  "forward_apply call fspath = Inr call"

definition STAT_MODE :: u8 where "STAT_MODE = 0b0001"
definition STAT_UID_GID :: u8 where "STAT_UID_GID = 0b0010"
definition STAT_TIME :: u8 where "STAT_TIME = 0b0100"
definition STAT_SIZE :: u8 where "STAT_SIZE = 0b1000"

datatype MDataEntry =
    MD_New path
  | MD_Unlink path
  | MD_Rename path path
  | MD_Link path path
  | MD_Stat path u8
  | MD_Xattr path bytes
  | MD_Write path u64 u64

text \<open>\<open>name.to_str().unwrap()\<close>\<close>

definition name_to_str :: "bytes \<Rightarrow> bytes result" where
  "name_to_str name = (if utf8_valid (map unat name) then Inr name
     else Inl (Panicked ''called Result::unwrap() on an Err value''))"

fun mdata_try_from :: "VFSCall \<Rightarrow> MDataEntry result" where
  "mdata_try_from (VFS_mkdir p _ _) = Inr (MD_New p)"
| "mdata_try_from (VFS_mknod p _ _ _) = Inr (MD_New p)"
| "mdata_try_from (VFS_create p _ _ _) = Inr (MD_New p)"
| "mdata_try_from (VFS_unlink p) = Inr (MD_Unlink p)"
| "mdata_try_from (VFS_rmdir p) = Inr (MD_Unlink p)"
| "mdata_try_from (VFS_setxattr p name _ _) = rmap (MD_Xattr p) (name_to_str name)"
| "mdata_try_from (VFS_removexattr p name) = rmap (MD_Xattr p) (name_to_str name)"
| "mdata_try_from (VFS_chmod p _) = Inr (MD_Stat p STAT_MODE)"
| "mdata_try_from (VFS_symlink from to _) = Inr (MD_Link from to)"
| "mdata_try_from (VFS_link from to _) = Inr (MD_Link from to)"
| "mdata_try_from (VFS_rename from to _) = Inr (MD_Rename from to)"
| "mdata_try_from (VFS_security p _) = Inr (MD_Stat p STAT_UID_GID)"
| "mdata_try_from (VFS_truncate p _) = Inr (MD_Stat p STAT_SIZE)"
| "mdata_try_from (VFS_utimens p _) = Inr (MD_Stat p STAT_TIME)"
| "mdata_try_from (VFS_write p offset buf) = Inr (MD_Write p offset (of_nat (length buf)))"
| "mdata_try_from (VFS_diff_write p offset buf) = Inr (MD_Write p offset (of_nat (length buf)))"
| "mdata_try_from (VFS_fallocate p _ _ _) = Inr (MD_Stat p STAT_SIZE)"
| "mdata_try_from (VFS_fsync p _) = Inl (Panicked ''Not an IO call'')"
| "mdata_try_from (VFS_truncating_write p _ _ _) = Inl (Panicked ''Not a fuse syscall'')"

end
