(* ===== verification/BilogLaws.thy ===== *)
theory BilogLaws
  imports Bilog CommonLaws
begin

unbundle bit_operations_syntax

text \<open>
  What the bidirectional log promises.  The locale \<open>xor_entry\<close> is the contract of the
  entries that store an exclusive or under a checksum (mode, ownership, times): applied to the
  state before the call they give the call again, applied to the state after it they give the
  call that restores the old state.  The locale \<open>toggle_entry\<close> is the contract of the entries
  that record the existence of a path (directories, symbolic links, nodes, empty files).  Both
  are interpreted on the functions of the log, and the properties lift them to whole entries
  made by \<open>bilog_try_from\<close> and applied by \<open>bilog_apply\<close> against a view of the disk.
\<close>

section \<open>Entries that store an exclusive or\<close>

locale xor_entry =
  fixes diff :: "'v \<Rightarrow> 'v \<Rightarrow> 'v"
    and digest :: "'v \<Rightarrow> u32"
    and val :: "'b \<Rightarrow> 'v" and csum :: "'b \<Rightarrow> u32" and target :: "'b \<Rightarrow> path"
    and mk :: "'b \<Rightarrow> 'b \<Rightarrow> 'b"
    and app :: "'b \<Rightarrow> 'b \<Rightarrow> VFSCall result"
    and call :: "path \<Rightarrow> 'v \<Rightarrow> VFSCall"
  assumes diff_old: "diff (diff n ov) ov = n"
    and diff_new: "diff (diff n ov) n = ov"
    and mk_val: "val (mk b b') = diff (val b') (val b)"
    and mk_csum: "csum (mk b b') = csum b' XOR csum b"
    and mk_target: "target (mk b b') = target b'"
    and app_eq: "app x b = (if digest (diff (val x) (val b)) XOR csum b \<noteq> csum x then Inl mismatch
       else Inr (call (target x) (diff (val x) (val b))))"
begin

lemma redo:
  assumes "csum b = digest (val b)" "csum b' = digest (val b')"
  shows "app (mk b b') b = Inr (call (target b') (val b'))"
  using assms by (simp add: app_eq mk_val mk_csum mk_target diff_old)

lemma undo:
  assumes "csum b = digest (val b)" "csum b' = digest (val b')"
  shows "app (mk b b') b' = Inr (call (target b') (val b))"
  using assms by (simp add: app_eq mk_val mk_csum mk_target diff_new xor.commute)

text \<open>In a state that is neither, an entry is applied only when the checksums agree.\<close>

lemma drifted:
  assumes "csum cur = digest (val cur)"
  shows "app (mk b b') cur = Inl mismatch \<or>
    digest (diff (diff (val b') (val b)) (val cur)) XOR digest (val cur) = csum b' XOR csum b"
  using assms by (auto simp: app_eq mk_val mk_csum)

end

lemma xor3_cancel: "xor3 (xor3 n ov) ov = n" "xor3 (xor3 n ov) n = ov"
  by (cases n; cases ov; simp add: timespec_xor_def)+

interpretation chmod: xor_entry "\<lambda>a b. a XOR b" "\<lambda>m. crc [HU32 m]" chmod_mode chmod_csum chmod_path
    chmod_xor "chmod_apply crc" VFS_chmod for crc
  by unfold_locales (simp_all add: chmod_xor_def chmod_apply_def)

interpretation chown: xor_entry "\<lambda>(u, g) (u', g'). (u XOR u', g XOR g')" "\<lambda>(u, g). crc [HU32 u, HU32 g]"
    "\<lambda>b. (chown_uid b, chown_gid b)" chown_csum chown_path chown_xor "chown_apply crc"
    "\<lambda>p (u, g). VFS_security p (Unix u g)" for crc
  by unfold_locales (auto simp: chown_xor_def chown_apply_def)

interpretation utimens: xor_entry xor3 "\<lambda>t. crc [HTimes t]" utimens_ts utimens_csum utimens_path
    utimens_xor "utimens_apply crc" VFS_utimens for crc
  by unfold_locales (simp_all add: xor3_cancel utimens_xor_def utimens_apply_def)

section \<open>Entries that record existence\<close>

locale toggle_entry =
  fixes present :: "'b \<Rightarrow> bool"
    and app :: "'b \<Rightarrow> 'b \<Rightarrow> VFSCall result"
    and destroy :: "'b \<Rightarrow> VFSCall" and make :: "'b \<Rightarrow> VFSCall"
  assumes app_eq: "app x b = Inr (if present b then destroy x else make x)"
begin

lemma toggle:
  "present b \<Longrightarrow> app x b = Inr (destroy x)" "\<not> present b \<Longrightarrow> app x b = Inr (make x)"
  by (simp_all add: app_eq)

lemma never_fails: "\<exists>c. app x b = Inr c"
  by (simp add: app_eq)

end

interpretation dir: toggle_entry dir_exists dir_apply "\<lambda>x. VFS_rmdir (dir_path x)"
    "\<lambda>x. VFS_mkdir (dir_path x) (Unix (dir_uid x) (dir_gid x)) (dir_mode x)"
  by unfold_locales (simp add: dir_apply_def)

interpretation symlink: toggle_entry symlink_to_exists symlink_apply "\<lambda>x. VFS_unlink (symlink_to x)"
    "\<lambda>x. VFS_symlink (symlink_from x) (symlink_to x) (Unix (symlink_uid x) (symlink_gid x))"
  by unfold_locales (simp add: symlink_apply_def)

interpretation link: toggle_entry link_to_exists link_apply "\<lambda>x. VFS_unlink (link_to x)"
    "\<lambda>x. VFS_link (link_from x) (link_to x) (Unix (link_uid x) (link_gid x))"
  by unfold_locales (simp add: link_apply_def)

interpretation node: toggle_entry node_exists node_apply "\<lambda>x. VFS_unlink (node_path x)"
    "\<lambda>x. VFS_mknod (node_path x) (node_mode x) (node_rdev x) (Unix (node_uid x) (node_gid x))"
  by unfold_locales (simp add: node_apply_def)

interpretation regfile: toggle_entry file_exists file_apply "\<lambda>x. VFS_unlink (file_path x)"
    "\<lambda>x. VFS_create (file_path x) O_CREAT_RDONLY (Unix (file_uid x) (file_gid x)) (file_mode x)"
  by unfold_locales (simp add: file_apply_def)

lemmas toggle_rules = dir.toggle symlink.toggle link.toggle node.toggle regfile.toggle

section \<open>Views of the disk\<close>

text \<open>What the log sees of one path: metadata, or nothing there.\<close>

definition seen :: "fs_view \<Rightarrow> path \<Rightarrow> path \<Rightarrow> stat \<Rightarrow> bool" where
  "seen fs root p st \<longleftrightarrow> translate_and_stat fs p root = Inr st"

definition gone :: "fs_view \<Rightarrow> path \<Rightarrow> path \<Rightarrow> bool" where
  "gone fs root p \<longleftrightarrow> translate_and_stat fs p root = Inl (IoErr (Os ENOENT))"

lemma stat_or_absent_simps [simp]:
  "stat_or_absent (Inr st) a f = f st"
  "stat_or_absent (Inl (IoErr (Os ENOENT))) a f = Inr a"
  by (simp_all add: stat_or_absent_def not_found_def)

lemmas old_defs = chmod_old_def chown_old_def utimens_old_def dir_old_def symlink_old_def
  link_old_def node_old_def file_old_def
lemmas set_csum_defs = chmod_set_csum_def chmod_crc32_def chown_set_csum_def chown_crc32_def
  utimens_set_csum_def utimens_crc32_def

text \<open>A concrete view for evaluation: one path with its metadata, everything else absent.\<close>

definition one_stat :: stat where
  "one_stat = \<lparr>st_mode = 0x81A4, st_uid = 7, st_gid = 8, st_size = 0, st_nlink = 1, st_ino = 3,
     st_rdev = 0, st_atime = 5, st_atime_nsec = 6, st_mtime = 9, st_mtime_nsec = 10\<rparr>"

definition view_of :: "(path \<rightharpoonup> stat) \<Rightarrow> fs_view" where
  "view_of m = \<lparr>fs_lstat = (\<lambda>p. case m p of None \<Rightarrow> Inl (Os ENOENT) | Some st \<Rightarrow> Inr st),
     fs_readlink = (\<lambda>p. Inr [Normal ''target'']), fs_open = (\<lambda>p. Inl (Os ENOENT)),
     fs_lgetxattr = (\<lambda>p n. Inl ENODATA), fs_walk = (\<lambda>p. [])\<rparr>"

abbreviation wroot :: path where "wroot \<equiv> [RootDir, Normal ''d'']"
abbreviation wpath :: path where "wpath \<equiv> [RootDir, Normal ''a'']"

definition view1 :: "stat option \<Rightarrow> fs_view" where
  "view1 st = view_of (\<lambda>p. if p = [RootDir, Normal ''d'', Normal ''a''] then st else None)"

lemma view1_seen: "seen (view1 (Some st)) wroot wpath st" "gone (view1 None) wroot wpath"
  by (simp_all add: seen_def gone_def view1_def view_of_def translate_and_stat_def trans_cstr_def
      into_cstring_def translate_path_def path_join_def starts_with_root_def)

lemma filter_no_root: "RootDir \<notin> set p \<Longrightarrow> filter (\<lambda>c. c \<noteq> RootDir) p = p"
  by (rule filter_True) auto

lemma sint_of_nat_small: "k < 2 ^ 63 \<Longrightarrow> sint (of_nat k :: i64) = int k"
  by (simp add: signed_of_nat signed_take_bit_int_eq_self)

text \<open>The bytes that \<open>bilog_write::old\<close> saves: those of the file in the range of the write.\<close>

definition saved_bytes :: "bfile \<Rightarrow> nat \<Rightarrow> nat \<Rightarrow> bytes" where
  "saved_bytes f off n = take n (drop off (fdata f))"

lemma write_old_eq:
  assumes "fs_open fs (translate_path p root) = Inr f" "rd_fault f = None"
    and "either write_path write_path r = p" "either write_offset write_offset r = off"
    and "either (\<lambda>n. length (write_buf n)) (\<lambda>x. length (write_buf x)) r = len"
  shows "write_old crc fs r root = Inr (write_set_csum crc \<lparr>write_path = p, write_offset = off,
    write_buf = saved_bytes f (unat off) len, write_length = of_nat (flen f), write_csum = 0\<rparr>)"
  using assms by (auto simp: write_old_def Let_def read_exact_at_def flen_def saved_bytes_def min_def)

section \<open>Properties\<close>

text \<open>
  C28. A recorded change of mode is reversible: the entry made from the call and the disk before
  it yields, applied to a disk in the old state, the call itself, and, applied to a disk with
  the new mode, the call that restores the old mode.
\<close>

theorem bilog_chmod_reversible:
  assumes "seen fs root p st" "seen fs' root p st'" "st_mode st' = m"
  shows "\<exists>e. bilog_try_from crc fs (VFS_chmod p m) root = Inr e
    \<and> bilog_apply crc fs e root = Inr (VFS_chmod p m)
    \<and> bilog_apply crc fs' e root = Inr (VFS_chmod p (st_mode st))"
proof -
  define b where "b = (\<lambda>mode. \<lparr>chmod_path = p, chmod_mode = mode, chmod_csum = crc [HU32 mode]\<rparr>)"
  have "bilog_try_from crc fs (VFS_chmod p m) root = Inr (BE_chmod (chmod_xor (b (st_mode st)) (b m)))"
    using assms by (simp add: seen_def new_old_xor_def old_defs set_csum_defs b_def)
  moreover have "chmod_old crc fs (Inr (chmod_xor (b (st_mode st)) (b m))) root = Inr (b (st_mode st))"
    "chmod_old crc fs' (Inr (chmod_xor (b (st_mode st)) (b m))) root = Inr (b m)"
    using assms by (simp_all add: seen_def old_defs set_csum_defs b_def chmod_xor_def)
  ultimately show ?thesis
    using chmod.redo [of "b (st_mode st)" crc "b m"] chmod.undo [of "b (st_mode st)" crc "b m"]
    by (simp add: b_def)
qed

theorem bilog_chmod_reversible_witness:
  "\<exists>e. bilog_try_from (\<lambda>_. 1) (view1 (Some (one_stat)))
      (VFS_chmod wpath 0x8180) wroot = Inr e
    \<and> bilog_apply (\<lambda>_. 1) (view1 (Some (one_stat\<lparr>st_mode := 0x8180\<rparr>)))
        e wroot = Inr (VFS_chmod wpath 0x81A4)"
  using bilog_chmod_reversible [OF view1_seen(1) [of one_stat] view1_seen(1) [of "one_stat\<lparr>st_mode := 0x8180\<rparr>"] refl, of "\<lambda>_. 1"]
  by (auto simp: one_stat_def simp del: bilog_try_from.simps bilog_apply.simps)

text \<open>
  A recorded change of ownership is reversible in the same sense.
\<close>

theorem bilog_chown_reversible:
  assumes "seen fs root p st" "seen fs' root p st'" "st_uid st' = u" "st_gid st' = g"
  shows "\<exists>e. bilog_try_from crc fs (VFS_security p (Unix u g)) root = Inr e
    \<and> bilog_apply crc fs e root = Inr (VFS_security p (Unix u g))
    \<and> bilog_apply crc fs' e root = Inr (VFS_security p (Unix (st_uid st) (st_gid st)))"
proof -
  define b where "b = (\<lambda>u g. \<lparr>chown_path = p, chown_uid = u, chown_gid = g, chown_csum = crc [HU32 u, HU32 g]\<rparr>)"
  let ?o = "b (st_uid st) (st_gid st)" and ?n = "b u g"
  have "bilog_try_from crc fs (VFS_security p (Unix u g)) root = Inr (BE_chown (chown_xor ?o ?n))"
    using assms by (simp add: seen_def new_old_xor_def old_defs set_csum_defs b_def)
  moreover have "chown_old crc fs (Inr (chown_xor ?o ?n)) root = Inr ?o"
    "chown_old crc fs' (Inr (chown_xor ?o ?n)) root = Inr ?n"
    using assms by (simp_all add: seen_def old_defs set_csum_defs b_def chown_xor_def)
  ultimately show ?thesis
    using chown.redo [of ?o crc ?n] chown.undo [of ?o crc ?n] by (simp add: b_def)
qed

theorem bilog_chown_reversible_witness:
  "\<exists>e. bilog_try_from (\<lambda>_. 1) (view1 (Some (one_stat)))
      (VFS_security wpath (Unix 1 2)) wroot = Inr e
    \<and> bilog_apply (\<lambda>_. 1) (view1 (Some (one_stat\<lparr>st_uid := 1, st_gid := 2\<rparr>)))
        e wroot = Inr (VFS_security wpath (Unix 7 8))"
  using bilog_chown_reversible [OF view1_seen(1) [of one_stat] view1_seen(1) [of "one_stat\<lparr>st_uid := 1, st_gid := 2\<rparr>"] refl refl, of "\<lambda>_. 1"]
  by (auto simp: one_stat_def simp del: bilog_try_from.simps bilog_apply.simps)

definition stat_times :: "stat \<Rightarrow> timespec3" where
  "stat_times st = (\<lparr>high = st_atime st, low = st_atime_nsec st\<rparr>,
     \<lparr>high = st_mtime st, low = st_mtime_nsec st\<rparr>, \<lparr>high = 0, low = 0\<rparr>)"

text \<open>
  A recorded change of access and modification times is reversible when the call leaves the
  third (creation) time zero, as the entry rebuilt from the disk has it.
\<close>

theorem bilog_utimens_reversible:
  assumes "seen fs root p st" "seen fs' root p st'" "stat_times st' = ts"
  shows "\<exists>e. bilog_try_from crc fs (VFS_utimens p ts) root = Inr e
    \<and> bilog_apply crc fs e root = Inr (VFS_utimens p ts)
    \<and> bilog_apply crc fs' e root = Inr (VFS_utimens p (stat_times st))"
proof -
  define b where "b = (\<lambda>t. \<lparr>utimens_path = p, utimens_ts = t, utimens_csum = crc [HTimes t]\<rparr>)"
  let ?o = "b (stat_times st)" and ?n = "b ts"
  have "bilog_try_from crc fs (VFS_utimens p ts) root = Inr (BE_utimens (utimens_xor ?o ?n))"
    using assms by (simp add: seen_def new_old_xor_def old_defs set_csum_defs b_def stat_times_def)
  moreover have "utimens_old crc fs (Inr (utimens_xor ?o ?n)) root = Inr ?o"
    "utimens_old crc fs' (Inr (utimens_xor ?o ?n)) root = Inr ?n"
    using assms by (auto simp: seen_def old_defs set_csum_defs b_def utimens_xor_def stat_times_def)
  ultimately show ?thesis
    using utimens.redo [of ?o crc ?n] utimens.undo [of ?o crc ?n] by (simp add: b_def)
qed

theorem bilog_utimens_reversible_witness:
  "\<exists>e. bilog_try_from (\<lambda>_. 1) (view1 (Some (one_stat)))
      (VFS_utimens wpath (stat_times (one_stat\<lparr>st_atime := 1\<rparr>))) wroot = Inr e
    \<and> bilog_apply (\<lambda>_. 1) (view1 (Some (one_stat\<lparr>st_atime := 1\<rparr>)))
        e wroot = Inr (VFS_utimens wpath (stat_times one_stat))"
  using bilog_utimens_reversible [OF view1_seen(1) [of one_stat] view1_seen(1) [of "one_stat\<lparr>st_atime := 1\<rparr>"] refl, of "\<lambda>_. 1"]
  by (auto simp: one_stat_def simp del: bilog_try_from.simps bilog_apply.simps)

text \<open>
  A recorded \<open>rmdir\<close> is reversible: on the disk that still has the directory the entry
  yields the \<open>rmdir\<close>, and on the disk without it the \<open>mkdir\<close> with the mode and the owner
  that the directory had; a recorded \<open>mkdir\<close> yields itself where the directory is missing and
  its removal where it is there.
\<close>

theorem bilog_dir_reversible:
  assumes "seen fs root p st" "gone fs' root p"
  shows "(\<exists>e. bilog_try_from crc fs (VFS_rmdir p) root = Inr e
      \<and> bilog_apply crc fs e root = Inr (VFS_rmdir p)
      \<and> bilog_apply crc fs' e root = Inr (VFS_mkdir p (Unix (st_uid st) (st_gid st)) (st_mode st)))
    \<and> (\<exists>e. bilog_try_from crc fs' (VFS_mkdir p (Unix u g) m) root = Inr e
      \<and> bilog_apply crc fs' e root = Inr (VFS_mkdir p (Unix u g) m)
      \<and> bilog_apply crc fs e root = Inr (VFS_rmdir p))"
  using assms by (simp add: seen_def gone_def new_old_xor_def old_defs dir_xor_def toggle_rules)

theorem bilog_dir_reversible_witness:
  "\<exists>e. bilog_try_from (\<lambda>_. 1) (view1 (Some one_stat)) (VFS_rmdir wpath) wroot = Inr e
      \<and> bilog_apply (\<lambda>_. 1) (view1 None) e wroot = Inr (VFS_mkdir wpath (Unix 7 8) 0x81A4)"
  using bilog_dir_reversible [OF view1_seen(1) [of one_stat] view1_seen(2), of "\<lambda>_. 1" 0 0 0]
  by (auto simp: one_stat_def simp del: bilog_try_from.simps bilog_apply.simps)

text \<open>
  What re-creates a deleted file of each type.  A regular file with contents is linked back from
  the store of deleted files, under the token the entry holds (zero until it is journalled).
\<close>

definition recreated :: "fs_view \<Rightarrow> fs_view \<Rightarrow> path \<Rightarrow> path \<Rightarrow> stat \<Rightarrow> VFSCall result" where
  "recreated fs fs' root p st =
     (let owner = Unix (st_uid st) (st_gid st) in
      if is_type (st_mode st) S_IFLNK then
        rbind (io_result (fs_readlink fs (translate_path p root))) (\<lambda>from. Inr (VFS_symlink from p owner))
      else if is_type (st_mode st) S_IFREG \<and> 1 < st_nlink st then
        rbind (find_hardlink fs (st_ino st) root) (\<lambda>from. case from of
            None \<Rightarrow> Inl (IoErr (Other ''Hardlink source could not be found''))
          | Some src \<Rightarrow> Inr (VFS_link src p owner))
      else if is_type (st_mode st) S_IFREG \<and> st_size st = 0 then
        Inr (VFS_create p O_CREAT_RDONLY owner (st_mode st))
      else if is_type (st_mode st) S_IFREG then filestore_recover fs' root 0 p
      else Inr (VFS_mknod p (st_mode st) (st_rdev st) owner))"

definition known_type :: "u32 \<Rightarrow> bool" where
  "known_type m \<longleftrightarrow> m AND S_IFMT \<in> {S_IFLNK, S_IFREG, S_IFBLK, S_IFCHR, S_IFIFO, S_IFSOCK}"



text \<open>
  A recorded rename is never reversed: \<open>bilog_rename::old\<close> does not look at the disk and
  always reports that the source exists, so in every state, before and after the rename, the
  entry yields the same rename again.
\<close>

theorem bilog_rename_not_reversed:
  "\<exists>e. bilog_try_from crc fs (VFS_rename from to flags) root = Inr e
    \<and> (\<forall>fs'. bilog_apply crc fs' e root = Inr (VFS_rename from to 0))"
  by (simp add: rename_old_def rename_apply_def)

text \<open>
  Undoing the removal of a hard link names a wrong source: the other name found by walking
  the file system is recorded with the root in front, so the dispatcher, which puts the root in
  front of every path, is given a source below the root inside the root.
\<close>

theorem bilog_link_source_doubled:
  assumes "seen fs root p st" "gone fs' root p" "is_type (st_mode st) S_IFREG" "1 < st_nlink st"
    and "fs_walk fs root = Inr (st_ino st, root @ q) # rest" "root = RootDir # r" "RootDir \<notin> set (r @ q)"
  shows "\<exists>e. bilog_try_from crc fs (VFS_unlink p) root = Inr e
    \<and> bilog_apply crc fs' e root = Inr (VFS_link (root @ q) p (Unix (st_uid st) (st_gid st)))
    \<and> translate_path (root @ q) root = root @ r @ q"
proof -
  have "\<not> is_type (st_mode st) S_IFLNK"
    using assms(3) by (auto simp: is_type_def S_IFREG_def S_IFLNK_def)
  moreover have "translate_path (root @ q) root = root @ r @ q"
    using translate_path_alt [of "root @ q" root] assms(6,7) by (simp add: wf_path_def filter_no_root)
  ultimately show ?thesis
    using assms by (simp add: seen_def gone_def new_old_xor_def bilog_unlink_def link_old_def link_xor_def
        find_hardlink_def Let_def toggle_rules)
qed

theorem bilog_link_source_doubled_witness:
  "\<exists>e. bilog_try_from (\<lambda>_. 1) ((view1 (Some (one_stat\<lparr>st_nlink := 2\<rparr>)))\<lparr>fs_walk := \<lambda>_. [Inr (3, wroot @ [Normal ''b''])]\<rparr>)
      (VFS_unlink wpath) wroot = Inr e
    \<and> bilog_apply (\<lambda>_. 1) (view1 None) e wroot
        = Inr (VFS_link [RootDir, Normal ''d'', Normal ''b''] wpath (Unix 7 8))
    \<and> translate_path [RootDir, Normal ''d'', Normal ''b''] wroot
        = [RootDir, Normal ''d'', Normal ''d'', Normal ''b'']"
proof -
  let ?st = "one_stat\<lparr>st_nlink := 2\<rparr>"
  let ?fs = "(view1 (Some ?st))\<lparr>fs_walk := \<lambda>_. [Inr (3, wroot @ [Normal ''b''])]\<rparr>"
  have seen: "seen ?fs wroot wpath ?st"
    using view1_seen(1) [of ?st] by (simp add: seen_def translate_and_stat_def)
  have ty: "is_type (st_mode ?st) S_IFREG" "1 < st_nlink ?st"
    by (simp_all add: one_stat_def is_type_def S_IFREG_def S_IFMT_def)
  have walk: "fs_walk ?fs wroot = [Inr (st_ino ?st, wroot @ [Normal ''b''])]"
    by (simp add: one_stat_def)
  show ?thesis
    using bilog_link_source_doubled [OF seen view1_seen(2) ty walk refl, of "\<lambda>_. 1"]
    by (auto simp: one_stat_def simp del: bilog_try_from.simps bilog_apply.simps)
qed

text \<open>
  Truncation is recorded in one direction only: the buffer that should save the bytes a
  shrinking truncation cuts off is read beyond the end of the file instead.  So a call that
  extends the file cannot be recorded, and a recorded call that shrinks the file can be redone
  but not undone; both fail with the end-of-file error.
\<close>

theorem bilog_truncate_one_way:
  assumes "seen fs root p st" "fs_open fs (translate_path p root) = Inr f" "flen f = unat (st_size st)" "rd_fault f = None"
    and "seen fs' root p st'" "fs_open fs' (translate_path p root) = Inr f'" "flen f' = unat (st_size st')" "rd_fault f' = None"
    and "0 \<le> sint (st_size st')" "sint (st_size st') < sint (st_size st)"
  shows "bilog_try_from crc fs' (VFS_truncate p (st_size st)) root = Inl (IoErr UnexpectedEof)
    \<and> (\<exists>e. bilog_try_from crc fs (VFS_truncate p (st_size st')) root = Inr e
      \<and> bilog_apply crc fs e root = Inr (VFS_truncate p (st_size st'))
      \<and> bilog_apply crc fs' e root = Inl (IoErr UnexpectedEof))"
proof -
  have "0 < unat (st_size st - st_size st')" and neq: "st_size st \<noteq> st_size st'"
    using assms(10) by (auto simp: unat_gt_0)
  then have eof: "read_exact_at f' (unat (st_size st')) (unat (st_size st - st_size st')) = Inl (IoErr UnexpectedEof)"
    using assms(7,8) by (simp add: read_exact_at_def flen_def)
  have nle: "\<not> sint (st_size st) < sint (st_size st')" using assms(10) by simp
  show ?thesis
    using assms eof nle
    by (simp add: seen_def new_old_xor_def trunc_old_def trunc_xor_def trunc_apply_def
        trunc_set_csum_def trunc_crc32_def Let_def)
qed

text \<open>Files of two sizes for evaluation.\<close>

definition sized_view :: "nat \<Rightarrow> fs_view" where
  "sized_view n = (view1 (Some (one_stat\<lparr>st_size := of_nat n\<rparr>)))
     \<lparr>fs_open := \<lambda>_. Inr \<lparr>fdata = replicate n 7, rd_fault = None, wr_fault = None\<rparr>\<rparr>"

lemma sized_view_seen: "seen (sized_view n) wroot wpath (one_stat\<lparr>st_size := of_nat n\<rparr>)"
  using view1_seen(1) by (simp add: seen_def translate_and_stat_def sized_view_def)

lemma sized_view_open:
  "fs_open (sized_view n) (translate_path wpath wroot) = Inr \<lparr>fdata = replicate n 7, rd_fault = None, wr_fault = None\<rparr>"
  by (simp add: sized_view_def)

theorem bilog_truncate_one_way_witness:
  "bilog_try_from (\<lambda>_. 1) (sized_view 2) (VFS_truncate wpath 5) wroot = Inl (IoErr UnexpectedEof)
    \<and> (\<exists>e. bilog_try_from (\<lambda>_. 1) (sized_view 5) (VFS_truncate wpath 2) wroot = Inr e
      \<and> bilog_apply (\<lambda>_. 1) (sized_view 5) e wroot = Inr (VFS_truncate wpath 2)
      \<and> bilog_apply (\<lambda>_. 1) (sized_view 2) e wroot = Inl (IoErr UnexpectedEof))"
  using bilog_truncate_one_way [OF sized_view_seen [of 5] sized_view_open _ _ sized_view_seen [of 2] sized_view_open,
      of "\<lambda>_. 1"]
  by (simp add: flen_def del: bilog_try_from.simps bilog_apply.simps)

text \<open>
  A recorded write cannot be redone: \<open>bilog_write::new\<close> seals the new state with length
  zero while \<open>apply\<close> checks it with the file size after the write.  Whenever the checksum tells
  these two lengths apart, applying the entry to the very disk it was made from reports a
  checksum mismatch.
\<close>

theorem bilog_write_redo_mismatch:
  assumes "fs_open fs (translate_path p root) = Inr f" "rd_fault f = None"
    and "unat off + length buf < 2 ^ 63" "flen f < 2 ^ 63"
    and sep: "crc [HBytes buf, HI64 (of_nat (max (unat off + length buf) (flen f)))] \<noteq> crc [HBytes buf, HI64 0]"
  shows "\<exists>e. bilog_try_from crc fs (VFS_write p off buf) root = Inr e
    \<and> bilog_apply crc fs e root = Inl mismatch"
proof -
  define o' where "o' = write_set_csum crc \<lparr>write_path = p, write_offset = off,
    write_buf = saved_bytes f (unat off) (length buf), write_length = of_nat (flen f), write_csum = 0\<rparr>"
  define n where "n = write_set_csum crc \<lparr>write_path = p, write_offset = off, write_buf = buf,
    write_length = 0, write_csum = 0\<rparr>"
  define len where "len = (of_nat (max (unat off + length buf) (flen f)) :: i64)"
  define x where "x = \<lparr>write_path = p, write_offset = off, write_buf = xor_prefix buf (write_buf o'),
    write_length = len XOR write_length o', write_csum = write_csum n XOR write_csum o'\<rparr>"
  have short: "length (write_buf o') \<le> length buf"
    by (simp add: o'_def write_set_csum_def saved_bytes_def)
  have end_off: "off + of_nat (length buf) = of_nat (unat off + length buf)"
    by simp
  have "write_xor o' n = Inr x"
  proof -
    have "(if sint (off + of_nat (length buf)) < sint (of_nat (flen f) :: i64) then of_nat (flen f)
        else off + of_nat (length buf)) = len"
      unfolding end_off using assms(3,4) by (auto simp: sint_of_nat_small len_def max_def simp del: of_nat_add)
    then show ?thesis
      using short by (auto simp: write_xor_def xor_buf_def n_def o'_def x_def write_set_csum_def Let_def split: if_splits)
  qed
  moreover have "write_old crc fs (Inl n) root = Inr o'" "write_old crc fs (Inr x) root = Inr o'"
    using assms(1,2) short by (simp_all add: write_old_eq o'_def n_def x_def write_set_csum_def)
  moreover have "write_apply crc x o' = Inl mismatch"
    using sep short
    by (auto simp: write_apply_def x_def xor_buf_def xor_prefix_twice n_def write_set_csum_def write_crc32_def
        len_def xor_prefix_Nil)
  ultimately show ?thesis
    by (auto simp: new_old_xor_def n_def)
qed

text \<open>A checksum that tells lengths apart.\<close>

definition last_len :: crc where
  "last_len hs = (case hs of [_, HI64 n] \<Rightarrow> ucast n | _ \<Rightarrow> 0)"

theorem bilog_write_redo_mismatch_witness:
  "\<exists>e. bilog_try_from last_len (sized_view 5) (VFS_write wpath 1 [8, 9]) wroot = Inr e
    \<and> bilog_apply last_len (sized_view 5) e wroot = Inl mismatch"
  using bilog_write_redo_mismatch [OF sized_view_open [of 5], of 1 "[8, 9]" last_len]
  by (simp add: flen_def last_len_def del: bilog_try_from.simps bilog_apply.simps)

text \<open>A view whose only content is one extended attribute of one path.\<close>

definition has_xattr :: "fs_view \<Rightarrow> path \<Rightarrow> path \<Rightarrow> bytes \<Rightarrow> bytes option \<Rightarrow> bool" where
  "has_xattr fs root p name v \<longleftrightarrow> (\<exists>rp. trans_cstr p root = Inr rp \<and>
     fs_lgetxattr fs rp name = (case v of None \<Rightarrow> Inl ENODATA | Some b \<Rightarrow> Inr b))"

lemma xattr_old_eq:
  assumes "has_xattr fs root p name v" "either xattr_path xattr_path r = p" "either xattr_name xattr_name r = name"
  shows "xattr_old crc fs r root = Inr \<lparr>xattr_path = p, xattr_name = name, xattr_value = v,
    xattr_remove = (v = None), xattr_csum = crc [HOptBytes v]\<rparr>"
  using assms by (cases v) (auto simp: has_xattr_def xattr_old_def Let_def xattr_set_csum_def xattr_crc32_def)

lemma xor_each_prefix: "length a = length b \<Longrightarrow> xor_each a b = Inr (xor_prefix a b)"
  by (simp add: xor_each_def xor_prefix_def)

text \<open>
  C29. Recorded changes of an extended attribute: setting an attribute that was absent is redone
  and undone (by removing it), removing one is redone and undone (by setting the old value), and
  replacing a value by one of the same length is redone and undone.  Replacing a value by a
  longer one cannot be redone: the entry indexes the shorter current value beyond its end and
  panics.
\<close>

theorem bilog_xattr_branches:
  assumes "has_xattr fs0 root p name None" "has_xattr fs1 root p name (Some v)" "has_xattr fs2 root p name (Some w)"
  shows "(\<exists>e. bilog_try_from crc fs0 (VFS_setxattr p name v flags) root = Inr e
      \<and> bilog_apply crc fs0 e root = Inr (VFS_setxattr p name v 0)
      \<and> bilog_apply crc fs1 e root = Inr (VFS_removexattr p name))
    \<and> (\<exists>e. bilog_try_from crc fs1 (VFS_removexattr p name) root = Inr e
      \<and> bilog_apply crc fs1 e root = Inr (VFS_removexattr p name)
      \<and> bilog_apply crc fs0 e root = Inr (VFS_setxattr p name v 0))
    \<and> (length v = length w \<longrightarrow> (\<exists>e. bilog_try_from crc fs1 (VFS_setxattr p name w flags) root = Inr e
      \<and> bilog_apply crc fs1 e root = Inr (VFS_setxattr p name w 0)
      \<and> bilog_apply crc fs2 e root = Inr (VFS_setxattr p name v 0)))
    \<and> (length v < length w \<longrightarrow> (\<exists>e. bilog_try_from crc fs1 (VFS_setxattr p name w flags) root = Inr e
      \<and> bilog_apply crc fs1 e root = Inl (Panicked ''index out of bounds'')))"
proof (intro conjI impI)
  note eqs = xattr_old_eq [OF assms(1)] xattr_old_eq [OF assms(2)] xattr_old_eq [OF assms(3)]
    new_old_xor_def xattr_set_csum_def xattr_crc32_def xattr_xor_def xattr_xor_value_def xattr_apply_def xor_buf_def
  show "\<exists>e. bilog_try_from crc fs0 (VFS_setxattr p name v flags) root = Inr e
      \<and> bilog_apply crc fs0 e root = Inr (VFS_setxattr p name v 0)
      \<and> bilog_apply crc fs1 e root = Inr (VFS_removexattr p name)"
    by (simp add: eqs)
  show "\<exists>e. bilog_try_from crc fs1 (VFS_removexattr p name) root = Inr e
      \<and> bilog_apply crc fs1 e root = Inr (VFS_removexattr p name)
      \<and> bilog_apply crc fs0 e root = Inr (VFS_setxattr p name v 0)"
    by (simp add: eqs)
  show "\<exists>e. bilog_try_from crc fs1 (VFS_setxattr p name w flags) root = Inr e
      \<and> bilog_apply crc fs1 e root = Inr (VFS_setxattr p name w 0)
      \<and> bilog_apply crc fs2 e root = Inr (VFS_setxattr p name v 0)" if "length v = length w"
    using that by (simp add: eqs xor_each_prefix xor_prefix_twice xor_prefix_swap xor.commute)
  show "\<exists>e. bilog_try_from crc fs1 (VFS_setxattr p name w flags) root = Inr e
      \<and> bilog_apply crc fs1 e root = Inl (Panicked ''index out of bounds'')" if "length v < length w"
    using that by (simp add: eqs xor_each_def)
qed

definition xattr_view :: "bytes option \<Rightarrow> fs_view" where
  "xattr_view v = (view1 None)\<lparr>fs_lgetxattr := \<lambda>_ _. case v of None \<Rightarrow> Inl ENODATA | Some b \<Rightarrow> Inr b\<rparr>"

theorem bilog_xattr_branches_witness:
  "\<exists>e. bilog_try_from (\<lambda>_. 1) (xattr_view (Some [1])) (VFS_setxattr wpath [9] [2] 0) wroot = Inr e
      \<and> bilog_apply (\<lambda>_. 1) (xattr_view (Some [2])) e wroot = Inr (VFS_setxattr wpath [9] [1] 0)"
proof -
  have "has_xattr (xattr_view v) wroot wpath [9] v" for v
    by (auto simp: has_xattr_def xattr_view_def trans_cstr_def into_cstring_def translate_path_def
        path_join_def starts_with_root_def)
  then show ?thesis
    using bilog_xattr_branches [of "xattr_view None" wroot wpath "[9]" "xattr_view (Some [1])" "[1]"
        "xattr_view (Some [2])" "[2]" "\<lambda>_. 1" 0]
    by (auto simp del: bilog_try_from.simps bilog_apply.simps)
qed

end
