(* ===== verification/OpsUnix.thy ===== *)
theory OpsUnix
  imports Common
begin

unbundle bit_operations_syntax

text \<open>
  The wrappers around the system calls (\<open>common/ops_unix.rs\<close>) and the dispatcher that
  replays a replicated call on the destination (\<open>client/dispatch_unix.rs\<close>).  The kernel
  is a parameter: a record of system calls over an arbitrary state, each giving the C return
  value and the next state, together with the value of \<open>errno\<close> in a state.
\<close>

section \<open>The operating system\<close>

record 's os =
  os_errno :: "'s \<Rightarrow> int"
  sys_mkfifo :: "path \<Rightarrow> u32 \<Rightarrow> 's \<Rightarrow> int \<times> 's"
  sys_mknod :: "path \<Rightarrow> u32 \<Rightarrow> u64 \<Rightarrow> 's \<Rightarrow> int \<times> 's"
  sys_mkdir :: "path \<Rightarrow> u32 \<Rightarrow> 's \<Rightarrow> int \<times> 's"
  sys_unlink :: "path \<Rightarrow> 's \<Rightarrow> int \<times> 's"
  sys_rmdir :: "path \<Rightarrow> 's \<Rightarrow> int \<times> 's"
  sys_symlink :: "path \<Rightarrow> path \<Rightarrow> 's \<Rightarrow> int \<times> 's"
  sys_lchown :: "path \<Rightarrow> u32 \<Rightarrow> u32 \<Rightarrow> 's \<Rightarrow> int \<times> 's"
  sys_renameat2 :: "path \<Rightarrow> path \<Rightarrow> u32 \<Rightarrow> 's \<Rightarrow> int \<times> 's"
  sys_link :: "path \<Rightarrow> path \<Rightarrow> 's \<Rightarrow> int \<times> 's"
  sys_chmod :: "path \<Rightarrow> u32 \<Rightarrow> 's \<Rightarrow> int \<times> 's"
  sys_fchmod :: "int \<Rightarrow> u32 \<Rightarrow> 's \<Rightarrow> int \<times> 's"
  sys_chown :: "path \<Rightarrow> u32 \<Rightarrow> u32 \<Rightarrow> 's \<Rightarrow> int \<times> 's"
  sys_fchown :: "int \<Rightarrow> u32 \<Rightarrow> u32 \<Rightarrow> 's \<Rightarrow> int \<times> 's"
  sys_truncate64 :: "path \<Rightarrow> i64 \<Rightarrow> 's \<Rightarrow> int \<times> 's"
  sys_ftruncate :: "int \<Rightarrow> i64 \<Rightarrow> 's \<Rightarrow> int \<times> 's"
  sys_pwrite :: "int \<Rightarrow> bytes \<Rightarrow> i64 \<Rightarrow> 's \<Rightarrow> int \<times> 's"
  sys_fallocate :: "int \<Rightarrow> i32 \<Rightarrow> i64 \<Rightarrow> i64 \<Rightarrow> 's \<Rightarrow> int \<times> 's"
  sys_lsetxattr :: "path \<Rightarrow> bytes \<Rightarrow> bytes \<Rightarrow> i32 \<Rightarrow> 's \<Rightarrow> int \<times> 's"
  sys_fsetxattr :: "int \<Rightarrow> bytes \<Rightarrow> bytes \<Rightarrow> i32 \<Rightarrow> 's \<Rightarrow> int \<times> 's"
  sys_lremovexattr :: "path \<Rightarrow> bytes \<Rightarrow> 's \<Rightarrow> int \<times> 's"
  sys_fremovexattr :: "int \<Rightarrow> bytes \<Rightarrow> 's \<Rightarrow> int \<times> 's"
  sys_open :: "path \<Rightarrow> i32 \<Rightarrow> u32 \<Rightarrow> 's \<Rightarrow> int \<times> 's"
  sys_utimensat :: "path \<Rightarrow> Timespec \<times> Timespec \<Rightarrow> 's \<Rightarrow> int \<times> 's"
  sys_futimens :: "int \<Rightarrow> Timespec \<times> Timespec \<Rightarrow> 's \<Rightarrow> int \<times> 's"
  sys_fsync :: "int \<Rightarrow> 's \<Rightarrow> int \<times> 's"
  sys_fdatasync :: "int \<Rightarrow> 's \<Rightarrow> int \<times> 's"
  sys_close :: "int \<Rightarrow> 's \<Rightarrow> 's"
  open_write :: "path \<Rightarrow> 's \<Rightarrow> (io_error + int) \<times> 's"

text \<open>\<open>Either<*const c_char, c_int>\<close>: a path or an open descriptor.\<close>

type_synonym path_or_fd = "path + int"

section \<open>The wrappers\<close>

definition neg_errno :: "'s os \<Rightarrow> 's \<Rightarrow> int" where
  "neg_errno os s = - os_errno os s"

text \<open>\<open>if call == -1 { return neg_errno() } 0\<close>\<close>

definition zero_or_errno :: "'s os \<Rightarrow> int \<times> 's \<Rightarrow> int \<times> 's" where
  "zero_or_errno os r = (if fst r = -1 then (neg_errno os (snd r), snd r) else (0, snd r))"

definition xmp_chown :: "'s os \<Rightarrow> path_or_fd \<Rightarrow> u32 \<Rightarrow> u32 \<Rightarrow> 's \<Rightarrow> int \<times> 's" where
  "xmp_chown os pf uid gid s = zero_or_errno os (case pf of
       Inr fd \<Rightarrow> sys_fchown os fd uid gid s
     | Inl p \<Rightarrow> sys_chown os p uid gid s)"

definition xmp_mknod :: "'s os \<Rightarrow> path \<Rightarrow> u32 \<Rightarrow> u64 \<Rightarrow> u32 \<Rightarrow> u32 \<Rightarrow> 's \<Rightarrow> int \<times> 's" where
  "xmp_mknod os p mode rdev uid gid s =
     (let (res, s1) = (if mode AND S_IFIFO = S_IFIFO then sys_mkfifo os p mode s
                       else sys_mknod os p mode rdev s)
      in if res = -1 then (neg_errno os s1, s1) else xmp_chown os (Inl p) uid gid s1)"

definition xmp_mkdir :: "'s os \<Rightarrow> path \<Rightarrow> u32 \<Rightarrow> u32 \<Rightarrow> u32 \<Rightarrow> 's \<Rightarrow> int \<times> 's" where
  "xmp_mkdir os p mode uid gid s =
     (let (res, s1) = sys_mkdir os p mode s
      in if res = -1 then (neg_errno os s1, s1) else xmp_chown os (Inl p) uid gid s1)"

definition xmp_unlink :: "'s os \<Rightarrow> path \<Rightarrow> 's \<Rightarrow> int \<times> 's" where
  "xmp_unlink os p s = zero_or_errno os (sys_unlink os p s)"

definition xmp_rmdir :: "'s os \<Rightarrow> path \<Rightarrow> 's \<Rightarrow> int \<times> 's" where
  "xmp_rmdir os p s = zero_or_errno os (sys_rmdir os p s)"

definition xmp_symlink :: "'s os \<Rightarrow> path \<Rightarrow> path \<Rightarrow> u32 \<Rightarrow> u32 \<Rightarrow> 's \<Rightarrow> int \<times> 's" where
  "xmp_symlink os from to uid gid s =
     (let (res, s1) = sys_symlink os from to s
      in if res = -1 then (neg_errno os s1, s1) else zero_or_errno os (sys_lchown os to uid gid s1))"

text \<open>On Linux the wrapper negates what \<open>syscall\<close> returns.\<close>

definition xmp_rename :: "'s os \<Rightarrow> path \<Rightarrow> path \<Rightarrow> u32 \<Rightarrow> 's \<Rightarrow> int \<times> 's" where
  "xmp_rename os from to flags s = (let (res, s1) = sys_renameat2 os from to flags s in (- res, s1))"

definition xmp_link :: "'s os \<Rightarrow> path \<Rightarrow> path \<Rightarrow> u32 \<Rightarrow> u32 \<Rightarrow> 's \<Rightarrow> int \<times> 's" where
  "xmp_link os from to uid gid s =
     (let (res, s1) = sys_link os from to s
      in if res = -1 then (neg_errno os s1, s1) else xmp_chown os (Inl to) uid gid s1)"

definition xmp_chmod :: "'s os \<Rightarrow> path_or_fd \<Rightarrow> u32 \<Rightarrow> 's \<Rightarrow> int \<times> 's" where
  "xmp_chmod os pf mode s = zero_or_errno os (case pf of
       Inr fd \<Rightarrow> sys_fchmod os fd mode s
     | Inl p \<Rightarrow> sys_chmod os p mode s)"

definition xmp_truncate :: "'s os \<Rightarrow> path_or_fd \<Rightarrow> i64 \<Rightarrow> 's \<Rightarrow> int \<times> 's" where
  "xmp_truncate os pf sz s = zero_or_errno os (case pf of
       Inr fd \<Rightarrow> sys_ftruncate os fd sz s
     | Inl p \<Rightarrow> sys_truncate64 os p sz s)"

text \<open>\<open>res as c_int\<close> keeps the low 32 bits as a signed number.\<close>

definition as_c_int :: "int \<Rightarrow> int" where
  "as_c_int r = sint (word_of_int r :: 32 word)"

definition xmp_write :: "'s os \<Rightarrow> bytes \<Rightarrow> i64 \<Rightarrow> int \<Rightarrow> 's \<Rightarrow> int \<times> 's" where
  "xmp_write os buf offset fd s =
     (let (res, s1) = sys_pwrite os fd buf offset s
      in if res = -1 then (neg_errno os s1, s1) else (as_c_int res, s1))"

definition xmp_fallocate :: "'s os \<Rightarrow> i32 \<Rightarrow> i64 \<Rightarrow> i64 \<Rightarrow> int \<Rightarrow> 's \<Rightarrow> int \<times> 's" where
  "xmp_fallocate os mode offset len fd s = zero_or_errno os (sys_fallocate os fd mode offset len s)"

definition xmp_setxattr :: "'s os \<Rightarrow> path_or_fd \<Rightarrow> bytes \<Rightarrow> bytes \<Rightarrow> i32 \<Rightarrow> 's \<Rightarrow> int \<times> 's" where
  "xmp_setxattr os pf name val flags s = zero_or_errno os (case pf of
       Inr fd \<Rightarrow> sys_fsetxattr os fd name val flags s
     | Inl p \<Rightarrow> sys_lsetxattr os p name val flags s)"

definition xmp_removexattr :: "'s os \<Rightarrow> path_or_fd \<Rightarrow> bytes \<Rightarrow> 's \<Rightarrow> int \<times> 's" where
  "xmp_removexattr os pf name s = zero_or_errno os (case pf of
       Inr fd \<Rightarrow> sys_fremovexattr os fd name s
     | Inl p \<Rightarrow> sys_lremovexattr os p name s)"

text \<open>The descriptor is an out parameter: the wrapper gives it beside the result.\<close>

definition xmp_create :: "'s os \<Rightarrow> path \<Rightarrow> u32 \<Rightarrow> i32 \<Rightarrow> u32 \<Rightarrow> u32 \<Rightarrow> 's \<Rightarrow> int \<times> int \<times> 's" where
  "xmp_create os p mode flags uid gid s =
     (let (fd, s1) = sys_open os p flags mode s
      in if fd = -1 then (neg_errno os s1, fd, s1)
         else let (res, s2) = xmp_chown os (Inr fd) uid gid s1 in (res, fd, s2))"

definition xmp_utimens :: "'s os \<Rightarrow> path_or_fd \<Rightarrow> Timespec \<times> Timespec \<Rightarrow> 's \<Rightarrow> int \<times> 's" where
  "xmp_utimens os pf ts s = zero_or_errno os (case pf of
       Inr fd \<Rightarrow> sys_futimens os fd ts s
     | Inl p \<Rightarrow> sys_utimensat os p ts s)"

definition xmp_fsync :: "'s os \<Rightarrow> i32 \<Rightarrow> int \<Rightarrow> 's \<Rightarrow> int \<times> 's" where
  "xmp_fsync os isdatasync fd s =
     zero_or_errno os (if isdatasync \<noteq> 0 then sys_fdatasync os fd s else sys_fsync os fd s)"

section \<open>Dispatch\<close>

text \<open>
  \<open>with_file\<close> opens for writing, runs the closure on the descriptor and closes it; the
  dispatcher turns an open error into its (positive) error number, and panics when the error
  carries none.
\<close>

definition with_file :: "'s os \<Rightarrow> path \<Rightarrow> (int \<Rightarrow> 's \<Rightarrow> int \<times> 's) \<Rightarrow> 's \<Rightarrow> (io_error + int) \<times> 's" where
  "with_file os p f s = (case open_write os p s of
       (Inl e, s1) \<Rightarrow> (Inl e, s1)
     | (Inr fd, s1) \<Rightarrow> (let (res, s2) = f fd s1 in (Inr res, sys_close os fd s2)))"

definition raw_os_error :: "io_error \<Rightarrow> int option" where
  "raw_os_error e = (case e of Os n \<Rightarrow> Some n | _ \<Rightarrow> None)"

definition dispatch_file :: "'s os \<Rightarrow> path \<Rightarrow> (int \<Rightarrow> 's \<Rightarrow> int \<times> 's) \<Rightarrow> 's \<Rightarrow> (int \<times> 's) result" where
  "dispatch_file os p f s = (case with_file os p f s of
       (Inl e, s1) \<Rightarrow> rbind (unwrap ''raw_os_error'' (raw_os_error e)) (\<lambda>n. Inr (err_or_ok (Inl n), s1))
     | (Inr res, s1) \<Rightarrow> Inr (err_or_ok (Inr res), s1))"

text \<open>
  The closure of \<open>truncating_write\<close>: write, then truncate, reporting the first failure.
\<close>

definition write_then_truncate :: "'s os \<Rightarrow> bytes \<Rightarrow> i64 \<Rightarrow> i64 \<Rightarrow> int \<Rightarrow> 's \<Rightarrow> int \<times> 's" where
  "write_then_truncate os buf offset len fd s =
     (let (res, s1) = xmp_write os buf offset fd s
      in if res < 0 then (res, s1)
         else let (tres, s2) = xmp_truncate os (Inr fd) len s1
              in if tres < 0 then (tres, s2) else (res, s2))"

definition dispatch_create :: "'s os \<Rightarrow> path \<Rightarrow> u32 \<Rightarrow> i32 \<Rightarrow> u32 \<Rightarrow> u32 \<Rightarrow> 's \<Rightarrow> int \<times> 's" where
  "dispatch_create os p mode flags uid gid s =
     (let (res, fd, s1) = xmp_create os p mode flags uid gid s
      in (res, if fd \<noteq> -1 then sys_close os fd s1 else s1))"

fun dispatch :: "'s os \<Rightarrow> VFSCall \<Rightarrow> path \<Rightarrow> 's \<Rightarrow> (int \<times> 's) result" where
  "dispatch os (VFS_mknod p mode rdev (Unix uid gid)) root s =
     rbind (trans_cstr p root) (\<lambda>rp. Inr (xmp_mknod os rp mode rdev uid gid s))"
| "dispatch os (VFS_mkdir p (Unix uid gid) mode) root s =
     rbind (trans_cstr p root) (\<lambda>rp. Inr (xmp_mkdir os rp mode uid gid s))"
| "dispatch os (VFS_unlink p) root s =
     rbind (trans_cstr p root) (\<lambda>rp. Inr (xmp_unlink os rp s))"
| "dispatch os (VFS_rmdir p) root s =
     rbind (trans_cstr p root) (\<lambda>rp. Inr (xmp_rmdir os rp s))"
| "dispatch os (VFS_symlink from to (Unix uid gid)) root s =
     rbind (into_cstring from) (\<lambda>rf. rbind (trans_cstr to root)
       (\<lambda>rt. Inr (xmp_symlink os rf rt uid gid s)))"
| "dispatch os (VFS_rename from to flags) root s =
     rbind (trans_cstr from root) (\<lambda>rf. rbind (trans_cstr to root)
       (\<lambda>rt. Inr (xmp_rename os rf rt flags s)))"
| "dispatch os (VFS_link from to (Unix uid gid)) root s =
     rbind (trans_cstr from root) (\<lambda>rf. rbind (trans_cstr to root)
       (\<lambda>rt. Inr (xmp_link os rf rt uid gid s)))"
| "dispatch os (VFS_chmod p mode) root s =
     rbind (trans_cstr p root) (\<lambda>rp. Inr (xmp_chmod os (Inl rp) mode s))"
| "dispatch os (VFS_security p (Unix uid gid)) root s =
     rbind (trans_cstr p root) (\<lambda>rp. Inr (xmp_chown os (Inl rp) uid gid s))"
| "dispatch os (VFS_truncate p sz) root s =
     rbind (trans_cstr p root) (\<lambda>rp. Inr (xmp_truncate os (Inl rp) sz s))"
| "dispatch os (VFS_write p offset buf) root s =
     dispatch_file os (translate_path p root) (xmp_write os buf offset) s"
| "dispatch os (VFS_truncating_write p offset buf len) root s =
     dispatch_file os (translate_path p root) (write_then_truncate os buf offset len) s"
| "dispatch os (VFS_fallocate p mode offset len) root s =
     dispatch_file os (translate_path p root) (xmp_fallocate os mode offset len) s"
| "dispatch os (VFS_setxattr p name val flags) root s =
     rbind (trans_cstr p root) (\<lambda>rp. Inr (xmp_setxattr os (Inl rp) name val flags s))"
| "dispatch os (VFS_removexattr p name) root s =
     rbind (trans_cstr p root) (\<lambda>rp. Inr (xmp_removexattr os (Inl rp) name s))"
| "dispatch os (VFS_create p flags (Unix uid gid) mode) root s =
     rbind (trans_cstr p root) (\<lambda>rp. Inr (dispatch_create os rp mode flags uid gid s))"
| "dispatch os (VFS_utimens p ts) root s =
     rbind (trans_cstr p root) (\<lambda>rp. Inr (xmp_utimens os (Inl rp) (fst ts, fst (snd ts)) s))"
| "dispatch os (VFS_fsync p isdatasync) root s =
     dispatch_file os (translate_path p root) (xmp_fsync os isdatasync) s"
| "dispatch os _ root s = Inl (Panicked ''Not implemented'')"

end
