(* ===== verification/DispatchLaws.thy ===== *)
theory DispatchLaws
  imports OpsUnix CommonLaws
begin

text \<open>
  What the dispatcher promises about the operating system it drives: it touches no path outside
  the replica, it reports failures as negated error numbers, and where it does not.
\<close>

section \<open>Agreement below a root\<close>

definition below :: "path \<Rightarrow> path \<Rightarrow> bool" where
  "below root p \<longleftrightarrow> (\<exists>rel. p = root @ rel \<and> RootDir \<notin> set rel)"

lemma translate_path_below: "wf_path p \<Longrightarrow> below root (translate_path p root)"
  by (auto simp: below_def translate_path_alt)

text \<open>
  Two systems agree below a root when they differ at most in what calls on other paths do: a
  call on a path below the root, or on a descriptor, gives the same in both.
\<close>

definition os_agree :: "path \<Rightarrow> 's os \<Rightarrow> 's os \<Rightarrow> bool" where
  "os_agree root a b \<longleftrightarrow>
     os_errno a = os_errno b \<and> sys_fchmod a = sys_fchmod b \<and> sys_fchown a = sys_fchown b \<and>
     sys_ftruncate a = sys_ftruncate b \<and> sys_pwrite a = sys_pwrite b \<and> sys_fallocate a = sys_fallocate b \<and>
     sys_fsetxattr a = sys_fsetxattr b \<and> sys_fremovexattr a = sys_fremovexattr b \<and>
     sys_futimens a = sys_futimens b \<and> sys_fsync a = sys_fsync b \<and> sys_fdatasync a = sys_fdatasync b \<and>
     sys_close a = sys_close b \<and>
     (\<forall>p. below root p \<longrightarrow>
        sys_mkfifo a p = sys_mkfifo b p \<and> sys_mknod a p = sys_mknod b p \<and> sys_mkdir a p = sys_mkdir b p \<and>
        sys_unlink a p = sys_unlink b p \<and> sys_rmdir a p = sys_rmdir b p \<and>
        (\<forall>target. sys_symlink a target p = sys_symlink b target p) \<and>
        sys_lchown a p = sys_lchown b p \<and> sys_chmod a p = sys_chmod b p \<and> sys_chown a p = sys_chown b p \<and>
        sys_truncate64 a p = sys_truncate64 b p \<and> sys_lsetxattr a p = sys_lsetxattr b p \<and>
        sys_lremovexattr a p = sys_lremovexattr b p \<and> sys_open a p = sys_open b p \<and>
        sys_utimensat a p = sys_utimensat b p \<and> open_write a p = open_write b p \<and>
        (\<forall>q. below root q \<longrightarrow> sys_renameat2 a p q = sys_renameat2 b p q \<and> sys_link a p q = sys_link b p q))"

lemma os_agree_fd:
  assumes "os_agree root a b"
  shows "os_errno a = os_errno b" "sys_fchmod a = sys_fchmod b" "sys_fchown a = sys_fchown b"
    "sys_ftruncate a = sys_ftruncate b" "sys_pwrite a = sys_pwrite b" "sys_fallocate a = sys_fallocate b"
    "sys_fsetxattr a = sys_fsetxattr b" "sys_fremovexattr a = sys_fremovexattr b"
    "sys_futimens a = sys_futimens b" "sys_fsync a = sys_fsync b" "sys_fdatasync a = sys_fdatasync b"
    "sys_close a = sys_close b"
  using assms by (simp_all add: os_agree_def)

lemma os_agree_path:
  assumes "os_agree root a b" "below root p"
  shows "sys_mkfifo a p = sys_mkfifo b p" "sys_mknod a p = sys_mknod b p" "sys_mkdir a p = sys_mkdir b p"
    "sys_unlink a p = sys_unlink b p" "sys_rmdir a p = sys_rmdir b p"
    "sys_symlink a target p = sys_symlink b target p"
    "sys_lchown a p = sys_lchown b p" "sys_chmod a p = sys_chmod b p" "sys_chown a p = sys_chown b p"
    "sys_truncate64 a p = sys_truncate64 b p" "sys_lsetxattr a p = sys_lsetxattr b p"
    "sys_lremovexattr a p = sys_lremovexattr b p" "sys_open a p = sys_open b p"
    "sys_utimensat a p = sys_utimensat b p" "open_write a p = open_write b p"
    "below root q \<Longrightarrow> sys_renameat2 a p q = sys_renameat2 b p q"
    "below root q \<Longrightarrow> sys_link a p q = sys_link b p q"
  using assms by (simp_all add: os_agree_def)

lemmas os_agree_simps = os_agree_fd os_agree_path

lemma trans_cstr_Inr: "trans_cstr p root = Inr rp \<Longrightarrow> rp = translate_path p root"
  by (simp add: trans_cstr_def into_cstring_def split: if_splits)

lemma rbind_cong_Inr: "(\<And>x. m = Inr x \<Longrightarrow> f x = g x) \<Longrightarrow> rbind m f = rbind m g"
  by (cases m) simp_all

text \<open>The paths of a call, the target of a symbolic link apart (it is stored, not followed).\<close>

fun call_paths :: "VFSCall \<Rightarrow> path list" where
  "call_paths (VFS_rename from to _) = [from, to]"
| "call_paths (VFS_link from to _) = [from, to]"
| "call_paths (VFS_symlink _ to _) = [to]"
| "call_paths (VFS_mknod p _ _ _) = [p]"
| "call_paths (VFS_mkdir p _ _) = [p]"
| "call_paths (VFS_unlink p) = [p]"
| "call_paths (VFS_rmdir p) = [p]"
| "call_paths (VFS_chmod p _) = [p]"
| "call_paths (VFS_truncate p _) = [p]"
| "call_paths (VFS_write p _ _) = [p]"
| "call_paths (VFS_diff_write p _ _) = [p]"
| "call_paths (VFS_fallocate p _ _ _) = [p]"
| "call_paths (VFS_setxattr p _ _ _) = [p]"
| "call_paths (VFS_removexattr p _) = [p]"
| "call_paths (VFS_create p _ _ _) = [p]"
| "call_paths (VFS_utimens p _) = [p]"
| "call_paths (VFS_fsync p _) = [p]"
| "call_paths (VFS_truncating_write p _ _ _) = [p]"
| "call_paths (VFS_security p _) = [p]"

lemmas xmp_defs = xmp_mknod_def xmp_mkdir_def xmp_unlink_def xmp_rmdir_def xmp_symlink_def xmp_rename_def
  xmp_link_def xmp_chmod_def xmp_chown_def xmp_truncate_def xmp_write_def xmp_fallocate_def
  xmp_setxattr_def xmp_removexattr_def xmp_create_def xmp_utimens_def xmp_fsync_def
  zero_or_errno_def neg_errno_def


text \<open>
  An operating system for evaluation: the state is the list of paths created so far; \<open>mkdir\<close>
  records its path, everything else fails with the same error number.
\<close>

definition toy_os :: "path list os" where
  "toy_os = \<lparr>os_errno = (\<lambda>s. 13), sys_mkfifo = (\<lambda>p m s. (-1, s)), sys_mknod = (\<lambda>p m d s. (-1, s)),
     sys_mkdir = (\<lambda>p m s. (0, p # s)), sys_unlink = (\<lambda>p s. (-1, s)), sys_rmdir = (\<lambda>p s. (-1, s)),
     sys_symlink = (\<lambda>p q s. (-1, s)), sys_lchown = (\<lambda>p u g s. (0, s)), sys_renameat2 = (\<lambda>p q f s. (-1, s)),
     sys_link = (\<lambda>p q s. (-1, s)), sys_chmod = (\<lambda>p m s. (-1, s)), sys_fchmod = (\<lambda>fd m s. (-1, s)),
     sys_chown = (\<lambda>p u g s. (0, s)), sys_fchown = (\<lambda>fd u g s. (0, s)), sys_truncate64 = (\<lambda>p n s. (-1, s)),
     sys_ftruncate = (\<lambda>fd n s. (-1, s)), sys_pwrite = (\<lambda>fd b off s. (-1, s)),
     sys_fallocate = (\<lambda>fd m off n s. (-1, s)), sys_lsetxattr = (\<lambda>p n v f s. (-1, s)),
     sys_fsetxattr = (\<lambda>fd n v f s. (-1, s)), sys_lremovexattr = (\<lambda>p n s. (-1, s)),
     sys_fremovexattr = (\<lambda>fd n s. (-1, s)), sys_open = (\<lambda>p f m s. (-1, s)),
     sys_utimensat = (\<lambda>p t s. (-1, s)), sys_futimens = (\<lambda>fd t s. (-1, s)), sys_fsync = (\<lambda>fd s. (-1, s)),
     sys_fdatasync = (\<lambda>fd s. (-1, s)), sys_close = (\<lambda>fd s. s), open_write = (\<lambda>p s. (Inl (Os 2), s))\<rparr>"

lemmas path_eval = trans_cstr_def into_cstring_def translate_path_def path_join_def starts_with_root_def wf_path_def


text \<open>The calls that the dispatcher turns into one system call on a path (renames apart).\<close>

fun path_call :: "VFSCall \<Rightarrow> bool" where
  "path_call (VFS_mknod _ _ _ _) = True"
| "path_call (VFS_mkdir _ _ _) = True"
| "path_call (VFS_unlink _) = True"
| "path_call (VFS_rmdir _) = True"
| "path_call (VFS_symlink _ _ _) = True"
| "path_call (VFS_link _ _ _) = True"
| "path_call (VFS_chmod _ _) = True"
| "path_call (VFS_truncate _ _) = True"
| "path_call (VFS_setxattr _ _ _ _) = True"
| "path_call (VFS_removexattr _ _) = True"
| "path_call (VFS_create _ _ _ _) = True"
| "path_call (VFS_utimens _ _) = True"
| "path_call (VFS_security _ _) = True"
| "path_call _ = False"

definition ret_ok :: "'s os \<Rightarrow> (int \<times> 's) result \<Rightarrow> bool" where
  "ret_ok os x = (case x of Inl e \<Rightarrow> True | Inr (r, _) \<Rightarrow> r = 0 \<or> (\<exists>s1. r = - os_errno os s1))"

lemma ret_ok_simps [simp]: "ret_ok os (Inl e)" "ret_ok os (Inr (r, s)) \<longleftrightarrow> r = 0 \<or> (\<exists>s1. r = - os_errno os s1)"
  by (simp_all add: ret_ok_def)

lemma ret_ok_rbind: "(\<And>x. ret_ok os (f x)) \<Longrightarrow> ret_ok os (rbind m f)"
  by (cases m) simp_all

lemma ret_ok_zero_or_errno: "ret_ok os (Inr (zero_or_errno os x))"
  by (auto simp: zero_or_errno_def neg_errno_def)

lemma ret_ok_xmp:
  "ret_ok os (Inr (xmp_chown os pf u g s))" "ret_ok os (Inr (xmp_mknod os p m d u g s))"
  "ret_ok os (Inr (xmp_mkdir os p m u g s))" "ret_ok os (Inr (xmp_unlink os p s))" "ret_ok os (Inr (xmp_rmdir os p s))"
  "ret_ok os (Inr (xmp_symlink os p q u g s))" "ret_ok os (Inr (xmp_link os p q u g s))"
  "ret_ok os (Inr (xmp_chmod os pf m s))" "ret_ok os (Inr (xmp_truncate os pf n s))"
  "ret_ok os (Inr (xmp_setxattr os pf nm v fl s))" "ret_ok os (Inr (xmp_removexattr os pf nm s))"
  "ret_ok os (Inr (xmp_utimens os pf ts s))" "ret_ok os (Inr (dispatch_create os p m fl u g s))"
  by (auto simp: xmp_defs dispatch_create_def Let_def split: prod.splits)

text \<open>
  For the calls on paths other than a rename, the dispatcher returns zero or the negated
  error number left by the failing system call.
\<close>

theorem dispatch_zero_or_errno:
  assumes "path_call call" "dispatch os call root s = Inr (r, s')"
  shows "r = 0 \<or> (\<exists>s1. r = - os_errno os s1)"
proof -
  have "ret_ok os (dispatch os call root s)"
    using assms(1) by (cases "(os, call, root, s)" rule: dispatch.cases) (auto intro!: ret_ok_rbind ret_ok_xmp)
  then show ?thesis using assms(2) by simp
qed

theorem dispatch_zero_or_errno_witness:
  "dispatch toy_os (VFS_unlink [RootDir, Normal ''x'']) [RootDir, Normal ''d''] [] = Inr (-13, [])
    \<and> ((-13::int) = 0 \<or> (\<exists>s1. (-13::int) = - os_errno toy_os s1))"
proof
  show run: "dispatch toy_os (VFS_unlink [RootDir, Normal ''x'']) [RootDir, Normal ''d''] [] = Inr (-13, [])"
    by (simp add: toy_os_def path_eval xmp_defs)
  show "(-13::int) = 0 \<or> (\<exists>s1. (-13::int) = - os_errno toy_os s1)"
    by (rule dispatch_zero_or_errno [OF _ run]) simp
qed

text \<open>
  Two failures are reported with the wrong sign: a rename that the kernel refuses is
  answered with 1 whatever the reason, and a file that cannot be opened for writing is
  answered with the positive error number, where every other failure is negative.
\<close>

theorem dispatch_positive_failures:
  assumes "trans_cstr from root = Inr rf" "trans_cstr to root = Inr rt" "sys_renameat2 os rf rt flags s = (-1, s1)"
    and "open_write os (translate_path p root) s = (Inl (Os n), s2)"
  shows "dispatch os (VFS_rename from to flags) root s = Inr (1, s1)
    \<and> dispatch os (VFS_write p off buf) root s = Inr (n, s2)
    \<and> dispatch os (VFS_fsync p ds) root s = Inr (n, s2)
    \<and> dispatch os (VFS_fallocate p mode off len) root s = Inr (n, s2)
    \<and> dispatch os (VFS_truncating_write p off buf len) root s = Inr (n, s2)"
  using assms by (simp add: xmp_rename_def dispatch_file_def with_file_def raw_os_error_def err_or_ok_def)

theorem dispatch_positive_failures_witness:
  "dispatch toy_os (VFS_rename [RootDir, Normal ''x''] [RootDir, Normal ''y''] 0) [RootDir, Normal ''d''] [] = Inr (1, [])
    \<and> dispatch toy_os (VFS_write [RootDir, Normal ''x''] 0 [1]) [RootDir, Normal ''d''] [] = Inr (2, [])"
proof -
  have a: "trans_cstr [RootDir, Normal ''x''] [RootDir, Normal ''d''] = Inr [RootDir, Normal ''d'', Normal ''x'']"
    by (simp add: path_eval)
  have b: "trans_cstr [RootDir, Normal ''y''] [RootDir, Normal ''d''] = Inr [RootDir, Normal ''d'', Normal ''y'']"
    by (simp add: path_eval)
  have c: "sys_renameat2 toy_os [RootDir, Normal ''d'', Normal ''x''] [RootDir, Normal ''d'', Normal ''y''] 0 [] = (-1, [])"
    by (simp add: toy_os_def)
  have d: "open_write toy_os (translate_path [RootDir, Normal ''x''] [RootDir, Normal ''d'']) [] = (Inl (Os 2), [])"
    by (simp add: toy_os_def)
  show ?thesis
    using dispatch_positive_failures [OF a b c d] by (simp del: dispatch.simps)
qed

end
