(* ===== verification/FileStore.thy ===== *)
theory FileStore
  imports Bilog
begin

text \<open>
  The store of deleted files (\<open>journal/filestore.rs\<close>).  A deleted file is moved into the
  directory \<open>.fsyncer-deleted\<close> under the root, under a number called its token; when the
  quota is exceeded the oldest tokens are removed.  The state outside the store is what
  \<open>std::fs\<close> shows of it: the entries of the store directory in directory order with their
  sizes, and the sizes of the files elsewhere.
\<close>

datatype DeletePolicy = FilestoreEntry

record FileStore =
  current_size :: nat
  oldest_token :: nat
  current_token :: nat
  max_size :: nat
  vfsroot :: path
  policy :: DeletePolicy

record sfs =
  sfs_store :: "(string \<times> nat) list option"
  sfs_files :: "path \<Rightarrow> nat option"

text \<open>\<open>trace!(e).file_name().to_str().unwrap().parse::<u64>().unwrap()\<close>\<close>

definition parse_token :: "string \<Rightarrow> nat result" where
  "parse_token name = unwrap ''called Result::unwrap() on an Err value'' (parse_usize name)"

definition token_or_zero :: "(string \<times> nat) option \<Rightarrow> nat result" where
  "token_or_zero e = (case e of None \<Rightarrow> Inr 0 | Some (name, _) \<Rightarrow> parse_token name)"

fun first_entry :: "'a list \<Rightarrow> 'a option" where
  "first_entry [] = None"
| "first_entry (x # xs) = Some x"

fun last_entry :: "'a list \<Rightarrow> 'a option" where
  "last_entry [] = None"
| "last_entry (x # xs) = Some (last (x # xs))"

definition filestore_new :: "path \<Rightarrow> nat \<Rightarrow> sfs \<Rightarrow> (FileStore \<times> sfs) result" where
  "filestore_new root maxs d =
     (let d1 = (case sfs_store d of None \<Rightarrow> d\<lparr>sfs_store := Some []\<rparr> | Some _ \<Rightarrow> d);
          es = (case sfs_store d1 of None \<Rightarrow> [] | Some es \<Rightarrow> es) in
      rbind (token_or_zero (first_entry es)) (\<lambda>oldest.
      rbind (token_or_zero (last_entry es)) (\<lambda>current.
        Inr (\<lparr>current_size = foldl usize_add 0 (map snd es), oldest_token = oldest,
              current_token = current, max_size = maxs, vfsroot = root, policy = FilestoreEntry\<rparr>, d1))))"

text \<open>\<open>delete\<close>: the size comes from the metadata, the entry is removed from the directory.\<close>

definition filestore_delete :: "FileStore \<Rightarrow> sfs \<Rightarrow> nat \<Rightarrow> (nat \<times> FileStore \<times> sfs) result" where
  "filestore_delete fs d token = (case sfs_store d of
       None \<Rightarrow> Inl (IoErr (Os ENOENT))
     | Some es \<Rightarrow> (case map_of es (show_nat token) of
         None \<Rightarrow> Inl (IoErr (Os ENOENT))
       | Some sz \<Rightarrow> Inr (sz,
           fs\<lparr>current_size := usize_sub (current_size fs) sz, oldest_token := usize_add (oldest_token fs) 1\<rparr>,
           d\<lparr>sfs_store := Some (filter (\<lambda>e. fst e \<noteq> show_nat token) es)\<rparr>)))"

definition store_count :: "sfs \<Rightarrow> nat" where
  "store_count d = (case sfs_store d of None \<Rightarrow> 0 | Some es \<Rightarrow> length es)"

lemma filestore_delete_count:
  assumes "filestore_delete fs d token = Inr (sz, fs', d')"
  shows "store_count d' < store_count d"
proof -
  obtain es where es: "sfs_store d = Some es" and m: "map_of es (show_nat token) = Some sz"
    and d': "sfs_store d' = Some (filter (\<lambda>e. fst e \<noteq> show_nat token) es)"
    using assms by (auto simp: filestore_delete_def split: option.splits)
  have "(show_nat token, sz) \<in> set es" using m by (rule map_of_SomeD)
  then have "length (filter (\<lambda>e. fst e \<noteq> show_nat token) es) < length es"
    by (rule length_filter_less) simp
  then show ?thesis using es d' by (simp add: store_count_def)
qed

text \<open>The \<open>while\<close> loop of \<open>store\<close> that frees space.\<close>

function evict :: "FileStore \<Rightarrow> sfs \<Rightarrow> nat \<Rightarrow> (FileStore \<times> sfs) result" where
  "evict fs d sz =
     (if max_size fs < usize_add (current_size fs) sz then
        (case filestore_delete fs d (oldest_token fs) of
           Inl e \<Rightarrow> Inl e
         | Inr r \<Rightarrow> evict (fst (snd r)) (snd (snd r)) sz)
      else Inr (fs, d))"
  by pat_completeness auto
termination
  by (relation "measure (\<lambda>(fs, d, sz). store_count d)") (auto dest: filestore_delete_count)

declare evict.simps [simp del]

text \<open>
  \<open>fs::rename(path, root/.fsyncer-deleted/token)\<close>: replaces an entry of that name, fails
  when the directory is not there.
\<close>

definition rename_into_store :: "sfs \<Rightarrow> path \<Rightarrow> nat \<Rightarrow> nat \<Rightarrow> sfs result" where
  "rename_into_store d p token sz = (case sfs_store d of
       None \<Rightarrow> Inl (IoErr (Os ENOENT))
     | Some es \<Rightarrow> Inr (d\<lparr>sfs_store := Some (filter (\<lambda>e. fst e \<noteq> show_nat token) es @ [(show_nat token, sz)]),
         sfs_files := (sfs_files d)(p := None)\<rparr>))"

definition filestore_store :: "FileStore \<Rightarrow> sfs \<Rightarrow> path \<Rightarrow> (nat \<times> FileStore \<times> sfs) result" where
  "filestore_store fs d p =
     rbind (unwrap ''File should be here'' (sfs_files d p)) (\<lambda>sz.
     rbind (evict fs d sz) (\<lambda>(fs1, d1).
     let token = current_token fs1;
         fs2 = fs1\<lparr>current_token := usize_add token 1\<rparr> in
     rbind (rename_into_store d1 p token sz) (\<lambda>d2.
       Inr (token, fs2\<lparr>current_size := usize_add (current_size fs2) sz\<rparr>, d2))))"

end
