(* ===== verification/FileStoreLaws.thy ===== *)
theory FileStoreLaws
  imports FileStore CommonLaws
begin

text \<open>
  The store of deleted files keeps, in directory order, the tokens from the oldest to the newest;
  its size counter is the sum of the sizes.  Storing a file evicts from the oldest end only, as
  much as the quota demands, and the eviction loop ends.
\<close>

lemma show_nat_inj: "m < 2 ^ 64 \<Longrightarrow> n < 2 ^ 64 \<Longrightarrow> show_nat m = show_nat n \<longleftrightarrow> m = n"
  using parse_usize_show by (metis option.inject)

lemma usize_add_small: "a + b < 2 ^ 64 \<Longrightarrow> usize_add a b = a + b"
  by (simp add: usize_add_def)

definition tokens :: "(string \<times> nat) list \<Rightarrow> nat \<Rightarrow> nat \<Rightarrow> bool" where
  "tokens es lo hi \<longleftrightarrow> lo \<le> hi \<and> map fst es = map show_nat [lo..<hi]"

definition store_inv :: "FileStore \<Rightarrow> sfs \<Rightarrow> (string \<times> nat) list \<Rightarrow> bool" where
  "store_inv fs d es \<longleftrightarrow> sfs_store d = Some es \<and> tokens es (oldest_token fs) (current_token fs)
     \<and> current_token fs < 2 ^ 64 \<and> current_size fs = sum_list (map snd es) \<and> current_size fs < 2 ^ 64"

lemma tokens_Nil: "tokens [] lo hi \<longleftrightarrow> lo = hi"
  by (auto simp: tokens_def)

lemma tokens_Cons: "tokens (e # es) lo hi \<longleftrightarrow> lo < hi \<and> fst e = show_nat lo \<and> tokens es (Suc lo) hi"
  by (cases "lo < hi") (auto simp: tokens_def upt_conv_Cons)

lemma tokens_snoc: "tokens es lo hi \<Longrightarrow> tokens (es @ [(show_nat hi, sz)]) lo (Suc hi)"
  by (auto simp: tokens_def)

lemma tokens_fresh:
  assumes "tokens es lo hi" "hi < 2 ^ 64" "t < 2 ^ 64" "t < lo \<or> hi \<le> t"
  shows "filter (\<lambda>e. fst e \<noteq> show_nat t) es = es"
proof -
  have "fst e \<noteq> show_nat t" if "e \<in> set es" for e
  proof -
    have "fst e \<in> set (map show_nat [lo..<hi])"
      using that assms(1) by (metis tokens_def image_eqI set_map)
    then obtain k where "lo \<le> k" "k < hi" "fst e = show_nat k" by auto
    then show ?thesis using assms show_nat_inj [of k t] by auto
  qed
  then show ?thesis by (simp add: filter_id_conv)
qed

lemma filestore_delete_oldest:
  assumes "store_inv fs d ((name, sz) # es)"
  shows "\<exists>fs' d'. filestore_delete fs d (oldest_token fs) = Inr (sz, fs', d') \<and> store_inv fs' d' es
    \<and> max_size fs' = max_size fs \<and> current_token fs' = current_token fs \<and> oldest_token fs' = Suc (oldest_token fs)
    \<and> sfs_files d' = sfs_files d"
proof -
  have tok: "tokens ((name, sz) # es) (oldest_token fs) (current_token fs)" "current_token fs < 2 ^ 64"
    "sfs_store d = Some ((name, sz) # es)" "current_size fs = sz + sum_list (map snd es)" "current_size fs < 2 ^ 64"
    using assms by (auto simp: store_inv_def)
  then have name: "name = show_nat (oldest_token fs)" "oldest_token fs < current_token fs"
    "tokens es (Suc (oldest_token fs)) (current_token fs)"
    by (simp_all add: tokens_Cons)
  have keep: "filter (\<lambda>e. fst e \<noteq> show_nat (oldest_token fs)) es = es"
    using tokens_fresh [OF name(3) tok(2), of "oldest_token fs"] name(2) tok(2) by simp
  have "usize_sub (current_size fs) sz = sum_list (map snd es)"
    using usize_sub_le [of sz "current_size fs"] tok(4,5) by simp
  moreover have "usize_add (oldest_token fs) 1 = Suc (oldest_token fs)"
    using usize_add_small [of "oldest_token fs" 1] name(2) tok(2) by simp
  ultimately show ?thesis
    using tok name keep by (simp add: filestore_delete_def store_inv_def)
qed

lemma evict_ok:
  assumes "store_inv fs d es" "sz \<le> max_size fs" "max_size fs < 2 ^ 64" "current_size fs + sz < 2 ^ 64"
  shows "\<exists>fs' d' k. evict fs d sz = Inr (fs', d') \<and> store_inv fs' d' (drop k es)
    \<and> oldest_token fs' = oldest_token fs + k \<and> current_token fs' = current_token fs \<and> k \<le> length es
    \<and> max_size fs' = max_size fs \<and> current_size fs' + sz \<le> max_size fs \<and> sfs_files d' = sfs_files d"
  using assms
proof (induction es arbitrary: fs d)
  case Nil
  then have "current_size fs = 0" by (simp add: store_inv_def)
  then have "evict fs d sz = Inr (fs, d)"
    using Nil by (subst evict.simps) (simp add: usize_add_small)
  then show ?case
    using Nil \<open>current_size fs = 0\<close> by simp
next
  case (Cons e es)
  obtain name n where e: "e = (name, n)" by (cases e)
  show ?case
  proof (cases "current_size fs + sz \<le> max_size fs")
    case True
    then have "evict fs d sz = Inr (fs, d)"
      using Cons.prems(4) by (subst evict.simps) (simp add: usize_add_small)
    then show ?thesis
      using Cons.prems True by (intro exI [of _ fs] exI [of _ d] exI [of _ 0]) simp
  next
    case False
    obtain fs1 d1 where del: "filestore_delete fs d (oldest_token fs) = Inr (n, fs1, d1)"
      and inv: "store_inv fs1 d1 es" and same: "max_size fs1 = max_size fs" "current_token fs1 = current_token fs"
        "oldest_token fs1 = Suc (oldest_token fs)" "sfs_files d1 = sfs_files d"
      using filestore_delete_oldest Cons.prems(1) e by blast
    have "current_size fs1 + sz < 2 ^ 64"
      using Cons.prems(1,4) inv e by (simp add: store_inv_def)
    then obtain fs' d' k where "evict fs1 d1 sz = Inr (fs', d')" "store_inv fs' d' (drop k es)"
      "oldest_token fs' = oldest_token fs1 + k" "current_token fs' = current_token fs1" "k \<le> length es"
      "max_size fs' = max_size fs1" "current_size fs' + sz \<le> max_size fs1" "sfs_files d' = sfs_files d1"
      using Cons.IH [OF inv] Cons.prems(2,3) same by auto
    moreover have "evict fs d sz = evict fs1 d1 sz"
      using False del Cons.prems(4) by (subst evict.simps) (simp add: usize_add_small)
    ultimately show ?thesis
      using same by (intro exI [of _ fs'] exI [of _ d'] exI [of _ "Suc k"]) simp
  qed
qed

section \<open>Properties\<close>


definition small_store :: FileStore where
  "small_store = \<lparr>current_size = 90, oldest_token = 4, current_token = 6, max_size = 100, vfsroot = [RootDir],
     policy = FilestoreEntry\<rparr>"

definition small_disk :: sfs where
  "small_disk = \<lparr>sfs_store = Some [(''4'', 50), (''5'', 40)],
     sfs_files = (\<lambda>p. if p = [RootDir, Normal ''a''] then Some 20 else None)\<rparr>"


text \<open>
  After a restart the store overwrites its newest file: \<open>FileStore::new\<close> takes the number
  of the last directory entry as the next token instead of the number after it, so the next
  stored file replaces that entry, and its size stays counted.
\<close>

theorem filestore_new_reuses_token:
  assumes "sfs_store d = Some (es @ [(show_nat t, sz)])" "t < 2 ^ 64" "\<forall>e \<in> set es. fst e \<noteq> show_nat t"
    and "token_or_zero (first_entry (es @ [(show_nat t, sz)])) = Inr lo"
    and "sfs_files d p = Some n" "foldl usize_add 0 (map snd es @ [sz]) = ttl" "usize_add ttl n \<le> maxs"
  shows "\<exists>fs d'. filestore_new root maxs d = Inr (fs, d) \<and> current_token fs = t \<and> current_size fs = ttl
    \<and> (\<exists>fs'. filestore_store fs d p = Inr (t, fs', d') \<and> sfs_store d' = Some (es @ [(show_nat t, n)])
        \<and> current_size fs' = usize_add ttl n)"
proof -
  let ?fs = "\<lparr>current_size = ttl, oldest_token = lo, current_token = t, max_size = maxs, vfsroot = root,
    policy = FilestoreEntry\<rparr>"
  have "last_entry (es @ [(show_nat t, sz)]) = Some (show_nat t, sz)"
    by (cases es) simp_all
  then have new: "filestore_new root maxs d = Inr (?fs, d)"
    using assms by (simp add: filestore_new_def token_or_zero_def parse_token_def parse_usize_show)
  have "evict ?fs d n = Inr (?fs, d)"
    using assms(7) by (subst evict.simps) simp
  moreover have "filter (\<lambda>e. fst e \<noteq> show_nat t) (es @ [(show_nat t, sz)]) = es"
    using assms(3) by (simp add: filter_id_conv)
  ultimately show ?thesis
    using assms new by (simp add: filestore_store_def rename_into_store_def Let_def)
qed

theorem filestore_new_reuses_token_witness:
  "\<exists>fs d'. filestore_new [RootDir] 200 small_disk = Inr (fs, small_disk) \<and> current_token fs = 5
    \<and> (\<exists>fs'. filestore_store fs small_disk [RootDir, Normal ''a''] = Inr (5, fs', d')
        \<and> sfs_store d' = Some [(''4'', 50), (''5'', 20)])"
proof -
  have digits: "show_nat 4 = ''4''" "show_nat 5 = ''5''" by code_simp+
  have first: "token_or_zero (first_entry ([(''4'', 50)] @ [(show_nat 5, 40)])) = Inr 4"
    using parse_usize_show [of 4] digits by (simp add: token_or_zero_def parse_token_def)
  have "\<exists>fs d'. filestore_new [RootDir] 200 small_disk = Inr (fs, small_disk) \<and> current_token fs = 5 \<and> current_size fs = 90
    \<and> (\<exists>fs'. filestore_store fs small_disk [RootDir, Normal ''a''] = Inr (5, fs', d')
        \<and> sfs_store d' = Some ([(''4'', 50)] @ [(show_nat 5, 20)]) \<and> current_size fs' = usize_add 90 20)"
    by (rule filestore_new_reuses_token [OF _ _ _ first]) (simp_all add: small_disk_def digits usize_add_def)
  then show ?thesis using digits by force
qed

end
