(* ===== verification/Store.thy ===== *)
theory Store
  imports FileStore
begin

unbundle bit_operations_syntax

text \<open>
  The journal (\<open>journal/store.rs\<close>): a ring of 128 KiB blocks behind a header.  Entries
  never cross a block boundary; four zero bytes, or fewer than four bytes left, mark that the
  rest of a block is unused.  \<open>head\<close> and \<open>tail\<close> are offsets into the endless log and are
  reduced modulo the ring size only when the file is accessed.

  Parameters: the \<open>bincode\<close> encoding of entries and headers and the checksum of the
  \<open>crc\<close> crate, as one record.  The offsets are \<open>u64\<close> in the code; they only grow, and
  are natural numbers here.  The transaction counter is 32 bits wide and wraps.
\<close>

section \<open>Data\<close>

datatype JournalType = JT_Invalid | JT_Bilog | JT_Forward | JT_Undo

definition BLOCK_SIZE :: nat where "BLOCK_SIZE = 1024 * 128"

record JournalHeader =
  tail :: nat
  head :: nat
  trans_ctr :: u32
  ty :: JournalType

text \<open>A \<open>SystemTime\<close> is a number of nanoseconds.\<close>

datatype 'a EntryContent = Payload 'a | Time nat

record 'a StoreEntry =
  fsize :: u32
  trans_id :: u32
  inner :: "'a EntryContent"
  crc32 :: u32

record 'a codec =
  header_size :: nat
  ser_header :: "JournalHeader \<Rightarrow> bytes"
  deser_header :: "bytes \<Rightarrow> JournalHeader option"
  ser_entry :: "'a StoreEntry \<Rightarrow> bytes"
  deser_entry :: "bytes \<Rightarrow> 'a StoreEntry option"
  checksum_ieee :: "bytes \<Rightarrow> u32"

record JournalConfig =
  cfg_sync :: bool
  cfg_journal_size :: nat
  cfg_filestore_size :: nat
  cfg_vfsroot :: path
  cfg_journal_type :: JournalType

record Journal =
  header :: JournalHeader
  jsize :: nat
  jfile :: bfile
  jsync :: bool
  last_time :: nat
  fstore :: FileStore

definition align_up_always :: "nat \<Rightarrow> nat \<Rightarrow> nat" where
  "align_up_always off align = (off div align + 1) * align"

definition align_down :: "nat \<Rightarrow> nat \<Rightarrow> nat" where
  "align_down off align = unat ((of_nat off :: u64) AND NOT (of_nat align - 1))"

definition file_off :: "'a codec \<Rightarrow> Journal \<Rightarrow> nat \<Rightarrow> nat result" where
  "file_off c j off = (if jsize j = 0
     then Inl (Panicked ''attempt to calculate the remainder with a divisor of zero'')
     else Inr (header_size c + off mod jsize j))"

definition bincode_result :: "'a option \<Rightarrow> 'a result" where
  "bincode_result x = (case x of None \<Rightarrow> Inl (IoErr (Other ''bincode'')) | Some v \<Rightarrow> Inr v)"

lemma bincode_result_simps [simp, result_simps]:
  "bincode_result None = Inl (IoErr (Other ''bincode''))" "bincode_result (Some v) = Inr v"
  by (simp_all add: bincode_result_def)

text \<open>A positioned read in the ring.\<close>

definition ring_read :: "'a codec \<Rightarrow> Journal \<Rightarrow> nat \<Rightarrow> nat \<Rightarrow> bytes result" where
  "ring_read c j off n = rbind (file_off c j off) (\<lambda>o'. read_exact_at (jfile j) o' n)"

section \<open>Writing\<close>

definition write_header :: "'a codec \<Rightarrow> Journal \<Rightarrow> Journal result" where
  "write_header c j = rbind (write_all_at (jfile j) 0 (ser_header c (header j)))
     (\<lambda>f. Inr (j\<lparr>jfile := f\<rparr>))"

text \<open>
  The part of \<open>write_inner\<close> that runs when the entry does not fit into the current block:
  mark the rest as unused, move the tail to the next block, drop the oldest block when the
  ring is full, and write the header.
\<close>

definition next_block :: "'a codec \<Rightarrow> Journal \<Rightarrow> nat \<Rightarrow> Journal result" where
  "next_block c j space_in_block =
     rbind (if 4 \<le> space_in_block then
              rbind (file_off c j (tail (header j))) (\<lambda>o'.
              rbind (write_all_at (jfile j) o' [0, 0, 0, 0]) (\<lambda>f. Inr (j\<lparr>jfile := f\<rparr>)))
            else Inr j)
       (\<lambda>j1. let h1 = (header j1)\<lparr>tail := align_up_always (tail (header j1)) BLOCK_SIZE\<rparr>;
                h2 = (if head h1 + jsize j1 = tail h1 then h1\<lparr>head := head h1 + BLOCK_SIZE\<rparr> else h1)
            in write_header c (j1\<lparr>header := h2\<rparr>))"

text \<open>The bytes of an entry: its encoding with the last four bytes replaced by the checksum.\<close>

definition entry_bytes :: "'a codec \<Rightarrow> 'a StoreEntry \<Rightarrow> bytes" where
  "entry_bytes c e =
     (let sbuf = take (length (ser_entry c e) - 4) (ser_entry c e)
      in sbuf @ le32 (checksum_ieee c sbuf))"

definition write_inner :: "'a codec \<Rightarrow> Journal \<Rightarrow> 'a StoreEntry \<Rightarrow> Journal result" where
  "write_inner c j e =
     (let esize = length (ser_entry c e) in
      rbind (require (esize < BLOCK_SIZE) ''Journal is too small for this entry'') (\<lambda>_.
      let e1 = e\<lparr>fsize := of_nat esize\<rparr>;
          space_in_block = align_up_always (tail (header j)) BLOCK_SIZE - tail (header j) in
      rbind (if space_in_block < esize then next_block c j space_in_block else Inr j) (\<lambda>j1.
      rbind (file_off c j1 (tail (header j1))) (\<lambda>o'.
      rbind (write_all_at (jfile j1) o' (entry_bytes c e1)) (\<lambda>f.
        Inr (j1\<lparr>jfile := f,
                header := (header j1)\<lparr>tail := tail (header j1) + esize,
                                      trans_ctr := trans_ctr (header j1) + 1\<rparr>\<rparr>))))))"

definition write_entry :: "'a codec \<Rightarrow> Journal \<Rightarrow> nat \<Rightarrow> 'a \<Rightarrow> Journal result" where
  "write_entry c j now entry =
     rbind (require (last_time j \<le> now) ''System clock anomaly'') (\<lambda>_.
     rbind (if now - last_time j > 1000000000 then
              rbind (write_inner c j \<lparr>fsize = 0, trans_id = trans_ctr (header j), inner = Time now, crc32 = 0\<rparr>)
                (\<lambda>j1. Inr (j1\<lparr>last_time := now\<rparr>))
            else Inr j)
       (\<lambda>j1. write_inner c j1
          \<lparr>fsize = 0, trans_id = trans_ctr (header j1), inner = Payload entry, crc32 = 0\<rparr>))"

section \<open>Creation and recovery\<close>

definition ring_size :: "'a codec \<Rightarrow> bfile \<Rightarrow> nat" where
  "ring_size c f = align_down (usize_sub (flen f) (header_size c)) BLOCK_SIZE"

definition journal_new :: "'a codec \<Rightarrow> bfile \<Rightarrow> JournalConfig \<Rightarrow> nat \<Rightarrow> sfs \<Rightarrow> (Journal \<times> sfs) result" where
  "journal_new c f cfg now d =
     rbind (filestore_new (cfg_vfsroot cfg) (cfg_filestore_size cfg) d) (\<lambda>(fst', d1).
       Inr (\<lparr>header = \<lparr>tail = 0, head = 0, trans_ctr = 0, ty = cfg_journal_type cfg\<rparr>,
             jsize = ring_size c f, jfile = f, jsync = cfg_sync cfg, last_time = now, fstore = fst'\<rparr>, d1))"

lemma align_up_always_gt: "0 < align \<Longrightarrow> off < align_up_always off align"
  by (simp add: align_up_always_def) (metis dividend_less_div_times add.commute)

lemma BLOCK_SIZE_pos [simp]: "0 < BLOCK_SIZE"
  by (simp add: BLOCK_SIZE_def)

text \<open>
  The recovery loop of \<open>open\<close>: from the tail in the header, follow entries while the
  transaction numbers continue.  The new tail is advanced before the number is compared.
\<close>

function recover :: "'a codec \<Rightarrow> Journal \<Rightarrow> nat \<Rightarrow> int \<Rightarrow> (nat \<times> int) result" where
  "recover c j new_tail tx_max =
     (if align_up_always (tail (header j)) BLOCK_SIZE < new_tail then Inr (new_tail, tx_max)
      else if align_up_always new_tail BLOCK_SIZE - new_tail < 4 then Inr (new_tail, tx_max)
      else (case ring_read c j new_tail 4 of Inl e \<Rightarrow> Inl e | Inr b \<Rightarrow>
        if rd32 b = 0 then Inr (new_tail, tx_max)
        else (case rbind (file_off c j new_tail) (\<lambda>o'. read_exact_at (jfile j) (o' + 4) 4) of
            Inl e \<Rightarrow> Inl e
          | Inr t \<Rightarrow>
            if rd32 t \<noteq> word_of_int (tx_max + 1) then Inr (new_tail + unat (rd32 b), tx_max)
            else recover c j (new_tail + unat (rd32 b)) (uint (rd32 t)))))"
  by pat_completeness auto
termination
  by (relation "measure (\<lambda>(c, j, new_tail, tx). align_up_always (tail (header j)) BLOCK_SIZE + 1 - new_tail)")
    (auto simp: unat_gt_0 intro!: diff_less_mono2)

declare recover.simps [simp del]

definition journal_open :: "'a codec \<Rightarrow> bfile \<Rightarrow> JournalConfig \<Rightarrow> nat \<Rightarrow> sfs \<Rightarrow> (Journal \<times> sfs) result" where
  "journal_open c f cfg now d =
     rbind (bincode_result (deser_header c (fdata f))) (\<lambda>h.
     if cfg_journal_type cfg \<noteq> JT_Invalid \<and> ty h \<noteq> cfg_journal_type cfg
     then Inl (IoErr (Other ''Journal type on disk does not match requested''))
     else
     rbind (filestore_new (cfg_vfsroot cfg) (cfg_filestore_size cfg) d) (\<lambda>(fst', d1).
     let j = \<lparr>header = h, jsize = ring_size c f, jfile = f, jsync = cfg_sync cfg, last_time = now, fstore = fst'\<rparr> in
     rbind (recover c j (tail h) (uint (trans_ctr h) - 1)) (\<lambda>(new_tail, tx_max).
       Inr (j\<lparr>header := h\<lparr>tail := new_tail, trans_ctr := word_of_int (tx_max + 1)\<rparr>\<rparr>, d1))))"

section \<open>Reading forward\<close>

text \<open>
  One step of the forward iterator: nothing at the tail; otherwise the next entry (or an
  error) and the advanced header copy.
\<close>

definition skip_unused :: "'a codec \<Rightarrow> Journal \<Rightarrow> nat \<Rightarrow> nat result" where
  "skip_unused c j p =
     (let up = align_up_always p BLOCK_SIZE in
      if up - p < 4 then Inr up
      else rmap (\<lambda>b. if b = [0, 0, 0, 0] then up else p) (ring_read c j p 4))"

definition read_entry :: "'a codec \<Rightarrow> Journal \<Rightarrow> nat \<Rightarrow> 'a StoreEntry result" where
  "read_entry c j p =
     rbind (ring_read c j p 4) (\<lambda>b.
     rbind (ring_read c j p (unat (rd32 b))) (\<lambda>buf. bincode_result (deser_entry c buf)))"

definition forward_next :: "'a codec \<Rightarrow> Journal \<Rightarrow> JournalHeader \<Rightarrow> 'a StoreEntry result option \<times> JournalHeader" where
  "forward_next c j h =
     (if head h = tail h then (None, h)
      else case skip_unused c j (head h) of
        Inl e \<Rightarrow> (Some (Inl e), h)
      | Inr p \<Rightarrow> (case read_entry c j p of
          Inl e \<Rightarrow> (Some (Inl e), h\<lparr>head := p\<rparr>)
        | Inr e \<Rightarrow> (Some (Inr e), h\<lparr>head := p + unat (fsize e)\<rparr>)))"

text \<open>
  Consuming the iterator, as the viewer and the snapshot merge do: the entries until the end,
  or the first error.  \<open>None\<close> when the fuel runs out.
\<close>

fun forward_all :: "nat \<Rightarrow> 'a codec \<Rightarrow> Journal \<Rightarrow> JournalHeader \<Rightarrow> 'a StoreEntry list result option" where
  "forward_all 0 c j h = None"
| "forward_all (Suc n) c j h = (case forward_next c j h of
       (None, _) \<Rightarrow> Some (Inr [])
     | (Some (Inl e), _) \<Rightarrow> Some (Inl e)
     | (Some (Inr e), h') \<Rightarrow> map_option (rmap (\<lambda>es. e # es)) (forward_all n c j h'))"

definition read_forward :: "nat \<Rightarrow> 'a codec \<Rightarrow> Journal \<Rightarrow> 'a StoreEntry list result option" where
  "read_forward n c j = forward_all n c j (header j)"

section \<open>Reading in reverse\<close>

text \<open>
  The reverse iterator decodes a whole block into a buffer, checking sizes and checksums, and
  pops entries from its end.  The decoding loop has fuel; \<open>None\<close> when it runs out.
\<close>

definition check_entry :: "'a codec \<Rightarrow> Journal \<Rightarrow> nat \<Rightarrow> nat \<Rightarrow> 'a StoreEntry result" where
  "check_entry c j p sz =
     (if align_up_always p BLOCK_SIZE - p < sz then Inl (IoErr (Other ''Entry too large''))
      else rbind (ring_read c j p sz) (\<lambda>buf.
        rbind (require (4 \<le> length buf) ''attempt to subtract with overflow'') (\<lambda>_.
        if rd32 (drop (length buf - 4) buf) \<noteq> checksum_ieee c (take (length buf - 4) buf)
        then Inl (IoErr (Other ''Entry checksum mismatch''))
        else bincode_result (deser_entry c buf))))"

fun decode_block :: "nat \<Rightarrow> 'a codec \<Rightarrow> Journal \<Rightarrow> nat \<Rightarrow> nat \<Rightarrow> 'a StoreEntry list \<Rightarrow> 'a StoreEntry list result option" where
  "decode_block 0 c j tp p acc = None"
| "decode_block (Suc n) c j tp p acc =
     (if usize_sub tp p < 4 then Some (Inr acc)
      else case ring_read c j p 4 of Inl e \<Rightarrow> Some (Inl e)
      | Inr b \<Rightarrow>
        if b = [0, 0, 0, 0] then Some (Inr acc)
        else (case check_entry c j p (unat (rd32 b)) of Inl e \<Rightarrow> Some (Inl e)
          | Inr e \<Rightarrow> decode_block n c j tp (p + unat (rd32 b)) (acc @ [e])))"

definition block_start :: "nat \<Rightarrow> nat" where
  "block_start tp = (if tp mod BLOCK_SIZE \<noteq> 0 then align_down tp BLOCK_SIZE else tp - BLOCK_SIZE)"

definition pop_entry :: "JournalHeader \<Rightarrow> 'a StoreEntry list \<Rightarrow>
    'a StoreEntry result option \<times> JournalHeader \<times> 'a StoreEntry list" where
  "pop_entry h bb = (if bb = [] then (None, h, []) else (Some (Inr (last bb)), h, butlast bb))"

definition reverse_next :: "nat \<Rightarrow> 'a codec \<Rightarrow> Journal \<Rightarrow> JournalHeader \<Rightarrow> 'a StoreEntry list \<Rightarrow>
    ('a StoreEntry result option \<times> JournalHeader \<times> 'a StoreEntry list) option" where
  "reverse_next n c j h bb =
     (if bb \<noteq> [] then Some (pop_entry h bb)
      else if head h = tail h \<or> tail h = 0 then Some (None, h, [])
      else map_option (\<lambda>r. case r of
          Inl e \<Rightarrow> (Some (Inl e), h, [])
        | Inr bb' \<Rightarrow>
            pop_entry (if tail h mod BLOCK_SIZE \<noteq> 0 then h\<lparr>tail := align_down (tail h) BLOCK_SIZE\<rparr>
                       else if tail h \<noteq> 0 \<and> tail h \<noteq> head h then h\<lparr>tail := tail h - BLOCK_SIZE\<rparr> else h) bb')
        (decode_block n c j (tail h) (block_start (tail h)) []))"

fun reverse_all :: "nat \<Rightarrow> nat \<Rightarrow> 'a codec \<Rightarrow> Journal \<Rightarrow> JournalHeader \<Rightarrow> 'a StoreEntry list \<Rightarrow>
    'a StoreEntry list result option" where
  "reverse_all 0 m c j h bb = None"
| "reverse_all (Suc n) m c j h bb = (case reverse_next m c j h bb of
       None \<Rightarrow> None
     | Some (None, _, _) \<Rightarrow> Some (Inr [])
     | Some (Some (Inl e), _, _) \<Rightarrow> Some (Inl e)
     | Some (Some (Inr e), h', bb') \<Rightarrow> map_option (rmap (\<lambda>es. e # es)) (reverse_all n m c j h' bb'))"

definition read_reverse :: "nat \<Rightarrow> nat \<Rightarrow> 'a codec \<Rightarrow> Journal \<Rightarrow> 'a StoreEntry list result option" where
  "read_reverse n m c j = reverse_all n m c j (header j) []"

definition journal_type :: "Journal \<Rightarrow> JournalType" where
  "journal_type j = ty (header j)"

section \<open>Journalling an entry of the bidirectional log\<close>

text \<open>\<open>BilogEntry::journal\<close> stores the file first and records its token.\<close>

definition bilog_journal :: "BilogEntry codec \<Rightarrow> Journal \<Rightarrow> sfs \<Rightarrow> nat \<Rightarrow> BilogEntry \<Rightarrow> (Journal \<times> sfs) result" where
  "bilog_journal c j d now e = (case e of
       BE_filestore p _ \<Rightarrow>
         rbind (filestore_store (fstore j) d p) (\<lambda>(token, fs', d1).
           rmap (\<lambda>j'. (j', d1)) (write_entry c (j\<lparr>fstore := fs'\<rparr>) now (BE_filestore p (of_nat token))))
     | _ \<Rightarrow> rmap (\<lambda>j'. (j', d)) (write_entry c j now e))"

end
