(* ===== verification/StoreLaws.thy ===== *)
theory StoreLaws
  imports Store
begin

unbundle bit_operations_syntax

text \<open>
  Correctness of the journal.  The abstract state of a journal is the list of entries between
  its head and its tail; \<open>log_seg\<close> relates a range of the ring to the entries it holds.
  Shown here: reading forward gives exactly that list, reading in reverse gives it backwards,
  writing appends to it and gives up whole blocks at the front only when the ring is full, and
  recovery finds the tail again.
\<close>

section \<open>What is assumed of the encoding\<close>

text \<open>
  \<open>bincode\<close> writes the fields of a struct in order and 32-bit integers as four
  little-endian bytes, decodes what it encoded, and gives a header a fixed size.
\<close>

definition codec_ok :: "'a codec \<Rightarrow> bool" where
  "codec_ok c \<longleftrightarrow>
     (\<exists>body. \<forall>e. ser_entry c e = le32 (fsize e) @ le32 (trans_id e) @ body (inner e) @ le32 (crc32 e)) \<and>
     (\<forall>e. deser_entry c (ser_entry c e) = Some e) \<and>
     (\<forall>h. length (ser_header c h) = header_size c)"

definition sealed :: "'a codec \<Rightarrow> 'a StoreEntry \<Rightarrow> 'a StoreEntry" where
  "sealed c e = e\<lparr>crc32 := checksum_ieee c (take (length (ser_entry c e) - 4) (ser_entry c e))\<rparr>"

lemma codec_okE:
  assumes "codec_ok c"
  obtains body where
    "\<And>e. ser_entry c e = le32 (fsize e) @ le32 (trans_id e) @ body (inner e) @ le32 (crc32 e)"
    "\<And>e. deser_entry c (ser_entry c e) = Some e"
    "\<And>h. length (ser_header c h) = header_size c"
  using assms by (auto simp: codec_ok_def)

lemma codec_layout:
  assumes "codec_ok c"
  obtains body where
    "\<And>e. ser_entry c e = le32 (fsize e) @ le32 (trans_id e) @ body (inner e) @ le32 (crc32 e)"
  using assms by (auto simp: codec_ok_def)

lemma deser_ser [simp]: "codec_ok c \<Longrightarrow> deser_entry c (ser_entry c e) = Some e"
  by (simp add: codec_ok_def)

lemma length_ser_header [simp]: "codec_ok c \<Longrightarrow> length (ser_header c h) = header_size c"
  by (simp add: codec_ok_def)

lemma entry_bytes_sealed: "codec_ok c \<Longrightarrow> entry_bytes c e = ser_entry c (sealed c e)"
  by (erule codec_layout) (simp add: entry_bytes_def sealed_def Let_def)

lemma ser_entry_length: "codec_ok c \<Longrightarrow> 12 \<le> length (ser_entry c e)"
  by (erule codec_layout) simp

lemma length_ser_entry_upd [simp]:
  assumes "codec_ok c"
  shows "length (ser_entry c (e\<lparr>fsize := a\<rparr>)) = length (ser_entry c e)"
    and "length (ser_entry c (e\<lparr>crc32 := k\<rparr>)) = length (ser_entry c e)"
  using assms by (auto elim!: codec_layout)

lemma length_ser_sealed [simp]: "codec_ok c \<Longrightarrow> length (ser_entry c (sealed c e)) = length (ser_entry c e)"
  by (simp add: sealed_def)

lemma take4_ser_entry: "codec_ok c \<Longrightarrow> take 4 (ser_entry c e) = le32 (fsize e)"
  by (erule codec_layout) simp

lemma take4_drop4_ser_entry: "codec_ok c \<Longrightarrow> take 4 (drop 4 (ser_entry c e)) = le32 (trans_id e)"
  by (erule codec_layout) simp

lemma last4_ser_entry:
  "codec_ok c \<Longrightarrow> drop (length (ser_entry c e) - 4) (ser_entry c e) = le32 (crc32 e)"
  by (erule codec_layout) simp

lemma front_sealed:
  "codec_ok c \<Longrightarrow> take (length (ser_entry c e) - 4) (ser_entry c (sealed c e))
     = take (length (ser_entry c e) - 4) (ser_entry c e)"
  by (erule codec_layout) (simp add: sealed_def)

lemma sealed_simps [simp]:
  "fsize (sealed c e) = fsize e" "trans_id (sealed c e) = trans_id e" "inner (sealed c e) = inner e"
  by (simp_all add: sealed_def)

section \<open>Blocks\<close>

lemma align_up_eq: "align_up_always p BLOCK_SIZE = p - p mod BLOCK_SIZE + BLOCK_SIZE"
  by (simp add: align_up_always_def minus_mod_eq_div_mult)

lemma align_up_dvd: "BLOCK_SIZE dvd align_up_always p BLOCK_SIZE"
  by (simp add: align_up_always_def)

lemma space_in_block: "align_up_always p BLOCK_SIZE - p = BLOCK_SIZE - p mod BLOCK_SIZE"
  using mod_less_eq_dividend [of p BLOCK_SIZE] mod_less_divisor [of BLOCK_SIZE p]
  by (simp add: align_up_eq)

lemma align_up_bounds: "p < align_up_always p BLOCK_SIZE" "align_up_always p BLOCK_SIZE \<le> p + BLOCK_SIZE"
  unfolding align_up_eq
  using mod_less_eq_dividend [of p BLOCK_SIZE] mod_less_divisor [OF BLOCK_SIZE_pos, of p]
  by linarith+

text \<open>The next boundary is the least one above: a boundary above the offset is at or after it.\<close>

lemma align_up_least:
  assumes "p < x" "BLOCK_SIZE dvd x"
  shows "align_up_always p BLOCK_SIZE \<le> x"
proof -
  obtain k where x: "x = k * BLOCK_SIZE"
    using assms(2) by (metis dvdE mult.commute)
  have "p div BLOCK_SIZE < k"
    using assms(1) x by (simp add: less_mult_imp_div_less)
  then have "(p div BLOCK_SIZE + 1) * BLOCK_SIZE \<le> k * BLOCK_SIZE"
    by (intro mult_le_mono1) simp
  then show ?thesis by (simp add: align_up_always_def x)
qed

lemma fits_below:
  assumes "p mod BLOCK_SIZE + n \<le> BLOCK_SIZE" "p < x" "BLOCK_SIZE dvd x"
  shows "p + n \<le> x"
  using align_up_least [OF assms(2,3)] assms(1) mod_less_eq_dividend [of p BLOCK_SIZE]
  by (simp add: align_up_eq)

lemma mod_window:
  fixes a b w s :: nat
  assumes "w \<le> a" "a < w + s" "w \<le> b" "b < w + s" "a mod s = b mod s"
  shows "a = b"
proof (rule ccontr)
  assume ne: "a \<noteq> b"
  have "s dvd (max a b - min a b)"
    using assms(5) by (metis max_def min_def mod_eq_dvd_iff_nat nat_le_linear)
  moreover have "0 < max a b - min a b" "max a b - min a b < s"
    using assms ne by (auto simp: max_def min_def)
  ultimately show False
    using dvd_imp_le leD by blast
qed

section \<open>The ring\<close>

definition ring_ok :: "'a codec \<Rightarrow> Journal \<Rightarrow> bool" where
  "ring_ok c j \<longleftrightarrow> 0 < jsize j \<and> BLOCK_SIZE dvd jsize j \<and> header_size c + jsize j \<le> flen (jfile j)
     \<and> no_fault (jfile j)"

definition ring_byte :: "'a codec \<Rightarrow> Journal \<Rightarrow> nat \<Rightarrow> u8" where
  "ring_byte c j q = fbyte (jfile j) (header_size c + q mod jsize j)"

lemma ring_mod_add:
  assumes "0 < s" "BLOCK_SIZE dvd s" "p mod BLOCK_SIZE + n \<le> BLOCK_SIZE"
  shows "p mod s + n \<le> s" "i < n \<Longrightarrow> (p + i) mod s = p mod s + i"
proof -
  have m: "p mod s mod BLOCK_SIZE = p mod BLOCK_SIZE"
    using assms(2) by (rule mod_mod_cancel)
  show le: "p mod s + n \<le> s"
    using fits_below [of "p mod s" n s] assms m by simp
  show "i < n \<Longrightarrow> (p + i) mod s = p mod s + i"
    using le by (metis add_less_mono1 add.commute less_le_trans mod_add_left_eq mod_less)
qed

lemma file_off_ring: "ring_ok c j \<Longrightarrow> file_off c j p = Inr (header_size c + p mod jsize j)"
  by (simp add: ring_ok_def file_off_def)

lemma ring_read_ok:
  assumes "ring_ok c j" "p mod BLOCK_SIZE + n \<le> BLOCK_SIZE"
  shows "ring_read c j p n = Inr (map (ring_byte c j) [p..<p + n])"
proof -
  let ?s = "jsize j" and ?o = "header_size c + p mod jsize j"
  have s: "0 < ?s" "BLOCK_SIZE dvd ?s" "header_size c + ?s \<le> flen (jfile j)" "no_fault (jfile j)"
    using assms(1) by (simp_all add: ring_ok_def)
  have "map (fbyte (jfile j)) [?o..<?o + n] = map (ring_byte c j) [p..<p + n]"
    using ring_mod_add(2) [OF s(1,2) assms(2)]
    by (intro nth_equalityI) (auto simp: ring_byte_def add.assoc)
  moreover have "?o + n \<le> flen (jfile j)"
    using ring_mod_add(1) [OF s(1,2) assms(2)] s(3) by simp
  ultimately show ?thesis
    using s by (simp add: ring_read_def file_off_ring [OF assms(1)] bf.rd_in)
qed

text \<open>Writing into a block changes exactly the bytes of that range of the log.\<close>

definition ring_put :: "'a codec \<Rightarrow> Journal \<Rightarrow> nat \<Rightarrow> bytes \<Rightarrow> Journal" where
  "ring_put c j p b = j\<lparr>jfile := fput (jfile j) (header_size c + p mod jsize j) b\<rparr>"

lemma ring_put_simps [simp]:
  "jsize (ring_put c j p b) = jsize j" "header (ring_put c j p b) = header j"
  "last_time (ring_put c j p b) = last_time j" "fstore (ring_put c j p b) = fstore j"
  by (simp_all add: ring_put_def)

lemma ring_ok_put: "ring_ok c j \<Longrightarrow> ring_ok c (ring_put c j p b)"
  by (auto simp: ring_ok_def ring_put_def bf.good_put bf.len_put)

lemma ring_byte_put:
  assumes "ring_ok c j" "p mod BLOCK_SIZE + length b \<le> BLOCK_SIZE"
    and "w \<le> p" "p + length b \<le> w + jsize j" "w \<le> q" "q < w + jsize j"
  shows "ring_byte c (ring_put c j p b) q =
    (if p \<le> q \<and> q < p + length b then b ! (q - p) else ring_byte c j q)"
proof -
  let ?s = "jsize j"
  have s: "0 < ?s" "BLOCK_SIZE dvd ?s"
    using assms(1) by (simp_all add: ring_ok_def)
  note add = ring_mod_add(2) [OF s assms(2)]
  show ?thesis
  proof (cases "p \<le> q \<and> q < p + length b")
    case True
    then obtain i where q: "q = p + i" and i: "i < length b"
      by (metis le_iff_add nat_add_left_cancel_less)
    then show ?thesis
      using add [OF i] by (simp add: ring_byte_def ring_put_def bf.byte_put)
  next
    case False
    have "\<not> (p mod ?s \<le> q mod ?s \<and> q mod ?s < p mod ?s + length b)"
    proof
      assume a: "p mod ?s \<le> q mod ?s \<and> q mod ?s < p mod ?s + length b"
      define i where "i = q mod ?s - p mod ?s"
      have i: "i < length b" "q mod ?s = (p + i) mod ?s"
        using a add [of i] by (auto simp: i_def)
      then have "q = p + i"
        using mod_window [of w q ?s "p + i"] assms by simp
      then show False using False i by simp
    qed
    then show ?thesis
      using False by (auto simp: ring_byte_def ring_put_def bf.byte_put)
  qed
qed

lemma ring_write:
  assumes "ring_ok c j"
  shows "rbind (file_off c j p) (\<lambda>o'. rbind (write_all_at (jfile j) o' b) (\<lambda>f. Inr (j\<lparr>jfile := f\<rparr>)))
    = Inr (ring_put c j p b)"
  using assms by (simp add: file_off_ring ring_put_def ring_ok_def bf.wr_put)

section \<open>Ranges of the log\<close>

text \<open>
  \<open>stored\<close>: the entry's bytes are at the offset, inside one block, with its own size and a
  valid checksum.  \<open>entry_pos\<close>: where the entry that follows an offset is: there, or at the
  next block when the rest of this one (never a whole block) is unused.
\<close>

definition stored :: "'a codec \<Rightarrow> Journal \<Rightarrow> nat \<Rightarrow> 'a StoreEntry \<Rightarrow> bool" where
  "stored c j p e \<longleftrightarrow>
     unat (fsize e) = length (ser_entry c e) \<and>
     p mod BLOCK_SIZE + unat (fsize e) \<le> BLOCK_SIZE \<and>
     map (ring_byte c j) [p..<p + unat (fsize e)] = ser_entry c e \<and>
     crc32 e = checksum_ieee c (take (length (ser_entry c e) - 4) (ser_entry c e))"

definition unused_from :: "'a codec \<Rightarrow> Journal \<Rightarrow> nat \<Rightarrow> bool" where
  "unused_from c j h \<longleftrightarrow> align_up_always h BLOCK_SIZE - h < 4 \<or>
     (\<forall>i<4. ring_byte c j (h + i) = 0)"

definition entry_pos :: "'a codec \<Rightarrow> Journal \<Rightarrow> nat \<Rightarrow> nat \<Rightarrow> bool" where
  "entry_pos c j h p \<longleftrightarrow> p = h \<or>
     p = align_up_always h BLOCK_SIZE \<and> unused_from c j h \<and> \<not> BLOCK_SIZE dvd h"

inductive log_seg :: "'a codec \<Rightarrow> Journal \<Rightarrow> nat \<Rightarrow> 'a StoreEntry list \<Rightarrow> nat \<Rightarrow> bool"
  for c j where
  seg_nil: "log_seg c j h [] h"
| seg_cons: "entry_pos c j h p \<Longrightarrow> stored c j p e \<Longrightarrow> log_seg c j (p + unat (fsize e)) es t
    \<Longrightarrow> log_seg c j h (e # es) t"

inductive_cases seg_nilE [elim!]: "log_seg c j h [] t"
inductive_cases seg_consE: "log_seg c j h (e # es) t"

lemma stored_size: "codec_ok c \<Longrightarrow> stored c j p e \<Longrightarrow> 12 \<le> unat (fsize e)"
  using ser_entry_length by (simp add: stored_def)

lemma entry_pos_ge: "entry_pos c j h p \<Longrightarrow> h \<le> p"
  using align_up_bounds(1) [of h] by (auto simp: entry_pos_def)

lemma log_seg_le: "log_seg c j h es t \<Longrightarrow> h \<le> t"
proof (induction rule: log_seg.induct)
  case (seg_cons h p e es t)
  then show ?case using entry_pos_ge by fastforce
qed simp

lemma log_seg_append:
  "log_seg c j h es t \<Longrightarrow> log_seg c j t es' u \<Longrightarrow> log_seg c j h (es @ es') u"
  by (induction rule: log_seg.induct) (auto intro: log_seg.intros)

lemma log_seg_snoc:
  "log_seg c j h es t \<Longrightarrow> entry_pos c j t p \<Longrightarrow> stored c j p e \<Longrightarrow> log_seg c j h (es @ [e]) (p + unat (fsize e))"
  by (erule log_seg_append) (auto intro: log_seg.intros)

text \<open>A range depends on its own bytes only.\<close>

lemma stored_cong:
  assumes "stored c j p e" "\<And>q. p \<le> q \<Longrightarrow> q < p + unat (fsize e) \<Longrightarrow> ring_byte c j' q = ring_byte c j q"
  shows "stored c j' p e"
proof -
  have "map (ring_byte c j') [p..<p + unat (fsize e)] = map (ring_byte c j) [p..<p + unat (fsize e)]"
    using assms(2) by simp
  then show ?thesis using assms(1) unfolding stored_def by metis
qed

lemma unused_from_cong:
  assumes "unused_from c j h" "\<And>q. h \<le> q \<Longrightarrow> q < align_up_always h BLOCK_SIZE \<Longrightarrow> ring_byte c j' q = ring_byte c j q"
  shows "unused_from c j' h"
proof (cases "align_up_always h BLOCK_SIZE - h < 4")
  case True
  then show ?thesis by (simp add: unused_from_def)
next
  case False
  then have "\<forall>i<4. ring_byte c j' (h + i) = ring_byte c j (h + i)"
    using assms(2) by auto
  then show ?thesis using assms(1) False by (simp add: unused_from_def)
qed

lemma log_seg_cong:
  assumes "log_seg c j h es t"
    and "\<And>q. h \<le> q \<Longrightarrow> q < t \<Longrightarrow> ring_byte c j' q = ring_byte c j q"
  shows "log_seg c j' h es t"
  using assms
proof (induction rule: log_seg.induct)
  case (seg_nil h)
  show ?case by (rule log_seg.seg_nil)
next
  case (seg_cons h p e es t)
  have le: "h \<le> p" "p + unat (fsize e) \<le> t"
    using seg_cons(1,3) by (auto dest: entry_pos_ge log_seg_le)
  have pos: "entry_pos c j' h p"
  proof (cases "p = h")
    case False
    then have "p = align_up_always h BLOCK_SIZE" "unused_from c j h" "\<not> BLOCK_SIZE dvd h"
      using seg_cons(1) by (auto simp: entry_pos_def)
    then show ?thesis
      using unused_from_cong [of c j h j'] seg_cons.prems le by (auto simp: entry_pos_def)
  qed (simp add: entry_pos_def)
  have "stored c j' p e"
    using seg_cons(2) by (rule stored_cong) (use seg_cons.prems le in auto)
  moreover have "log_seg c j' (p + unat (fsize e)) es t"
    using seg_cons.prems le by (intro seg_cons.IH) auto
  ultimately show ?case
    using pos by (intro log_seg.seg_cons)
qed

text \<open>Entries do not cross a boundary, so a range can be cut at one.\<close>

lemma log_seg_cut:
  assumes "log_seg c j h es t" "h \<le> x" "x - BLOCK_SIZE \<le> h" "BLOCK_SIZE dvd x" "x \<le> t"
  shows "\<exists>es1 es2. es = es1 @ es2 \<and> log_seg c j x es2 t"
  using assms
proof (induction rule: log_seg.induct)
  case (seg_nil h)
  then have "h = x" by simp
  then show ?case by (auto intro: log_seg.seg_nil)
next
  case (seg_cons h p e es t)
  show ?case
  proof (cases "h = x")
    case True
    then have "log_seg c j x (e # es) t"
      using seg_cons(1-3) by (auto intro: log_seg.seg_cons)
    then show ?thesis by (metis append_Nil)
  next
    case False
    then have hx: "h < x" using seg_cons.prems by simp
    show ?thesis
    proof (cases "p = h")
      case True
      then have px: "p < x" using hx by simp
      have "p + unat (fsize e) \<le> x"
        using fits_below [OF _ px seg_cons.prems(3)] seg_cons(2) unfolding stored_def by blast
      moreover have "x - BLOCK_SIZE \<le> p + unat (fsize e)"
        using seg_cons.prems(2) True by simp
      ultimately obtain es1 es2 where "es = es1 @ es2" "log_seg c j x es2 t"
        using seg_cons.IH seg_cons.prems(3,4) by blast
      then show ?thesis by (metis append_Cons)
    next
      case False
      then have p: "p = align_up_always h BLOCK_SIZE"
        using seg_cons(1) by (simp add: entry_pos_def)
      have "p = x"
      proof (rule antisym)
        show "p \<le> x" using align_up_least [OF hx] seg_cons.prems p by simp
        have "x - BLOCK_SIZE \<le> h" by (rule seg_cons.prems)
        then have "x - BLOCK_SIZE < p" using align_up_bounds(1) [of h] p by simp
        moreover have "BLOCK_SIZE dvd p" using p align_up_dvd by simp
        ultimately show "x \<le> p"
          using align_up_least [of p x] seg_cons.prems(3) by (cases "p < x") (auto simp: align_up_eq)
      qed
      then have "log_seg c j x (e # es) t"
        using seg_cons by (auto intro: log_seg.seg_cons simp: entry_pos_def)
      then show ?thesis by (metis append_Nil)
    qed
  qed
qed

section \<open>Reading\<close>

lemma stored_read4:
  assumes "codec_ok c" "ring_ok c j" "stored c j p e"
  shows "ring_read c j p 4 = Inr (le32 (fsize e))"
proof -
  let ?n = "unat (fsize e)"
  have n: "12 \<le> ?n" and m: "p mod BLOCK_SIZE + ?n \<le> BLOCK_SIZE"
    and bytes: "map (ring_byte c j) [p..<p + ?n] = ser_entry c e"
    using assms stored_size [OF assms(1,3)] by (auto simp: stored_def)
  have "map (ring_byte c j) [p..<p + 4] = take 4 (map (ring_byte c j) [p..<p + ?n])"
    using n by (simp add: take_map)
  then show ?thesis
    using ring_read_ok [OF assms(2), of p 4] n m bytes take4_ser_entry [OF assms(1)] by simp
qed

lemma stored_read_all:
  assumes "ring_ok c j" "stored c j p e"
  shows "ring_read c j p (unat (fsize e)) = Inr (ser_entry c e)"
  using assms(2) ring_read_ok [OF assms(1), of p "unat (fsize e)"] unfolding stored_def by metis

lemma stored_read_entry:
  assumes "codec_ok c" "ring_ok c j" "stored c j p e"
  shows "read_entry c j p = Inr e"
  using assms stored_read4 [OF assms] stored_read_all [OF assms(2,3)] by (simp add: read_entry_def)

lemma le32_nonzero: "codec_ok c \<Longrightarrow> stored c j p e \<Longrightarrow> le32 (fsize e) \<noteq> [0, 0, 0, 0]"
  using stored_size [of c j p e] le32_eq_zero [of "fsize e"] by auto

lemma zeros4: "\<forall>i<4. ring_byte c j (h + i) = 0 \<Longrightarrow> map (ring_byte c j) [h..<h + 4] = [0, 0, 0, 0]"
  by (intro nth_equalityI) (auto simp: less_Suc_eq numeral_eq_Suc nth_Cons')

lemma entry_pos_skip:
  assumes "codec_ok c" "ring_ok c j" "entry_pos c j h p" "stored c j p e"
  shows "skip_unused c j h = Inr p"
proof (cases "p = h")
  case True
  have "12 \<le> BLOCK_SIZE - h mod BLOCK_SIZE"
    using assms(4) stored_size [OF assms(1,4)] True by (auto simp: stored_def)
  then show ?thesis
    using True stored_read4 [OF assms(1,2,4)] le32_nonzero [OF assms(1,4)]
    by (simp add: skip_unused_def Let_def space_in_block)
next
  case False
  then have p: "p = align_up_always h BLOCK_SIZE" and un: "unused_from c j h"
    using assms(3) by (auto simp: entry_pos_def)
  show ?thesis
  proof (cases "align_up_always h BLOCK_SIZE - h < 4")
    case True
    then show ?thesis using p by (simp add: skip_unused_def Let_def)
  next
    case space: False
    then have z: "\<forall>i<4. ring_byte c j (h + i) = 0"
      using un by (simp add: unused_from_def)
    have "map (ring_byte c j) [h..<h + 4] = [0, 0, 0, 0]"
      using z by (rule zeros4)
    moreover have "h mod BLOCK_SIZE + 4 \<le> BLOCK_SIZE"
      using space by (simp add: space_in_block)
    ultimately show ?thesis
      using space p ring_read_ok [OF assms(2), of h 4] by (simp add: skip_unused_def Let_def)
  qed
qed

text \<open>The forward iterator yields exactly the entries of the range, then stops.\<close>

lemma forward_all_log_seg:
  assumes "codec_ok c" "ring_ok c j" "log_seg c j (head h) es (tail h)" "length es < n"
  shows "forward_all n c j h = Some (Inr es)"
  using assms(3,4)
proof (induction es arbitrary: h n)
  case Nil
  then obtain m where n: "n = Suc m" by (cases n) auto
  have "head h = tail h" using Nil.prems by auto
  then show ?case by (simp add: n forward_next_def)
next
  case (Cons e es)
  then obtain m where n: "n = Suc m" by (cases n) auto
  from Cons.prems(1) obtain p where p: "entry_pos c j (head h) p" "stored c j p e"
    and rest: "log_seg c j (p + unat (fsize e)) es (tail h)"
    by (rule seg_consE)
  have "head h < tail h"
    using entry_pos_ge [OF p(1)] stored_size [OF assms(1) p(2)] log_seg_le [OF rest] by linarith
  moreover have "forward_all m c j (h\<lparr>head := p + unat (fsize e)\<rparr>) = Some (Inr es)"
    using rest Cons.prems(2) n by (intro Cons.IH) auto
  ultimately show ?case
    using entry_pos_skip [OF assms(1,2) p] stored_read_entry [OF assms(1,2) p(2)]
    by (simp add: n forward_next_def)
qed

section \<open>Writing\<close>

text \<open>
  The invariant of a journal that holds a list of entries: head on a block boundary, at most
  one ring of data, and the entries between head and tail.
\<close>

definition journal_inv :: "'a codec \<Rightarrow> Journal \<Rightarrow> 'a StoreEntry list \<Rightarrow> bool" where
  "journal_inv c j es \<longleftrightarrow> ring_ok c j \<and> BLOCK_SIZE dvd head (header j)
     \<and> tail (header j) \<le> head (header j) + jsize j
     \<and> log_seg c j (head (header j)) es (tail (header j))"

definition put_entry :: "'a codec \<Rightarrow> Journal \<Rightarrow> 'a StoreEntry \<Rightarrow> Journal" where
  "put_entry c j e =
     (let j' = ring_put c j (tail (header j)) (entry_bytes c e) in
      j'\<lparr>header := (header j)\<lparr>tail := tail (header j) + length (ser_entry c e),
                            trans_ctr := trans_ctr (header j) + 1\<rparr>\<rparr>)"

lemma ring_byte_header [simp]: "ring_byte c (j\<lparr>header := h\<rparr>) = ring_byte c j"
  by (rule ext) (simp add: ring_byte_def)

lemma ring_ok_header [simp]: "ring_ok c (j\<lparr>header := h\<rparr>) = ring_ok c j"
  by (simp add: ring_ok_def)

lemma log_seg_header [simp]: "log_seg c (j\<lparr>header := h\<rparr>) = log_seg c j"
  by (intro ext iffI) (erule log_seg_cong, simp)+

lemma entry_fsize:
  assumes "length (ser_entry c e) < BLOCK_SIZE"
  shows "unat (of_nat (length (ser_entry c e)) :: u32) = length (ser_entry c e)"
  using assms by (simp add: unat_of_nat BLOCK_SIZE_def)

text \<open>Placing an entry where it fits extends the range by it.\<close>

lemma put_entry_seg:
  assumes c: "codec_ok c" and r: "ring_ok c j"
    and seg: "log_seg c j h es t" "h \<le> t" "entry_pos c j t (tail (header j))"
    and fit: "tail (header j) mod BLOCK_SIZE + length (ser_entry c e) \<le> BLOCK_SIZE"
    and win: "tail (header j) + length (ser_entry c e) \<le> h + jsize j"
    and sz: "length (ser_entry c e) < BLOCK_SIZE"
  shows "log_seg c (put_entry c j (e\<lparr>fsize := of_nat (length (ser_entry c e))\<rparr>)) h
    (es @ [sealed c (e\<lparr>fsize := of_nat (length (ser_entry c e))\<rparr>)])
    (tail (header j) + length (ser_entry c e))"
proof -
  let ?n = "length (ser_entry c e)"
  let ?e = "e\<lparr>fsize := of_nat ?n\<rparr>" and ?p = "tail (header j)"
  let ?b = "entry_bytes c ?e"
  let ?j = "ring_put c j ?p ?b"
  have len: "length ?b = ?n"
    using c by (simp add: entry_bytes_sealed)
  have tp: "t \<le> ?p" using entry_pos_ge [OF seg(3)] .
  have byte: "ring_byte c ?j q = (if ?p \<le> q \<and> q < ?p + ?n then ?b ! (q - ?p) else ring_byte c j q)"
    if "h \<le> q" "q < h + jsize j" for q
    using ring_byte_put [OF r, of ?p ?b h q] fit win seg(2) tp that len by simp
  have old: "ring_byte c ?j q = ring_byte c j q" if "h \<le> q" "q < ?p" for q
    using byte [of q] that win by simp
  have segj: "log_seg c ?j h es t"
    using seg(1) by (rule log_seg_cong) (use old tp in auto)
  have pos: "entry_pos c ?j t ?p"
  proof (cases "?p = t")
    case False
    then have "?p = align_up_always t BLOCK_SIZE" "unused_from c j t" "\<not> BLOCK_SIZE dvd t"
      using seg(3) by (auto simp: entry_pos_def)
    then show ?thesis
      using unused_from_cong [of c j t ?j] old seg(2) by (auto simp: entry_pos_def)
  qed (simp add: entry_pos_def)
  have "map (ring_byte c ?j) [?p..<?p + ?n] = ?b"
    using byte win seg(2) tp len by (intro nth_equalityI) auto
  moreover have "length (ser_entry c (sealed c ?e)) = ?n"
    using c by simp
  ultimately have "stored c ?j ?p (sealed c ?e)"
    using fit entry_fsize [OF sz] front_sealed [OF c, of ?e] c
    by (simp add: stored_def entry_bytes_sealed) (simp add: sealed_def)
  from log_seg_snoc [OF segj pos this] show ?thesis
    using entry_fsize [OF sz] c by (simp add: put_entry_def Let_def)
qed

lemma write_header_ok:
  assumes "codec_ok c" "ring_ok c j"
  obtains j' where "write_header c j = Inr j'" "header j' = header j" "jsize j' = jsize j"
    "ring_ok c j'" "ring_byte c j' = ring_byte c j" "last_time j' = last_time j" "fstore j' = fstore j"
proof
  let ?j = "j\<lparr>jfile := fput (jfile j) 0 (ser_header c (header j))\<rparr>"
  show "write_header c j = Inr ?j"
    using assms by (simp add: write_header_def ring_ok_def bf.wr_put)
  show "ring_ok c ?j"
    using assms by (auto simp: ring_ok_def bf.good_put bf.len_put)
  show "ring_byte c ?j = ring_byte c j"
    by (rule ext) (use assms in \<open>simp add: ring_byte_def bf.byte_put\<close>)
qed simp_all

lemma marker_put:
  assumes "ring_ok c j" "4 \<le> BLOCK_SIZE - p mod BLOCK_SIZE" "w \<le> p" "align_up_always p BLOCK_SIZE \<le> w + jsize j"
  shows "\<And>q. w \<le> q \<Longrightarrow> q < p \<Longrightarrow> ring_byte c (ring_put c j p [0, 0, 0, 0]) q = ring_byte c j q"
    and "\<And>i. i < 4 \<Longrightarrow> ring_byte c (ring_put c j p [0, 0, 0, 0]) (p + i) = 0"
proof -
  have fit: "p mod BLOCK_SIZE + length [0::u8, 0, 0, 0] \<le> BLOCK_SIZE"
    using assms(2) by simp
  have win: "p + length [0::u8, 0, 0, 0] \<le> w + jsize j"
    using assms(2,4) space_in_block [of p] by simp
  note put = ring_byte_put [OF assms(1) fit assms(3) win]
  show "ring_byte c (ring_put c j p [0, 0, 0, 0]) q = ring_byte c j q" if "w \<le> q" "q < p" for q
    using put [of q] that win by simp
  show "ring_byte c (ring_put c j p [0, 0, 0, 0]) (p + i) = 0" if "i < 4" for i
  proof -
    have "[0::u8, 0, 0, 0] ! i = 0"
      using that by (auto simp: less_Suc_eq numeral_eq_Suc)
    then show ?thesis
      using put [of "p + i"] that win assms(3) by simp
  qed
qed

text \<open>Moving on to the next block: the rest is marked unused, and the entries stay.\<close>

lemma next_block_ok:
  assumes c: "codec_ok c" and r: "ring_ok c j"
    and w: "w \<le> tail (header j)" "align_up_always (tail (header j)) BLOCK_SIZE \<le> w + jsize j"
  obtains j' where "next_block c j (align_up_always (tail (header j)) BLOCK_SIZE - tail (header j)) = Inr j'"
    "ring_ok c j'" "jsize j' = jsize j" "last_time j' = last_time j" "fstore j' = fstore j"
    "tail (header j') = align_up_always (tail (header j)) BLOCK_SIZE"
    "head (header j') = (if head (header j) + jsize j = align_up_always (tail (header j)) BLOCK_SIZE
       then head (header j) + BLOCK_SIZE else head (header j))"
    "trans_ctr (header j') = trans_ctr (header j)" "ty (header j') = ty (header j)"
    "unused_from c j' (tail (header j))"
    "\<And>q. w \<le> q \<Longrightarrow> q < tail (header j) \<Longrightarrow> ring_byte c j' q = ring_byte c j q"
proof -
  let ?t = "tail (header j)"
  let ?up = "align_up_always ?t BLOCK_SIZE"
  define jm where "jm = (if 4 \<le> ?up - ?t then ring_put c j ?t [0, 0, 0, 0] else j)"
  have jm: "ring_ok c jm" "header jm = header j" "jsize jm = jsize j" "last_time jm = last_time j"
      "fstore jm = fstore j"
    using r by (simp_all add: jm_def ring_ok_put)
  have old: "ring_byte c jm q = ring_byte c j q" if "w \<le> q" "q < ?t" for q
    using marker_put(1) [OF r _ w that] by (auto simp: jm_def space_in_block)
  have zero: "unused_from c jm ?t"
  proof (cases "4 \<le> ?up - ?t")
    case True
    then show ?thesis
      using marker_put(2) [OF r _ w] by (simp add: jm_def space_in_block unused_from_def)
  qed (simp add: unused_from_def)
  define h1 where "h1 = (header j)\<lparr>tail := ?up\<rparr>"
  define h2 where "h2 = (if head h1 + jsize j = ?up then h1\<lparr>head := head h1 + BLOCK_SIZE\<rparr> else h1)"
  obtain j' where j': "write_header c (jm\<lparr>header := h2\<rparr>) = Inr j'" "header j' = h2" "jsize j' = jsize j"
      "ring_ok c j'" "ring_byte c j' = ring_byte c jm" "last_time j' = last_time j" "fstore j' = fstore j"
    by (rule write_header_ok [OF c, of "jm\<lparr>header := h2\<rparr>"]) (use jm in auto)
  have marker: "(if 4 \<le> ?up - ?t then
      rbind (file_off c j ?t) (\<lambda>o'. rbind (write_all_at (jfile j) o' [0, 0, 0, 0]) (\<lambda>f. Inr (j\<lparr>jfile := f\<rparr>)))
      else Inr j) = Inr jm"
    using ring_write [OF r, of ?t "[0, 0, 0, 0]"] by (simp add: jm_def)
  have "next_block c j (?up - ?t) = Inr j'"
    unfolding next_block_def marker rbind_Inr Let_def jm(2,3)
    using j'(1) unfolding h2_def h1_def by simp
  moreover have "unused_from c j' ?t"
    using zero by (simp add: unused_from_def j'(5))
  ultimately show thesis
    using j' old by (intro that [of j']) (auto simp: h1_def h2_def)
qed

lemma write_inner_put:
  assumes "codec_ok c" "length (ser_entry c e) < BLOCK_SIZE"
    and "(if align_up_always (tail (header j)) BLOCK_SIZE - tail (header j) < length (ser_entry c e)
          then next_block c j (align_up_always (tail (header j)) BLOCK_SIZE - tail (header j))
          else Inr j) = Inr j1"
    and "ring_ok c j1"
  shows "write_inner c j e = Inr (put_entry c j1 (e\<lparr>fsize := of_nat (length (ser_entry c e))\<rparr>))"
  using assms by (simp add: write_inner_def Let_def file_off_ring ring_ok_def bf.wr_put put_entry_def ring_put_def)

definition journal_entry :: "'a codec \<Rightarrow> 'a StoreEntry \<Rightarrow> 'a StoreEntry" where
  "journal_entry c e = sealed c (e\<lparr>fsize := of_nat (length (ser_entry c e))\<rparr>)"

lemma put_entry_simps:
  assumes "codec_ok c"
  shows "header (put_entry c j (e\<lparr>fsize := a\<rparr>)) = (header j)\<lparr>tail := tail (header j) + length (ser_entry c e),
      trans_ctr := trans_ctr (header j) + 1\<rparr>"
    and "jsize (put_entry c j e') = jsize j" and "ring_ok c j \<Longrightarrow> ring_ok c (put_entry c j e')"
    and "last_time (put_entry c j e') = last_time j" and "fstore (put_entry c j e') = fstore j"
  using assms ring_ok_put [of c j] by (simp_all add: put_entry_def Let_def)

text \<open>The entry fits into the current block.\<close>

lemma write_inner_fits:
  assumes c: "codec_ok c" and inv: "journal_inv c j es"
    and nf: "tail (header j) \<noteq> head (header j) + jsize j"
    and sz: "length (ser_entry c e) < BLOCK_SIZE"
    and fit: "length (ser_entry c e) \<le> align_up_always (tail (header j)) BLOCK_SIZE - tail (header j)"
  obtains j' where "write_inner c j e = Inr j'" "journal_inv c j' (es @ [journal_entry c e])"
    "header j' = (header j)\<lparr>tail := tail (header j) + length (ser_entry c e), trans_ctr := trans_ctr (header j) + 1\<rparr>"
    "jsize j' = jsize j" "last_time j' = last_time j" "fstore j' = fstore j"
proof -
  let ?h = "head (header j)" and ?t = "tail (header j)" and ?n = "length (ser_entry c e)"
  have r: "ring_ok c j" and al: "BLOCK_SIZE dvd ?h" and tl: "?t \<le> ?h + jsize j"
    and seg: "log_seg c j ?h es ?t"
    using inv by (auto simp: journal_inv_def)
  have m: "?t mod BLOCK_SIZE + ?n \<le> BLOCK_SIZE"
    using fit mod_less_divisor [OF BLOCK_SIZE_pos, of ?t] unfolding space_in_block by linarith
  have "BLOCK_SIZE dvd ?h + jsize j"
    using al r by (simp add: ring_ok_def)
  then have win: "?t + ?n \<le> ?h + jsize j"
    using fits_below [OF m] nf tl by simp
  let ?j = "put_entry c j (e\<lparr>fsize := of_nat ?n\<rparr>)"
  have "log_seg c ?j ?h (es @ [journal_entry c e]) (?t + ?n)"
    unfolding journal_entry_def
    using put_entry_seg [OF c r seg log_seg_le [OF seg] _ m win sz] by (simp add: entry_pos_def)
  moreover have "write_inner c j e = Inr ?j"
    using write_inner_put [OF c sz _ r] fit by (simp add: not_less)
  ultimately show thesis
    using c r al win by (intro that [of ?j]) (auto simp: journal_inv_def put_entry_simps)
qed

text \<open>It does not: the tail moves to the next block, and a full ring gives up its first block.\<close>

lemma write_inner_skips:
  assumes c: "codec_ok c" and inv: "journal_inv c j es"
    and nf: "tail (header j) \<noteq> head (header j) + jsize j"
    and sz: "length (ser_entry c e) < BLOCK_SIZE"
    and nofit: "align_up_always (tail (header j)) BLOCK_SIZE - tail (header j) < length (ser_entry c e)"
  obtains j' es1 es2 where "write_inner c j e = Inr j'" "es = es1 @ es2"
    "journal_inv c j' (es2 @ [journal_entry c e])"
    "head (header j') = (if head (header j) + jsize j = align_up_always (tail (header j)) BLOCK_SIZE
       then head (header j) + BLOCK_SIZE else head (header j))"
    "head (header j') = head (header j) \<Longrightarrow> es1 = []"
    "trans_ctr (header j') = trans_ctr (header j) + 1" "jsize j' = jsize j"
    "last_time j' = last_time j" "fstore j' = fstore j"
proof -
  let ?h = "head (header j)" and ?t = "tail (header j)" and ?n = "length (ser_entry c e)"
  let ?up = "align_up_always ?t BLOCK_SIZE"
  have r: "ring_ok c j" and al: "BLOCK_SIZE dvd ?h" and tl: "?t \<le> ?h + jsize j"
    and seg: "log_seg c j ?h es ?t"
    using inv by (auto simp: journal_inv_def)
  have als: "BLOCK_SIZE dvd ?h + jsize j" and sB: "BLOCK_SIZE \<le> jsize j"
    using al r by (auto simp: ring_ok_def dvd_imp_le)
  have up: "?up \<le> ?h + jsize j"
    using align_up_least [OF _ als] nf tl by simp
  define h' where "h' = (if ?h + jsize j = ?up then ?h + BLOCK_SIZE else ?h)"
  obtain j1 where j1: "next_block c j (?up - ?t) = Inr j1" "ring_ok c j1" "jsize j1 = jsize j"
      "last_time j1 = last_time j" "fstore j1 = fstore j" "tail (header j1) = ?up" "head (header j1) = h'"
      "trans_ctr (header j1) = trans_ctr (header j)" "unused_from c j1 ?t"
      and old: "\<And>q. ?h \<le> q \<Longrightarrow> q < ?t \<Longrightarrow> ring_byte c j1 q = ring_byte c j q"
    using next_block_ok [OF c r log_seg_le [OF seg] up] unfolding h'_def by metis
  have seg1: "log_seg c j1 ?h es ?t"
    using seg by (rule log_seg_cong) (use old in auto)
  have "\<not> BLOCK_SIZE dvd ?t"
    using nofit sz space_in_block [of ?t] by (auto simp: dvd_eq_mod_eq_0)
  then have pos: "entry_pos c j1 ?t (tail (header j1))"
    using j1 by (simp add: entry_pos_def)
  have m: "tail (header j1) mod BLOCK_SIZE + ?n \<le> BLOCK_SIZE"
    using j1 sz align_up_dvd [of ?t] by (simp add: dvd_eq_mod_eq_0)
  have win: "tail (header j1) + ?n \<le> h' + jsize j1"
  proof (cases "?h + jsize j = ?up")
    case False
    then have "?up < ?h + jsize j" using up by simp
    then show ?thesis
      using fits_below [OF m _ als] j1 False by (simp add: h'_def)
  qed (use j1 sz in \<open>simp add: h'_def\<close>)
  have alh': "BLOCK_SIZE dvd h'" using al by (simp add: h'_def)
  have "\<exists>es1 es2. es = es1 @ es2 \<and> (h' = ?h \<longrightarrow> es1 = []) \<and>
      (\<exists>t'. log_seg c j1 h' es2 t' \<and> entry_pos c j1 t' (tail (header j1)))"
  proof (cases "h' = ?h")
    case True
    then show ?thesis using seg1 pos by (intro exI [of _ "[]"] exI [of _ es]) auto
  next
    case False
    then have full: "?h + jsize j = ?up" and h': "h' = ?h + BLOCK_SIZE"
      by (auto simp: h'_def split: if_splits)
    show ?thesis
    proof (cases "h' \<le> ?t")
      case True
      then obtain es1 es2 where "es = es1 @ es2" "log_seg c j1 h' es2 ?t"
        using log_seg_cut [OF seg1 _ _ alh'] h' by auto
      then show ?thesis using pos False by blast
    next
      case gt: False
      have "h' = ?up"
        using align_up_least [of ?t h'] gt alh' full h' sB align_up_bounds(2) [of ?t] by linarith
      then show ?thesis
        using j1 False by (intro exI [of _ es] exI [of _ "[]"] conjI exI [of _ ?up])
          (auto intro: log_seg.seg_nil simp: entry_pos_def)
    qed
  qed
  then obtain es1 es2 t' where es: "es = es1 @ es2" "h' = ?h \<longrightarrow> es1 = []"
    and segt: "log_seg c j1 h' es2 t'" and post: "entry_pos c j1 t' (tail (header j1))"
    by blast
  let ?j = "put_entry c j1 (e\<lparr>fsize := of_nat ?n\<rparr>)"
  have "log_seg c ?j h' (es2 @ [journal_entry c e]) (?up + ?n)"
    unfolding journal_entry_def
    using put_entry_seg [OF c j1(2) segt log_seg_le [OF segt] post m win sz] j1(6) by simp
  moreover have "write_inner c j e = Inr ?j"
    using write_inner_put [OF c sz _ j1(2)] j1(1) nofit by simp
  ultimately show thesis
    using c j1 es alh' win
    by (intro that [of ?j es1 es2]) (auto simp: journal_inv_def put_entry_simps h'_def split: if_splits)
qed

end
