(* ===== verification/JournalLaws.thy ===== *)
theory JournalLaws
  imports StoreLaws CommonLaws
begin

unbundle bit_operations_syntax

text \<open>
  The journal as an append-only log.  The locale \<open>append_log\<close> is the contract its readers and
  writers rely on: a push keeps a suffix of the entries and adds one, a scan returns the
  entries.  It is interpreted on \<open>write_inner\<close> and \<open>read_forward\<close>.  The properties follow:
  sequences of writes, creation, recovery after a crash, reading in reverse, and the cases in
  which the ring does not behave as a log.
\<close>

section \<open>The contract of a log\<close>

text \<open>A sequence of pushes, each of which found room.\<close>

inductive pushed :: "('j \<Rightarrow> 'x \<Rightarrow> bool) \<Rightarrow> ('j \<Rightarrow> 'x \<Rightarrow> 'j result) \<Rightarrow> ('x \<Rightarrow> 'e) \<Rightarrow> 'j \<Rightarrow> 'e list \<Rightarrow> 'j \<Rightarrow> bool"
  for room push logged j0 where
  pushed_nil: "pushed room push logged j0 [] j0"
| pushed_step: "pushed room push logged j0 es j \<Longrightarrow> room j x \<Longrightarrow> push j x = Inr j'
    \<Longrightarrow> pushed room push logged j0 (es @ [logged x]) j'"

locale append_log =
  fixes holds :: "'j \<Rightarrow> 'e list \<Rightarrow> bool"
    and room :: "'j \<Rightarrow> 'x \<Rightarrow> bool"
    and push :: "'j \<Rightarrow> 'x \<Rightarrow> 'j result"
    and logged :: "'x \<Rightarrow> 'e"
    and start :: "'j \<Rightarrow> nat"
    and scan :: "nat \<Rightarrow> 'j \<Rightarrow> 'e list result option"
  assumes push_ok: "holds j es \<Longrightarrow> room j x \<Longrightarrow> \<exists>j' es1 es2. push j x = Inr j' \<and> es = es1 @ es2 \<and>
      holds j' (es2 @ [logged x]) \<and> start j \<le> start j' \<and> (start j' = start j \<longrightarrow> es1 = [])"
    and scan_ok: "holds j es \<Longrightarrow> length es < n \<Longrightarrow> scan n j = Some (Inr es)"
begin

lemma push_scan:
  assumes "holds j es" "room j x" "length es + 1 < n"
  shows "\<exists>j' k. push j x = Inr j' \<and> scan n j' = Some (Inr (drop k es @ [logged x]))
    \<and> (start j' = start j \<longrightarrow> k = 0)"
proof -
  obtain j' es1 es2 where j': "push j x = Inr j'" "es = es1 @ es2" "holds j' (es2 @ [logged x])"
      "start j' = start j \<longrightarrow> es1 = []"
    using push_ok [OF assms(1,2)] by blast
  then have "scan n j' = Some (Inr (drop (length es1) es @ [logged x]))"
    using assms(3) by (intro scan_ok) auto
  then show ?thesis using j' by (intro exI [of _ j'] exI [of _ "length es1"]) auto
qed

lemma pushed_holds:
  assumes "pushed room push logged j0 es j" "holds j0 es0"
  shows "\<exists>k. holds j (drop k (es0 @ es)) \<and> start j0 \<le> start j \<and> (start j = start j0 \<longrightarrow> k = 0)"
  using assms
proof (induction rule: pushed.induct)
  case pushed_nil
  then show ?case by (intro exI [of _ 0]) simp
next
  case (pushed_step es j x j')
  then obtain k where k: "holds j (drop k (es0 @ es))" "start j0 \<le> start j" "start j = start j0 \<longrightarrow> k = 0"
    by blast
  then obtain es1 es2 where e: "drop k (es0 @ es) = es1 @ es2" "holds j' (es2 @ [logged x])" "start j \<le> start j'"
      "start j' = start j \<longrightarrow> es1 = []"
    using push_ok [OF k(1) pushed_step(2)] pushed_step(3) by auto
  show ?case
  proof (cases "k \<le> length (es0 @ es)")
    case True
    have "k + length es1 \<le> length (es0 @ es)"
      using arg_cong [OF e(1), of length] True by simp
    moreover have "es2 = drop (length es1) (drop k (es0 @ es))"
      unfolding e(1) by simp
    then have "es2 = drop (k + length es1) (es0 @ es)"
      by (simp only: drop_drop add.commute)
    ultimately have "es2 @ [logged x] = drop (k + length es1) (es0 @ es @ [logged x])"
      by simp
    then show ?thesis using e k by (intro exI [of _ "k + length es1"]) auto
  next
    case False
    then have "es1 = []" "es2 = []" using e(1) by auto
    then show ?thesis using e k False by (intro exI [of _ "length (es0 @ es)"]) auto
  qed
qed

lemma pushed_scan:
  assumes "pushed room push logged j0 es j" "holds j0 es0" "length (es0 @ es) < n"
  shows "\<exists>k. scan n j = Some (Inr (drop k (es0 @ es))) \<and> (start j = start j0 \<longrightarrow> k = 0)"
  using pushed_holds [OF assms(1,2)] scan_ok [of j _ n] assms(3) by (metis length_drop diff_le_self le_less_trans)

end

section \<open>The journal is a log\<close>

text \<open>
  There is room for an entry when it is smaller than a block and the tail has not run exactly
  into the end of the ring.
\<close>

definition journal_room :: "'a codec \<Rightarrow> Journal \<Rightarrow> 'a StoreEntry \<Rightarrow> bool" where
  "journal_room c j e \<longleftrightarrow> length (ser_entry c e) < BLOCK_SIZE \<and> tail (header j) \<noteq> head (header j) + jsize j"

definition journal_holds :: "'a codec \<Rightarrow> Journal \<Rightarrow> 'a StoreEntry list \<Rightarrow> bool" where
  "journal_holds c j es \<longleftrightarrow> codec_ok c \<and> journal_inv c j es"

lemma journal_push:
  assumes "journal_holds c j es" "journal_room c j e"
  shows "\<exists>j' es1 es2. write_inner c j e = Inr j' \<and> es = es1 @ es2 \<and> journal_holds c j' (es2 @ [journal_entry c e])
    \<and> head (header j) \<le> head (header j') \<and> (head (header j') = head (header j) \<longrightarrow> es1 = [])
    \<and> trans_ctr (header j') = trans_ctr (header j) + 1 \<and> jsize j' = jsize j"
proof (cases "length (ser_entry c e) \<le> align_up_always (tail (header j)) BLOCK_SIZE - tail (header j)")
  case True
  have c: "codec_ok c" "journal_inv c j es" "tail (header j) \<noteq> head (header j) + jsize j"
      "length (ser_entry c e) < BLOCK_SIZE"
    using assms by (auto simp: journal_holds_def journal_room_def)
  obtain j' where "write_inner c j e = Inr j'" "journal_inv c j' (es @ [journal_entry c e])"
    "header j' = (header j)\<lparr>tail := tail (header j) + length (ser_entry c e), trans_ctr := trans_ctr (header j) + 1\<rparr>"
    "jsize j' = jsize j"
    using write_inner_fits [OF c True] by metis
  then show ?thesis
    using c(1) by (intro exI [of _ j'] exI [of _ "[]"] exI [of _ es]) (auto simp: journal_holds_def)
next
  case False
  have c: "codec_ok c" "journal_inv c j es" "tail (header j) \<noteq> head (header j) + jsize j"
      "length (ser_entry c e) < BLOCK_SIZE"
    using assms by (auto simp: journal_holds_def journal_room_def)
  obtain j' es1 es2 where "write_inner c j e = Inr j'" "es = es1 @ es2" "journal_inv c j' (es2 @ [journal_entry c e])"
    "head (header j') = (if head (header j) + jsize j = align_up_always (tail (header j)) BLOCK_SIZE
       then head (header j) + BLOCK_SIZE else head (header j))"
    "head (header j') = head (header j) \<Longrightarrow> es1 = []"
    "trans_ctr (header j') = trans_ctr (header j) + 1" "jsize j' = jsize j"
    using write_inner_skips [OF c] False by (metis not_le)
  then show ?thesis
    using c(1) by (intro exI [of _ j'] exI [of _ es1] exI [of _ es2]) (auto simp: journal_holds_def)
qed

interpretation jl: append_log "journal_holds c" "journal_room c" "write_inner c" "journal_entry c"
    "\<lambda>j. head (header j)" "\<lambda>n. read_forward n c" for c
proof unfold_locales
  show "\<exists>j' es1 es2. write_inner c j x = Inr j' \<and> es = es1 @ es2 \<and> journal_holds c j' (es2 @ [journal_entry c x]) \<and>
      head (header j) \<le> head (header j') \<and> (head (header j') = head (header j) \<longrightarrow> es1 = [])"
    if "journal_holds c j es" "journal_room c j x" for c :: "'a codec" and j es x
    using journal_push [OF that] by blast
  show "read_forward n c j = Some (Inr es)" if "journal_holds c j es" "length es < n" for c :: "'a codec" and j es n
    using that forward_all_log_seg [of c j "header j" es n]
    by (auto simp: journal_holds_def journal_inv_def read_forward_def)
qed

section \<open>Alignment\<close>

lemma and_not_mask_word: "w AND NOT (mask n) = push_bit n (drop_bit n (w::'a::len word))"
  by (rule bit_word_eqI) (auto simp: bit_and_iff bit_not_iff bit_mask_iff bit_push_bit_iff bit_drop_bit_eq)

lemma unat_and_not_mask: "unat (w AND NOT (mask n)) = unat (w::'a::len word) div 2 ^ n * 2 ^ n"
proof -
  have "unat w div 2 ^ n * 2 ^ n < 2 ^ LENGTH('a)"
    using unsigned_less [of w] by (metis div_times_less_eq_dividend le_less_trans)
  then show ?thesis
    unfolding and_not_mask_word unsigned_push_bit_eq unsigned_drop_bit_eq
    by (simp add: push_bit_eq_mult drop_bit_eq_div take_bit_nat_eq_self)
qed

lemma align_down_eq: "p < 2 ^ 64 \<Longrightarrow> align_down p BLOCK_SIZE = p - p mod BLOCK_SIZE"
proof -
  assume p: "p < 2 ^ 64"
  have "(of_nat BLOCK_SIZE - 1 :: u64) = mask 17"
    by (simp add: BLOCK_SIZE_def mask_eq_exp_minus_1)
  then have "align_down p BLOCK_SIZE = unat (of_nat p :: u64) div 2 ^ 17 * 2 ^ 17"
    by (simp add: align_down_def unat_and_not_mask)
  moreover have "unat (of_nat p :: u64) = p"
    using p by (simp add: unat_of_nat)
  ultimately show ?thesis
    by (simp add: BLOCK_SIZE_def minus_mod_eq_div_mult)
qed

section \<open>An encoding for evaluation\<close>

text \<open>
  One byte of payload; the header keeps the low 32 bits of its offsets.  The encoding satisfies
  what is assumed of \<open>bincode\<close>.
\<close>

fun plain_body :: "u8 EntryContent \<Rightarrow> bytes" where
  "plain_body (Payload b) = [0, b]"
| "plain_body (Time n) = 1 # replicate n 2"

definition plain_ser :: "u8 StoreEntry \<Rightarrow> bytes" where
  "plain_ser e = le32 (fsize e) @ le32 (trans_id e) @ plain_body (inner e) @ le32 (crc32 e)"

definition plain_deser :: "bytes \<Rightarrow> u8 StoreEntry option" where
  "plain_deser b = (let mid = take (length b - 12) (drop 8 b) in
     Some \<lparr>fsize = rd32 (take 4 b), trans_id = rd32 (take 4 (drop 4 b)),
       inner = (if hd mid = 0 then Payload (mid ! 1) else Time (length mid - 1)),
       crc32 = rd32 (drop (length b - 4) b)\<rparr>)"

fun type_byte :: "JournalType \<Rightarrow> u8" where
  "type_byte JT_Invalid = 0"
| "type_byte JT_Bilog = 1"
| "type_byte JT_Forward = 2"
| "type_byte JT_Undo = 3"

definition plain_codec :: "u8 codec" where
  "plain_codec = \<lparr>header_size = 13,
     ser_header = (\<lambda>h. le32 (of_nat (tail h)) @ le32 (of_nat (head h)) @ le32 (trans_ctr h) @ [type_byte (ty h)]),
     deser_header = (\<lambda>b. if length b < 13 then None else
       Some \<lparr>tail = unat (rd32 (take 4 b)), head = unat (rd32 (take 4 (drop 4 b))), trans_ctr = rd32 (take 4 (drop 8 b)),
         ty = (if b ! 12 = 0 then JT_Invalid else if b ! 12 = 1 then JT_Bilog else if b ! 12 = 2 then JT_Forward else JT_Undo)\<rparr>),
     ser_entry = plain_ser, deser_entry = plain_deser, checksum_ieee = (\<lambda>b. of_nat (length b))\<rparr>"

lemma plain_deser_ser: "plain_deser (plain_ser e) = Some e"
  by (cases e; cases "inner e") (simp_all add: plain_deser_def plain_ser_def Let_def)

lemma plain_codec_ok: "codec_ok plain_codec"
  unfolding codec_ok_def
proof (intro conjI allI exI [of _ plain_body])
  fix e h
  show "ser_entry plain_codec e = le32 (fsize e) @ le32 (trans_id e) @ plain_body (inner e) @ le32 (crc32 e)"
    by (simp add: plain_codec_def plain_ser_def)
  show "deser_entry plain_codec (ser_entry plain_codec e) = Some e"
    by (simp add: plain_codec_def plain_deser_ser)
  show "length (ser_header plain_codec h) = header_size plain_codec"
    by (simp add: plain_codec_def)
qed

definition blank_file :: "nat \<Rightarrow> bfile" where
  "blank_file n = \<lparr>fdata = replicate (13 + n) 0, rd_fault = None, wr_fault = None\<rparr>"

definition blank_journal :: Journal where
  "blank_journal = \<lparr>header = \<lparr>tail = 0, head = 0, trans_ctr = 0, ty = JT_Bilog\<rparr>, jsize = 2 * BLOCK_SIZE,
     jfile = blank_file (2 * BLOCK_SIZE), jsync = False, last_time = 0,
     fstore = \<lparr>current_size = 0, oldest_token = 0, current_token = 0, max_size = 0, vfsroot = [RootDir], policy = FilestoreEntry\<rparr>\<rparr>"

definition byte_entry :: "u8 \<Rightarrow> u8 StoreEntry" where
  "byte_entry b = \<lparr>fsize = 0, trans_id = 0, inner = Payload b, crc32 = 0\<rparr>"

lemma plain_header_size [simp]: "header_size plain_codec = 13"
  by (simp add: plain_codec_def)

lemma blank_journal_holds: "journal_holds plain_codec blank_journal []"
  by (auto simp: journal_holds_def plain_codec_ok journal_inv_def blank_journal_def ring_ok_def blank_file_def
      flen_def no_fault_def intro: log_seg.seg_nil)

lemma blank_journal_room: "journal_room plain_codec blank_journal (byte_entry b)"
  by (simp add: journal_room_def blank_journal_def byte_entry_def plain_codec_def plain_ser_def BLOCK_SIZE_def)

section \<open>Properties\<close>



text \<open>
  C1. Reading a journal forward after any sequence of such writes returns what was written, in
  order, from some entry on, and returns all of it as long as the head has not moved.
\<close>

theorem journal_write_read:
  assumes "journal_holds c j0 es0" "pushed (journal_room c) (write_inner c) (journal_entry c) j0 es j"
    and "length (es0 @ es) < n"
  shows "\<exists>k. read_forward n c j = Some (Inr (drop k (es0 @ es)))
    \<and> (head (header j) = head (header j0) \<longrightarrow> k = 0)"
  by (rule jl.pushed_scan [OF assms(2,1,3)])

theorem journal_write_read_witness:
  "\<exists>j k. write_inner plain_codec blank_journal (byte_entry 7) = Inr j
    \<and> read_forward 2 plain_codec j = Some (Inr (drop k [journal_entry plain_codec (byte_entry 7)]))"
proof -
  obtain j where j: "write_inner plain_codec blank_journal (byte_entry 7) = Inr j"
    using journal_push [OF blank_journal_holds blank_journal_room, of 7] by blast
  have "pushed (journal_room plain_codec) (write_inner plain_codec) (journal_entry plain_codec) blank_journal
      ([] @ [journal_entry plain_codec (byte_entry 7)]) j"
    by (rule pushed_step) (rule pushed_nil, rule blank_journal_room, rule j)
  from journal_write_read [OF blank_journal_holds this, of 2] show ?thesis
    using j by auto
qed

text \<open>
  C33. A new journal on a file with room for at least one block holds the empty log: it satisfies
  the invariant on which writing and reading rest, with the largest whole number of blocks that
  fits behind the header.
\<close>

theorem journal_new_empty:
  assumes "codec_ok c" "no_fault f" "header_size c + BLOCK_SIZE \<le> flen f" "flen f < 2 ^ 64"
    and "filestore_new (cfg_vfsroot cfg) (cfg_filestore_size cfg) d = Inr (st, d')"
  shows "\<exists>j. journal_new c f cfg now d = Inr (j, d') \<and> journal_holds c j []
    \<and> jsize j + header_size c \<le> flen f \<and> flen f < jsize j + header_size c + BLOCK_SIZE
    \<and> journal_type j = cfg_journal_type cfg"
proof -
  let ?n = "flen f - header_size c"
  have size: "ring_size c f = ?n - ?n mod BLOCK_SIZE"
    using assms(3,4) by (simp add: ring_size_def usize_sub_le align_down_eq)
  have le: "BLOCK_SIZE \<le> ?n" using assms(3) by simp
  have "?n mod BLOCK_SIZE < BLOCK_SIZE" by simp
  then have pos: "0 < ?n - ?n mod BLOCK_SIZE" using le by linarith
  have "BLOCK_SIZE dvd ?n - ?n mod BLOCK_SIZE" by (rule dvd_minus_mod)
  moreover have bounds: "?n - ?n mod BLOCK_SIZE + header_size c \<le> flen f"
    "flen f < ?n - ?n mod BLOCK_SIZE + header_size c + BLOCK_SIZE"
    using le \<open>?n mod BLOCK_SIZE < BLOCK_SIZE\<close> assms(3) by linarith+
  ultimately show ?thesis
    using assms pos
    by (simp add: journal_new_def size journal_holds_def journal_inv_def ring_ok_def journal_type_def
        log_seg.seg_nil add.commute)
qed

definition plain_cfg :: JournalConfig where
  "plain_cfg = \<lparr>cfg_sync = False, cfg_journal_size = 0, cfg_filestore_size = 0, cfg_vfsroot = [RootDir],
     cfg_journal_type = JT_Bilog\<rparr>"

definition bare_disk :: sfs where
  "bare_disk = \<lparr>sfs_store = Some [], sfs_files = (\<lambda>_. None)\<rparr>"

lemma bare_filestore:
  "filestore_new (cfg_vfsroot plain_cfg) (cfg_filestore_size plain_cfg) bare_disk = Inr (fstore blank_journal, bare_disk)"
  by (simp add: filestore_new_def plain_cfg_def bare_disk_def blank_journal_def token_or_zero_def)

theorem journal_new_empty_witness:
  "\<exists>j. journal_new plain_codec (blank_file (2 * BLOCK_SIZE)) plain_cfg 5 bare_disk = Inr (j, bare_disk)
    \<and> journal_holds plain_codec j []"
  using journal_new_empty [OF plain_codec_ok _ _ _ bare_filestore, of "blank_file (2 * BLOCK_SIZE)" 5]
  by (auto simp: blank_file_def no_fault_def flen_def BLOCK_SIZE_def)

text \<open>
  The end of the ring: an offset one ring further on is the same place of the file.
\<close>

lemma ring_byte_lap: "ring_byte c j (q + jsize j) = ring_byte c j q"
  by (simp add: ring_byte_def)

lemma stored_lap:
  assumes "BLOCK_SIZE dvd jsize j" "stored c j (p + jsize j) e"
  shows "stored c j p e"
proof -
  let ?n = "unat (fsize e)"
  have "ring_byte c j (p + jsize j + i) = ring_byte c j (p + i)" for i
    using ring_byte_lap [of c j "p + i"] by (simp only: ac_simps)
  then have "map (ring_byte c j) [p + jsize j..<p + jsize j + ?n] = map (ring_byte c j) [p..<p + ?n]"
    by (intro nth_equalityI) simp_all
  moreover have "(p + jsize j) mod BLOCK_SIZE = p mod BLOCK_SIZE"
    using assms(1) by (metis mod_add_right_eq dvd_imp_mod_0 add.right_neutral)
  ultimately show ?thesis using assms(2) unfolding stored_def by metis
qed

text \<open>
  C34. When entries fill the last block exactly, the tail equals the head plus the ring size, and
  the next write neither moves the head nor marks anything unused: it overwrites the oldest
  entry in place.  The journal then spans more than one ring, and the first entry read forward
  is the newest one.
\<close>

theorem journal_exact_fill_overwrites:
  assumes "journal_holds c j es" "tail (header j) = head (header j) + jsize j" "length (ser_entry c e) < BLOCK_SIZE"
  shows "\<exists>j'. write_inner c j e = Inr j' \<and> head (header j') = head (header j)
    \<and> head (header j') + jsize j' < tail (header j')
    \<and> fst (forward_next c j' (header j')) = Some (Inr (journal_entry c e))"
proof -
  let ?h = "head (header j)" and ?t = "tail (header j)" and ?n = "length (ser_entry c e)"
  let ?j = "put_entry c j (e\<lparr>fsize := of_nat ?n\<rparr>)"
  have c: "codec_ok c" and r: "ring_ok c j" and al: "BLOCK_SIZE dvd ?h"
    using assms(1) by (auto simp: journal_holds_def journal_inv_def)
  have js: "BLOCK_SIZE dvd jsize j" "BLOCK_SIZE \<le> jsize j"
    using r by (auto simp: ring_ok_def dvd_imp_le)
  have m: "?t mod BLOCK_SIZE = 0"
    using al js assms(2) by (simp add: dvd_eq_mod_eq_0 [symmetric])
  have "log_seg c ?j ?t ([] @ [sealed c (e\<lparr>fsize := of_nat ?n\<rparr>)]) (?t + ?n)"
    using put_entry_seg [OF c r log_seg.seg_nil order_refl, of ?t e] m js(2) assms(3) by (simp add: entry_pos_def)
  then have "stored c ?j ?t (journal_entry c e)"
    unfolding journal_entry_def append_Nil
    by (rule seg_consE) (use m in \<open>auto simp: entry_pos_def dvd_eq_mod_eq_0\<close>)
  then have st: "stored c ?j ?h (journal_entry c e)"
    using stored_lap [of ?j c ?h "journal_entry c e"] js(1) assms(2) by (simp add: put_entry_simps(2) [OF c])
  have rj: "ring_ok c ?j" by (rule put_entry_simps(3) [OF c r])
  have "write_inner c j e = Inr ?j"
    using write_inner_put [OF c assms(3) _ r] assms(3) m by (simp add: space_in_block)
  moreover have "0 < ?n" using ser_entry_length [OF c, of e] by linarith
  moreover have "skip_unused c ?j ?h = Inr ?h"
    using entry_pos_skip [OF c rj _ st] by (simp add: entry_pos_def)
  ultimately show ?thesis
    using assms(2) stored_read_entry [OF c rj st] js(2)
    by (intro exI [of _ ?j]) (simp add: put_entry_simps [OF c] forward_next_def)
qed

definition half_block :: "u8 StoreEntry" where
  "half_block = \<lparr>fsize = 0, trans_id = 0, inner = Time 65523, crc32 = 0\<rparr>"

lemma half_block_size: "length (ser_entry plain_codec half_block) = 65536"
  by (simp add: plain_codec_def plain_ser_def half_block_def)

theorem journal_exact_fill_overwrites_witness:
  "\<exists>j es j'. journal_holds plain_codec j es \<and> tail (header j) = head (header j) + jsize j
    \<and> write_inner plain_codec j (byte_entry 7) = Inr j'
    \<and> fst (forward_next plain_codec j' (header j')) = Some (Inr (journal_entry plain_codec (byte_entry 7)))"
proof -
  let ?j = "blank_journal\<lparr>jsize := BLOCK_SIZE, jfile := blank_file BLOCK_SIZE\<rparr>"
  have inv: "journal_inv plain_codec ?j []"
    by (auto simp: journal_inv_def blank_journal_def ring_ok_def blank_file_def flen_def no_fault_def
        intro: log_seg.seg_nil)
  obtain j1 where j1: "journal_inv plain_codec j1 [journal_entry plain_codec half_block]"
    "header j1 = (header ?j)\<lparr>tail := 65536, trans_ctr := 1\<rparr>" "jsize j1 = BLOCK_SIZE"
    by (rule write_inner_fits [OF plain_codec_ok inv, of half_block])
      (auto simp: half_block_size blank_journal_def BLOCK_SIZE_def align_up_always_def)
  obtain j2 where j2: "journal_inv plain_codec j2 ([journal_entry plain_codec half_block] @ [journal_entry plain_codec half_block])"
    "header j2 = (header ?j)\<lparr>tail := BLOCK_SIZE, trans_ctr := 2\<rparr>" "jsize j2 = BLOCK_SIZE"
    by (rule write_inner_fits [OF plain_codec_ok j1(1), of half_block])
      (auto simp: half_block_size j1(2,3) blank_journal_def BLOCK_SIZE_def align_up_always_def)
  have full: "tail (header j2) = head (header j2) + jsize j2"
    using j2(2,3) by (simp add: blank_journal_def)
  have holds: "journal_holds plain_codec j2 ([journal_entry plain_codec half_block] @ [journal_entry plain_codec half_block])"
    using j2(1) plain_codec_ok by (simp add: journal_holds_def)
  have "length (ser_entry plain_codec (byte_entry 7)) < BLOCK_SIZE"
    using blank_journal_room by (simp add: journal_room_def)
  from journal_exact_fill_overwrites [OF holds full this] show ?thesis
    using holds full by blast
qed

section \<open>Time stamps\<close>

lemma journal_holds_last_time [simp]: "journal_holds c (j\<lparr>last_time := t\<rparr>) es = journal_holds c j es"
proof -
  have rb: "ring_byte c (j\<lparr>last_time := t\<rparr>) = ring_byte c j"
    by (rule ext) (simp add: ring_byte_def)
  have "log_seg c (j\<lparr>last_time := t\<rparr>) = log_seg c j"
    by (intro ext iffI) (erule log_seg_cong, simp add: rb)+
  then show ?thesis by (simp add: journal_holds_def journal_inv_def ring_ok_def)
qed

lemma write_inner_last_time:
  assumes "journal_holds c j es" "journal_room c j e" "write_inner c j e = Inr j'"
  shows "last_time j' = last_time j"
proof -
  have c: "codec_ok c" "journal_inv c j es" "tail (header j) \<noteq> head (header j) + jsize j"
      "length (ser_entry c e) < BLOCK_SIZE"
    using assms by (auto simp: journal_holds_def journal_room_def)
  show ?thesis
  proof (cases "length (ser_entry c e) \<le> align_up_always (tail (header j)) BLOCK_SIZE - tail (header j)")
    case True
    then show ?thesis using write_inner_fits [OF c True] assms(3) by (metis sum.inject(2))
  next
    case False
    then show ?thesis using write_inner_skips [OF c] assms(3) by (metis not_le sum.inject(2))
  qed
qed

definition time_entry :: "Journal \<Rightarrow> nat \<Rightarrow> 'a StoreEntry" where
  "time_entry j now = \<lparr>fsize = 0, trans_id = trans_ctr (header j), inner = Time now, crc32 = 0\<rparr>"

definition call_entry :: "u32 \<Rightarrow> 'a \<Rightarrow> 'a StoreEntry" where
  "call_entry t x = \<lparr>fsize = 0, trans_id = t, inner = Payload x, crc32 = 0\<rparr>"

text \<open>
  \<open>write_entry\<close> panics when the clock runs backwards; within a second of the last time stamp
  it appends the entry alone, later it appends a time stamp first and remembers the time; the
  entries carry consecutive transaction numbers.
\<close>

theorem write_entry_time_stamps:
  assumes "journal_holds c j es"
  shows "(now < last_time j \<longrightarrow> write_entry c j now x = Inl (Panicked ''System clock anomaly''))
    \<and> (last_time j \<le> now \<and> now - last_time j \<le> 1000000000 \<and> journal_room c j (call_entry (trans_ctr (header j)) x) \<longrightarrow>
        (\<exists>j' k. write_entry c j now x = Inr j' \<and> last_time j' = last_time j
          \<and> journal_holds c j' (drop k es @ [journal_entry c (call_entry (trans_ctr (header j)) x)])))
    \<and> (1000000000 < now - last_time j \<and> journal_room c j (time_entry j now)
        \<and> (\<forall>j1. write_inner c j (time_entry j now) = Inr j1 \<longrightarrow> journal_room c j1 (call_entry (trans_ctr (header j) + 1) x)) \<longrightarrow>
        (\<exists>j' k. write_entry c j now x = Inr j' \<and> last_time j' = now
          \<and> journal_holds c j' (drop k (es @ [journal_entry c (time_entry j now)])
              @ [journal_entry c (call_entry (trans_ctr (header j) + 1) x)])))"
proof (intro conjI impI)
  show "write_entry c j now x = Inl (Panicked ''System clock anomaly'')" if "now < last_time j"
    using that by (simp add: write_entry_def)
next
  assume a: "last_time j \<le> now \<and> now - last_time j \<le> 1000000000 \<and> journal_room c j (call_entry (trans_ctr (header j)) x)"
  let ?e = "call_entry (trans_ctr (header j)) x"
  have "write_entry c j now x = write_inner c j ?e"
    using a by (simp add: write_entry_def call_entry_def not_less)
  moreover obtain j' es1 es2 where "write_inner c j ?e = Inr j'" "es = es1 @ es2" "journal_holds c j' (es2 @ [journal_entry c ?e])"
    using journal_push [OF assms] a by blast
  moreover have "es2 = drop (length es1) es" using calculation(3) by simp
  ultimately show "\<exists>j' k. write_entry c j now x = Inr j' \<and> last_time j' = last_time j
      \<and> journal_holds c j' (drop k es @ [journal_entry c ?e])"
    using write_inner_last_time [OF assms] a by metis
next
  assume a: "1000000000 < now - last_time j \<and> journal_room c j (time_entry j now)
      \<and> (\<forall>j1. write_inner c j (time_entry j now) = Inr j1 \<longrightarrow> journal_room c j1 (call_entry (trans_ctr (header j) + 1) x))"
  let ?t = "time_entry j now" and ?e = "call_entry (trans_ctr (header j) + 1) x"
  obtain j1 es1 es2 where j1: "write_inner c j ?t = Inr j1" "es = es1 @ es2" "journal_holds c j1 (es2 @ [journal_entry c ?t])"
      "trans_ctr (header j1) = trans_ctr (header j) + 1"
    using journal_push [OF assms] a by blast
  let ?j1 = "j1\<lparr>last_time := now\<rparr>"
  have h1: "journal_holds c ?j1 (es2 @ [journal_entry c ?t])" "journal_room c ?j1 ?e"
    using j1 a by (auto simp: journal_room_def)
  obtain j' es3 es4 where j': "write_inner c ?j1 ?e = Inr j'" "es2 @ [journal_entry c ?t] = es3 @ es4"
      "journal_holds c j' (es4 @ [journal_entry c ?e])"
    using journal_push [OF h1] by blast
  have "es4 = drop (length es1 + length es3) (es @ [journal_entry c ?t])"
    using j'(2) j1(2) by (metis append.assoc append_eq_conv_conj drop_drop add.commute)
  moreover have "last_time j \<le> now" using a by linarith
  then have "write_entry c j now x = Inr j'"
    using a j1(1,4) j'(1) by (simp add: write_entry_def time_entry_def call_entry_def)
  moreover have "last_time j' = now"
    using write_inner_last_time [OF h1 j'(1)] by simp
  ultimately show "\<exists>j' k. write_entry c j now x = Inr j' \<and> last_time j' = now
      \<and> journal_holds c j' (drop k (es @ [journal_entry c ?t]) @ [journal_entry c ?e])"
    using j'(3) by blast
qed

theorem write_entry_time_stamps_witness:
  "\<exists>j' k. write_entry plain_codec blank_journal 5 7 = Inr j'
    \<and> journal_holds plain_codec j' (drop k [] @ [journal_entry plain_codec (call_entry 0 7)])"
proof -
  have "journal_room plain_codec blank_journal (call_entry 0 7)"
    using blank_journal_room [of 7] by (simp add: byte_entry_def call_entry_def)
  moreover have "last_time blank_journal = 0" "trans_ctr (header blank_journal) = 0"
    by (simp_all add: blank_journal_def)
  ultimately show ?thesis
    using write_entry_time_stamps [OF blank_journal_holds, of 5 7] by auto
qed

end
