(* ===== verification/RecoveryLaws.thy ===== *)
theory RecoveryLaws
  imports JournalLaws
begin

unbundle bit_operations_syntax

text \<open>
  Reopening a journal.  The header on disk is as old as the last change of block; \<open>open\<close>
  follows the entries written since, by their transaction numbers.  Shown here: in a block
  whose unused rest is zero it finds exactly the entries that were written, with the right tail
  and counter, so that nothing is lost; a leftover entry of the previous lap is taken for a new
  one; and a journal that never changed block has no usable header.
\<close>

section \<open>Following transaction numbers\<close>

fun consecutive :: "u32 \<Rightarrow> 'a StoreEntry list \<Rightarrow> bool" where
  "consecutive n [] = True"
| "consecutive n (e # es) = (trans_id e = n \<and> consecutive (n + 1) es)"

lemma stored_read_tid:
  assumes c: "codec_ok c" and r: "ring_ok c j" and st: "stored c j p e"
  shows "rbind (file_off c j p) (\<lambda>o'. read_exact_at (jfile j) (o' + 4) 4) = Inr (le32 (trans_id e))"
proof -
  let ?n = "unat (fsize e)"
  have n: "12 \<le> ?n" and m: "p mod BLOCK_SIZE + ?n \<le> BLOCK_SIZE"
    and bytes: "map (ring_byte c j) [p..<p + ?n] = ser_entry c e"
    using st stored_size [OF c st] by (auto simp: stored_def)
  have s: "0 < jsize j" "BLOCK_SIZE dvd jsize j" using r by (simp_all add: ring_ok_def)
  have "(p + 4) mod jsize j = p mod jsize j + 4" "(p + 4) mod BLOCK_SIZE = p mod BLOCK_SIZE + 4"
    using ring_mod_add(2) [OF s m, of 4] ring_mod_add(2) [OF _ dvd_refl m, of 4] n by simp_all
  then have "rbind (file_off c j p) (\<lambda>o'. read_exact_at (jfile j) (o' + 4) 4) = ring_read c j (p + 4) 4"
    "(p + 4) mod BLOCK_SIZE + 4 \<le> BLOCK_SIZE"
    using n m by (simp_all add: ring_read_def file_off_ring [OF r] add.assoc)
  moreover have "map (ring_byte c j) [p + 4..<p + 4 + 4] = take 4 (drop 4 (map (ring_byte c j) [p..<p + ?n]))"
    using n by (simp add: take_map drop_map)
  ultimately show ?thesis
    using ring_read_ok [OF r, of "p + 4" 4] bytes take4_drop4_ser_entry [OF c] by simp
qed

lemma stored_space: "codec_ok c \<Longrightarrow> stored c j p e \<Longrightarrow> \<not> align_up_always p BLOCK_SIZE - p < 4"
  using stored_size [of c j p e] by (auto simp: space_in_block stored_def)

text \<open>One step of the loop, at an entry.\<close>

lemma recover_step:
  assumes c: "codec_ok c" and r: "ring_ok c j" and st: "stored c j p e"
    and le: "p \<le> align_up_always (tail (header j)) BLOCK_SIZE"
  shows "recover c j p tx = (if trans_id e \<noteq> word_of_int (tx + 1) then Inr (p + unat (fsize e), tx)
    else recover c j (p + unat (fsize e)) (uint (trans_id e)))"
proof -
  have "fsize e \<noteq> 0" using stored_size [OF c st] by auto
  then show ?thesis
    using le stored_space [OF c st] stored_read4 [OF c r st] stored_read_tid [OF c r st]
    by (subst recover.simps) (simp del: rbind_eq_Inr)
qed

lemma recover_stop:
  assumes r: "ring_ok c j" and un: "unused_from c j p"
  shows "recover c j p tx = Inr (p, tx)"
proof (cases "align_up_always p BLOCK_SIZE - p < 4")
  case False
  then have "map (ring_byte c j) [p..<p + 4] = [0, 0, 0, 0]" "p mod BLOCK_SIZE + 4 \<le> BLOCK_SIZE"
    using un zeros4 [of c j p] by (simp_all add: unused_from_def space_in_block)
  then have "ring_read c j p 4 = Inr [0, 0, 0, 0]"
    using ring_read_ok [OF r, of p 4] by simp
  then show ?thesis by (subst recover.simps) (simp add: rd32_def)
qed (subst recover.simps, simp)

lemma recover_follows:
  assumes c: "codec_ok c" and r: "ring_ok c j"
    and "log_seg c j p es t" "t \<le> align_up_always (tail (header j)) BLOCK_SIZE" "tail (header j) \<le> p"
    and "consecutive (word_of_int (tx + 1)) es" "unused_from c j t"
  shows "\<exists>tx'. recover c j p tx = Inr (t, tx') \<and> (word_of_int (tx' + 1) :: u32) = word_of_int (tx + 1) + of_nat (length es)"
  using assms(3-)
proof (induction arbitrary: tx rule: log_seg.induct)
  case (seg_nil h)
  then show ?case using recover_stop [OF r] by simp
next
  case (seg_cons h p e es t)
  have t: "p + unat (fsize e) \<le> t" "h \<le> p" "12 \<le> unat (fsize e)"
    using log_seg_le [OF seg_cons(3)] entry_pos_ge [OF seg_cons(1)] stored_size [OF c seg_cons(2)] by auto
  have "p = h"
  proof (rule ccontr)
    assume "p \<noteq> h"
    then have "p = align_up_always h BLOCK_SIZE" using seg_cons(1) by (simp add: entry_pos_def)
    moreover have "align_up_always (tail (header j)) BLOCK_SIZE \<le> align_up_always h BLOCK_SIZE"
      using seg_cons.prems(2) by (simp add: align_up_always_def div_le_mono)
    ultimately show False using t seg_cons.prems(1) by simp
  qed
  have n: "trans_id e = word_of_int (tx + 1)" "consecutive (word_of_int (uint (trans_id e) + 1)) es"
    using seg_cons.prems(3) by (simp_all add: wi_hom_syms)
  have "recover c j p tx = recover c j (p + unat (fsize e)) (uint (trans_id e))"
    using recover_step [OF c r seg_cons(2)] n t seg_cons.prems(1) by simp
  moreover obtain tx' where "recover c j (p + unat (fsize e)) (uint (trans_id e)) = Inr (t, tx')"
    "(word_of_int (tx' + 1) :: u32) = word_of_int (uint (trans_id e) + 1) + of_nat (length es)"
    using seg_cons.IH [OF seg_cons.prems(1) _ n(2) seg_cons.prems(4)] t seg_cons.prems(2) by auto
  ultimately show ?case
    using \<open>p = h\<close> n(1) by (auto simp: wi_hom_syms ac_simps)
qed

text \<open>The journal as \<open>open\<close> first sees it: the header from disk on the file.\<close>

definition loaded :: "'a codec \<Rightarrow> bfile \<Rightarrow> JournalConfig \<Rightarrow> nat \<Rightarrow> FileStore \<Rightarrow> JournalHeader \<Rightarrow> Journal" where
  "loaded c f cfg now st h = \<lparr>header = h, jsize = ring_size c f, jfile = f, jsync = cfg_sync cfg, last_time = now, fstore = st\<rparr>"

definition reopenable :: "'a codec \<Rightarrow> bfile \<Rightarrow> JournalConfig \<Rightarrow> JournalHeader \<Rightarrow> bool" where
  "reopenable c f cfg h \<longleftrightarrow> deser_header c (fdata f) = Some h \<and> (cfg_journal_type cfg = JT_Invalid \<or> ty h = cfg_journal_type cfg)"

lemma journal_open_eq:
  assumes "reopenable c f cfg h" "filestore_new (cfg_vfsroot cfg) (cfg_filestore_size cfg) d = Inr (st, d')"
  shows "journal_open c f cfg now d =
    rbind (recover c (loaded c f cfg now st h) (tail h) (uint (trans_ctr h) - 1)) (\<lambda>(new_tail, tx_max).
      Inr ((loaded c f cfg now st h)\<lparr>header := h\<lparr>tail := new_tail, trans_ctr := word_of_int (tx_max + 1)\<rparr>\<rparr>, d'))"
  using assms by (auto simp: journal_open_def reopenable_def loaded_def)

section \<open>A journal file for evaluation\<close>

text \<open>One entry behind a header that does not count it yet.\<close>

definition wentry :: "u8 StoreEntry" where
  "wentry = journal_entry plain_codec (byte_entry 7)"

definition whead :: "u32 \<Rightarrow> JournalHeader" where
  "whead k = \<lparr>tail = 0, head = 0, trans_ctr = k, ty = JT_Bilog\<rparr>"

definition wfile :: "u32 \<Rightarrow> bfile" where
  "wfile k = \<lparr>fdata = ser_header plain_codec (whead k) @ ser_entry plain_codec wentry @ replicate (2 * BLOCK_SIZE - 14) 0,
     rd_fault = None, wr_fault = None\<rparr>"

abbreviation wjournal :: "u32 \<Rightarrow> Journal" where
  "wjournal k \<equiv> loaded plain_codec (wfile k) plain_cfg 5 (fstore blank_journal) (whead k)"

lemma wentry_props: "length (ser_entry plain_codec wentry) = 14" "fsize wentry = 14" "trans_id wentry = 0"
  "crc32 wentry = checksum_ieee plain_codec (take (length (ser_entry plain_codec wentry) - 4) (ser_entry plain_codec wentry))"
  by (simp_all add: wentry_def journal_entry_def sealed_def byte_entry_def plain_codec_def plain_ser_def)

lemma wfile_len: "flen (wfile k) = 13 + 2 * BLOCK_SIZE"
  using plain_codec_ok wentry_props(1) by (simp add: flen_def wfile_def BLOCK_SIZE_def)

lemma wjournal_size: "jsize (wjournal k) = 2 * BLOCK_SIZE"
  by (simp add: loaded_def ring_size_def wfile_len usize_sub_le BLOCK_SIZE_def align_down_eq [unfolded BLOCK_SIZE_def, simplified])

lemma wjournal_byte: "q < 2 * BLOCK_SIZE \<Longrightarrow>
    ring_byte plain_codec (wjournal k) q = (if q < 14 then ser_entry plain_codec wentry ! q else 0)"
  using wjournal_size [of k] plain_codec_ok wentry_props(1)
  by (auto simp: ring_byte_def loaded_def fbyte_def wfile_def nth_append BLOCK_SIZE_def)

lemma wfile_reopenable: "reopenable plain_codec (wfile k) plain_cfg (whead k)"
  by (simp add: reopenable_def wfile_def plain_codec_def whead_def plain_cfg_def nth_append)

lemma wjournal_holds: "journal_holds plain_codec (wjournal k) []"
  using wfile_len [of k] wjournal_size [of k]
  by (auto simp: journal_holds_def plain_codec_ok journal_inv_def ring_ok_def no_fault_def loaded_def wfile_def
      whead_def intro: log_seg.seg_nil)

lemma wjournal_stored: "stored plain_codec (wjournal k) 0 wentry"
  using wentry_props wjournal_byte [of _ k]
  by (auto simp: stored_def BLOCK_SIZE_def intro!: nth_equalityI)

lemma wjournal_unused: "unused_from plain_codec (wjournal k) 14"
  using wjournal_byte [of _ k] by (simp add: unused_from_def BLOCK_SIZE_def)

section \<open>Properties\<close>

text \<open>
  C3. Reopening a journal loses nothing that was written after the header: if the file holds the
  entries \<open>es\<close> up to the tail in the header, then \<open>since\<close> with consecutive transaction
  numbers in the same block, and then unused space, the reopened journal holds \<open>es @ since\<close>, its
  tail is behind them and its counter continues after the last one.
\<close>

theorem journal_open_recovers:
  assumes re: "reopenable c f cfg h" and st: "filestore_new (cfg_vfsroot cfg) (cfg_filestore_size cfg) d = Inr (st, d')"
    and holds: "journal_holds c (loaded c f cfg now st h) es"
    and since: "log_seg c (loaded c f cfg now st h) (tail h) since t" "consecutive (trans_ctr h) since"
    and inblock: "t \<le> align_up_always (tail h) BLOCK_SIZE" "t \<le> head h + jsize (loaded c f cfg now st h)"
    and fin: "unused_from c (loaded c f cfg now st h) t"
  shows "\<exists>j. journal_open c f cfg now d = Inr (j, d') \<and> journal_holds c j (es @ since)
    \<and> tail (header j) = t \<and> trans_ctr (header j) = trans_ctr h + of_nat (length since)"
proof -
  let ?j = "loaded c f cfg now st h"
  have hd: "header ?j = h" by (simp add: loaded_def)
  have c: "codec_ok c" and r: "ring_ok c ?j" and inv: "BLOCK_SIZE dvd head h" "log_seg c ?j (head h) es (tail h)"
    using holds hd by (auto simp: journal_holds_def journal_inv_def)
  have "consecutive (word_of_int (uint (trans_ctr h) - 1 + 1)) since"
    using since(2) by simp
  then obtain tx where tx: "recover c ?j (tail h) (uint (trans_ctr h) - 1) = Inr (t, tx)"
    "(word_of_int (tx + 1) :: u32) = word_of_int (uint (trans_ctr h) - 1 + 1) + of_nat (length since)"
    using recover_follows [OF c r since(1) _ _ _ fin] inblock(1) hd by force
  have "log_seg c ?j (head h) (es @ since) t"
    using inv(2) since(1) by (rule log_seg_append)
  then have "journal_holds c (?j\<lparr>header := h\<lparr>tail := t, trans_ctr := word_of_int (tx + 1)\<rparr>\<rparr>) (es @ since)"
    using c r inv(1) inblock(2) by (simp add: journal_holds_def journal_inv_def)
  then show ?thesis
    using journal_open_eq [OF re st, of now] tx by simp
qed

theorem journal_open_recovers_witness:
  "\<exists>j. journal_open plain_codec (wfile 0) plain_cfg 5 bare_disk = Inr (j, bare_disk)
    \<and> journal_holds plain_codec j ([] @ [wentry]) \<and> tail (header j) = 14 \<and> trans_ctr (header j) = 1"
proof -
  have "log_seg plain_codec (wjournal 0) 0 [wentry] (0 + unat (fsize wentry))"
    by (rule log_seg.seg_cons [OF _ wjournal_stored log_seg.seg_nil]) (simp add: entry_pos_def)
  then have seg: "log_seg plain_codec (wjournal 0) (tail (whead 0)) [wentry] 14"
    by (simp add: wentry_props whead_def)
  show ?thesis
    using journal_open_recovers [OF wfile_reopenable bare_filestore wjournal_holds seg _ _ _ wjournal_unused]
    by (simp add: wentry_props whead_def wjournal_size [unfolded whead_def] BLOCK_SIZE_def align_up_always_def)
qed

text \<open>
  C35. A leftover entry is resurrected: when the place behind the tail holds an entry of an earlier
  lap, whose transaction number does not continue the log, \<open>open\<close> still moves the tail past it,
  and the reopened journal returns the leftover as its newest entry.
\<close>

theorem journal_open_resurrects:
  assumes re: "reopenable c f cfg h" and st: "filestore_new (cfg_vfsroot cfg) (cfg_filestore_size cfg) d = Inr (st, d')"
    and holds: "journal_holds c (loaded c f cfg now st h) es"
    and stale: "stored c (loaded c f cfg now st h) (tail h) e" "trans_id e \<noteq> trans_ctr h"
    and win: "tail h + unat (fsize e) \<le> head h + jsize (loaded c f cfg now st h)"
  shows "\<exists>j. journal_open c f cfg now d = Inr (j, d') \<and> journal_holds c j (es @ [e])
    \<and> trans_ctr (header j) = trans_ctr h
    \<and> (\<forall>n > length es + 1. read_forward n c j = Some (Inr (es @ [e])))"
proof -
  let ?j = "loaded c f cfg now st h"
  have hd: "header ?j = h" by (simp add: loaded_def)
  have c: "codec_ok c" and r: "ring_ok c ?j" and inv: "BLOCK_SIZE dvd head h" "log_seg c ?j (head h) es (tail h)"
    using holds hd by (auto simp: journal_holds_def journal_inv_def)
  have rec: "recover c ?j (tail h) (uint (trans_ctr h) - 1) = Inr (tail h + unat (fsize e), uint (trans_ctr h) - 1)"
    using recover_step [OF c r stale(1), of "uint (trans_ctr h) - 1"] stale(2) hd align_up_bounds(1) [of "tail h"]
    by simp
  let ?j' = "?j\<lparr>header := h\<lparr>tail := tail h + unat (fsize e), trans_ctr := trans_ctr h\<rparr>\<rparr>"
  have "log_seg c ?j (head h) (es @ [e]) (tail h + unat (fsize e))"
    using log_seg_snoc [OF inv(2) _ stale(1)] by (simp add: entry_pos_def)
  then have "journal_holds c ?j' (es @ [e])"
    using c r inv(1) win by (simp add: journal_holds_def journal_inv_def)
  moreover from this have "read_forward n c ?j' = Some (Inr (es @ [e]))" if "length es + 1 < n" for n
    using jl.scan_ok [of c ?j' "es @ [e]" n] that by simp
  moreover have "journal_open c f cfg now d = Inr (?j', d')"
    using journal_open_eq [OF re st, of now] rec by simp
  ultimately show ?thesis by auto
qed

theorem journal_open_resurrects_witness:
  "\<exists>j. journal_open plain_codec (wfile 5) plain_cfg 5 bare_disk = Inr (j, bare_disk)
    \<and> journal_holds plain_codec j ([] @ [wentry])"
proof -
  have "stored plain_codec (wjournal 5) (tail (whead 5)) wentry"
    using wjournal_stored by (simp add: whead_def)
  then show ?thesis
    using journal_open_resurrects [OF wfile_reopenable bare_filestore wjournal_holds, of 5 wentry]
    by (auto simp: wentry_props whead_def wjournal_size [unfolded whead_def] BLOCK_SIZE_def)
qed

text \<open>
  The header is written only when the tail changes block: entries that fit into the current
  block leave the header on disk as it was.  So a journal that is closed before its first block
  is full still has the header of the file it was made on; with a blank file that header has no
  journal type, and opening the journal with the type it was created with is refused.
\<close>

theorem journal_header_unwritten:
  assumes c: "codec_ok c" and holds: "journal_holds c j es" and room: "journal_room c j e"
    and fit: "length (ser_entry c e) \<le> align_up_always (tail (header j)) BLOCK_SIZE - tail (header j)"
    and local: "\<forall>b b'. take (header_size c) b = take (header_size c) b' \<longrightarrow> deser_header c b = deser_header c b'"
    and blank: "deser_header c (fdata (jfile j)) = Some h" "ty h \<noteq> cfg_journal_type cfg" "cfg_journal_type cfg \<noteq> JT_Invalid"
  shows "\<exists>j'. write_inner c j e = Inr j' \<and> journal_holds c j' (es @ [journal_entry c e])
    \<and> journal_open c (jfile j') cfg now d = Inl (IoErr (Other ''Journal type on disk does not match requested''))"
proof -
  let ?j = "put_entry c j (e\<lparr>fsize := of_nat (length (ser_entry c e))\<rparr>)"
  have r: "ring_ok c j" using holds by (simp add: journal_holds_def journal_inv_def)
  have sz: "length (ser_entry c e) < BLOCK_SIZE" using room by (simp add: journal_room_def)
  have wi: "write_inner c j e = Inr ?j"
    using write_inner_put [OF c sz _ r] fit by (simp add: not_less)
  moreover have "journal_holds c ?j (es @ [journal_entry c e])"
    using write_inner_fits [OF c _ _ sz fit, of es] holds room wi
    by (metis journal_holds_def journal_room_def sum.inject(2))
  moreover have "take (header_size c) (fdata (jfile ?j)) = take (header_size c) (fdata (jfile j))"
    using r by (auto simp: put_entry_def Let_def ring_put_def fput_def put_bytes_def ring_ok_def flen_def)
  then have "deser_header c (fdata (jfile ?j)) = Some h"
    using local blank(1) by metis
  ultimately show ?thesis
    using blank by (simp add: journal_open_def)
qed

theorem journal_header_unwritten_witness:
  "\<exists>j'. write_inner plain_codec blank_journal (byte_entry 7) = Inr j'
    \<and> journal_open plain_codec (jfile j') plain_cfg 5 bare_disk
        = Inl (IoErr (Other ''Journal type on disk does not match requested''))"
proof -
  have "deser_header plain_codec b = deser_header plain_codec (take 13 b)" for b
    by (simp add: plain_codec_def drop_take)
  then have loc: "\<forall>b b'. take (header_size plain_codec) b = take (header_size plain_codec) b' \<longrightarrow>
      deser_header plain_codec b = deser_header plain_codec b'"
    by (metis plain_header_size)
  have blank: "deser_header plain_codec (fdata (jfile blank_journal)) = Some ((whead 0)\<lparr>ty := JT_Invalid\<rparr>)"
    by (simp add: plain_codec_def blank_journal_def blank_file_def whead_def rd32_def BLOCK_SIZE_def)
  have fit: "length (ser_entry plain_codec (byte_entry 7))
      \<le> align_up_always (tail (header blank_journal)) BLOCK_SIZE - tail (header blank_journal)"
    by (simp add: plain_codec_def plain_ser_def byte_entry_def blank_journal_def BLOCK_SIZE_def align_up_always_def)
  show ?thesis
    using journal_header_unwritten [OF plain_codec_ok blank_journal_holds blank_journal_room fit loc blank,
        of plain_cfg 5 bare_disk]
    by (auto simp: plain_cfg_def)
qed

end
