(* ===== verification/ReverseLaws.thy ===== *)
theory ReverseLaws
  imports JournalLaws
begin

text \<open>
  Reading in reverse.  The reverse iterator decodes a block at a time, from the last block to the
  first; since entries never cross a block boundary and no block between head and tail is empty,
  it yields the entries of the journal in reverse order.
\<close>

section \<open>Cutting the log at a block boundary\<close>

lemma log_seg_split:
  assumes "log_seg c j h es t" "h \<le> x" "x \<le> t" "BLOCK_SIZE dvd x"
  shows "\<exists>es1 es2 t'. es = es1 @ es2 \<and> log_seg c j h es1 t' \<and> entry_pos c j t' x \<and> log_seg c j x es2 t"
  using assms
proof (induction rule: log_seg.induct)
  case (seg_nil h)
  then show ?case by (auto simp: entry_pos_def intro: log_seg.seg_nil)
next
  case (seg_cons h p e es t)
  have whole: "log_seg c j p (e # es) t"
    using seg_cons(2,3) by (auto intro: log_seg.seg_cons simp: entry_pos_def)
  consider (at) "p = x" | (below) "p < x" "h < x" | (here) "h = x"
  proof -
    have "p \<le> x" if "h \<noteq> x"
      using that seg_cons(1) seg_cons.prems align_up_least [of h x] by (auto simp: entry_pos_def)
    then show thesis using that entry_pos_ge [OF seg_cons(1)] by fastforce
  qed
  then show ?case
  proof cases
    case at
    then show ?thesis
      using seg_cons(1) whole by (intro exI [of _ "[]"] exI [of _ "e # es"] exI [of _ h]) (auto intro: log_seg.seg_nil)
  next
    case below
    have "p + unat (fsize e) \<le> x"
      using fits_below [OF _ below(1) seg_cons.prems(3)] seg_cons(2) unfolding stored_def by blast
    then obtain es1 es2 t' where "es = es1 @ es2" "log_seg c j (p + unat (fsize e)) es1 t'" "entry_pos c j t' x"
      "log_seg c j x es2 t"
      using seg_cons.IH seg_cons.prems(2,3) by blast
    then show ?thesis
      using seg_cons(1,2) by (intro exI [of _ "e # es1"] exI [of _ es2] exI [of _ t']) (auto intro: log_seg.seg_cons)
  next
    case here
    then have "log_seg c j x (e # es) t" using seg_cons(1-3) by (auto intro: log_seg.seg_cons)
    then show ?thesis
      using here by (intro exI [of _ "[]"] exI [of _ "e # es"] exI [of _ h])
        (auto intro: log_seg.seg_nil simp: entry_pos_def)
  qed
qed

lemma log_seg_empty: "codec_ok c \<Longrightarrow> log_seg c j h es h \<Longrightarrow> es = []"
proof (erule log_seg.cases)
  fix h' p e es' t
  assume "codec_ok c" "h = h'" "h = t" "entry_pos c j h' p" "stored c j p e" "log_seg c j (p + unat (fsize e)) es' t"
  then show "es = []"
    using entry_pos_ge log_seg_le stored_size by fastforce
qed

section \<open>Decoding a block\<close>

lemma stored_check:
  assumes c: "codec_ok c" and r: "ring_ok c j" and st: "stored c j p e"
  shows "check_entry c j p (unat (fsize e)) = Inr e"
proof -
  have n: "unat (fsize e) = length (ser_entry c e)" "p mod BLOCK_SIZE + unat (fsize e) \<le> BLOCK_SIZE"
    and crc: "crc32 e = checksum_ieee c (take (length (ser_entry c e) - 4) (ser_entry c e))"
    using st by (auto simp: stored_def)
  have "\<not> align_up_always p BLOCK_SIZE - p < unat (fsize e)"
    using n(2) mod_less_divisor [OF BLOCK_SIZE_pos, of p] unfolding space_in_block by linarith
  moreover have "4 \<le> length (ser_entry c e)"
    using ser_entry_length [OF c, of e] by simp
  ultimately show ?thesis
    using stored_read_all [OF r st] last4_ser_entry [OF c, of e] crc c by (simp add: check_entry_def)
qed

lemma align_up_in: "BLOCK_SIZE dvd x \<Longrightarrow> x \<le> p \<Longrightarrow> p < x + BLOCK_SIZE \<Longrightarrow> align_up_always p BLOCK_SIZE = x + BLOCK_SIZE"
proof -
  assume a: "BLOCK_SIZE dvd x" "x \<le> p" "p < x + BLOCK_SIZE"
  have "align_up_always p BLOCK_SIZE \<le> x + BLOCK_SIZE"
    using align_up_least [OF a(3)] a(1) by simp
  moreover have "x + BLOCK_SIZE \<le> align_up_always p BLOCK_SIZE"
  proof -
    have "x < align_up_always p BLOCK_SIZE" using a(2) align_up_bounds(1) [of p] by simp
    then have "align_up_always x BLOCK_SIZE \<le> align_up_always p BLOCK_SIZE"
      using align_up_dvd [of p] by (rule align_up_least)
    then show ?thesis using a(1) by (simp add: align_up_eq)
  qed
  ultimately show ?thesis by simp
qed

text \<open>Where decoding a block stops: at the tail, or where the rest of the block is unused.\<close>

definition block_end :: "'a codec \<Rightarrow> Journal \<Rightarrow> nat \<Rightarrow> nat \<Rightarrow> nat \<Rightarrow> bool" where
  "block_end c j x t tp \<longleftrightarrow> t \<le> x + BLOCK_SIZE \<and> tp < 2 ^ 64 \<and>
     (tp = t \<or> tp = x + BLOCK_SIZE \<and> t < x + BLOCK_SIZE \<and> unused_from c j t)"

lemma decode_stop:
  assumes r: "ring_ok c j" and x: "BLOCK_SIZE dvd x" "x \<le> t" and fin: "block_end c j x t tp"
  shows "decode_block (Suc n) c j tp t acc = Some (Inr acc)"
proof (cases "usize_sub tp t < 4")
  case False
  then have tp: "tp = x + BLOCK_SIZE" "t < x + BLOCK_SIZE" "unused_from c j t" "tp < 2 ^ 64"
    using fin by (auto simp: block_end_def usize_sub_def)
  then have sp: "align_up_always t BLOCK_SIZE - t = usize_sub tp t"
    using x by (simp add: align_up_in usize_sub_le)
  then have z: "\<forall>i<4. ring_byte c j (t + i) = 0"
    using False tp(3) by (simp add: unused_from_def)
  have "t mod BLOCK_SIZE + 4 \<le> BLOCK_SIZE"
    using False sp unfolding space_in_block by linarith
  then have "ring_read c j t 4 = Inr [0, 0, 0, 0]"
    using ring_read_ok [OF r] zeros4 [OF z] by simp
  then show ?thesis using False by simp
qed simp

lemma decode_block_ok:
  assumes c: "codec_ok c" and r: "ring_ok c j"
    and "log_seg c j p es t" "BLOCK_SIZE dvd x" "x \<le> p" "block_end c j x t tp" "length es < n"
  shows "decode_block n c j tp p acc = Some (Inr (acc @ es))"
  using assms(3-)
proof (induction arbitrary: n acc rule: log_seg.induct)
  case (seg_nil h)
  then show ?case using decode_stop [OF r] by (cases n) auto
next
  case (seg_cons h p e es t)
  obtain m where n: "n = Suc m" using seg_cons.prems(4) by (cases n) auto
  have t: "p + unat (fsize e) \<le> t" "h \<le> p" "12 \<le> unat (fsize e)" "t \<le> x + BLOCK_SIZE" "t \<le> tp" "tp < 2 ^ 64"
    using log_seg_le [OF seg_cons(3)] entry_pos_ge [OF seg_cons(1)] stored_size [OF c seg_cons(2)] seg_cons.prems(3)
    by (auto simp: block_end_def)
  have "p = h"
    using seg_cons(1) align_up_in [OF seg_cons.prems(1,2)] t by (auto simp: entry_pos_def)
  moreover have "\<not> usize_sub tp p < 4"
    using t by (simp add: usize_sub_le)
  moreover have "decode_block m c j tp (p + unat (fsize e)) (acc @ [e]) = Some (Inr ((acc @ [e]) @ es))"
    using seg_cons.prems t n by (intro seg_cons.IH) auto
  ultimately show ?case
    using stored_read4 [OF c r seg_cons(2)] le32_nonzero [OF c seg_cons(2)] stored_check [OF c r seg_cons(2)] n
    by simp
qed

section \<open>From block to block\<close>

lemma reverse_pops:
  "reverse_all (length bb + n) m c j h bb = map_option (rmap (\<lambda>r. rev bb @ r)) (reverse_all n m c j h [])"
proof (induction bb rule: rev_induct)
  case Nil
  have "rmap (\<lambda>r. r) x = x" for x :: "'a StoreEntry list result" by (cases x) simp_all
  then show ?case by (simp add: option.map_ident)
next
  case (snoc e bb)
  have "rmap (\<lambda>es. e # es) (rmap (\<lambda>r. rev bb @ r) x) = rmap (\<lambda>r. e # rev bb @ r) x"
    for x :: "'a StoreEntry list result" by (cases x) simp_all
  then show ?case
    using snoc by (simp add: reverse_next_def pop_entry_def option.map_comp comp_def)
qed

text \<open>Loading a block is the same as having it in the buffer.\<close>

lemma reverse_load:
  assumes "head h \<noteq> tail h" "tail h \<noteq> 0" "decode_block m c j (tail h) (block_start (tail h)) [] = Some (Inr bb)" "bb \<noteq> []"
    and "h' = h\<lparr>tail := block_start (tail h)\<rparr>"
  shows "reverse_all (Suc n) m c j h [] = reverse_all (Suc n) m c j h' bb"
proof -
  have "(if tail h mod BLOCK_SIZE \<noteq> 0 then h\<lparr>tail := align_down (tail h) BLOCK_SIZE\<rparr>
      else if tail h \<noteq> 0 \<and> tail h \<noteq> head h then h\<lparr>tail := tail h - BLOCK_SIZE\<rparr> else h) = h'"
    using assms(1,2,5) by (auto simp: block_start_def)
  then have "reverse_next m c j h [] = Some (pop_entry h' bb)"
    using assms(1-3) by (simp add: reverse_next_def)
  then show ?thesis
    using assms(4) by (simp add: reverse_next_def)
qed

lemma reverse_block:
  assumes c: "codec_ok c" and r: "ring_ok c j" and seg: "log_seg c j (head h) es t"
    and x: "x = block_start (tail h)" "BLOCK_SIZE dvd x" "head h \<le> x" "x \<le> t" "x < tail h"
    and fin: "block_end c j x t (tail h)" and ne: "tail h \<noteq> t \<longrightarrow> \<not> BLOCK_SIZE dvd t"
    and fuel: "length es < m" "length es < n"
    and cont: "\<And>es1 t' k. log_seg c j (head h) es1 t' \<Longrightarrow> entry_pos c j t' x \<Longrightarrow> length es1 < m \<Longrightarrow> length es1 < k \<Longrightarrow>
      reverse_all k m c j (h\<lparr>tail := x\<rparr>) [] = Some (Inr (rev es1))"
  shows "reverse_all n m c j h [] = Some (Inr (rev es))"
proof -
  obtain es1 es2 t' where es: "es = es1 @ es2" and s1: "log_seg c j (head h) es1 t'" "entry_pos c j t' x"
    and s2: "log_seg c j x es2 t"
    using log_seg_split [OF seg x(3,4,2)] by blast
  have ne2: "es2 \<noteq> []"
  proof
    assume "es2 = []"
    then have "x = t" using s2 by auto
    then show False using x(2,5) ne by auto
  qed
  have dec: "decode_block m c j (tail h) (block_start (tail h)) [] = Some (Inr es2)"
    using decode_block_ok [OF c r s2 x(2) order_refl fin, of m "[]"] fuel(1) es x(1) by simp
  define k where "k = n - length es2"
  have k: "n = length es2 + k" "length es1 < k"
    using fuel(2) es by (simp_all add: k_def)
  obtain n' where n': "n = Suc n'" using fuel(2) by (cases n) auto
  have "reverse_all n m c j h [] = reverse_all n m c j (h\<lparr>tail := x\<rparr>) es2"
    unfolding n' using reverse_load [OF _ _ dec ne2] x(1,3,5) by simp
  also have "\<dots> = map_option (rmap (\<lambda>r. rev es2 @ r)) (reverse_all k m c j (h\<lparr>tail := x\<rparr>) [])"
    unfolding k(1) by (rule reverse_pops)
  also have "\<dots> = Some (Inr (rev es))"
    using cont [OF s1 _ k(2)] fuel(1) es by simp
  finally show ?thesis .
qed

lemma aligned_gap: "BLOCK_SIZE dvd a \<Longrightarrow> BLOCK_SIZE dvd b \<Longrightarrow> a < b \<Longrightarrow> a + BLOCK_SIZE \<le> b"
  using align_up_least [of a b] by (simp add: align_up_eq)

lemma reverse_blocks:
  assumes c: "codec_ok c" and r: "ring_ok c j" and al: "BLOCK_SIZE dvd head h0"
    and "log_seg c j (head h0) es t" "entry_pos c j t T" "BLOCK_SIZE dvd T" "T < 2 ^ 64" "length es < m" "length es < n"
  shows "reverse_all n m c j (h0\<lparr>tail := T\<rparr>) [] = Some (Inr (rev es))"
  using assms(4-)
proof (induction T arbitrary: es t n rule: less_induct)
  case (less T)
  let ?h = "h0\<lparr>tail := T\<rparr>"
  have hT: "head h0 \<le> T" "t \<le> T"
    using log_seg_le [OF less.prems(1)] entry_pos_ge [OF less.prems(2)] by simp_all
  show ?case
  proof (cases "T = head h0")
    case True
    then have "t = head h0" using hT log_seg_le [OF less.prems(1)] by simp
    then have "es = []" using log_seg_empty [OF c] less.prems(1) by simp
    then show ?thesis using True less.prems(6) by (cases n) (auto simp: reverse_next_def)
  next
    case False
    then have gap: "head h0 + BLOCK_SIZE \<le> T"
      using aligned_gap [OF al less.prems(3)] hT(1) by simp
    have start: "block_start T = T - BLOCK_SIZE"
      using less.prems(3) by (simp add: block_start_def dvd_eq_mod_eq_0)
    have x: "BLOCK_SIZE dvd T - BLOCK_SIZE" "head h0 \<le> T - BLOCK_SIZE" "T - BLOCK_SIZE < T"
      using gap less.prems(3) BLOCK_SIZE_pos by (auto simp: dvd_diff_nat simp del: BLOCK_SIZE_pos)
    have low_t: "T - BLOCK_SIZE \<le> t"
      using less.prems(2) align_up_bounds(2) [of t] by (auto simp: entry_pos_def)
    have fin: "block_end c j (T - BLOCK_SIZE) t T"
      using less.prems(2,4) gap align_up_bounds(1) [of t] by (auto simp: block_end_def entry_pos_def)
    have ne: "tail ?h \<noteq> t \<longrightarrow> \<not> BLOCK_SIZE dvd t"
      using less.prems(2) by (auto simp: entry_pos_def)
    show ?thesis
    proof (rule reverse_block [OF c r, where x = "T - BLOCK_SIZE" and t = t])
      fix es1 t' k
      assume "log_seg c j (head ?h) es1 t'" "entry_pos c j t' (T - BLOCK_SIZE)" "length es1 < m" "length es1 < k"
      then show "reverse_all k m c j (?h\<lparr>tail := T - BLOCK_SIZE\<rparr>) [] = Some (Inr (rev es1))"
        using less.IH [of "T - BLOCK_SIZE" es1 t' k] x less.prems(4) by simp
    qed (use less.prems start x low_t fin ne in auto)
  qed
qed

section \<open>Properties\<close>

text \<open>
  C26. Reading a journal in reverse returns its entries in reverse order, newest first, and every
  entry passes the size and checksum checks on the way.
\<close>

theorem journal_read_reverse:
  assumes "journal_holds c j es" "tail (header j) < 2 ^ 64" "length es < n" "length es < m"
  shows "read_reverse n m c j = Some (Inr (rev es))"
proof -
  let ?h = "header j" and ?t = "tail (header j)"
  have c: "codec_ok c" and r: "ring_ok c j" and al: "BLOCK_SIZE dvd head ?h" and seg: "log_seg c j (head ?h) es ?t"
    using assms(1) by (auto simp: journal_holds_def journal_inv_def)
  show ?thesis
  proof (cases "BLOCK_SIZE dvd ?t")
    case True
    then show ?thesis
      using reverse_blocks [OF c r al seg _ True] assms by (simp add: read_reverse_def entry_pos_def)
  next
    case False
    let ?x = "?t - ?t mod BLOCK_SIZE"
    have x: "BLOCK_SIZE dvd ?x" by (rule dvd_minus_mod)
    have pos: "0 < ?t mod BLOCK_SIZE" using False by (simp add: dvd_eq_mod_eq_0)
    then have lt: "?x < ?t" using mod_less_eq_dividend [of ?t BLOCK_SIZE] by linarith
    have "head ?h < ?t" using log_seg_le [OF seg] al False by (cases "head ?h = ?t") auto
    have hx: "head ?h \<le> ?x"
    proof (rule ccontr)
      assume "\<not> head ?h \<le> ?x"
      then have "?x + BLOCK_SIZE \<le> head ?h" using aligned_gap [OF x al] by simp
      then show False using \<open>head ?h < ?t\<close> mod_less_divisor [OF BLOCK_SIZE_pos, of ?t] by linarith
    qed
    have "?t \<le> ?x + BLOCK_SIZE" using mod_less_divisor [OF BLOCK_SIZE_pos, of ?t] by linarith
    then have fin: "block_end c j ?x ?t (tail ?h)"
      using assms(2) by (simp add: block_end_def)
    have start: "?x = block_start (tail ?h)"
      using pos assms(2) by (simp add: block_start_def align_down_eq)
    show ?thesis
      unfolding read_reverse_def
    proof (rule reverse_block [OF c r seg start x hx _ lt fin _ assms(4,3)])
      fix es1 t' k
      assume "log_seg c j (head ?h) es1 t'" "entry_pos c j t' ?x" "length es1 < m" "length es1 < k"
      then show "reverse_all k m c j (?h\<lparr>tail := ?x\<rparr>) [] = Some (Inr (rev es1))"
        using reverse_blocks [OF c r al _ _ x] assms(2) lt by simp
    qed (use lt in simp_all)
  qed
qed

theorem journal_read_reverse_witness:
  "\<exists>j. write_inner plain_codec blank_journal (byte_entry 7) = Inr j
    \<and> read_reverse 2 2 plain_codec j = Some (Inr [journal_entry plain_codec (byte_entry 7)])"
proof -
  have inv: "journal_inv plain_codec blank_journal []"
    using blank_journal_holds by (simp add: journal_holds_def)
  have size: "length (ser_entry plain_codec (byte_entry 7)) = 14"
    by (simp add: plain_codec_def plain_ser_def byte_entry_def)
  obtain j where j: "write_inner plain_codec blank_journal (byte_entry 7) = Inr j"
    "journal_inv plain_codec j ([] @ [journal_entry plain_codec (byte_entry 7)])" "tail (header j) = 14"
    by (rule write_inner_fits [OF plain_codec_ok inv, of "byte_entry 7"])
      (auto simp: size blank_journal_def BLOCK_SIZE_def align_up_always_def)
  have "read_reverse 2 2 plain_codec j = Some (Inr (rev [journal_entry plain_codec (byte_entry 7)]))"
    by (rule journal_read_reverse) (use j plain_codec_ok in \<open>simp_all add: journal_holds_def\<close>)
  then show ?thesis using j(1) by simp
qed

end
