(* ===== verification/OrdMap.thy ===== *)
theory OrdMap
  imports Main
begin

text \<open>
  \<open>BTreeMap\<close> as the snapshots use it: an association list whose keys increase strictly, so
  that iteration is in key order.  The locale is the contract of an ordered map; the
  interpretation shows that the list operations keep it.
\<close>

type_synonym ('k, 'v) omap = "('k \<times> 'v) list"

abbreviation keys :: "('k, 'v) omap \<Rightarrow> 'k list" where
  "keys m \<equiv> map fst m"

definition om_ok :: "('k::linorder, 'v) omap \<Rightarrow> bool" where
  "om_ok m \<longleftrightarrow> sorted_wrt (<) (keys m)"

definition om_get :: "('k, 'v) omap \<Rightarrow> 'k \<Rightarrow> 'v option" where
  "om_get m k = map_of m k"

fun om_insert :: "'k::linorder \<Rightarrow> 'v \<Rightarrow> ('k, 'v) omap \<Rightarrow> ('k, 'v) omap" where
  "om_insert k v [] = [(k, v)]"
| "om_insert k v (p # m) =
     (if fst p < k then p # om_insert k v m
      else if fst p = k then (k, v) # m
      else (k, v) # p # m)"

definition om_remove :: "'k \<Rightarrow> ('k, 'v) omap \<Rightarrow> ('k, 'v) omap" where
  "om_remove k m = filter (\<lambda>p. fst p \<noteq> k) m"

text \<open>\<open>range(..k).next_back()\<close> and \<open>iter().next_back()\<close>\<close>

definition om_before :: "('k::linorder, 'v) omap \<Rightarrow> 'k \<Rightarrow> ('k \<times> 'v) option" where
  "om_before m k = (let ps = filter (\<lambda>p. fst p < k) m in if ps = [] then None else Some (last ps))"

definition om_last :: "('k, 'v) omap \<Rightarrow> ('k \<times> 'v) option" where
  "om_last m = (if m = [] then None else Some (last m))"

lemma om_insert_set: "set (keys (om_insert k v m)) = insert k (set (keys m))"
  by (induction m) auto

lemma om_insert_ok: "om_ok m \<Longrightarrow> om_ok (om_insert k v m)"
proof (induction m)
  case (Cons p m)
  then show ?case
    using om_insert_set [of k v m] by (auto simp: om_ok_def)
qed (simp add: om_ok_def)

lemma om_remove_ok: "om_ok m \<Longrightarrow> om_ok (om_remove k m)"
  unfolding om_ok_def om_remove_def by (induction m) auto

lemma om_get_insert: "om_ok m \<Longrightarrow> om_get (om_insert k v m) i = (if i = k then Some v else om_get m i)"
proof (induction m)
  case (Cons p m)
  then have ok: "om_ok m" and low: "\<forall>a \<in> set (keys m). fst p < a"
    by (auto simp: om_ok_def)
  show ?case
  proof (cases "fst p < k")
    case True
    then show ?thesis using Cons.IH [OF ok] by (cases p) (auto simp: om_get_def)
  next
    case False
    then show ?thesis by (cases p) (auto simp: om_get_def)
  qed
qed (simp add: om_get_def)

lemma om_get_remove: "om_get (om_remove k m) i = (if i = k then None else om_get m i)"
  by (induction m) (auto simp: om_get_def om_remove_def)

lemma om_get_keys: "om_get m k = None \<longleftrightarrow> k \<notin> set (keys m)"
  unfolding om_get_def by (simp add: map_of_eq_None_iff)

text \<open>The entries of an ordered map determine look-up.\<close>

lemma om_get_iff: "om_ok m \<Longrightarrow> om_get m k = Some v \<longleftrightarrow> (k, v) \<in> set m"
  unfolding om_get_def
  by (rule map_of_eq_Some_iff) (auto simp: om_ok_def strict_sorted_iff)

lemma om_insert_entries:
  "om_ok m \<Longrightarrow> set (om_insert k v m) = insert (k, v) {p \<in> set m. fst p \<noteq> k}"
proof (induction m)
  case (Cons p m)
  then have ok: "om_ok m" and low: "\<And>a. a \<in> set m \<Longrightarrow> fst p < fst a"
    by (auto simp: om_ok_def)
  then show ?case
    using Cons.IH [OF ok] by (auto dest: low)
qed simp

lemma om_remove_entries: "set (om_remove k m) = {p \<in> set m. fst p \<noteq> k}"
  by (auto simp: om_remove_def)

lemma om_before_Some:
  assumes "om_ok m" "om_before m k = Some p"
  shows "p \<in> set m" "fst p < k" "\<And>q. q \<in> set m \<Longrightarrow> fst q < k \<Longrightarrow> fst q \<le> fst p"
proof -
  let ?ps = "filter (\<lambda>q. fst q < k) m"
  have ne: "?ps \<noteq> []" and p: "p = last ?ps"
    using assms(2) by (auto simp: om_before_def Let_def split: if_splits)
  have "p \<in> set ?ps" unfolding p by (rule last_in_set [OF ne])
  then show "p \<in> set m" "fst p < k" by auto
  have srt: "sorted_wrt (\<lambda>a b. fst a < fst b) ?ps"
    using assms(1) by (simp add: om_ok_def sorted_wrt_map sorted_wrt_filter)
  show "fst q \<le> fst p" if "q \<in> set m" "fst q < k" for q
  proof -
    have "q \<in> set (butlast ?ps @ [last ?ps])"
      using that ne by simp
    moreover have "sorted_wrt (\<lambda>a b. fst a < fst b) (butlast ?ps @ [last ?ps])"
      using srt ne by simp
    ultimately show ?thesis
      using p by (auto simp: sorted_wrt_append intro: less_imp_le)
  qed
qed

lemma om_before_None: "om_before m k = None \<longleftrightarrow> (\<forall>q \<in> set m. k \<le> fst q)"
  by (auto simp: om_before_def Let_def filter_empty_conv not_less)

locale ordered_map =
  fixes get :: "'m \<Rightarrow> 'k::linorder \<Rightarrow> 'v option"
    and ins :: "'k \<Rightarrow> 'v \<Rightarrow> 'm \<Rightarrow> 'm"
    and rem :: "'k \<Rightarrow> 'm \<Rightarrow> 'm"
    and ok :: "'m \<Rightarrow> bool"
  assumes get_ins: "ok m \<Longrightarrow> get (ins k v m) i = (if i = k then Some v else get m i)"
    and get_rem: "ok m \<Longrightarrow> get (rem k m) i = (if i = k then None else get m i)"
    and ok_ins: "ok m \<Longrightarrow> ok (ins k v m)"
    and ok_rem: "ok m \<Longrightarrow> ok (rem k m)"
begin

lemma get_ins_rem: "ok m \<Longrightarrow> get (ins j v (rem k m)) i = (if i = j then Some v else if i = k then None else get m i)"
  by (simp add: get_ins get_rem ok_rem)

lemma get_rem_ins: "ok m \<Longrightarrow> get (rem k (ins k v m)) i = (if i = k then None else get m i)"
  by (simp add: get_ins get_rem ok_ins)

end

interpretation om: ordered_map om_get om_insert om_remove om_ok
  by unfold_locales (simp_all add: om_get_insert om_get_remove om_insert_ok om_remove_ok)

end
