(* ===== verification/Snapshot.thy ===== *)
theory Snapshot
  imports Store OpsUnix OrdMap
begin

text \<open>
  Snapshots (\<open>snapshot/forward.rs\<close> and \<open>snapshot/mod.rs\<close>): the net effect of a forward
  journal, kept as one record per path with the data of the writes in a file that the snapshot
  allocates itself.  \<open>BTreeMap\<close>s are ordered association lists.

  Parameters: the \<open>bincode\<close> encoding of the header and of the file table, the checksum update
  of the \<open>crc\<close> crate, and the iteration order of a \<open>HashMap\<close>.  Positions and sizes are
  \<open>u64\<close> and \<open>usize\<close>: additions and subtractions wrap.
\<close>

section \<open>Data\<close>

record Block =
  location :: nat
  bsize :: nat

type_synonym DataList = "(nat, Block) omap"

datatype FileType =
    FT_Invalid
  | FT_Opened
  | FT_Directory
  | FT_New i32
  | FT_Special u64
  | FT_Symlink path
  | FT_Hardlink path
  | FT_Moved path

datatype FileSize = Unknown | MoreThan u64 | Exactly u64

record File =
  f_uid :: "u32 option"
  f_gid :: "u32 option"
  f_mode :: "u32 option"
  f_size :: FileSize
  f_xattrs :: "(bytes, bytes option) omap option"
  f_time :: "timespec3 option"
  f_ty :: FileType
  f_data :: "DataList option"

definition default_file :: File where
  "default_file = \<lparr>f_uid = None, f_gid = None, f_mode = None, f_size = Unknown, f_xattrs = None,
     f_time = None, f_ty = FT_Invalid, f_data = None\<rparr>"

datatype SnapshotType = ST_Forward | ST_Bidirectional | ST_Undo

record Header =
  s_ty :: SnapshotType
  ft_offset :: nat
  s_from :: nat
  s_to :: nat
  s_checksum :: u32

type_synonym free_map = "(nat, nat) omap"

record Snapshot =
  s_header :: Header
  s_files :: "(path, File) omap"
  serialised :: bfile
  free_list :: free_map

record snap_codec =
  sh_size :: nat
  ser_sh :: "Header \<Rightarrow> bytes"
  deser_sh :: "bytes \<Rightarrow> Header option"
  ser_files :: "(path, File) omap \<Rightarrow> bytes"
  deser_files :: "bytes \<Rightarrow> (path, File) omap option"
  crc_update :: "u32 \<Rightarrow> bytes \<Rightarrow> u32"
  hash_order :: "(bytes, bytes option) omap \<Rightarrow> (bytes \<times> bytes option) list"

definition USIZE_MAX :: nat where "USIZE_MAX = 2 ^ 64 - 1"

text \<open>
  \<open>hash_reader\<close> feeds the rest of the file to the checksum in pieces of at most 4096 bytes.
\<close>

function hash_reader :: "(u32 \<Rightarrow> bytes \<Rightarrow> u32) \<Rightarrow> u32 \<Rightarrow> bytes \<Rightarrow> u32" where
  "hash_reader upd digest b =
     (if b = [] then digest else hash_reader upd (upd digest (take 4096 b)) (drop 4096 b))"
  by pat_completeness auto
termination
  by (relation "measure (\<lambda>(upd, digest, b). length b)") auto

declare hash_reader.simps [simp del]

definition snapshot_new :: "snap_codec \<Rightarrow> bfile \<Rightarrow> nat \<Rightarrow> nat \<Rightarrow> Snapshot" where
  "snapshot_new c to_file t1 t2 =
     \<lparr>s_header = \<lparr>s_ty = ST_Forward, ft_offset = 0, s_from = t1, s_to = t2, s_checksum = 0\<rparr>,
      s_files = [], serialised = to_file, free_list = om_insert (sh_size c) USIZE_MAX []\<rparr>"

definition snapshot_open :: "snap_codec \<Rightarrow> bfile \<Rightarrow> Snapshot result" where
  "snapshot_open c f =
     rbind (bincode_result (deser_sh c (fdata f))) (\<lambda>h.
     rbind (bincode_result (deser_files c (drop (ft_offset h) (fdata f)))) (\<lambda>fs.
       Inr \<lparr>s_header = h, s_files = fs, serialised = f, free_list = om_insert (ft_offset h) USIZE_MAX []\<rparr>))"

text \<open>\<open>get_or_open\<close> gives the file of a path, entering an opened one with no data first.\<close>

definition opened_file :: File where
  "opened_file = default_file\<lparr>f_ty := FT_Opened, f_data := Some []\<rparr>"

definition get_or_open :: "(path, File) omap \<Rightarrow> path \<Rightarrow> File \<times> (path, File) omap" where
  "get_or_open fs p = (case om_get fs p of
       Some f \<Rightarrow> (f, fs)
     | None \<Rightarrow> (opened_file, om_insert p opened_file fs))"

section \<open>The allocator\<close>

definition free_at :: "free_map \<Rightarrow> nat \<Rightarrow> nat option \<Rightarrow> (nat \<times> nat) option" where
  "free_at fl sz hint = Option.bind hint (\<lambda>h. case om_get fl h of
       Some v \<Rightarrow> if sz \<le> v then Some (h, v) else None
     | None \<Rightarrow> None)"

definition allocate :: "free_map \<Rightarrow> nat \<Rightarrow> nat option \<Rightarrow> (Block \<times> free_map) result" where
  "allocate fl sz hint =
     rbind (case free_at fl sz hint of
              Some e \<Rightarrow> Inr e
            | None \<Rightarrow> unwrap ''called Option::unwrap() on a None value'' (List.find (\<lambda>(k, v). sz \<le> v) fl))
       (\<lambda>(loc, entry_size).
         let fl1 = om_remove loc fl;
             fl2 = (if sz < entry_size then om_insert (usize_add loc sz) (entry_size - sz) fl1 else fl1)
         in Inr (\<lparr>location = loc, bsize = sz\<rparr>, fl2))"

definition merge_prev :: "free_map \<Rightarrow> nat \<Rightarrow> nat \<Rightarrow> nat \<times> nat \<times> free_map" where
  "merge_prev fl offset sz = (case om_before fl offset of
       Some (k, v) \<Rightarrow> if usize_add k v = offset then (k, usize_add sz v, om_remove k fl) else (offset, sz, fl)
     | None \<Rightarrow> (offset, sz, fl))"

definition deallocate :: "free_map \<Rightarrow> Block \<Rightarrow> free_map" where
  "deallocate fl b =
     (let (offset, sz, fl1) = merge_prev fl (location b) (bsize b);
          next_at = usize_add offset sz
      in case om_get fl1 next_at of
           Some next_size \<Rightarrow> om_insert offset (usize_add sz next_size) (om_remove next_at fl1)
         | None \<Rightarrow> om_insert offset sz fl1)"

definition deallocate_all :: "free_map \<Rightarrow> DataList option \<Rightarrow> free_map" where
  "deallocate_all fl d = (case d of
       None \<Rightarrow> fl
     | Some bs \<Rightarrow> foldl (\<lambda>fl (k, b). deallocate fl b) fl bs)"

text \<open>\<open>move_file_range\<close> copies in pieces of 16 KiB, front to back.\<close>

definition BUF_SIZE :: nat where "BUF_SIZE = 16 * 1024"

function move_from :: "bfile \<Rightarrow> nat \<Rightarrow> nat \<Rightarrow> nat \<Rightarrow> nat \<Rightarrow> bfile result" where
  "move_from f from to sz offset =
     (if offset < sz then
        (let len = min (sz - offset) BUF_SIZE in
         case read_exact_at f (usize_add from offset) len of Inl e \<Rightarrow> Inl e
         | Inr b \<Rightarrow> (case write_all_at f (usize_add to offset) b of Inl e \<Rightarrow> Inl e
           | Inr f' \<Rightarrow> move_from f' from to sz (offset + BUF_SIZE)))
      else Inr f)"
  by pat_completeness auto
termination
  by (relation "measure (\<lambda>(f, from, to, sz, offset). sz - offset)") (auto simp: BUF_SIZE_def)

declare move_from.simps [simp del]

definition move_file_range :: "bfile \<Rightarrow> nat \<Rightarrow> nat \<Rightarrow> nat \<Rightarrow> bfile result" where
  "move_file_range f from to sz = move_from f from to sz 0"

section \<open>Writes\<close>

definition MERGE_LIMIT :: nat where "MERGE_LIMIT = 1024 * 1024"

text \<open>The state an \<open>encode_write\<close> works on: free list, data file, and the blocks of the file.\<close>

type_synonym wstate = "free_map \<times> bfile \<times> DataList"

text \<open>
  \<open>data.range(..=offset + len).rev().take_while(end >= offset)\<close>, reversed back.
\<close>

definition find_overlaps :: "DataList \<Rightarrow> nat \<Rightarrow> nat \<Rightarrow> (nat \<times> Block) list" where
  "find_overlaps data offset len =
     rev (takeWhile (\<lambda>(k, b). offset \<le> usize_add k (bsize b))
       (rev (filter (\<lambda>(k, b). k \<le> usize_add offset len) data)))"

definition fits_inside :: "nat \<times> Block \<Rightarrow> nat \<Rightarrow> nat \<Rightarrow> bool" where
  "fits_inside e offset len \<longleftrightarrow> fst e \<le> offset \<and> usize_add offset len \<le> usize_add (fst e) (bsize (snd e))"

text \<open>
  The write starts inside or right behind the only overlap: allocate behind its block; the
  flag says whether that place was free and the write is done.
\<close>

definition append_next :: "wstate \<Rightarrow> nat \<times> Block \<Rightarrow> nat \<Rightarrow> bytes \<Rightarrow> (bool \<times> wstate) result" where
  "append_next w e offset buff =
     (let (fl, f, data) = w; (k, b) = e;
          overlap_size = usize_sub (usize_add k (bsize b)) offset;
          behind = usize_add (location b) (bsize b) in
      rbind (allocate fl (usize_sub (length buff) overlap_size) (Some behind)) (\<lambda>(block, fl1).
        if location block = behind then
          rbind (write_all_at f (usize_sub (location block) overlap_size) buff) (\<lambda>f1.
            Inr (True, fl1, f1, om_insert k (b\<lparr>bsize := usize_add (bsize b) (bsize block)\<rparr>) data))
        else Inr (False, deallocate fl1 block, f, data)))"

definition trim_front :: "(nat \<times> Block) list \<Rightarrow> nat \<Rightarrow> (nat \<times> Block) list" where
  "trim_front ov offset = (case ov of
       [] \<Rightarrow> []
     | (k, b) # rest \<Rightarrow> if MERGE_LIMIT < bsize b \<and> usize_add k (bsize b) = offset then rest else ov)"

definition trim_back :: "(nat \<times> Block) list \<Rightarrow> nat \<Rightarrow> nat \<Rightarrow> (nat \<times> Block) list" where
  "trim_back ov offset len =
     (if ov \<noteq> [] \<and> MERGE_LIMIT < bsize (snd (last ov)) \<and> fst (last ov) = usize_add offset len
      then butlast ov else ov)"

text \<open>Deallocate the merged blocks and take them out of the list.\<close>

fun drop_overlaps :: "free_map \<Rightarrow> DataList \<Rightarrow> (nat \<times> Block) list \<Rightarrow> (free_map \<times> DataList) result" where
  "drop_overlaps fl data [] = Inr (fl, data)"
| "drop_overlaps fl data ((k, _) # ov) =
     rbind (unwrap ''called Option::unwrap() on a None value'' (om_get data k))
       (\<lambda>b. drop_overlaps (deallocate fl b) (om_remove k data) ov)"

definition move_if :: "bfile \<Rightarrow> nat \<Rightarrow> nat \<Rightarrow> nat \<Rightarrow> bfile result" where
  "move_if f from to n = (if n \<noteq> 0 then move_file_range f from to n else Inr f)"

definition defragment :: "wstate \<Rightarrow> (nat \<times> Block) list \<Rightarrow> nat \<Rightarrow> bytes \<Rightarrow> wstate result" where
  "defragment w ov offset buff =
     (let (fl, f, data) = w; (k1, b1) = hd ov; (k2, b2) = last ov;
          first_exclusive = (if k1 < offset then offset - k1 else 0);
          write_end = usize_add offset (length buff);
          last_end = usize_add k2 (bsize b2);
          last_exclusive = (if write_end < last_end then last_end - write_end else 0);
          need_space = usize_add (usize_add first_exclusive (length buff)) last_exclusive in
      rbind (allocate fl need_space None) (\<lambda>(block, fl1).
      rbind (move_if f (location b1) (location block) first_exclusive) (\<lambda>f1.
      rbind (write_all_at f1 (usize_add (location block) first_exclusive) buff) (\<lambda>f2.
      rbind (move_if f2 (usize_add (location b2) (usize_sub (bsize b2) last_exclusive))
               (usize_add (location block) (usize_add first_exclusive (length buff))) last_exclusive) (\<lambda>f3.
      rbind (drop_overlaps fl1 data ov) (\<lambda>(fl2, data2).
        Inr (fl2, f3, om_insert (min k1 offset) block data2)))))))"

definition place_write :: "wstate \<Rightarrow> (nat \<times> Block) list \<Rightarrow> nat \<Rightarrow> bytes \<Rightarrow> wstate result" where
  "place_write w ov offset buff =
     (if ov = [] then
        (let (fl, f, data) = w in
         rbind (allocate fl (length buff) None) (\<lambda>(block, fl1).
         rbind (write_all_at f (location block) buff) (\<lambda>f1.
           Inr (fl1, f1, om_insert offset block data))))
      else defragment w ov offset buff)"

definition write_blocks :: "wstate \<Rightarrow> nat \<Rightarrow> bytes \<Rightarrow> wstate result" where
  "write_blocks w offset buff =
     (let (fl, f, data) = w;
          ov = find_overlaps data offset (length buff);
          rest = (\<lambda>w'. place_write w' (trim_back (trim_front ov offset) offset (length buff)) offset buff) in
      case ov of
        [e] \<Rightarrow>
          if fits_inside e offset (length buff) then
            rbind (write_all_at f (usize_add (location (snd e)) (offset - fst e)) buff) (\<lambda>f1. Inr (fl, f1, data))
          else if fst e < offset then
            rbind (append_next w e offset buff) (\<lambda>(fin, w'). if fin then Inr w' else rest w')
          else rest w
      | _ \<Rightarrow> rest w)"

definition encode_write :: "Snapshot \<Rightarrow> path \<Rightarrow> nat \<Rightarrow> bytes \<Rightarrow> Snapshot result" where
  "encode_write s p offset buff =
     (let (file, fs) = get_or_open (s_files s) p in
      rbind (unwrap ''Cannot encode write when there is no data'' (f_data file)) (\<lambda>data.
      rbind (write_blocks (free_list s, serialised s, data) offset buff) (\<lambda>(fl, f, data').
        Inr (s\<lparr>s_files := om_insert p (file\<lparr>f_data := Some data'\<rparr>) fs, serialised := f, free_list := fl\<rparr>))))"

section \<open>Merging calls\<close>

definition update_file :: "Snapshot \<Rightarrow> path \<Rightarrow> (File \<Rightarrow> File) \<Rightarrow> Snapshot" where
  "update_file s p g = (let (file, fs) = get_or_open (s_files s) p in s\<lparr>s_files := om_insert p (g file) fs\<rparr>)"

text \<open>\<open>assert!(self.files.insert(path, file).is_none())\<close>\<close>

definition insert_fresh :: "Snapshot \<Rightarrow> path \<Rightarrow> File \<Rightarrow> Snapshot result" where
  "insert_fresh s p file =
     (if om_get (s_files s) p = None then Inr (s\<lparr>s_files := om_insert p file (s_files s)\<rparr>)
      else Inl (Panicked ''assertion failed: self.files.insert(..).is_none()''))"

definition file_blocks :: "(path, File) omap \<Rightarrow> path \<Rightarrow> DataList option" where
  "file_blocks fs p = Option.bind (om_get fs p) f_data"

definition merge_rename :: "Snapshot \<Rightarrow> path \<Rightarrow> path \<Rightarrow> Snapshot" where
  "merge_rename s from to =
     (let file = (case om_get (s_files s) from of
            Some f \<Rightarrow> f
          | None \<Rightarrow> default_file\<lparr>f_ty := FT_Moved from, f_data := Some []\<rparr>);
          fs = om_remove from (s_files s)
      in s\<lparr>s_files := om_insert to file fs, free_list := deallocate_all (free_list s) (file_blocks fs to)\<rparr>)"

definition merge_link :: "Snapshot \<Rightarrow> path \<Rightarrow> path \<Rightarrow> u32 \<Rightarrow> u32 \<Rightarrow> Snapshot result" where
  "merge_link s from to uid gid =
     rbind (case om_get (s_files s) from of
              Some f \<Rightarrow> unwrap ''Hardlink from is not a regualar file?'' (f_data f)
            | None \<Rightarrow> Inr [])
       (\<lambda>data. insert_fresh s to (default_file\<lparr>f_uid := Some uid, f_gid := Some gid,
          f_ty := FT_Hardlink from, f_data := Some data\<rparr>))"

definition merge_unlink :: "Snapshot \<Rightarrow> path \<Rightarrow> Snapshot" where
  "merge_unlink s p = s\<lparr>s_files := om_remove p (s_files s),
     free_list := deallocate_all (free_list s) (file_blocks (s_files s) p)\<rparr>"

text \<open>
  The data of a truncated file: blocks at or behind the new size go, a last block that reaches
  over it is shortened.
\<close>

definition truncate_data :: "free_map \<Rightarrow> DataList \<Rightarrow> nat \<Rightarrow> free_map \<times> DataList" where
  "truncate_data fl data sz =
     (let fl1 = foldl (\<lambda>fl (k, b). deallocate fl b) fl (filter (\<lambda>(k, b). sz \<le> k) data);
          kept = filter (\<lambda>(k, b). k < sz) data
      in case om_last kept of
           None \<Rightarrow> (fl1, kept)
         | Some (k, b) \<Rightarrow>
             if sz < usize_add k (bsize b) then
               (let dealloc_size = usize_add k (bsize b) - sz in
                (deallocate fl1 \<lparr>location = usize_add (location b) (usize_sub (bsize b) dealloc_size), bsize = dealloc_size\<rparr>,
                 om_insert k (b\<lparr>bsize := usize_sub (bsize b) dealloc_size\<rparr>) kept))
             else (fl1, kept))"

definition merge_truncate :: "Snapshot \<Rightarrow> path \<Rightarrow> i64 \<Rightarrow> Snapshot" where
  "merge_truncate s p sz =
     (let (file, fs) = get_or_open (s_files s) p;
          file1 = file\<lparr>f_size := Exactly sz\<rparr>
      in case f_data file1 of
           None \<Rightarrow> s\<lparr>s_files := om_insert p file1 fs\<rparr>
         | Some data \<Rightarrow>
             (let (fl, data') = truncate_data (free_list s) data (unat sz)
              in s\<lparr>s_files := om_insert p (file1\<lparr>f_data := Some data'\<rparr>) fs, free_list := fl\<rparr>))"

definition extend_size :: "u64 \<Rightarrow> FileSize \<Rightarrow> FileSize" where
  "extend_size nsize sz = (case sz of
       Exactly v \<Rightarrow> if v < nsize then Exactly nsize else sz
     | MoreThan v \<Rightarrow> if v < nsize then MoreThan nsize else sz
     | Unknown \<Rightarrow> MoreThan nsize)"

definition set_xattr :: "bytes \<Rightarrow> bytes option \<Rightarrow> File \<Rightarrow> File" where
  "set_xattr name v file =
     file\<lparr>f_xattrs := Some (om_insert name v (case f_xattrs file of None \<Rightarrow> [] | Some x \<Rightarrow> x))\<rparr>"

fun merge_call :: "Snapshot \<Rightarrow> VFSCall \<Rightarrow> Snapshot result" where
  "merge_call s (VFS_rename from to _) = Inr (merge_rename s from to)"
| "merge_call s (VFS_mknod p mode rdev (Unix uid gid)) =
     insert_fresh s p (default_file\<lparr>f_uid := Some uid, f_gid := Some gid, f_mode := Some mode,
       f_ty := FT_Special rdev, f_data := Some []\<rparr>)"
| "merge_call s (VFS_mkdir p (Unix uid gid) mode) =
     insert_fresh s p (default_file\<lparr>f_uid := Some uid, f_gid := Some gid, f_mode := Some mode, f_ty := FT_Directory\<rparr>)"
| "merge_call s (VFS_symlink from to (Unix uid gid)) =
     insert_fresh s to (default_file\<lparr>f_uid := Some uid, f_gid := Some gid, f_ty := FT_Symlink from\<rparr>)"
| "merge_call s (VFS_link from to (Unix uid gid)) = merge_link s from to uid gid"
| "merge_call s (VFS_create p flags (Unix uid gid) mode) =
     Inr (s\<lparr>s_files := om_insert p (default_file\<lparr>f_uid := Some uid, f_gid := Some gid, f_mode := Some mode,
       f_ty := FT_New flags, f_data := Some []\<rparr>) (s_files s)\<rparr>)"
| "merge_call s (VFS_unlink p) = Inr (merge_unlink s p)"
| "merge_call s (VFS_rmdir p) = Inr (merge_unlink s p)"
| "merge_call s (VFS_security p (Unix uid gid)) =
     Inr (update_file s p (\<lambda>f. f\<lparr>f_uid := Some uid, f_gid := Some gid\<rparr>))"
| "merge_call s (VFS_chmod p mode) = Inr (update_file s p (\<lambda>f. f\<lparr>f_mode := Some mode\<rparr>))"
| "merge_call s (VFS_truncate p sz) = Inr (merge_truncate s p sz)"
| "merge_call s (VFS_fallocate p _ offset len) =
     Inr (update_file s p (\<lambda>f. f\<lparr>f_size := extend_size (offset + len) (f_size f)\<rparr>))"
| "merge_call s (VFS_write p offset buf) = encode_write s p (unat offset) buf"
| "merge_call s (VFS_diff_write p offset buf) = encode_write s p (unat offset) buf"
| "merge_call s (VFS_setxattr p name val _) = Inr (update_file s p (set_xattr name (Some val)))"
| "merge_call s (VFS_removexattr p name) = Inr (update_file s p (set_xattr name None))"
| "merge_call s (VFS_utimens p ts) = Inr (update_file s p (\<lambda>f. f\<lparr>f_time := Some ts\<rparr>))"
| "merge_call s (VFS_fsync _ _) = Inr s"
| "merge_call s (VFS_truncating_write _ _ _ _) = Inl (Panicked ''This is a bullshit vfscall'')"
| "merge_call s _ = Inl (Panicked ''Not handled, maybe windows stuff?'')"

fun merge_from :: "Snapshot \<Rightarrow> VFSCall list \<Rightarrow> Snapshot result" where
  "merge_from s [] = Inr s"
| "merge_from s (call # calls) = rbind (merge_call s call) (\<lambda>s'. merge_from s' calls)"

section \<open>Compaction\<close>

text \<open>
  The test \<open>(wasted as f64 / end as f64) < 0.05\<close> is taken over the exact quotient.
\<close>

definition wasted_space :: "free_map \<Rightarrow> nat" where
  "wasted_space fl = foldl usize_add 0 (map snd (drop 1 (rev fl)))"

definition below_five_percent :: "nat \<Rightarrow> nat \<Rightarrow> bool" where
  "below_five_percent wasted end_of_data \<longleftrightarrow> 20 * wasted < end_of_data"

definition end_of_free :: "free_map \<Rightarrow> nat result" where
  "end_of_free fl = rmap fst (unwrap ''called Option::unwrap() on a None value'' (om_last fl))"

text \<open>The run of moved blocks, the merged list, the free list and the data file.\<close>

type_synonym cstate = "(nat \<times> Block) \<times> DataList \<times> free_map \<times> bfile"

definition empty_run :: "nat \<times> Block" where
  "empty_run = (0, \<lparr>location = 0, bsize = 0\<rparr>)"

definition extend_run :: "nat \<times> Block \<Rightarrow> DataList \<Rightarrow> nat \<Rightarrow> Block \<Rightarrow> nat \<Rightarrow> (nat \<times> Block) \<times> DataList" where
  "extend_run run merged offset new_block old_size =
     (let (k, b) = run in
      if k = 0 \<and> location b = 0 \<and> bsize b = 0 then ((offset, new_block), merged)
      else if usize_add k (bsize b) = offset \<and> usize_add (location b) (bsize b) = location new_block
      then ((k, b\<lparr>bsize := usize_add (bsize b) old_size\<rparr>), merged)
      else ((offset, new_block), om_insert k b merged))"

definition compact_block :: "nat \<Rightarrow> nat \<times> Block \<Rightarrow> cstate \<Rightarrow> cstate result" where
  "compact_block limit e st =
     (let (offset, block) = e; (run, merged, fl, f) = st in
      if limit < location block then
        rbind (allocate fl (bsize block) (Some (usize_add (location (snd run)) (bsize (snd run))))) (\<lambda>(new_block, fl1).
        if location block < location new_block then
          Inr (run, om_insert offset block merged, deallocate fl1 new_block, f)
        else
          rbind (move_file_range f (location block) (location new_block) (bsize block)) (\<lambda>f1.
          let (run', merged') = extend_run run merged offset new_block (bsize block)
          in Inr (run', merged', deallocate fl1 block, f1)))
      else Inr (run, om_insert offset block merged, fl, f))"

fun compact_blocks :: "nat \<Rightarrow> (nat \<times> Block) list \<Rightarrow> cstate \<Rightarrow> cstate result" where
  "compact_blocks limit [] st = Inr st"
| "compact_blocks limit (e # es) st = rbind (compact_block limit e st) (compact_blocks limit es)"

definition compact_file :: "free_map \<Rightarrow> bfile \<Rightarrow> nat \<Rightarrow> DataList \<Rightarrow> (DataList \<times> free_map \<times> bfile) result" where
  "compact_file fl f end_of_data data =
     rbind (compact_blocks (usize_sub end_of_data (wasted_space fl)) data (empty_run, [], fl, f))
       (\<lambda>(run, merged, fl', f').
         Inr (if fst run \<noteq> 0 then om_insert (fst run) (snd run) merged else merged, fl', f'))"

text \<open>The files in order, until less than five percent is wasted.\<close>

fun compact_files :: "(path, File) omap \<Rightarrow> free_map \<Rightarrow> bfile \<Rightarrow> ((path, File) omap \<times> free_map \<times> bfile) result" where
  "compact_files [] fl f = Inr ([], fl, f)"
| "compact_files ((p, file) # rest) fl f = (case f_data file of
       None \<Rightarrow> rmap (\<lambda>(fs, fl', f'). ((p, file) # fs, fl', f')) (compact_files rest fl f)
     | Some data \<Rightarrow>
         rbind (end_of_free fl) (\<lambda>end_of_data.
         if below_five_percent (wasted_space fl) end_of_data then Inr ((p, file) # rest, fl, f)
         else
           rbind (compact_file fl f end_of_data data) (\<lambda>(data', fl1, f1).
           rmap (\<lambda>(fs, fl', f'). ((p, file\<lparr>f_data := Some data'\<rparr>) # fs, fl', f')) (compact_files rest fl1 f1))))"

definition compact :: "Snapshot \<Rightarrow> Snapshot result" where
  "compact s = rmap (\<lambda>(fs, fl, f). s\<lparr>s_files := fs, free_list := fl, serialised := f\<rparr>)
     (compact_files (s_files s) (free_list s) (serialised s))"

text \<open>
  \<open>finalize\<close>: cut the file behind the data, append the file table, checksum everything behind
  the header, and write the header.
\<close>

definition finalize :: "snap_codec \<Rightarrow> Snapshot \<Rightarrow> bfile result" where
  "finalize c s =
     rbind (compact s) (\<lambda>s1.
     rbind (end_of_free (free_list s1)) (\<lambda>end_of_data.
     rbind (set_len (serialised s1) end_of_data) (\<lambda>f1.
     rbind (write_all_at f1 end_of_data (ser_files c (s_files s1))) (\<lambda>f2.
     let h = (s_header s1)\<lparr>s_checksum := hash_reader (crc_update c) 0 (drop (sh_size c) (fdata f2)), ft_offset := end_of_data\<rparr>
     in write_all_at f2 0 (ser_sh c h)))))"

section \<open>Applying a snapshot\<close>

record SnapshotApply =
  file_iter :: "(path \<times> File) list"
  current_file :: "(path \<times> File) option"
  data_iter :: "(nat \<times> Block) list option"
  xattr_iter :: "(bytes \<times> bytes option) list option"

definition snapshot_apply :: "Snapshot \<Rightarrow> SnapshotApply" where
  "snapshot_apply s = \<lparr>file_iter = s_files s, current_file = None, data_iter = None, xattr_iter = None\<rparr>"

definition from_bytes_with_nul :: "bytes \<Rightarrow> bytes result" where
  "from_bytes_with_nul b = (if b \<noteq> [] \<and> last b = 0 \<and> 0 \<notin> set (butlast b) then Inr (butlast b)
     else Inl (Panicked ''called Result::unwrap() on an Err value: FromBytesWithNulError''))"

definition take_owner :: "File \<Rightarrow> FileSecurity result" where
  "take_owner f = rbind (unwrap ''called Option::unwrap() on a None value'' (f_uid f)) (\<lambda>u.
     rbind (unwrap ''called Option::unwrap() on a None value'' (f_gid f)) (\<lambda>g. Inr (Unix u g)))"

text \<open>
  The call that makes a file of each type, and what of its record it uses up: nothing for an
  opened file, the owner and, except for links, the mode for the others.
\<close>

definition make_call :: "path \<Rightarrow> File \<Rightarrow> (VFSCall \<times> File) option result" where
  "make_call p f =
     (let mode = unwrap ''called Option::unwrap() on a None value'' (f_mode f);
          no_owner = f\<lparr>f_uid := None, f_gid := None\<rparr>;
          bare = no_owner\<lparr>f_mode := None\<rparr>
      in case f_ty f of
         FT_Invalid \<Rightarrow> Inl (Panicked ''Invalid file type'')
       | FT_Opened \<Rightarrow> Inr None
       | FT_Directory \<Rightarrow> rbind mode (\<lambda>m. rbind (take_owner f) (\<lambda>sec. Inr (Some (VFS_mkdir p sec m, bare))))
       | FT_New flags \<Rightarrow> rbind mode (\<lambda>m. rbind (take_owner f) (\<lambda>sec. Inr (Some (VFS_create p flags sec m, bare))))
       | FT_Special rdev \<Rightarrow> rbind mode (\<lambda>m. rbind (take_owner f) (\<lambda>sec. Inr (Some (VFS_mknod p m rdev sec, bare))))
       | FT_Symlink from \<Rightarrow> rbind (take_owner f) (\<lambda>sec. Inr (Some (VFS_symlink from p sec, no_owner)))
       | FT_Hardlink from \<Rightarrow> rbind (take_owner f) (\<lambda>sec. Inr (Some (VFS_link from p sec, no_owner)))
       | FT_Moved from \<Rightarrow> Inr (Some (VFS_rename from p 0, f)))"

text \<open>The remaining metadata of the current file, one call at a time.\<close>

definition meta_call :: "path \<Rightarrow> File \<Rightarrow> VFSCall option \<times> File" where
  "meta_call p f =
     (let f1 = f\<lparr>f_uid := None, f_gid := None\<rparr> in
      case (f_uid f, f_gid f) of
        (Some u, Some g) \<Rightarrow> (Some (VFS_security p (Unix u g)), f1)
      | _ \<Rightarrow> (case f_mode f1 of
          Some m \<Rightarrow> (Some (VFS_chmod p m), f1\<lparr>f_mode := None\<rparr>)
        | None \<Rightarrow> (case f_size f1 of
            Exactly sz \<Rightarrow> (Some (VFS_truncate p sz), f1\<lparr>f_size := Unknown\<rparr>)
          | MoreThan sz \<Rightarrow> (Some (VFS_fallocate p 0 0 sz), f1\<lparr>f_size := Unknown\<rparr>)
          | Unknown \<Rightarrow> (case f_time f1 of
              Some ts \<Rightarrow> (Some (VFS_utimens p ts), f1\<lparr>f_time := None\<rparr>)
            | None \<Rightarrow> (None, f1)))))"

definition xattr_call :: "path \<Rightarrow> bytes \<times> bytes option \<Rightarrow> VFSCall result" where
  "xattr_call p kv = (case kv of
       (k, Some v) \<Rightarrow> rmap (\<lambda>name. VFS_setxattr p name v 0) (from_bytes_with_nul k)
     | (k, None) \<Rightarrow> rmap (\<lambda>name. VFS_removexattr p name) (from_bytes_with_nul k))"

text \<open>The next call of the current file, if it has anything left.\<close>

definition file_step :: "SnapshotApply \<Rightarrow> path \<Rightarrow> File \<Rightarrow> (VFSCall \<times> SnapshotApply) option result" where
  "file_step it p cf = (case meta_call p cf of
       (Some call, cf') \<Rightarrow> Inr (Some (call, it\<lparr>current_file := Some (p, cf')\<rparr>))
     | (None, cf') \<Rightarrow> (case xattr_iter it of
         Some (kv # kvs) \<Rightarrow>
           rmap (\<lambda>call. Some (call, it\<lparr>current_file := Some (p, cf'), xattr_iter := Some kvs\<rparr>)) (xattr_call p kv)
       | _ \<Rightarrow> Inr None))"

text \<open>
  \<open>next\<close>: the call, if any, and the advanced iterator.  A data block is written to the current
  file; that there is one is unwrapped.  When the current file has nothing left, the call
  recurs with no current file; the data iterator of an opened file is then still there.
\<close>

function apply_next :: "snap_codec \<Rightarrow> bfile \<Rightarrow> SnapshotApply \<Rightarrow> (VFSCall option \<times> SnapshotApply) result" where
  "apply_next c f it = (case data_iter it of
     Some ((k, b) # bs) \<Rightarrow>
       rbind (unwrap ''called Option::unwrap() on a None value'' (current_file it)) (\<lambda>(p, _).
       case read_exact_at f (location b) (bsize b) of
         Inl e \<Rightarrow> Inl (Panicked ''Failed to read snapshot data'')
       | Inr buf \<Rightarrow> Inr (Some (VFS_write p (of_nat k) buf), it\<lparr>data_iter := Some bs\<rparr>))
   | _ \<Rightarrow>
     (case current_file it of
        Some (p, cf) \<Rightarrow>
          (case file_step (it\<lparr>data_iter := None\<rparr>) p cf of
             Inl e \<Rightarrow> Inl e
           | Inr (Some r) \<Rightarrow> Inr (Some (fst r), snd r)
           | Inr None \<Rightarrow> apply_next c f (it\<lparr>data_iter := None, current_file := None, xattr_iter := None\<rparr>))
      | None \<Rightarrow>
        (case file_iter it of
           [] \<Rightarrow> Inr (None, it\<lparr>data_iter := None\<rparr>)
         | (p, file) # rest \<Rightarrow>
           (let cf = file\<lparr>f_data := None, f_xattrs := None\<rparr>;
                it1 = it\<lparr>file_iter := rest, xattr_iter := map_option (hash_order c) (f_xattrs file), data_iter := f_data file\<rparr>
            in case make_call p cf of
                 Inl e \<Rightarrow> Inl e
               | Inr (Some r) \<Rightarrow> Inr (Some (fst r), it1\<lparr>current_file := Some (p, snd r)\<rparr>)
               | Inr None \<Rightarrow>
                 (case file_step it1 p cf of
                    Inl e \<Rightarrow> Inl e
                  | Inr (Some r) \<Rightarrow> Inr (Some (fst r), snd r)
                  | Inr None \<Rightarrow> apply_next c f (it1\<lparr>current_file := None, xattr_iter := None\<rparr>))))))"
  by pat_completeness auto
termination
  by (relation "measure (\<lambda>(c, f, it). 2 * length (file_iter it) + (if current_file it = None then 0 else 1))") auto

declare apply_next.simps [simp del]

text \<open>
  The loop of \<open>snapshot apply\<close>: every call is dispatched below the target, a negative result
  panics.  \<open>None\<close> when the fuel runs out.
\<close>

fun apply_all :: "nat \<Rightarrow> snap_codec \<Rightarrow> bfile \<Rightarrow> 's os \<Rightarrow> path \<Rightarrow> SnapshotApply \<Rightarrow> 's \<Rightarrow> 's result option" where
  "apply_all 0 c f os root it st = None"
| "apply_all (Suc n) c f os root it st = (case apply_next c f it of
       Inl e \<Rightarrow> Some (Inl e)
     | Inr (None, _) \<Rightarrow> Some (Inr st)
     | Inr (Some call, it') \<Rightarrow> (case dispatch os call root st of
           Inl e \<Rightarrow> Some (Inl e)
         | Inr (res, st') \<Rightarrow>
             if res < 0 then Some (Inl (Panicked ''Failed to apply snapshot''))
             else apply_all n c f os root it' st'))"

text \<open>
  \<open>snapshot merge\<close>: the payloads of a forward journal, read until the end, merged into the
  snapshot, which is then finalised.
\<close>

definition payloads :: "'a StoreEntry list \<Rightarrow> 'a list" where
  "payloads es = List.map_filter (\<lambda>e. case inner e of Payload x \<Rightarrow> Some x | Time _ \<Rightarrow> None) es"

definition snapshot_merge :: "nat \<Rightarrow> VFSCall codec \<Rightarrow> snap_codec \<Rightarrow> bfile \<Rightarrow> nat \<Rightarrow> sfs \<Rightarrow> Snapshot \<Rightarrow> bfile result option" where
  "snapshot_merge n c sc jf now d s =
     (let cfg = \<lparr>cfg_sync = False, cfg_journal_size = 0, cfg_filestore_size = 0, cfg_vfsroot = [], cfg_journal_type = JT_Invalid\<rparr> in
      case journal_open c jf cfg now d of
        Inl e \<Rightarrow> Some (Inl (Panicked ''Failed to recover journal''))
      | Inr (j, _) \<Rightarrow>
        (if journal_type j \<noteq> JT_Forward then Some (Inl (Panicked ''assertion failed: journal_type() == Forward''))
         else map_option (\<lambda>r. case r of
             Inl e \<Rightarrow> Inl (Panicked ''Failed to read journal'')
           | Inr es \<Rightarrow> rbind (merge_from s (payloads es)) (finalize sc))
           (read_forward n c j)))"

end
