(* ===== verification/AllocLaws.thy ===== *)
theory AllocLaws
  imports Snapshot FileStoreLaws
begin

text \<open>
  The allocator of a snapshot.  The free list stands for the set of free positions; its regions
  lie in an arena of \<open>usize::MAX\<close> positions, never overlap and never touch (adjacent regions
  are joined).  The locale is the contract of an allocator over such an abstraction; it is
  interpreted on \<open>allocate\<close> and \<open>deallocate\<close>.
\<close>

section \<open>The contract of an allocator\<close>

definition span :: "Block \<Rightarrow> nat set" where
  "span b = {location b..<location b + bsize b}"

locale allocator =
  fixes ok :: "'a \<Rightarrow> bool"
    and free :: "'a \<Rightarrow> nat set"
    and room :: "'a \<Rightarrow> nat \<Rightarrow> bool"
    and owned :: "Block \<Rightarrow> bool"
    and alloc :: "'a \<Rightarrow> nat \<Rightarrow> nat option \<Rightarrow> (Block \<times> 'a) result"
    and dealloc :: "'a \<Rightarrow> Block \<Rightarrow> 'a"
  assumes alloc_ok: "ok a \<Longrightarrow> room a n \<Longrightarrow> 0 < n \<Longrightarrow> alloc a n h = Inr (b, a') \<Longrightarrow>
      ok a' \<and> owned b \<and> bsize b = n \<and> span b \<subseteq> free a \<and> free a' = free a - span b"
    and dealloc_ok: "ok a \<Longrightarrow> owned b \<Longrightarrow> span b \<inter> free a = {} \<Longrightarrow>
      ok (dealloc a b) \<and> free (dealloc a b) = free a \<union> span b"
begin

text \<open>Giving back what was just taken restores the free positions.\<close>

lemma alloc_dealloc:
  assumes "ok a" "room a n" "0 < n" "alloc a n h = Inr (b, a')"
  shows "ok (dealloc a' b) \<and> free (dealloc a' b) = free a"
  using alloc_ok [OF assms] dealloc_ok [of a' b] by auto

text \<open>Two allocations never overlap.\<close>

lemma alloc_disjoint:
  assumes "ok a" "room a n" "0 < n" "alloc a n h = Inr (b, a')"
    and "room a' n'" "0 < n'" "alloc a' n' h' = Inr (b', a'')"
  shows "span b \<inter> span b' = {}"
  using alloc_ok [OF assms(1-4)] alloc_ok [of a' n' h' b' a''] assms(5-) by blast

end

section \<open>Regions\<close>

definition cover :: "(nat \<times> nat) set \<Rightarrow> nat set" where
  "cover R = (\<Union>(k, v) \<in> R. {k..<k + v})"

definition free_set :: "free_map \<Rightarrow> nat set" where
  "free_set fl = cover (set fl)"

definition regions :: "nat \<Rightarrow> (nat \<times> nat) set \<Rightarrow> bool" where
  "regions base R \<longleftrightarrow>
     (\<forall>(k, v) \<in> R. base \<le> k \<and> 0 < v \<and> k + v \<le> base + USIZE_MAX) \<and>
     (\<forall>(k, v) \<in> R. \<forall>(k', v') \<in> R. k < k' \<longrightarrow> k + v < k')"

definition arena :: "nat \<Rightarrow> free_map \<Rightarrow> bool" where
  "arena base fl \<longleftrightarrow> om_ok fl \<and> regions base (set fl)"

definition alloc_room :: "free_map \<Rightarrow> nat \<Rightarrow> bool" where
  "alloc_room fl n \<longleftrightarrow> (\<forall>(k, v) \<in> set fl. k + n < 2 ^ 64)"

definition in_arena :: "nat \<Rightarrow> Block \<Rightarrow> bool" where
  "in_arena base b \<longleftrightarrow> base \<le> location b \<and> 0 < bsize b \<and> location b + bsize b \<le> base + USIZE_MAX
     \<and> location b + bsize b < 2 ^ 64"

lemma regionsD:
  assumes "regions base R" "(k, v) \<in> R"
  shows "base \<le> k" "0 < v" "k + v \<le> base + USIZE_MAX" "(k', v') \<in> R \<Longrightarrow> k < k' \<Longrightarrow> k + v < k'"
    "v < 2 ^ 64"
  using assms by (fastforce simp: regions_def USIZE_MAX_def)+

lemma regionsI:
  assumes "\<And>k v. (k, v) \<in> R \<Longrightarrow> base \<le> k \<and> 0 < v \<and> k + v \<le> base + USIZE_MAX"
    and "\<And>k v k' v'. (k, v) \<in> R \<Longrightarrow> (k', v') \<in> R \<Longrightarrow> k < k' \<Longrightarrow> k + v < k'"
  shows "regions base R"
  using assms by (auto simp: regions_def)

lemma om_key_unique: "om_ok m \<Longrightarrow> (k, v) \<in> set m \<Longrightarrow> (k, v') \<in> set m \<Longrightarrow> v = v'"
  by (metis om_get_iff option.inject)

lemma cover_simps [simp]: "cover {} = {}" "cover (insert (k, v) R) = {k..<k + v} \<union> cover R" "cover (R \<union> R') = cover R \<union> cover R'"
  by (auto simp: cover_def)

lemma free_setI: "(k, v) \<in> set fl \<Longrightarrow> k \<le> x \<Longrightarrow> x < k + v \<Longrightarrow> x \<in> free_set fl"
  by (force simp: free_set_def cover_def)

lemma om_entries_split: "om_ok m \<Longrightarrow> (k, v) \<in> set m \<Longrightarrow> set m = insert (k, v) {p \<in> set m. fst p \<noteq> k}"
  using om_key_unique by fastforce

text \<open>Other regions are apart from a region.\<close>

lemma cover_apart:
  assumes "regions base R" "(k, v) \<in> R"
  shows "{k..<k + v} \<inter> cover {p \<in> R. fst p \<noteq> k} = {}"
proof -
  have False if "(k', v') \<in> R" "k' \<noteq> k" "k \<le> x" "x < k + v" "k' \<le> x" "x < k' + v'" for k' v' x
    using that regionsD(4) [OF assms, of k' v'] regionsD(4) [OF assms(1) that(1) assms(2)] by (cases "k < k'") auto
  then show ?thesis by (fastforce simp: cover_def)
qed

section \<open>Allocation\<close>

lemma allocate_cases:
  assumes "om_ok fl" "allocate fl n hint = Inr (b, fl')"
  obtains k v where "(k, v) \<in> set fl" "n \<le> v" "b = \<lparr>location = k, bsize = n\<rparr>"
    "fl' = (if n < v then om_insert (usize_add k n) (v - n) (om_remove k fl) else om_remove k fl)"
proof -
  obtain k v where kv: "(case free_at fl n hint of Some e \<Rightarrow> Inr e
      | None \<Rightarrow> unwrap ''called Option::unwrap() on a None value'' (List.find (\<lambda>(k, v). n \<le> v) fl)) = (Inr (k, v) :: (nat \<times> nat) result)"
    and b: "b = \<lparr>location = k, bsize = n\<rparr>"
    and fl': "fl' = (if n < v then om_insert (usize_add k n) (v - n) (om_remove k fl) else om_remove k fl)"
    using assms(2) by (auto simp: allocate_def rbind_eq_Inr Let_def split: prod.splits)
  have "(k, v) \<in> set fl \<and> n \<le> v"
  proof (cases "free_at fl n hint")
    case None
    then have "List.find (\<lambda>(k, v). n \<le> v) fl = Some (k, v)"
      using kv by (simp add: unwrap_eq_Inr)
    then show ?thesis by (auto simp: find_Some_iff) (metis nth_mem)
  next
    case (Some e)
    then have "free_at fl n hint = Some (k, v)" using kv by simp
    then show ?thesis
      by (auto simp: free_at_def bind_eq_Some_conv om_get_iff [OF assms(1), symmetric] split: option.splits if_splits)
  qed
  then show thesis using that b fl' by blast
qed

lemma allocate_arena:
  assumes ar: "arena base fl" and room: "alloc_room fl n" and n: "0 < n" and al: "allocate fl n hint = Inr (b, fl')"
  shows "arena base fl' \<and> in_arena base b \<and> bsize b = n \<and> span b \<subseteq> free_set fl \<and> free_set fl' = free_set fl - span b"
proof -
  have om: "om_ok fl" and rg: "regions base (set fl)" using ar by (auto simp: arena_def)
  obtain k v where kv: "(k, v) \<in> set fl" "n \<le> v" and b: "b = \<lparr>location = k, bsize = n\<rparr>"
    and fl': "fl' = (if n < v then om_insert (usize_add k n) (v - n) (om_remove k fl) else om_remove k fl)"
    using allocate_cases [OF om al] by blast
  have add: "usize_add k n = k + n" "k + n < 2 ^ 64"
    using room kv by (auto simp: alloc_room_def usize_add_small)
  note D = regionsD [OF rg]
  have kept: "set (om_remove k fl) = {p \<in> set fl. fst p \<noteq> k}" by (rule om_remove_entries)
  have fresh: "(k + n, w) \<notin> set fl" if "n < v" for w
    using D(4) [OF kv(1), of "k + n" w] that n by auto
  have ents: "set fl' = (if n < v then {(k + n, v - n)} else {}) \<union> {p \<in> set fl. fst p \<noteq> k}"
    using fresh n by (auto simp: fl' add om_insert_entries om_remove_ok om kept)
  have ok': "om_ok fl'" by (simp add: fl' om_insert_ok om_remove_ok om)
  have rg': "regions base (set fl')"
  proof (rule regionsI)
    show "base \<le> a \<and> 0 < va \<and> a + va \<le> base + USIZE_MAX" if "(a, va) \<in> set fl'" for a va
      using that D(1-3) [of a va] D(1-3) [OF kv(1)] kv(2) unfolding ents by (auto split: if_splits)
    show "a + va < c" if "(a, va) \<in> set fl'" "(c, vc) \<in> set fl'" "a < c" for a va c vc
      using that D(4) [OF kv(1), of c vc] D(4) [of a va k v] D(4) [of a va c vc] D(4) [OF kv(1), of a va] kv n
      unfolding ents by (auto split: if_splits) (metis nat_neq_iff trans_less_add1)
  qed
  have whole: "free_set fl = {k..<k + v} \<union> cover {p \<in> set fl. fst p \<noteq> k}"
    unfolding free_set_def by (subst om_entries_split [OF om kv(1)]) simp
  have "free_set fl' = {k + n..<k + v} \<union> cover {p \<in> set fl. fst p \<noteq> k}"
    unfolding free_set_def ents using kv(2) by auto
  moreover have "x \<notin> cover {p \<in> set fl. fst p \<noteq> k}" if "k \<le> x" "x < k + n" for x
  proof
    assume "x \<in> cover {p \<in> set fl. fst p \<noteq> k}"
    moreover have "x \<in> {k..<k + v}" using that kv(2) by simp
    ultimately show False using cover_apart [OF rg kv(1)] by blast
  qed
  ultimately have "free_set fl' = free_set fl - span b"
    using whole kv(2) by (auto simp: b span_def)
  moreover have "span b \<subseteq> free_set fl"
    using whole kv(2) by (auto simp: b span_def)
  moreover have "in_arena base b"
    using D(1,3) [OF kv(1)] kv(2) n add by (simp add: in_arena_def b)
  ultimately show ?thesis using ok' rg' by (simp add: arena_def b)
qed

section \<open>Deallocation\<close>

text \<open>The region that ends where the block starts, if any, is the one before it.\<close>

lemma merge_prev_cases:
  assumes ar: "arena base fl" and b: "in_arena base b" and dj: "span b \<inter> free_set fl = {}"
  obtains (joined) k v where "(k, v) \<in> set fl" "k + v = location b"
      "merge_prev fl (location b) (bsize b) = (k, bsize b + v, om_remove k fl)"
  | (apart) "\<And>k v. (k, v) \<in> set fl \<Longrightarrow> k + v \<noteq> location b"
      "merge_prev fl (location b) (bsize b) = (location b, bsize b, fl)"
proof -
  have om: "om_ok fl" and rg: "regions base (set fl)" using ar by (auto simp: arena_def)
  note D = regionsD [OF rg]
  have loc: "location b < 2 ^ 64" "base \<le> location b" "location b + bsize b \<le> base + USIZE_MAX"
    using b by (auto simp: in_arena_def)
  have wrap: "usize_add k v = location b \<longleftrightarrow> k + v = location b" if "(k, v) \<in> set fl" "k < location b" for k v
  proof (cases "k + v < 2 ^ 64")
    case False
    then have "usize_add k v = k + v - 2 ^ 64"
      using D(5) [OF that(1)] that(2) loc(1) by (simp add: usize_add_def mod_if)
    then show ?thesis using False D(5) [OF that(1)] that(2) loc(1) by linarith
  qed (simp add: usize_add_small)
  show thesis
  proof (cases "\<exists>k v. (k, v) \<in> set fl \<and> k + v = location b")
    case True
    then obtain k v where kv: "(k, v) \<in> set fl" "k + v = location b" by blast
    then have less: "k < location b" using D(2) by fastforce
    then obtain q w where q: "om_before fl (location b) = Some (q, w)"
      using kv om_before_None [of fl "location b"] by (cases "om_before fl (location b)") fastforce+
    then have qw: "(q, w) \<in> set fl" "q < location b" "k \<le> q"
      using om_before_Some [OF om q] kv less by auto
    then have "q = k"
      using D(4) [OF kv(1) qw(1)] kv(2) by (cases "k < q") auto
    then have "w = v" using om_key_unique [OF om kv(1)] qw(1) by simp
    moreover have "bsize b + v < 2 ^ 64"
      using D(1) [OF kv(1)] kv(2) loc(3) by (simp add: USIZE_MAX_def)
    ultimately show thesis
      using joined [OF kv] q \<open>q = k\<close> wrap [OF kv(1) less] kv(2) by (simp add: merge_prev_def usize_add_small)
  next
    case False
    have "merge_prev fl (location b) (bsize b) = (location b, bsize b, fl)"
    proof (cases "om_before fl (location b)")
      case (Some p)
      then show ?thesis
        using om_before_Some [OF om Some] wrap [of "fst p" "snd p"] False
        by (cases p) (auto simp: merge_prev_def)
    qed (simp add: merge_prev_def)
    then show thesis using apart False by blast
  qed
qed

text \<open>Putting a region, joined with its neighbours, into a set of regions that it does not touch.\<close>

lemma regions_insert:
  assumes rg: "regions base R" and kv: "base \<le> k" "0 < v" "k + v \<le> base + USIZE_MAX"
    and apart: "\<And>k' v'. (k', v') \<in> R \<Longrightarrow> k' + v' < k \<or> k + v < k'"
  shows "regions base (insert (k, v) R)"
proof (rule regionsI)
  note D = regionsD [OF rg]
  show "base \<le> a \<and> 0 < va \<and> a + va \<le> base + USIZE_MAX" if "(a, va) \<in> insert (k, v) R" for a va
    using that D(1-3) [of a va] kv by auto
  show "a + va < c" if "(a, va) \<in> insert (k, v) R" "(c, vc) \<in> insert (k, v) R" "a < c" for a va c vc
    using that D(4) [of a va c vc] apart [of a va] apart [of c vc] D(2) [of a va] by auto
qed

lemma regions_subset:
  assumes "regions base R" "S \<subseteq> R"
  shows "regions base S"
proof (rule regionsI)
  show "base \<le> k \<and> 0 < v \<and> k + v \<le> base + USIZE_MAX" if "(k, v) \<in> S" for k v
    using regionsD(1-3) [OF assms(1)] that assms(2) by blast
  show "k + v < k'" if "(k, v) \<in> S" "(k', v') \<in> S" "k < k'" for k v k' v'
    using regionsD(4) [OF assms(1)] that assms(2) by blast
qed

lemma deallocate_arena:
  assumes ar: "arena base fl" and b: "in_arena base b" and dj: "span b \<inter> free_set fl = {}"
  shows "arena base (deallocate fl b) \<and> free_set (deallocate fl b) = free_set fl \<union> span b"
proof -
  have om: "om_ok fl" and rg: "regions base (set fl)" using ar by (auto simp: arena_def)
  note D = regionsD [OF rg]
  have loc: "location b + bsize b < 2 ^ 64" "base \<le> location b" "location b + bsize b \<le> base + USIZE_MAX" "0 < bsize b"
    using b by (auto simp: in_arena_def)
  let ?E = "location b + bsize b"
  have out: "k + v \<le> location b \<or> ?E \<le> k" if "(k, v) \<in> set fl" for k v
  proof (rule ccontr)
    assume "\<not> ?thesis"
    then have "max k (location b) \<in> span b" "max k (location b) < k + v"
      using loc(4) D(2) [OF that] by (auto simp: span_def)
    then show False using dj free_setI [OF that] by (metis disjoint_iff max.cobounded1)
  qed
  obtain o' s' where joined: "o' + s' = ?E" "base \<le> o'" "0 < s'" "o' \<le> location b"
    and prev: "merge_prev fl (location b) (bsize b) = (o', s', om_remove o' fl)"
    and below: "\<And>k v. (k, v) \<in> set fl \<Longrightarrow> k < o' \<Longrightarrow> k + v < o'"
    and above: "\<And>k v. (k, v) \<in> set fl \<Longrightarrow> o' < k \<Longrightarrow> ?E \<le> k"
    and whole: "cover (set fl) \<union> span b = cover {p \<in> set fl. fst p \<noteq> o'} \<union> {o'..<?E}"
  proof (rule merge_prev_cases [OF ar b dj])
    fix k v
    assume kv: "(k, v) \<in> set fl" "k + v = location b"
      and mp: "merge_prev fl (location b) (bsize b) = (k, bsize b + v, om_remove k fl)"
    have "cover (set fl) = {k..<k + v} \<union> cover {p \<in> set fl. fst p \<noteq> k}"
      by (subst om_entries_split [OF om kv(1)]) simp
    then have "cover (set fl) \<union> span b = cover {p \<in> set fl. fst p \<noteq> k} \<union> {k..<?E}"
      using kv(2) by (auto simp: span_def)
    moreover have "?E \<le> k'" if "(k', v') \<in> set fl" "k < k'" for k' v'
      using D(4) [OF kv(1) that] out [OF that(1)] kv(2) by auto
    ultimately show thesis
      using that [of k "bsize b + v"] mp kv D(1,4) loc(4) by auto
  next
    assume ap: "\<And>k v. (k, v) \<in> set fl \<Longrightarrow> k + v \<noteq> location b"
      and mp: "merge_prev fl (location b) (bsize b) = (location b, bsize b, fl)"
    have no: "(location b, v) \<notin> set fl" for v
      using out [of "location b" v] D(2) [of "location b" v] loc(4) by auto
    then have "filter (\<lambda>p. fst p \<noteq> location b) fl = fl" "{p \<in> set fl. fst p \<noteq> location b} = set fl"
      by (auto simp: filter_id_conv)
    moreover have "k' + v' < location b" if "(k', v') \<in> set fl" "k' < location b" for k' v'
      using out [OF that(1)] ap [OF that(1)] that(2) by auto
    moreover have "?E \<le> k'" if "(k', v') \<in> set fl" "location b < k'" for k' v'
      using out [OF that(1)] that(2) by auto
    ultimately show thesis
      using that [of "location b" "bsize b"] mp loc by (auto simp: om_remove_def span_def)
  qed
  let ?R = "{p \<in> set fl. fst p \<noteq> o'}"
  have R: "set (om_remove o' fl) = ?R" "om_ok (om_remove o' fl)"
    by (simp_all add: om_remove_entries om_remove_ok om)
  have far: "k + v < o' \<or> ?E \<le> k" if "(k, v) \<in> ?R" for k v
    using that below [of k v] above [of k v] by (cases "k < o'") auto
  have add: "usize_add o' s' = ?E" using joined(1) loc(1) by (simp add: usize_add_small)
  show ?thesis
  proof (cases "om_get (om_remove o' fl) ?E")
    case None
    then have noE: "(?E, v) \<notin> ?R" for v
      using om_get_iff [OF R(2)] R(1) by (metis option.distinct(1))
    have de: "deallocate fl b = om_insert o' s' (om_remove o' fl)"
      using prev add None by (simp add: deallocate_def)
    then have ents: "set (deallocate fl b) = insert (o', s') ?R"
      using R by (auto simp: om_insert_entries)
    have "regions base (insert (o', s') ?R)"
    proof (rule regions_insert [OF regions_subset [OF rg]])
      show "k' + v' < o' \<or> o' + s' < k'" if "(k', v') \<in> ?R" for k' v'
        using far [OF that] noE [of v'] that joined(1) by (cases "k' = ?E") auto
    qed (use joined loc(3) in auto)
    then show ?thesis
      using ents whole joined(1) R(2) de by (auto simp: arena_def om_insert_ok free_set_def)
  next
    case (Some w)
    then have w: "(?E, w) \<in> ?R" using om_get_iff [OF R(2)] R(1) by simp
    let ?S = "{p \<in> ?R. fst p \<noteq> ?E}"
    have tot: "?E + w \<le> base + USIZE_MAX" using w D(3) by simp
    then have sum: "usize_add s' w = s' + w" "o' + (s' + w) = ?E + w"
      using joined(1,2) by (auto simp: usize_add_small USIZE_MAX_def)
    have de: "deallocate fl b = om_insert o' (s' + w) (om_remove ?E (om_remove o' fl))"
      using prev add Some sum(1) by (simp add: deallocate_def)
    have ents: "set (deallocate fl b) = insert (o', s' + w) ?S"
      unfolding de using R by (auto simp: om_insert_entries om_remove_entries om_remove_ok)
    have "cover ?R = {?E..<?E + w} \<union> cover ?S"
      using om_entries_split [OF R(2), of ?E w] w R(1) by (metis (no_types) cover_simps(2))
    moreover have "regions base (insert (o', s' + w) ?S)"
    proof (rule regions_insert [OF regions_subset [OF rg]])
      show "k' + v' < o' \<or> o' + (s' + w) < k'" if "(k', v') \<in> ?S" for k' v'
      proof (cases "k' + v' < o'")
        case False
        then have "?E < k'" using far [of k' v'] that by auto
        then show ?thesis using D(4) [of ?E w k' v'] w that sum(2) by auto
      qed simp
    qed (use joined tot sum(2) in auto)
    ultimately show ?thesis
      using ents whole joined(1) R(2) de sum(2) by (auto simp: arena_def om_insert_ok om_remove_ok free_set_def)
  qed
qed

interpretation sa: allocator "arena base" free_set alloc_room "in_arena base" allocate deallocate for base
  by unfold_locales (use allocate_arena deallocate_arena in blast)+

end
