(* ===== verification/SnapshotLaws.thy ===== *)
theory SnapshotLaws
  imports AllocLaws
begin

text \<open>
  Properties of snapshots: the allocator, and what merging, compacting and applying a snapshot
  does to the calls it was made from.
\<close>

section \<open>The allocator\<close>

lemma allocate_total:
  assumes "(k, v) \<in> set fl" "n \<le> v"
  shows "\<exists>b fl'. allocate fl n hint = Inr (b, fl')"
proof -
  have "\<exists>e. List.find (\<lambda>(k, v). n \<le> v) fl = Some e"
    using assms by (metis (mono_tags, lifting) case_prodI find_None_iff2 not_None_eq)
  then show ?thesis
    by (cases "free_at fl n hint") (auto simp: allocate_def Let_def split: prod.splits)
qed

text \<open>
  C12. The allocator hands out free space only and loses none: when a region is large enough an
  allocation succeeds, its block has the size asked for and lies in the free positions, exactly
  those positions stop being free, and deallocating the block makes exactly those free again; in
  all of this the free regions stay ordered, apart from each other and inside the arena.
\<close>

theorem snapshot_allocator_sound:
  assumes "arena base fl" "alloc_room fl n" "0 < n" "(k, v) \<in> set fl" "n \<le> v"
  shows "\<exists>b fl'. allocate fl n hint = Inr (b, fl') \<and> bsize b = n \<and> span b \<subseteq> free_set fl
    \<and> arena base fl' \<and> free_set fl' = free_set fl - span b
    \<and> arena base (deallocate fl' b) \<and> free_set (deallocate fl' b) = free_set fl"
proof -
  obtain b fl' where al: "allocate fl n hint = Inr (b, fl')"
    using allocate_total [OF assms(4,5)] by blast
  then show ?thesis
    using sa.alloc_ok [OF assms(1-3) al] sa.alloc_dealloc [OF assms(1-3) al] by blast
qed

lemma new_arena: "arena k [(k, USIZE_MAX)]"
  by (simp add: arena_def om_ok_def regions_def USIZE_MAX_def)

theorem snapshot_allocator_sound_witness:
  "\<exists>b fl'. allocate [(40, USIZE_MAX)] 100 None = Inr (b, fl') \<and> bsize b = 100
    \<and> free_set (deallocate fl' b) = free_set [(40, USIZE_MAX)]"
  using snapshot_allocator_sound [OF new_arena, of 40 100 40 USIZE_MAX None]
  by (auto simp: alloc_room_def USIZE_MAX_def)

text \<open>
  A reopened snapshot runs out of space: \<open>Snapshot::open\<close> enters a free region of
  \<open>usize::MAX\<close> bytes behind data that is already there, so giving back the last block of data
  wraps the size of the joined region to one byte less than the block, and the next allocation
  that is larger panics.
\<close>

theorem snapshot_open_dealloc_wraps:
  assumes "snapshot_open c f = Inr s" "location b + bsize b = ft_offset (s_header s)" "0 < bsize b"
    and "ft_offset (s_header s) < 2 ^ 64" "bsize b \<le> n"
  shows "deallocate (free_list s) b = [(location b, bsize b - 1)]
    \<and> allocate (deallocate (free_list s) b) n hint = Inl (Panicked ''called Option::unwrap() on a None value'')"
proof -
  have fl: "free_list s = [(ft_offset (s_header s), USIZE_MAX)]"
    using assms(1) by (auto simp: snapshot_open_def rbind_eq_Inr)
  have before: "om_before (free_list s) (location b) = None"
    using fl assms(2) by (simp add: om_before_def)
  have "usize_add (location b) (bsize b) = ft_offset (s_header s)"
    using assms(2,4) by (simp add: usize_add_small)
  moreover have "usize_add (bsize b) USIZE_MAX = bsize b - 1"
  proof -
    have "bsize b + USIZE_MAX = (bsize b - 1) + 2 ^ 64" "bsize b - 1 < 2 ^ 64"
      using assms(2-4) by (auto simp: USIZE_MAX_def)
    then show ?thesis by (simp only: usize_add_def mod_add_self2 mod_less)
  qed
  ultimately have de: "deallocate (free_list s) b = [(location b, bsize b - 1)]"
    using before fl by (simp add: deallocate_def merge_prev_def om_get_def om_remove_def)
  have "free_at [(location b, bsize b - 1)] n hint = None"
    using assms(3,5) by (cases hint) (auto simp: free_at_def om_get_def)
  moreover have "List.find (\<lambda>(k, v). n \<le> v) [(location b, bsize b - 1)] = None"
    using assms(3,5) by simp
  ultimately show ?thesis using de by (simp add: allocate_def)
qed

definition toy_sc :: snap_codec where
  "toy_sc = \<lparr>sh_size = 1, ser_sh = (\<lambda>h. [of_nat (ft_offset h)]),
     deser_sh = (\<lambda>b. if b = [] then None else Some \<lparr>s_ty = ST_Forward, ft_offset = unat (hd b), s_from = 0, s_to = 0, s_checksum = 0\<rparr>),
     ser_files = (\<lambda>fs. []), deser_files = (\<lambda>b. Some []), crc_update = (\<lambda>d b. d), hash_order = (\<lambda>m. m)\<rparr>"

theorem snapshot_open_dealloc_wraps_witness:
  "\<exists>s. snapshot_open toy_sc \<lparr>fdata = [9, 1, 1, 1, 1, 1, 1, 1, 1], rd_fault = None, wr_fault = None\<rparr> = Inr s
    \<and> allocate (deallocate (free_list s) \<lparr>location = 1, bsize = 8\<rparr>) 100 None
        = Inl (Panicked ''called Option::unwrap() on a None value'')"
proof -
  obtain s where s: "snapshot_open toy_sc \<lparr>fdata = [9, 1, 1, 1, 1, 1, 1, 1, 1], rd_fault = None, wr_fault = None\<rparr> = Inr s"
    "ft_offset (s_header s) = 9"
    by (simp add: snapshot_open_def toy_sc_def)
  have "allocate (deallocate (free_list s) \<lparr>location = 1, bsize = 8\<rparr>) 100 None
      = Inl (Panicked ''called Option::unwrap() on a None value'')"
    by (rule conjunct2 [OF snapshot_open_dealloc_wraps [OF s(1)]]) (simp_all add: s(2))
  then show ?thesis using s(1) by blast
qed

section \<open>Applying\<close>

text \<open>
  A snapshot of plain writes cannot be applied: when the record of a file that existed before
  has data but no metadata, the iterator drops the file before it reaches the data and then
  unwraps the missing current file; applying the snapshot panics at its first call.
\<close>

theorem snapshot_apply_opened_panics:
  assumes "s_files s = (p, opened_file\<lparr>f_data := Some ((k, b) # bs)\<rparr>) # rest"
  shows "apply_next c (serialised s) (snapshot_apply s) = Inl (Panicked ''called Option::unwrap() on a None value'')"
  using assms
  by (subst apply_next.simps, subst apply_next.simps)
    (simp add: snapshot_apply_def make_call_def file_step_def meta_call_def opened_file_def default_file_def Let_def)

definition blank_snapshot :: Snapshot where
  "blank_snapshot = snapshot_new toy_sc \<lparr>fdata = [], rd_fault = None, wr_fault = None\<rparr> 0 0"

theorem snapshot_apply_opened_panics_witness:
  "\<exists>s. merge_from blank_snapshot [VFS_write [RootDir, Normal ''a''] 0 [7]] = Inr s
    \<and> apply_next toy_sc (serialised s) (snapshot_apply s) = Inl (Panicked ''called Option::unwrap() on a None value'')"
proof -
  obtain s where s: "merge_from blank_snapshot [VFS_write [RootDir, Normal ''a''] 0 [7]] = Inr s"
    "s_files s = [([RootDir, Normal ''a''], opened_file\<lparr>f_data := Some [(0, \<lparr>location = 1, bsize = 1\<rparr>)]\<rparr>)]"
    by (simp add: blank_snapshot_def snapshot_new_def encode_write_def get_or_open_def om_get_def write_blocks_def
        find_overlaps_def trim_front_def trim_back_def place_write_def allocate_def free_at_def toy_sc_def USIZE_MAX_def
        opened_file_def default_file_def write_all_at_def om_remove_def Let_def)
  then show ?thesis
    using snapshot_apply_opened_panics [OF s(2), of toy_sc] by simp
qed

text \<open>
  A snapshot with an extended attribute cannot be applied: names are stored without their
  final zero byte and read back by a function that demands one, so the call that would set or
  remove the attribute panics, whatever the name and the value.
\<close>

theorem snapshot_xattr_panics:
  assumes "0 \<notin> set name"
  shows "\<not> is_ok (xattr_call p (name, v))
    \<and> (current_file it = Some (p, cf) \<and> data_iter it = None \<and> meta_call p cf = (None, cf') \<and> xattr_iter it = Some ((name, v) # kvs) \<longrightarrow>
        \<not> is_ok (apply_next c f it))"
proof -
  have bad: "from_bytes_with_nul name = Inl (Panicked ''called Result::unwrap() on an Err value: FromBytesWithNulError'')"
    using assms by (cases name rule: rev_cases) (auto simp: from_bytes_with_nul_def)
  then have "\<not> is_ok (xattr_call p (name, v))"
    by (cases v) (simp_all add: xattr_call_def)
  moreover have "\<not> is_ok (apply_next c f it)"
    if "current_file it = Some (p, cf)" "data_iter it = None" "meta_call p cf = (None, cf')" "xattr_iter it = Some ((name, v) # kvs)"
    using that bad by (subst apply_next.simps) (cases v; simp add: file_step_def xattr_call_def)
  ultimately show ?thesis by blast
qed

theorem snapshot_xattr_panics_witness:
  "\<not> is_ok (xattr_call [RootDir, Normal ''a''] ([117, 46, 120], Some [1]))"
  using snapshot_xattr_panics [of "[117, 46, 120]" "[RootDir, Normal ''a'']" "Some [1]"] by simp

fun removal :: "VFSCall \<Rightarrow> bool" where
  "removal (VFS_unlink _) = True"
| "removal (VFS_rmdir _) = True"
| "removal _ = False"

lemma make_call_keeps: "make_call p f = Inr (Some (call, f')) \<Longrightarrow> \<not> removal call"
  by (auto simp: make_call_def Let_def rbind_eq_Inr split: FileType.splits)

lemma meta_call_keeps: "meta_call p f = (Some call, f') \<Longrightarrow> \<not> removal call"
  by (auto simp: meta_call_def Let_def split: option.splits FileSize.splits)

lemma xattr_call_keeps: "xattr_call p kv = Inr call \<Longrightarrow> \<not> removal call"
  by (auto simp: xattr_call_def rmap_eq_Inr split: prod.splits option.splits)

lemma file_step_keeps: "file_step it p cf = Inr (Some r) \<Longrightarrow> \<not> removal (fst r)"
  by (auto simp: file_step_def rmap_eq_Inr dest: meta_call_keeps xattr_call_keeps
      split: prod.splits option.splits list.splits)

abbreviation apply_left :: "SnapshotApply \<Rightarrow> nat" where
  "apply_left it \<equiv> 2 * length (file_iter it) + (if current_file it = None then 0 else 1)"

lemma apply_next_write:
  assumes "apply_next c f it = Inr (Some call, it')" "data_iter it = Some (kb # bs)"
  shows "\<exists>p k b. call = VFS_write p k b"
  using assms
  by (subst (asm) apply_next.simps, cases "read_exact_at f (location (snd kb)) (bsize (snd kb))")
    (auto simp: rbind_eq_Inr split: prod.splits)

lemma apply_next_file:
  assumes "apply_next c f it = Inr (Some call, it')" "data_iter it = None \<or> data_iter it = Some []" "current_file it = Some (p, cf)"
  shows "(\<exists>i r. file_step i p cf = Inr (Some r) \<and> call = fst r)
    \<or> (\<exists>i. apply_next c f i = Inr (Some call, it') \<and> apply_left i < apply_left it)"
proof (cases "file_step (it\<lparr>data_iter := None\<rparr>) p cf")
  case (Inl e)
  then show ?thesis using assms by (subst (asm) apply_next.simps) auto
next
  case (Inr r)
  show ?thesis
  proof (cases r)
    case None
    have "apply_next c f it = apply_next c f (it\<lparr>data_iter := None, current_file := None, xattr_iter := None\<rparr>)"
      using assms(2,3) Inr None by (subst apply_next.simps) auto
    then show ?thesis using assms by (intro disjI2 exI [of _ "it\<lparr>data_iter := None, current_file := None, xattr_iter := None\<rparr>"]) simp
  next
    case (Some x)
    then have "call = fst x" using assms Inr by (subst (asm) apply_next.simps) auto
    then show ?thesis using Inr Some by blast
  qed
qed

lemma apply_next_fresh:
  assumes "apply_next c f it = Inr (Some call, it')" "data_iter it = None \<or> data_iter it = Some []" "current_file it = None"
  shows "(\<exists>p cf r. make_call p cf = Inr (Some r) \<and> call = fst r) \<or> (\<exists>i p cf r. file_step i p cf = Inr (Some r) \<and> call = fst r)
    \<or> (\<exists>i. apply_next c f i = Inr (Some call, it') \<and> apply_left i < apply_left it)"
proof (cases "file_iter it")
  case Nil
  then show ?thesis using assms by (subst (asm) apply_next.simps) auto
next
  case (Cons pf rest)
  obtain p fi where pf: "pf = (p, fi)" by (cases pf)
  let ?cf = "fi\<lparr>f_data := None, f_xattrs := None\<rparr>"
  let ?it1 = "it\<lparr>file_iter := rest, xattr_iter := map_option (hash_order c) (f_xattrs fi), data_iter := f_data fi\<rparr>"
  let ?it2 = "?it1\<lparr>current_file := None, xattr_iter := None\<rparr>"
  have eq: "apply_next c f it = (case make_call p ?cf of Inl e \<Rightarrow> Inl e
      | Inr (Some r) \<Rightarrow> Inr (Some (fst r), ?it1\<lparr>current_file := Some (p, snd r)\<rparr>)
      | Inr None \<Rightarrow> (case file_step ?it1 p ?cf of Inl e \<Rightarrow> Inl e
          | Inr (Some r) \<Rightarrow> Inr (Some (fst r), snd r) | Inr None \<Rightarrow> apply_next c f ?it2))"
    using assms(2,3) Cons pf by (subst apply_next.simps) (auto simp: Let_def)
  have "apply_left ?it2 < apply_left it" using Cons by simp
  then show ?thesis
    using assms(1) unfolding eq by (auto split: sum.splits option.splits)
qed

lemma apply_next_keeps: "apply_next c f it = Inr (Some call, it') \<Longrightarrow> \<not> removal call"
proof (induction "apply_left it" arbitrary: it rule: less_induct)
  case less
  consider x xs where "data_iter it = Some (x # xs)" | "data_iter it = None \<or> data_iter it = Some []"
    by (metis list.exhaust option.exhaust)
  then show ?case
  proof cases
    case 1
    then show ?thesis using apply_next_write [OF less.prems] by force
  next
    case 2
    then show ?thesis
      using apply_next_file [OF less.prems 2] apply_next_fresh [OF less.prems 2] less.hyps
        file_step_keeps make_call_keeps
      by (cases "current_file it") (metis prod.collapse)+
  qed
qed

text \<open>
  A snapshot never deletes anything that existed before it: no call of its application is an
  \<open>unlink\<close> or an \<open>rmdir\<close>, and merging the removal of a path that the snapshot does not know
  leaves it unchanged, so the removal is lost.
\<close>

theorem snapshot_unlink_lost:
  assumes "om_get (s_files s) p = None"
  shows "merge_call s (VFS_unlink p) = Inr s \<and> merge_call s (VFS_rmdir p) = Inr s
    \<and> (apply_next c f it = Inr (Some call, it') \<longrightarrow> \<not> removal call)"
proof -
  have "om_remove p (s_files s) = s_files s"
    using assms om_get_keys [of "s_files s" p] by (force simp: om_remove_def filter_id_conv)
  then have "merge_unlink s p = s"
    using assms by (simp add: merge_unlink_def file_blocks_def deallocate_all_def)
  then show ?thesis using apply_next_keeps by simp
qed

theorem snapshot_unlink_lost_witness:
  "merge_call blank_snapshot (VFS_unlink [RootDir, Normal ''a'']) = Inr blank_snapshot"
  using snapshot_unlink_lost [of blank_snapshot "[RootDir, Normal ''a'']"]
  by (simp add: blank_snapshot_def snapshot_new_def om_get_def)

end
