(* ===== verification/Server.thy ===== *)
theory Server
  imports Store OpsUnix OrdMap
begin

unbundle bit_operations_syntax

text \<open>
  The server side of the replication (\<open>server/client.rs\<close> and \<open>server/mod.rs\<close>): the clients
  with their parked responses, the messages sent to them, corking, the harvesting of dead
  clients, and the two halves \<open>pre_op\<close> and \<open>post_op\<close> of every replicated operation.

  The objects behind \<open>Arc<ClientResponse>\<close> are shared between the table of parked responses
  and the threads that wait: they live in a store, addressed by position, with their strong
  count.  A function of the code that blocks is split where it blocks.

  Parameters: the \<open>bincode\<close> encoding of messages and the block compressor of the \<open>dssc\<close>
  crate, whose state is a type variable.
\<close>

section \<open>Messages on the wire\<close>

record 'c msg_codec =
  ser_msg :: "FsyncerMsg \<Rightarrow> bytes"
  deser_msg :: "bytes \<Rightarrow> FsyncerMsg option"
  rt_encode :: "'c \<Rightarrow> bytes \<Rightarrow> bytes \<times> 'c"
  rt_decode :: "'c \<Rightarrow> bytes \<Rightarrow> bytes \<times> 'c"
  chunkmap_new :: 'c
  zstd_block_new :: 'c

definition be32 :: "u32 \<Rightarrow> bytes" where
  "be32 w = rev (le32 w)"

definition rd_be32 :: "bytes \<Rightarrow> u32" where
  "rd_be32 b = rd32 (rev (take 4 b))"

text \<open>
  A \<open>Write\<close> object: the bytes it has taken, how many of them a flush has pushed out, and the
  error it gives.  What a failing write has taken is not kept: the connection is dead then.
\<close>

record writer =
  wbytes :: bytes
  wflushed :: nat
  wfault :: "io_error option"

definition write_all :: "writer \<Rightarrow> bytes \<Rightarrow> writer result" where
  "write_all w b = (case wfault w of
       Some e \<Rightarrow> Inl (IoErr e)
     | None \<Rightarrow> Inr (w\<lparr>wbytes := wbytes w @ b\<rparr>))"

definition wflush :: "writer \<Rightarrow> writer result" where
  "wflush w = (case wfault w of
       Some e \<Rightarrow> Inl (IoErr e)
     | None \<Rightarrow> Inr (w\<lparr>wflushed := length (wbytes w)\<rparr>))"

section \<open>Responses\<close>

record ClientResponse =
  resp_data :: "ClientAck option"
  strong :: nat

definition response_new :: ClientResponse where
  "response_new = \<lparr>resp_data = None, strong = 1\<rparr>"

type_synonym responses = "ClientResponse list"

definition resp_clone :: "responses \<Rightarrow> nat \<Rightarrow> responses" where
  "resp_clone rs a = rs[a := (rs ! a)\<lparr>strong := strong (rs ! a) + 1\<rparr>]"

definition resp_drop :: "responses \<Rightarrow> nat \<Rightarrow> responses" where
  "resp_drop rs a = rs[a := (rs ! a)\<lparr>strong := strong (rs ! a) - 1\<rparr>]"

definition resp_notify :: "responses \<Rightarrow> nat \<Rightarrow> ClientAck \<Rightarrow> responses" where
  "resp_notify rs a ack = rs[a := (rs ! a)\<lparr>resp_data := Some ack\<rparr>]"

text \<open>
  \<open>wait\<close> at the moment it returns: with the data, which it takes out, or with nothing when the
  time of ten seconds is over.
\<close>

definition resp_wait :: "responses \<Rightarrow> nat \<Rightarrow> ClientAck option \<times> responses" where
  "resp_wait rs a = (resp_data (rs ! a), rs[a := (rs ! a)\<lparr>resp_data := None\<rparr>])"

section \<open>Clients\<close>

datatype ClientStatus = DEAD | ALIVE

record 'c ClientNetwork =
  net_write :: writer
  rt_comp :: "'c option"
  parked :: "(u64, nat) omap"
  status :: ClientStatus

record 'c Client =
  mode :: ClientMode
  comp :: u32
  net :: "'c ClientNetwork"

text \<open>
  \<open>inner\<close> of \<open>response_msg\<close>: the frame of a message is its length as a big-endian word and
  its bytes, compressed when there is a block compressor, whose state advances in any case.
  A flush of a stream-compressed connection is followed by a \<open>NOP\<close> frame and another flush.
\<close>

definition rt_apply :: "'c msg_codec \<Rightarrow> 'c option \<Rightarrow> bytes \<Rightarrow> bytes \<times> 'c option" where
  "rt_apply c rt buf = (case rt of
       None \<Rightarrow> (buf, None)
     | Some st \<Rightarrow> (let (nbuf, st') = rt_encode c st buf in (nbuf, Some st')))"

definition write_frame :: "'c msg_codec \<Rightarrow> 'c ClientNetwork \<Rightarrow> bytes \<Rightarrow> unit result \<times> 'c ClientNetwork" where
  "write_frame c n serbuf =
     (let (buf, rt) = rt_apply c (rt_comp n) serbuf; n1 = n\<lparr>rt_comp := rt\<rparr> in
      case rbind (write_all (net_write n) (be32 (of_nat (length buf)))) (\<lambda>w. write_all w buf) of
        Inl e \<Rightarrow> (Inl e, n1)
      | Inr w \<Rightarrow> (Inr (), n1\<lparr>net_write := w\<rparr>))"

definition net_flush :: "'c ClientNetwork \<Rightarrow> unit result \<times> 'c ClientNetwork" where
  "net_flush n = (case wflush (net_write n) of
       Inl e \<Rightarrow> (Inl e, n)
     | Inr w \<Rightarrow> (Inr (), n\<lparr>net_write := w\<rparr>))"

text \<open>Run the second action when the first succeeded.\<close>

definition net_then :: "unit result \<times> 'n \<Rightarrow> ('n \<Rightarrow> unit result \<times> 'n) \<Rightarrow> unit result \<times> 'n" where
  "net_then r f = (case r of (Inl e, n) \<Rightarrow> (Inl e, n) | (Inr _, n) \<Rightarrow> f n)"

definition send_inner :: "'c msg_codec \<Rightarrow> 'c ClientNetwork \<Rightarrow> bytes \<Rightarrow> bool \<Rightarrow> bool \<Rightarrow> unit result \<times> 'c ClientNetwork" where
  "send_inner c n serbuf flush stream =
     net_then (write_frame c n serbuf) (\<lambda>n1.
       if flush then
         net_then (net_flush n1) (\<lambda>n2.
           if stream then net_then (write_frame c n2 (ser_msg c NOP)) net_flush
           else (Inr (), n2))
       else (Inr (), n1))"

text \<open>
  The parked response of a thread, made when there is none yet, and cloned for the caller.
\<close>

definition park :: "'c ClientNetwork \<Rightarrow> responses \<Rightarrow> u64 \<Rightarrow> nat \<times> 'c ClientNetwork \<times> responses" where
  "park n rs tid = (case om_get (parked n) tid of
       Some a \<Rightarrow> (a, n, rs)
     | None \<Rightarrow> (length rs, n\<lparr>parked := om_insert tid (length rs) (parked n)\<rparr>, rs @ [response_new]))"

definition response_msg ::
  "'c msg_codec \<Rightarrow> u64 \<Rightarrow> 'c Client \<Rightarrow> responses \<Rightarrow> FsyncerMsg \<Rightarrow> bool \<Rightarrow> bool
     \<Rightarrow> nat option result \<times> 'c Client \<times> responses" where
  "response_msg c tid cl rs msg flush want =
     (if status (net cl) = DEAD then (Inl (IoErr (Other ''Client is dead'')), cl, rs)
      else
        let (resp, n1, rs1) = (if want then let (a, n1, rs1) = park (net cl) rs tid in (Some a, n1, resp_clone rs1 a)
                               else (None, net cl, rs));
            (res, n2) = send_inner c n1 (ser_msg c msg) flush (flags_intersects (comp cl) STREAM_MASK)
        in case res of
             Inl e \<Rightarrow> (Inl e, cl\<lparr>net := n2\<lparr>status := DEAD\<rparr>\<rparr>, (case resp of None \<Rightarrow> rs1 | Some a \<Rightarrow> resp_drop rs1 a))
           | Inr _ \<Rightarrow> (Inr resp, cl\<lparr>net := n2\<rparr>, rs1))"

definition client_send_msg ::
  "'c msg_codec \<Rightarrow> u64 \<Rightarrow> 'c Client \<Rightarrow> responses \<Rightarrow> FsyncerMsg \<Rightarrow> bool \<Rightarrow> unit result \<times> 'c Client \<times> responses" where
  "client_send_msg c tid cl rs msg flush =
     (let (r, cl1, rs1) = response_msg c tid cl rs msg flush False in (rmap (\<lambda>_. ()) r, cl1, rs1))"

definition client_flush :: "'c msg_codec \<Rightarrow> u64 \<Rightarrow> 'c Client \<Rightarrow> responses \<Rightarrow> unit result \<times> 'c Client \<times> responses" where
  "client_flush c tid cl rs =
     (if flags_intersects (comp cl) STREAM_MASK then client_send_msg c tid cl rs NOP True
      else let (r, n) = net_flush (net cl) in (r, cl\<lparr>net := n\<rparr>, rs))"

text \<open>The part of \<open>cork\<close> before the wait, and the wait; control clients are not waited for.\<close>

definition cork_send :: "'c msg_codec \<Rightarrow> u64 \<Rightarrow> 'c Client \<Rightarrow> responses \<Rightarrow> nat option result \<times> 'c Client \<times> responses" where
  "cork_send c tid cl rs = response_msg c tid cl rs (Cork tid) True (mode cl \<noteq> MODE_CONTROL)"

definition cork_wait :: "'c Client \<Rightarrow> nat option \<Rightarrow> responses \<Rightarrow> responses result" where
  "cork_wait cl wait rs =
     (if mode cl \<noteq> MODE_CONTROL then
        rbind (unwrap ''called Option::unwrap() on a None value'' wait) (\<lambda>a.
          let (d, rs1) = resp_wait rs a in rbind (unwrap ''Client did not respond'' d) (\<lambda>_. Inr (resp_drop rs1 a)))
      else Inr rs)"

definition client_uncork :: "'c msg_codec \<Rightarrow> u64 \<Rightarrow> 'c Client \<Rightarrow> responses \<Rightarrow> unit result \<times> 'c Client \<times> responses" where
  "client_uncork c tid cl rs = client_send_msg c tid cl rs Uncork False"

text \<open>\<open>Drop\<close>: every parked thread is told that the client is dead.\<close>

fun notify_parked :: "responses \<Rightarrow> nat list \<Rightarrow> responses result" where
  "notify_parked rs [] = Inr rs"
| "notify_parked rs (a # as) =
     (if strong (rs ! a) \<le> 2 then notify_parked (resp_drop (resp_notify rs a Dead) a) as
      else Inl (Panicked ''assertion failed: Arc::strong_count(thread) <= 2''))"

definition client_drop :: "'c Client \<Rightarrow> responses \<Rightarrow> responses result" where
  "client_drop cl rs = notify_parked rs (map snd (parked (net cl)))"

text \<open>
  One turn of the reader thread, on what \<open>read_msg\<close> gave: whether the thread goes on, or asks
  for the server to be corked or uncorked.
\<close>

datatype reader_next = Continue | Do_cork | Do_uncork | Stop

fun reader :: "'c Client \<Rightarrow> responses \<Rightarrow> FsyncerMsg result \<Rightarrow> (reader_next \<times> 'c Client \<times> responses) result" where
  "reader cl rs (Inr (AckCork tid)) = (case om_get (parked (net cl)) tid of
       None \<Rightarrow> Inr (Continue, cl, rs)
     | Some a \<Rightarrow>
         if strong (rs ! a) \<le> 2 then Inr (Continue, cl, resp_notify rs a AckOk)
         else Inl (Panicked ''assertion failed: Arc::strong_count(t) <= 2''))"
| "reader cl rs (Inr (Ack m)) =
     (let (a, n, rs1) = park (net cl) rs (ack_tid m) in
      if strong (rs1 ! a) \<le> 2 then Inr (Continue, cl\<lparr>net := n\<rparr>, resp_notify rs1 a (retcode m))
      else Inl (Panicked ''assertion failed: Arc::strong_count(cond) <= 2''))"
| "reader cl rs (Inr (Cork _)) = Inr (Do_cork, cl, rs)"
| "reader cl rs (Inr Uncork) = Inr (Do_uncork, cl, rs)"
| "reader cl rs (Inl e) = Inr (Stop, cl\<lparr>net := (net cl)\<lparr>status := DEAD\<rparr>\<rparr>, rs)"
| "reader cl rs (Inr _) = Inr (Continue, cl, rs)"

section \<open>Accepting a client\<close>

definition expect :: "string \<Rightarrow> 'a result \<Rightarrow> 'a result" where
  "expect msg r = (case r of Inl _ \<Rightarrow> Inl (Panicked msg) | Inr x \<Rightarrow> Inr x)"

lemma expect_simps [simp, result_simps]:
  "expect msg (Inl e) = Inl (Panicked msg)" "expect msg (Inr x) = Inr x"
  by (simp_all add: expect_def)

lemma expect_eq_Inr: "expect msg r = Inr x \<longleftrightarrow> r = Inr x"
  by (cases r) auto

text \<open>
  \<open>hash_metadata\<close>: the walk is a list of entries, each with its path below the root, or an
  error; the hasher is a function of what is fed to it, in order.
\<close>

datatype file_kind = Dir | Regular | Link | Special

datatype hash_item = HPath path | HKind file_kind | HMode u32 | HLen u64 | HUid u32 | HGid u32

record walk_meta =
  wm_mode :: u32
  wm_len :: u64
  wm_uid :: u32
  wm_gid :: u32

record walk_entry =
  we_path :: path
  we_kind :: file_kind
  we_meta :: "walk_meta result"

definition hash_entry :: "walk_entry \<Rightarrow> walk_meta \<Rightarrow> hash_item list" where
  "hash_entry e m =
     (if we_path e = [] \<and> we_kind e = Dir then []
      else [HPath (we_path e), HKind (we_kind e), HMode (wm_mode m)]
        @ (if we_kind e \<noteq> Dir then [HLen (wm_len m)] else []) @ [HUid (wm_uid m), HGid (wm_gid m)])"

fun hash_feed :: "walk_entry result list \<Rightarrow> hash_item list result" where
  "hash_feed [] = Inr []"
| "hash_feed (r # rs) =
     rbind r (\<lambda>e. rbind (we_meta e) (\<lambda>m. rmap (\<lambda>hs. hash_entry e m @ hs) (hash_feed rs)))"

definition hash_metadata :: "(hash_item list \<Rightarrow> u64) \<Rightarrow> walk_entry result list \<Rightarrow> u64 result" where
  "hash_metadata finish walk = rmap finish (hash_feed walk)"

text \<open>
  \<open>from_stream\<close> after the first message has been read: the check of the hash, the initial
  \<open>rsync\<close>, and the compressors that the client asked for.
\<close>

definition stream_writer :: "(writer \<Rightarrow> writer result) \<Rightarrow> (writer \<Rightarrow> writer result) \<Rightarrow> u32 \<Rightarrow> writer \<Rightarrow> writer result" where
  "stream_writer zstd lz4 flags w =
     (if flags_contains flags STREAM_ZSTD then zstd w
      else if flags_contains flags STREAM_LZ4 then lz4 w
      else Inr w)"

definition rt_compressor :: "'c msg_codec \<Rightarrow> u32 \<Rightarrow> 'c option" where
  "rt_compressor c flags =
     (if flags_contains flags RT_DSSC_CHUNKED then Some (chunkmap_new c)
      else if flags_contains flags RT_DSSC_ZSTD then Some (zstd_block_new c)
      else None)"

definition from_stream ::
  "'c msg_codec \<Rightarrow> (writer \<Rightarrow> writer result) \<Rightarrow> (writer \<Rightarrow> writer result) \<Rightarrow> FsyncerMsg result \<Rightarrow> writer
     \<Rightarrow> bool \<Rightarrow> u64 result \<Rightarrow> unit result \<Rightarrow> 'c Client result" where
  "from_stream c zstd lz4 msg netout dontcheck srchash rsynced = (case msg of
       Inl e \<Rightarrow> Inl e
     | Inr (InitMsg init) \<Rightarrow>
         rbind (if \<not> (init_mode init = MODE_CONTROL \<or> dontcheck \<or> flags_contains (init_options init) INITIAL_RSYNC)
                then rbind (expect ''Hash check failed'' srchash)
                  (\<lambda>h. if dsthash init \<noteq> h then Inl (IoErr (Other ''Hash mismatch'')) else Inr ())
                else Inr ()) (\<lambda>_.
         rbind (if flags_contains (init_options init) INITIAL_RSYNC then rsynced else Inr ()) (\<lambda>_.
         rbind (stream_writer zstd lz4 (compress init) netout) (\<lambda>w.
           Inr \<lparr>mode = init_mode init, comp = compress init,
                net = \<lparr>net_write = w, rt_comp = rt_compressor c (compress init), parked = [], status = ALIVE\<rparr>\<rparr>)))
     | Inr _ \<Rightarrow> Inl (Panicked ''Expected init message from client''))"

section \<open>The server\<close>

record 'c server =
  sync_list :: "'c Client list"
  cork :: bool
  resps :: responses
  srv_journal :: "Journal option"
  srv_journal_type :: JournalType

text \<open>
  What an operation of the server takes from outside: the encodings, the checksum, the view of
  the file system that the bidirectional log reads, the time and the path of the backing store.
\<close>

record 'c env =
  e_codec :: "'c msg_codec"
  e_bilog :: "BilogEntry codec"
  e_forward :: "VFSCall codec"
  e_crc :: crc
  e_fs :: fs_view
  e_now :: nat
  e_path :: path

text \<open>
  One turn of the thread that accepts connections: a client that could not be set up is only
  reported, a panic ends the thread.
\<close>

definition accept_client :: "'c Client result \<Rightarrow> 'c server \<Rightarrow> 'c server result" where
  "accept_client r srv = (case r of
       Inr cl \<Rightarrow> Inr (srv\<lparr>sync_list := sync_list srv @ [cl]\<rparr>)
     | Inl (Panicked msg) \<Rightarrow> Inl (Panicked msg)
     | Inl _ \<Rightarrow> Inr srv)"

text \<open>Run an operation on every client, in order.\<close>

fun each_client :: "('c Client \<Rightarrow> responses \<Rightarrow> 'r \<times> 'c Client \<times> responses) \<Rightarrow> 'c Client list \<Rightarrow> responses
    \<Rightarrow> 'r list \<times> 'c Client list \<times> responses" where
  "each_client f [] rs = ([], [], rs)"
| "each_client f (cl # cls) rs =
     (let (r, cl1, rs1) = f cl rs; (out, cls1, rs2) = each_client f cls rs1 in (r # out, cl1 # cls1, rs2))"

definition with_clients :: "'c server \<Rightarrow> ('c Client \<Rightarrow> responses \<Rightarrow> 'r \<times> 'c Client \<times> responses) \<Rightarrow> 'r list \<times> 'c server" where
  "with_clients srv f =
     (let (out, cls, rs) = each_client f (sync_list srv) (resps srv) in (out, srv\<lparr>sync_list := cls, resps := rs\<rparr>))"

text \<open>One round of the flushing thread and of the harvester.\<close>

definition flush_round :: "'c env \<Rightarrow> u64 \<Rightarrow> 'c server \<Rightarrow> 'c server" where
  "flush_round e tid srv = snd (with_clients srv (\<lambda>cl rs.
     if mode cl = MODE_ASYNC then client_flush (e_codec e) tid cl rs else (Inr (), cl, rs)))"

fun drop_dead :: "'c Client list \<Rightarrow> responses \<Rightarrow> ('c Client list \<times> responses) result" where
  "drop_dead [] rs = Inr ([], rs)"
| "drop_dead (cl # cls) rs =
     (if status (net cl) \<noteq> DEAD then rmap (\<lambda>(cls1, rs1). (cl # cls1, rs1)) (drop_dead cls rs)
      else rbind (client_drop cl rs) (\<lambda>rs1. drop_dead cls rs1))"

definition harvest :: "'c server \<Rightarrow> 'c server result" where
  "harvest srv =
     (if (\<exists>cl \<in> set (sync_list srv). status (net cl) = DEAD)
      then rmap (\<lambda>(cls, rs). srv\<lparr>sync_list := cls, resps := rs\<rparr>) (drop_dead (sync_list srv) (resps srv))
      else Inr srv)"

text \<open>
  \<open>cork_server\<close>: the acknowledgements that come in while a client is waited for are those of
  the argument \<open>arrive\<close>.
\<close>

fun cork_clients :: "'c msg_codec \<Rightarrow> u64 \<Rightarrow> (responses \<Rightarrow> responses) \<Rightarrow> 'c Client list \<Rightarrow> responses
    \<Rightarrow> ('c Client list \<times> responses) result" where
  "cork_clients c tid arrive [] rs = Inr ([], rs)"
| "cork_clients c tid arrive (cl # cls) rs =
     (case cork_send c tid cl rs of
        (Inl _, cl1, rs1) \<Rightarrow> rmap (\<lambda>(cls1, rs2). (cl1 # cls1, rs2)) (cork_clients c tid arrive cls rs1)
      | (Inr wait, cl1, rs1) \<Rightarrow>
          rbind (cork_wait cl1 wait (arrive rs1)) (\<lambda>rs2.
            rmap (\<lambda>(cls1, rs3). (cl1 # cls1, rs3)) (cork_clients c tid arrive cls rs2)))"

definition cork_server :: "'c env \<Rightarrow> u64 \<Rightarrow> (responses \<Rightarrow> responses) \<Rightarrow> 'c server \<Rightarrow> 'c server result" where
  "cork_server e tid arrive srv =
     rmap (\<lambda>(cls, rs). srv\<lparr>cork := True, sync_list := cls, resps := rs\<rparr>)
       (cork_clients (e_codec e) tid arrive (sync_list srv) (resps srv))"

definition uncork_server :: "'c env \<Rightarrow> u64 \<Rightarrow> 'c server \<Rightarrow> 'c server" where
  "uncork_server e tid srv =
     (let (_, srv1) = with_clients srv (client_uncork (e_codec e) tid) in srv1\<lparr>cork := False\<rparr>)"

section \<open>Replicated operations\<close>

record OpRef =
  op_ret :: "int option"
  waits :: "nat list"

definition is_fsync :: "VFSCall \<Rightarrow> bool" where
  "is_fsync call = (case call of VFS_fsync _ _ \<Rightarrow> True | _ \<Rightarrow> False)"

text \<open>
  What a client of each mode is sent for a call, if anything, and whether the server waits for
  its answer.
\<close>

definition op_message :: "ClientMode \<Rightarrow> VFSCall \<Rightarrow> u64 \<Rightarrow> (FsyncerMsg \<times> bool) option" where
  "op_message m call tid =
     (if m = MODE_CONTROL \<or> (is_fsync call \<and> (m = MODE_ASYNC \<or> m = MODE_SEMISYNC)) then None
      else if m = MODE_SYNC \<or> m = MODE_SEMISYNC \<or> (m = MODE_FLUSHSYNC \<and> is_fsync call)
      then Some (SyncOp call tid, True)
      else Some (AsyncOp call, False))"

definition send_op :: "'c msg_codec \<Rightarrow> u64 \<Rightarrow> VFSCall \<Rightarrow> 'c Client \<Rightarrow> responses \<Rightarrow> nat option \<times> 'c Client \<times> responses" where
  "send_op c tid call cl rs = (case op_message (mode cl) call tid of
       None \<Rightarrow> (None, cl, rs)
     | Some (msg, sync) \<Rightarrow> (case response_msg c tid cl rs msg sync sync of
         (Inl _, cl1, rs1) \<Rightarrow> (None, cl1, rs1)
       | (Inr resp, cl1, rs1) \<Rightarrow> (resp, cl1, rs1)))"

fun is_filestore :: "BilogEntry \<Rightarrow> bool" where
  "is_filestore (BE_filestore _ _) = True"
| "is_filestore _ = False"

text \<open>The journal entry of a call, and the result that takes the place of the real operation.\<close>

definition journal_op :: "'c env \<Rightarrow> JournalType \<Rightarrow> Journal \<Rightarrow> VFSCall \<Rightarrow> (int option \<times> Journal) result" where
  "journal_op e jt j call = (case jt of
       JT_Bilog \<Rightarrow>
         rbind (expect ''Failed to generate journal entry from vfscall'' (bilog_try_from (e_crc e) (e_fs e) call (e_path e))) (\<lambda>b.
         rbind (expect ''Failed to write journal entry'' (write_entry (e_bilog e) j (e_now e) b)) (\<lambda>j1.
           Inr (if is_filestore b then Some 0 else None, j1)))
     | JT_Forward \<Rightarrow>
         rmap (\<lambda>j1. (None, j1)) (expect ''Failed to write journal entry'' (write_entry (e_forward e) j (e_now e) call))
     | _ \<Rightarrow> Inl (Panicked ''Cannot generate entries of this type''))"

text \<open>\<open>None\<close> while the server is corked: the thread waits for the uncork.\<close>

definition pre_op :: "'c env \<Rightarrow> u64 \<Rightarrow> 'c server \<Rightarrow> VFSCall \<Rightarrow> (OpRef \<times> 'c server) result option" where
  "pre_op e tid srv call =
     (if cork srv then None
      else
        let (out, srv1) = with_clients srv (send_op (e_codec e) tid call);
            opref = \<lparr>op_ret = None, waits = List.map_filter (\<lambda>r. r) out\<rparr>
        in Some (case srv_journal srv1 of
             None \<Rightarrow> Inr (opref, srv1)
           | Some j \<Rightarrow>
               rmap (\<lambda>(ret, j1). (opref\<lparr>op_ret := ret\<rparr>, srv1\<lparr>srv_journal := Some j1\<rparr>))
                 (journal_op e (srv_journal_type srv1) j call)))"

text \<open>
  Every wait of an operation, in order, and the drop of the reference it held.  What the client
  answered is only reported.
\<close>

fun wait_all :: "responses \<Rightarrow> nat list \<Rightarrow> ClientAck option list \<times> responses" where
  "wait_all rs [] = ([], rs)"
| "wait_all rs (a # as) =
     (let (d, rs1) = resp_wait rs a; (ds, rs2) = wait_all (resp_drop rs1 a) as in (d # ds, rs2))"

definition post_op :: "'c server \<Rightarrow> OpRef \<Rightarrow> int \<Rightarrow> int \<times> ClientAck option list \<times> 'c server" where
  "post_op srv opref ret =
     (let (ds, rs) = wait_all (resps srv) (waits opref) in (ret, ds, srv\<lparr>resps := rs\<rparr>))"

text \<open>An \<open>OpRef\<close> that goes out of scope drops its references.\<close>

definition opref_drop :: "'c server \<Rightarrow> OpRef \<Rightarrow> 'c server" where
  "opref_drop srv opref = srv\<lparr>resps := foldl resp_drop (resps srv) (waits opref)\<rparr>"

section \<open>Opening the journal\<close>

text \<open>
  The journal options of \<open>server_main\<close>: nothing when journaling is off, otherwise the
  configuration that \<open>open_journal\<close> is given.
\<close>

record server_args =
  arg_journal :: string
  arg_journal_path :: "string option"
  arg_journal_size :: string
  arg_journal_sync :: bool

definition journal_kind :: "string \<Rightarrow> JournalType result" where
  "journal_kind v =
     (if v = ''bilog'' then Inr JT_Bilog
      else if v = ''forward'' then Inr JT_Forward
      else if v = ''undo'' then Inr JT_Undo
      else Inl (Panicked ''internal error: entered unreachable code''))"

definition journal_config :: "server_args \<Rightarrow> path \<Rightarrow> JournalConfig option result" where
  "journal_config a server_path =
     rbind (parse_human_size (arg_journal_size a)) (\<lambda>n.
     rbind (unwrap ''Invalid format for journal-size'' n) (\<lambda>size.
       if arg_journal a = ''off'' then Inr None
       else
         rbind (unwrap ''Journal path must be set if journaling is enabled'' (arg_journal_path a)) (\<lambda>_.
         rmap (\<lambda>jt. Some \<lparr>cfg_sync = arg_journal_sync a, cfg_journal_size = size, cfg_filestore_size = 1024 * 1024 * 1024,
                 cfg_vfsroot = server_path, cfg_journal_type = jt\<rparr>) (journal_kind (arg_journal a)))))"

definition open_journal :: "'a codec \<Rightarrow> bool \<Rightarrow> bfile \<Rightarrow> JournalConfig \<Rightarrow> nat \<Rightarrow> sfs \<Rightarrow> (Journal \<times> sfs) result" where
  "open_journal c exists f cfg now d =
     (if exists then
        (if flen f < cfg_journal_size cfg then Inl (Panicked ''Refusing to shrink journal size'')
         else rbind (set_len f (cfg_journal_size cfg)) (\<lambda>f1. journal_open c f1 cfg now d))
      else rbind (set_len f (cfg_journal_size cfg)) (\<lambda>f1. journal_new c f1 cfg now d))"

end
