(* ===== verification/FuseHl.thy ===== *)
theory FuseHl
  imports Server
begin

text \<open>
  The handlers of the mounted file system that change it (\<open>fuse_hl/write_unix.rs\<close>): each
  makes the call that describes the operation, announces it with \<open>pre_op\<close>, performs it below
  the backing store, and finishes with \<open>post_op\<close>.

  Parameters: the caller's identity, the file handle that the kernel passes, and the
  acknowledgements that the reader threads take in while the operation runs (\<open>arrive\<close>).
\<close>

record fuse_context =
  fc_uid :: u32
  fc_gid :: u32

record fuse_file_info =
  fh :: int
  fi_flags :: i32

text \<open>
  The frame of every handler.  \<open>None\<close>: the thread waits for an uncork.  When \<open>pre_op\<close> has
  already decided the result, the operation is not performed and no answer is waited for.
\<close>

definition replicated ::
  "'c env \<Rightarrow> (responses \<Rightarrow> responses) \<Rightarrow> u64 \<Rightarrow> VFSCall \<Rightarrow> ('s \<Rightarrow> (int \<times> 's) result) \<Rightarrow> 'c server \<Rightarrow> 's
     \<Rightarrow> (int \<times> 'c server \<times> 's) result option" where
  "replicated e arrive tid call local srv s =
     map_option (\<lambda>r. rbind r (\<lambda>(opref, srv1). case op_ret opref of
         Some ret \<Rightarrow> Inr (ret, opref_drop srv1 opref, s)
       | None \<Rightarrow>
           rbind (local s) (\<lambda>(res, s1).
           let (ret, _, srv2) = post_op (srv1\<lparr>resps := arrive (resps srv1)\<rparr>) opref res
           in Inr (ret, srv2, s1)))) (pre_op e tid srv call)"

text \<open>A failure before \<open>pre_op\<close>, in the translation of a path.\<close>

definition before_op :: "'a result \<Rightarrow> ('a \<Rightarrow> 'b result option) \<Rightarrow> 'b result option" where
  "before_op r f = (case r of Inl e \<Rightarrow> Some (Inl e) | Inr x \<Rightarrow> f x)"

definition trans_ppath :: "'c env \<Rightarrow> path \<Rightarrow> path result" where
  "trans_ppath e p = trans_cstr p (e_path e)"

text \<open>The path or the descriptor, as the handle is missing or there.\<close>

definition on_target :: "'c env \<Rightarrow> path \<Rightarrow> fuse_file_info option \<Rightarrow> (path_or_fd \<Rightarrow> 's \<Rightarrow> int \<times> 's) \<Rightarrow> 's \<Rightarrow> (int \<times> 's) result" where
  "on_target e p fi f s = (case fi of
       None \<Rightarrow> rbind (trans_ppath e p) (\<lambda>rp. Inr (f (Inl rp) s))
     | Some i \<Rightarrow> Inr (f (Inr (fh i)) s))"

definition on_handle :: "fuse_file_info option \<Rightarrow> (int \<Rightarrow> 's \<Rightarrow> int \<times> 's) \<Rightarrow> 's \<Rightarrow> (int \<times> 's) result" where
  "on_handle fi f s = rbind (unwrap ''assertion failed: !fi.is_null()'' fi) (\<lambda>i. Inr (f (fh i) s))"

type_synonym ('c, 's) handled = "(int \<times> 'c server \<times> 's) result option"

section \<open>Handlers\<close>

definition do_mknod :: "'c env \<Rightarrow> 's os \<Rightarrow> (responses \<Rightarrow> responses) \<Rightarrow> u64 \<Rightarrow> fuse_context \<Rightarrow> path \<Rightarrow> u32 \<Rightarrow> u64
    \<Rightarrow> 'c server \<Rightarrow> 's \<Rightarrow> ('c, 's) handled" where
  "do_mknod e os arrive tid ctx p m rdev srv s =
     before_op (trans_ppath e p) (\<lambda>rp.
       replicated e arrive tid (VFS_mknod p m rdev (Unix (fc_uid ctx) (fc_gid ctx)))
         (\<lambda>s. Inr (xmp_mknod os rp m rdev (fc_uid ctx) (fc_gid ctx) s)) srv s)"

definition do_mkdir :: "'c env \<Rightarrow> 's os \<Rightarrow> (responses \<Rightarrow> responses) \<Rightarrow> u64 \<Rightarrow> fuse_context \<Rightarrow> path \<Rightarrow> u32
    \<Rightarrow> 'c server \<Rightarrow> 's \<Rightarrow> ('c, 's) handled" where
  "do_mkdir e os arrive tid ctx p m srv s =
     before_op (trans_ppath e p) (\<lambda>rp.
       replicated e arrive tid (VFS_mkdir p (Unix (fc_uid ctx) (fc_gid ctx)) m)
         (\<lambda>s. Inr (xmp_mkdir os rp m (fc_uid ctx) (fc_gid ctx) s)) srv s)"

definition do_unlink :: "'c env \<Rightarrow> 's os \<Rightarrow> (responses \<Rightarrow> responses) \<Rightarrow> u64 \<Rightarrow> path \<Rightarrow> 'c server \<Rightarrow> 's \<Rightarrow> ('c, 's) handled" where
  "do_unlink e os arrive tid p srv s =
     before_op (trans_ppath e p) (\<lambda>rp. replicated e arrive tid (VFS_unlink p) (\<lambda>s. Inr (xmp_unlink os rp s)) srv s)"

definition do_rmdir :: "'c env \<Rightarrow> 's os \<Rightarrow> (responses \<Rightarrow> responses) \<Rightarrow> u64 \<Rightarrow> path \<Rightarrow> 'c server \<Rightarrow> 's \<Rightarrow> ('c, 's) handled" where
  "do_rmdir e os arrive tid p srv s =
     before_op (trans_ppath e p) (\<lambda>rp. replicated e arrive tid (VFS_rmdir p) (\<lambda>s. Inr (xmp_rmdir os rp s)) srv s)"

definition do_symlink :: "'c env \<Rightarrow> 's os \<Rightarrow> (responses \<Rightarrow> responses) \<Rightarrow> u64 \<Rightarrow> fuse_context \<Rightarrow> path \<Rightarrow> path
    \<Rightarrow> 'c server \<Rightarrow> 's \<Rightarrow> ('c, 's) handled" where
  "do_symlink e os arrive tid ctx from to srv s =
     before_op (trans_ppath e to) (\<lambda>rt.
       replicated e arrive tid (VFS_symlink from to (Unix (fc_uid ctx) (fc_gid ctx)))
         (\<lambda>s. Inr (xmp_symlink os from rt (fc_uid ctx) (fc_gid ctx) s)) srv s)"

definition do_rename :: "'c env \<Rightarrow> 's os \<Rightarrow> (responses \<Rightarrow> responses) \<Rightarrow> u64 \<Rightarrow> path \<Rightarrow> path \<Rightarrow> u32
    \<Rightarrow> 'c server \<Rightarrow> 's \<Rightarrow> ('c, 's) handled" where
  "do_rename e os arrive tid from to flags srv s =
     before_op (trans_ppath e from) (\<lambda>rf. before_op (trans_ppath e to) (\<lambda>rt.
       replicated e arrive tid (VFS_rename from to flags) (\<lambda>s. Inr (xmp_rename os rf rt flags s)) srv s))"

definition do_link :: "'c env \<Rightarrow> 's os \<Rightarrow> (responses \<Rightarrow> responses) \<Rightarrow> u64 \<Rightarrow> fuse_context \<Rightarrow> path \<Rightarrow> path
    \<Rightarrow> 'c server \<Rightarrow> 's \<Rightarrow> ('c, 's) handled" where
  "do_link e os arrive tid ctx from to srv s =
     before_op (trans_ppath e from) (\<lambda>rf. before_op (trans_ppath e to) (\<lambda>rt.
       replicated e arrive tid (VFS_link from to (Unix (fc_uid ctx) (fc_gid ctx)))
         (\<lambda>s. Inr (xmp_link os rf rt (fc_uid ctx) (fc_gid ctx) s)) srv s))"

definition do_chmod :: "'c env \<Rightarrow> 's os \<Rightarrow> (responses \<Rightarrow> responses) \<Rightarrow> u64 \<Rightarrow> path \<Rightarrow> u32 \<Rightarrow> fuse_file_info option
    \<Rightarrow> 'c server \<Rightarrow> 's \<Rightarrow> ('c, 's) handled" where
  "do_chmod e os arrive tid p m fi srv s =
     replicated e arrive tid (VFS_chmod p m) (on_target e p fi (\<lambda>t. xmp_chmod os t m)) srv s"

definition do_chown :: "'c env \<Rightarrow> 's os \<Rightarrow> (responses \<Rightarrow> responses) \<Rightarrow> u64 \<Rightarrow> path \<Rightarrow> u32 \<Rightarrow> u32 \<Rightarrow> fuse_file_info option
    \<Rightarrow> 'c server \<Rightarrow> 's \<Rightarrow> ('c, 's) handled" where
  "do_chown e os arrive tid p uid gid fi srv s =
     replicated e arrive tid (VFS_security p (Unix uid gid)) (on_target e p fi (\<lambda>t. xmp_chown os t uid gid)) srv s"

definition do_truncate :: "'c env \<Rightarrow> 's os \<Rightarrow> (responses \<Rightarrow> responses) \<Rightarrow> u64 \<Rightarrow> path \<Rightarrow> i64 \<Rightarrow> fuse_file_info option
    \<Rightarrow> 'c server \<Rightarrow> 's \<Rightarrow> ('c, 's) handled" where
  "do_truncate e os arrive tid p sz fi srv s =
     replicated e arrive tid (VFS_truncate p sz) (on_target e p fi (\<lambda>t. xmp_truncate os t sz)) srv s"

text \<open>
  A write.  With \<open>DIFF_WRITES\<close> the call carries the difference from the old contents, which is
  computed in place: the buffer that the kernel passed is changed, and it is this buffer that is
  written afterwards.  \<open>read_at\<close> gives the old bytes, as many as there are.
\<close>

definition zeroes :: "bytes \<Rightarrow> nat" where
  "zeroes b = length (takeWhile (\<lambda>x. x = 0) b)"

definition diff_call :: "path \<Rightarrow> i64 \<Rightarrow> bytes \<Rightarrow> bytes result \<Rightarrow> (VFSCall \<times> bytes) result" where
  "diff_call p offset buf old = (case old of
       Inl _ \<Rightarrow> Inr (VFS_write p offset buf, buf)
     | Inr [] \<Rightarrow> Inr (VFS_write p offset buf, buf)
     | Inr ob \<Rightarrow>
         rbind (xor_buf (take (length ob) buf) ob) (\<lambda>x.
         let nb = x @ drop (length ob) buf;
             leading = zeroes nb;
             trailing = (if length ob = length nb then zeroes (rev nb) else 0) in
         rbind (require (leading \<le> length nb - trailing) ''slice index starts behind its end'') (\<lambda>_.
           Inr (VFS_diff_write p (offset + of_nat leading) (drop leading (take (length nb - trailing) nb)), nb))))"

definition write_call :: "bool \<Rightarrow> (int \<Rightarrow> nat \<Rightarrow> i64 \<Rightarrow> 's \<Rightarrow> bytes result) \<Rightarrow> path \<Rightarrow> bytes \<Rightarrow> i64 \<Rightarrow> fuse_file_info option
    \<Rightarrow> 's \<Rightarrow> (VFSCall \<times> bytes) result" where
  "write_call diff_writes read_at p buf offset fi s =
     (if diff_writes then
        rbind (unwrap ''null pointer'' fi) (\<lambda>i. diff_call p offset buf (read_at (fh i) (length buf) offset s))
      else Inr (VFS_write p offset buf, buf))"

definition do_write :: "'c env \<Rightarrow> 's os \<Rightarrow> bool \<Rightarrow> (int \<Rightarrow> nat \<Rightarrow> i64 \<Rightarrow> 's \<Rightarrow> bytes result) \<Rightarrow> (responses \<Rightarrow> responses) \<Rightarrow> u64
    \<Rightarrow> path \<Rightarrow> bytes \<Rightarrow> i64 \<Rightarrow> fuse_file_info option \<Rightarrow> 'c server \<Rightarrow> 's \<Rightarrow> ('c, 's) handled" where
  "do_write e os diff_writes read_at arrive tid p buf offset fi srv s =
     before_op (write_call diff_writes read_at p buf offset fi s) (\<lambda>(call, buf').
       replicated e arrive tid call (on_handle fi (xmp_write os buf' offset)) srv s)"

definition do_fallocate :: "'c env \<Rightarrow> 's os \<Rightarrow> (responses \<Rightarrow> responses) \<Rightarrow> u64 \<Rightarrow> path \<Rightarrow> i32 \<Rightarrow> i64 \<Rightarrow> i64
    \<Rightarrow> fuse_file_info option \<Rightarrow> 'c server \<Rightarrow> 's \<Rightarrow> ('c, 's) handled" where
  "do_fallocate e os arrive tid p m offset len fi srv s =
     replicated e arrive tid (VFS_fallocate p m offset len) (on_handle fi (xmp_fallocate os m offset len)) srv s"

definition do_setxattr :: "'c env \<Rightarrow> 's os \<Rightarrow> (responses \<Rightarrow> responses) \<Rightarrow> u64 \<Rightarrow> path \<Rightarrow> bytes \<Rightarrow> bytes \<Rightarrow> i32
    \<Rightarrow> 'c server \<Rightarrow> 's \<Rightarrow> ('c, 's) handled" where
  "do_setxattr e os arrive tid p name val flags srv s =
     before_op (trans_ppath e p) (\<lambda>rp.
       replicated e arrive tid (VFS_setxattr p name val flags) (\<lambda>s. Inr (xmp_setxattr os (Inl rp) name val flags s)) srv s)"

definition do_removexattr :: "'c env \<Rightarrow> 's os \<Rightarrow> (responses \<Rightarrow> responses) \<Rightarrow> u64 \<Rightarrow> path \<Rightarrow> bytes
    \<Rightarrow> 'c server \<Rightarrow> 's \<Rightarrow> ('c, 's) handled" where
  "do_removexattr e os arrive tid p name srv s =
     before_op (trans_ppath e p) (\<lambda>rp.
       replicated e arrive tid (VFS_removexattr p name) (\<lambda>s. Inr (xmp_removexattr os (Inl rp) name s)) srv s)"

text \<open>The new descriptor goes into the file handle; it is part of the state here.\<close>

definition create_local :: "'s os \<Rightarrow> path \<Rightarrow> u32 \<Rightarrow> i32 \<Rightarrow> u32 \<Rightarrow> u32 \<Rightarrow> fuse_file_info \<times> 's \<Rightarrow> (int \<times> fuse_file_info \<times> 's) result" where
  "create_local os rp m flags uid gid st =
     (let (res, fd, s1) = xmp_create os rp m flags uid gid (snd st) in Inr (res, (fst st)\<lparr>fh := fd\<rparr>, s1))"

definition do_create :: "'c env \<Rightarrow> 's os \<Rightarrow> (responses \<Rightarrow> responses) \<Rightarrow> u64 \<Rightarrow> fuse_context \<Rightarrow> path \<Rightarrow> u32 \<Rightarrow> fuse_file_info option
    \<Rightarrow> 'c server \<Rightarrow> 's \<Rightarrow> ('c, fuse_file_info \<times> 's) handled" where
  "do_create e os arrive tid ctx p m fi srv s =
     before_op (unwrap ''assertion failed: !fi.is_null()'' fi) (\<lambda>i. before_op (trans_ppath e p) (\<lambda>rp.
       replicated e arrive tid (VFS_create p (fi_flags i) (Unix (fc_uid ctx) (fc_gid ctx)) m)
         (create_local os rp m (fi_flags i) (fc_uid ctx) (fc_gid ctx)) srv (i, s)))"

definition do_utimens :: "'c env \<Rightarrow> 's os \<Rightarrow> (responses \<Rightarrow> responses) \<Rightarrow> u64 \<Rightarrow> path \<Rightarrow> Timespec \<times> Timespec
    \<Rightarrow> fuse_file_info option \<Rightarrow> 'c server \<Rightarrow> 's \<Rightarrow> ('c, 's) handled" where
  "do_utimens e os arrive tid p ts fi srv s =
     replicated e arrive tid (VFS_utimens p (fst ts, snd ts, \<lparr>high = 0, low = 0\<rparr>))
       (on_target e p fi (\<lambda>t. xmp_utimens os t ts)) srv s"

definition do_fsync :: "'c env \<Rightarrow> 's os \<Rightarrow> (responses \<Rightarrow> responses) \<Rightarrow> u64 \<Rightarrow> path \<Rightarrow> i32 \<Rightarrow> fuse_file_info option
    \<Rightarrow> 'c server \<Rightarrow> 's \<Rightarrow> ('c, 's) handled" where
  "do_fsync e os arrive tid p isdatasync fi srv s =
     replicated e arrive tid (VFS_fsync p isdatasync) (on_handle fi (xmp_fsync os isdatasync)) srv s"

end
