(* ===== verification/FuseLaws.thy ===== *)
theory FuseLaws
  imports FuseHl CommonLaws BilogLaws DispatchLaws JournalLaws
begin

text \<open>
  Properties of the handlers of the mounted file system: what they perform below the backing
  store against what they announce to the clients.
\<close>

definition announced :: "'c env \<Rightarrow> 's os \<Rightarrow> (responses \<Rightarrow> responses) \<Rightarrow> u64 \<Rightarrow> VFSCall \<Rightarrow> 'c server \<Rightarrow> 's \<Rightarrow> ('c, 's) handled" where
  "announced e os arrive tid call srv s = replicated e arrive tid call (dispatch os call (e_path e)) srv s"

lemma before_op_Inr [simp]: "before_op (Inr x) f = f x"
  by (simp add: before_op_def)

lemma before_op_Inl [simp]: "before_op (Inl e) f = Some (Inl e)"
  by (simp add: before_op_def)

text \<open>
  Sample values for evaluation: an encoding of a few messages, journal encodings that only keep
  the lengths, and a server with no clients.
\<close>

definition sample_call :: VFSCall where
  "sample_call = VFS_mkdir wpath (Unix 1 2) 3"

fun sample_ser :: "FsyncerMsg \<Rightarrow> bytes" where
  "sample_ser (SyncOp _ _) = [1]"
| "sample_ser (AsyncOp _) = [2]"
| "sample_ser (Ack _) = [3]"
| "sample_ser (Cork _) = [4]"
| "sample_ser (AckCork _) = [5]"
| "sample_ser Uncork = [6]"
| "sample_ser NOP = [7]"
| "sample_ser (InitMsg _) = [8]"

definition sample_deser :: "bytes \<Rightarrow> FsyncerMsg option" where
  "sample_deser b = (if b = [1] then Some (SyncOp sample_call 9) else if b = [2] then Some (AsyncOp sample_call)
     else if b = [4] then Some (Cork 9) else if b = [6] then Some Uncork else if b = [7] then Some NOP else None)"

definition sample_codec :: "unit msg_codec" where
  "sample_codec = \<lparr>ser_msg = sample_ser, deser_msg = sample_deser, rt_encode = (\<lambda>u b. (b, u)), rt_decode = (\<lambda>u b. (b, u)),
     chunkmap_new = (), zstd_block_new = ()\<rparr>"

definition blind_codec :: "'a codec" where
  "blind_codec = \<lparr>header_size = 13, ser_header = (\<lambda>h. replicate 13 0), deser_header = (\<lambda>b. None),
     ser_entry = (\<lambda>e. replicate 12 0), deser_entry = (\<lambda>b. None), checksum_ieee = (\<lambda>b. 0)\<rparr>"

definition sample_env :: "fs_view \<Rightarrow> unit env" where
  "sample_env v = \<lparr>e_codec = sample_codec, e_bilog = blind_codec, e_forward = blind_codec, e_crc = (\<lambda>_. 0), e_fs = v, e_now = 0,
     e_path = wroot\<rparr>"

definition sample_server :: "unit server" where
  "sample_server = \<lparr>sync_list = [], cork = False, resps = [], srv_journal = Some blank_journal, srv_journal_type = JT_Bilog\<rparr>"

section \<open>Handlers and calls\<close>

text \<open>
  C8. What the server does is what it announces: every handler that works on paths performs,
  below the backing store, exactly the dispatch of the call that it sends to its clients, with
  the same result.  A client that dispatches the calls it receives repeats the server's steps.
\<close>

theorem fuse_handlers_dispatch:
  assumes "trans_cstr p (e_path e) = Inr rp" "trans_cstr q (e_path e) = Inr rq" "into_cstring p = Inr p"
  shows "do_mknod e os arrive tid ctx p m rdev srv s = announced e os arrive tid (VFS_mknod p m rdev (Unix (fc_uid ctx) (fc_gid ctx))) srv s
    \<and> do_mkdir e os arrive tid ctx p m srv s = announced e os arrive tid (VFS_mkdir p (Unix (fc_uid ctx) (fc_gid ctx)) m) srv s
    \<and> do_unlink e os arrive tid p srv s = announced e os arrive tid (VFS_unlink p) srv s
    \<and> do_rmdir e os arrive tid p srv s = announced e os arrive tid (VFS_rmdir p) srv s
    \<and> do_symlink e os arrive tid ctx p q srv s = announced e os arrive tid (VFS_symlink p q (Unix (fc_uid ctx) (fc_gid ctx))) srv s
    \<and> do_rename e os arrive tid p q flags srv s = announced e os arrive tid (VFS_rename p q flags) srv s
    \<and> do_link e os arrive tid ctx p q srv s = announced e os arrive tid (VFS_link p q (Unix (fc_uid ctx) (fc_gid ctx))) srv s
    \<and> do_chmod e os arrive tid p m None srv s = announced e os arrive tid (VFS_chmod p m) srv s
    \<and> do_chown e os arrive tid p uid gid None srv s = announced e os arrive tid (VFS_security p (Unix uid gid)) srv s
    \<and> do_truncate e os arrive tid p sz None srv s = announced e os arrive tid (VFS_truncate p sz) srv s
    \<and> do_setxattr e os arrive tid p name val xflags srv s = announced e os arrive tid (VFS_setxattr p name val xflags) srv s
    \<and> do_removexattr e os arrive tid p name srv s = announced e os arrive tid (VFS_removexattr p name) srv s
    \<and> do_utimens e os arrive tid p ts None srv s
        = announced e os arrive tid (VFS_utimens p (fst ts, snd ts, \<lparr>high = 0, low = 0\<rparr>)) srv s"
proof -
  let ?R = "e_path e" and ?sec = "Unix (fc_uid ctx) (fc_gid ctx)"
  have tgt: "on_target e p None f = (\<lambda>s. Inr (f (Inl rp) s))" for f :: "path_or_fd \<Rightarrow> 's \<Rightarrow> int \<times> 's"
    using assms(1) by (auto simp: on_target_def trans_ppath_def)
  have ops: "dispatch os (VFS_mknod p m rdev ?sec) ?R = (\<lambda>s. Inr (xmp_mknod os rp m rdev (fc_uid ctx) (fc_gid ctx) s))"
    "dispatch os (VFS_mkdir p ?sec m) ?R = (\<lambda>s. Inr (xmp_mkdir os rp m (fc_uid ctx) (fc_gid ctx) s))"
    "dispatch os (VFS_unlink p) ?R = (\<lambda>s. Inr (xmp_unlink os rp s))"
    "dispatch os (VFS_rmdir p) ?R = (\<lambda>s. Inr (xmp_rmdir os rp s))"
    "dispatch os (VFS_symlink p q ?sec) ?R = (\<lambda>s. Inr (xmp_symlink os p rq (fc_uid ctx) (fc_gid ctx) s))"
    "dispatch os (VFS_rename p q flags) ?R = (\<lambda>s. Inr (xmp_rename os rp rq flags s))"
    "dispatch os (VFS_link p q ?sec) ?R = (\<lambda>s. Inr (xmp_link os rp rq (fc_uid ctx) (fc_gid ctx) s))"
    "dispatch os (VFS_chmod p m) ?R = (\<lambda>s. Inr (xmp_chmod os (Inl rp) m s))"
    "dispatch os (VFS_security p (Unix uid gid)) ?R = (\<lambda>s. Inr (xmp_chown os (Inl rp) uid gid s))"
    "dispatch os (VFS_truncate p sz) ?R = (\<lambda>s. Inr (xmp_truncate os (Inl rp) sz s))"
    "dispatch os (VFS_setxattr p name val xflags) ?R = (\<lambda>s. Inr (xmp_setxattr os (Inl rp) name val xflags s))"
    "dispatch os (VFS_removexattr p name) ?R = (\<lambda>s. Inr (xmp_removexattr os (Inl rp) name s))"
    "dispatch os (VFS_utimens p (fst ts, snd ts, \<lparr>high = 0, low = 0\<rparr>)) ?R = (\<lambda>s. Inr (xmp_utimens os (Inl rp) ts s))"
    using assms by (simp_all add: fun_eq_iff)
  show ?thesis
    using assms unfolding announced_def ops
    by (simp add: do_mknod_def do_mkdir_def do_unlink_def do_rmdir_def do_symlink_def do_rename_def do_link_def
        do_chmod_def do_chown_def do_truncate_def do_setxattr_def do_removexattr_def do_utimens_def tgt trans_ppath_def)
qed


theorem fuse_handlers_dispatch_witness:
  "do_mkdir (sample_env (view1 None)) toy_os (\<lambda>r. r) 9 \<lparr>fc_uid = 1, fc_gid = 2\<rparr> wpath 3 sample_server []
    = announced (sample_env (view1 None)) toy_os (\<lambda>r. r) 9 sample_call sample_server []"
proof -
  have t: "trans_cstr wpath (e_path (sample_env (view1 None))) = Inr [RootDir, Normal ''d'', Normal ''a'']" "into_cstring wpath = Inr wpath"
    by (simp_all add: sample_env_def path_eval)
  show ?thesis
    using fuse_handlers_dispatch [OF t(1) t(1) t(2), of toy_os "\<lambda>r. r" 9 "\<lparr>fc_uid = 1, fc_gid = 2\<rparr>" 3 0 sample_server "[]"]
    by (simp add: sample_call_def)
qed

section \<open>Deleted files\<close>

text \<open>
  C36. With a bidirectional journal, deleting a file that has data reports success and leaves the
  file where it is: the journal entry of such an \<open>unlink\<close> makes \<open>pre_op\<close> fix the result, on the
  assumption that the file has been moved to the store, but nothing moves it: neither the disk
  nor the state of the store changes.
\<close>

theorem unlink_bilog_keeps_file:
  assumes "\<not> cork srv" "srv_journal srv = Some j" "srv_journal_type srv = JT_Bilog"
    and "translate_and_stat (e_fs e) p (e_path e) = Inr st" "is_type (st_mode st) S_IFREG" "st_nlink st \<le> 1" "st_size st \<noteq> 0"
    and "write_entry (e_bilog e) j (e_now e) (BE_filestore p 0) = Inr j'" "trans_cstr p (e_path e) = Inr rp"
  shows "\<exists>srv'. do_unlink e os arrive tid p srv s = Some (Inr (0, srv', s)) \<and> srv_journal srv' = Some j'"
proof -
  have "bilog_try_from (e_crc e) (e_fs e) (VFS_unlink p) (e_path e) = Inr (BE_filestore p 0)"
    using assms(4-7) by (auto simp: bilog_unlink_def Let_def is_type_def S_IFREG_def S_IFLNK_def)
  then have jo: "journal_op e JT_Bilog j (VFS_unlink p) = Inr (Some 0, j')"
    using assms(8) by (simp add: journal_op_def)
  obtain out srv1 where sent: "with_clients srv (send_op (e_codec e) tid (VFS_unlink p)) = (out, srv1)"
    by fastforce
  then have "srv_journal srv1 = Some j" "srv_journal_type srv1 = JT_Bilog"
    using assms(2,3) by (auto simp: with_clients_def split: prod.splits)
  then have "\<exists>opref srv2. pre_op e tid srv (VFS_unlink p) = Some (Inr (opref, srv2)) \<and> op_ret opref = Some 0
      \<and> srv_journal srv2 = Some j'"
    using assms(1) sent jo by (simp add: pre_op_def Let_def)
  then show ?thesis
    using assms(9) by (auto simp: do_unlink_def trans_ppath_def replicated_def opref_drop_def)
qed

theorem unlink_bilog_keeps_file_witness:
  "\<exists>srv'. do_unlink (sample_env (view1 (Some (one_stat\<lparr>st_size := 5\<rparr>)))) toy_os (\<lambda>r. r) 9 wpath sample_server [] = Some (Inr (0, srv', []))"
proof -
  let ?e = "sample_env (view1 (Some (one_stat\<lparr>st_size := 5\<rparr>)))"
  have st: "translate_and_stat (e_fs ?e) wpath (e_path ?e) = Inr (one_stat\<lparr>st_size := 5\<rparr>)"
    using view1_seen(1) [of "one_stat\<lparr>st_size := 5\<rparr>"] by (simp add: seen_def sample_env_def)
  obtain j' where j: "write_entry (e_bilog ?e) blank_journal (e_now ?e) (BE_filestore wpath 0) = Inr j'"
    by (simp add: write_entry_def write_inner_def blank_journal_def blank_file_def sample_env_def blind_codec_def BLOCK_SIZE_def
        align_up_always_def file_off_def write_all_at_def)
  have "\<exists>srv'. do_unlink ?e toy_os (\<lambda>r. r) 9 wpath sample_server [] = Some (Inr (0, srv', [])) \<and> srv_journal srv' = Some j'"
    by (rule unlink_bilog_keeps_file [OF _ _ _ st _ _ _ j])
      (simp_all add: sample_server_def one_stat_def is_type_def S_IFMT_def S_IFREG_def sample_env_def path_eval)
  then show ?thesis by blast
qed

section \<open>Difference writes\<close>

lemma xor_prefix_take:
  "length ob \<le> length buf \<Longrightarrow> xor_prefix (take (length ob) buf) ob @ drop (length ob) buf = xor_prefix buf ob"
  using take_zip [of "length ob" buf ob] by (simp add: xor_prefix_def)

lemma zeroes_both:
  assumes "x \<in> set b" "x \<noteq> 0"
  shows "zeroes b + zeroes (rev b) \<le> length b"
proof -
  obtain a y c where split: "b = a @ y # c" "y \<noteq> 0" "\<forall>z \<in> set a. z = 0"
    using split_list_first_propE [of b "\<lambda>z. z \<noteq> 0"] assms by metis
  then have "zeroes b = length a" by (simp add: zeroes_def takeWhile_append2)
  moreover have "zeroes (rev b) \<le> length c"
    using split(1,2) length_takeWhile_le [of "\<lambda>z. z = 0" "rev c"] by (auto simp: zeroes_def takeWhile_append)
  ultimately show ?thesis using split(1) by simp
qed

lemma word_xor_eq_zero: "x XOR y = 0 \<longleftrightarrow> x = (y :: 'a::len word)"
  by (metis word_xor_cancel_mid(1) xor_self_eq)

lemma xor_prefix_zero: "length ob = length buf \<Longrightarrow> (\<forall>x \<in> set (xor_prefix buf ob). x = 0) \<longleftrightarrow> ob = buf"
  by (induction ob buf rule: list_induct2) (auto simp: xor_prefix_def word_xor_eq_zero)

definition diff_trail :: "bytes \<Rightarrow> bytes \<Rightarrow> nat" where
  "diff_trail buf ob = (if length ob = length buf then zeroes (rev (xor_prefix buf ob)) else 0)"

lemma diff_call_eq:
  assumes "ob \<noteq> []" "length ob \<le> length buf"
  shows "diff_call p offset buf (Inr ob) =
    (if zeroes (xor_prefix buf ob) \<le> length buf - diff_trail buf ob
     then Inr (VFS_diff_write p (offset + of_nat (zeroes (xor_prefix buf ob)))
        (drop (zeroes (xor_prefix buf ob)) (take (length buf - diff_trail buf ob) (xor_prefix buf ob))), xor_prefix buf ob)
     else Inl (Panicked ''slice index starts behind its end''))"
proof -
  have len: "length (xor_prefix buf ob) = length buf" using assms(2) by (simp add: xor_prefix_def)
  obtain a l where ob: "ob = a # l" using assms(1) by (cases ob) auto
  have xb: "xor_buf (take (length ob) buf) ob = Inr (xor_prefix (take (length ob) buf) ob)"
    using assms(2) by (simp add: xor_buf_def)
  show ?thesis
    using len unfolding diff_call_def ob sum.case list.case xb [unfolded ob] rbind_Inr Let_def
      xor_prefix_take [OF assms(2), unfolded ob] diff_trail_def require_def
    by simp
qed

lemma diff_call_ok:
  assumes "ob \<noteq> []" "length ob \<le> length buf" "length ob < length buf \<or> ob \<noteq> buf"
  shows "\<exists>off' d. diff_call p offset buf (Inr ob) = Inr (VFS_diff_write p off' d, xor_prefix buf ob)"
proof -
  let ?nb = "xor_prefix buf ob"
  have "length ?nb = length buf" using assms(2) by (simp add: xor_prefix_def)
  then have "zeroes ?nb + diff_trail buf ob \<le> length buf"
    using zeroes_both [of _ ?nb] xor_prefix_zero [of ob buf] assms(3) length_takeWhile_le [of "\<lambda>x. x = 0" ?nb]
    by (auto simp: zeroes_def diff_trail_def)
  then show ?thesis using diff_call_eq [OF assms(1,2), of p offset] by auto
qed

text \<open>
  C37. With difference writes the server stores the difference instead of the data: the exclusive
  or with the old contents is computed in the caller's buffer, and that buffer is then written to
  the server's own file.  The call it announces cannot be dispatched on any client, which
  panics; and a write that changes nothing panics on the server.
\<close>

theorem diff_write_stores_difference:
  assumes "read_at (fh i) (length buf) offset s = Inr ob" "ob \<noteq> []" "length ob \<le> length buf"
  shows "(length ob = length buf \<and> ob = buf \<longrightarrow> \<not> (\<exists>r. do_write e os True read_at arrive tid p buf offset (Some i) srv s = Some (Inr r)))
    \<and> (length ob < length buf \<or> ob \<noteq> buf \<longrightarrow> (\<exists>call.
        do_write e os True read_at arrive tid p buf offset (Some i) srv s
          = replicated e arrive tid call (on_handle (Some i) (xmp_write os (xor_prefix buf ob) offset)) srv s
        \<and> (\<forall>(os' :: 't os) root s'. dispatch os' call root s' = Inl (Panicked ''Not implemented''))))"
proof (intro conjI impI)
  have wc: "write_call True read_at p buf offset (Some i) s = diff_call p offset buf (Inr ob)"
    using assms(1) by (simp add: write_call_def)
  show "\<not> (\<exists>r. do_write e os True read_at arrive tid p buf offset (Some i) srv s = Some (Inr r))"
    if "length ob = length buf \<and> ob = buf"
  proof -
    have "\<forall>x \<in> set (xor_prefix buf buf). x = 0" "length (xor_prefix buf buf) = length buf"
      using xor_prefix_zero [of buf buf] by (auto simp: xor_prefix_def)
    then have "zeroes (xor_prefix buf buf) = length buf" "zeroes (rev (xor_prefix buf buf)) = length buf"
      by (simp_all add: zeroes_def takeWhile_eq_all_conv [THEN iffD2])
    then have "\<not> is_ok (diff_call p offset buf (Inr ob))"
      using that assms(2) diff_call_eq [of buf buf p offset] by (simp add: diff_trail_def)
    then show ?thesis using wc by (cases "diff_call p offset buf (Inr ob)") (auto simp: do_write_def)
  qed
  show "\<exists>call. do_write e os True read_at arrive tid p buf offset (Some i) srv s
        = replicated e arrive tid call (on_handle (Some i) (xmp_write os (xor_prefix buf ob) offset)) srv s
      \<and> (\<forall>(os' :: 't os) root s'. dispatch os' call root s' = Inl (Panicked ''Not implemented''))"
    if "length ob < length buf \<or> ob \<noteq> buf"
    using diff_call_ok [OF assms(2,3) that, of p offset] wc by (auto simp: do_write_def)
qed

theorem diff_write_stores_difference_witness:
  "\<exists>call. do_write (sample_env (view1 None)) toy_os True (\<lambda>fd n off s. Inr [1, 2]) (\<lambda>r. r) 9 wpath [1, 7] 0 (Some \<lparr>fh = 4, fi_flags = 0\<rparr>) sample_server []
    = replicated (sample_env (view1 None)) (\<lambda>r. r) 9 call (on_handle (Some \<lparr>fh = 4, fi_flags = 0\<rparr>) (xmp_write toy_os [0, 5] 0)) sample_server []"
proof -
  have x: "xor_prefix [1, 7] [1, 2] = [0, 5]" by (simp add: xor_prefix_def)
  show ?thesis
    using conjunct2 [OF diff_write_stores_difference [of "\<lambda>fd n off s. Inr [1, 2]" "\<lparr>fh = 4, fi_flags = 0\<rparr>" "[1, 7]" 0 "[]" "[1, 2]"
        "sample_env (view1 None)" toy_os "\<lambda>r. r" 9 wpath sample_server]] x by auto
qed

end
