(* ===== verification/ClientConn.thy ===== *)
theory ClientConn
  imports Server
begin

text \<open>
  The client side of a connection (\<open>client/mod.rs\<close>): the builder, framed messages read from
  the server, the loop that dispatches operations and acknowledges them, and the control
  commands.

  The input of a connection is what is left of the byte stream.  A pool of dispatch threads is
  a list of accepted jobs, any of which may run next.  Parameters beside those of the server:
  the stream decoders, the outcome of \<open>rsync\<close>.
\<close>

record 'c ServerConnection =
  sc_write :: writer
  sc_read :: bytes
  rcv_buf :: bytes
  sc_mode :: ClientMode
  sc_rt_comp :: "'c option"

definition send_msg :: "'c msg_codec \<Rightarrow> writer \<Rightarrow> FsyncerMsg \<Rightarrow> writer result" where
  "send_msg c w msg = rbind (write_all w (ser_msg c msg)) wflush"

section \<open>Building a connection\<close>

record ConnectionBuilder =
  netin :: bytes
  netout :: writer
  init_msg :: InitMsg
  rsynced :: bool

definition with_net :: "'c msg_codec \<Rightarrow> bytes \<Rightarrow> writer \<Rightarrow> InitMsg \<Rightarrow> ConnectionBuilder result" where
  "with_net c ni no init =
     rmap (\<lambda>w. \<lparr>netin = ni, netout = w, init_msg = init, rsynced = False\<rparr>) (send_msg c no (InitMsg init))"

definition rsync :: "(bytes \<times> writer \<Rightarrow> (bytes \<times> writer) result) \<Rightarrow> ConnectionBuilder \<Rightarrow> ConnectionBuilder result" where
  "rsync run b =
     (if rsynced b then Inr b
      else if \<not> flags_contains (init_options (init_msg b)) INITIAL_RSYNC
      then Inl (Panicked ''Cannot rsync without telling server first, use INITIAL_RSYNC option'')
      else rmap (\<lambda>(ni, no). b\<lparr>netin := ni, netout := no, rsynced := True\<rparr>) (run (netin b, netout b)))"

definition build :: "'c msg_codec \<Rightarrow> (bytes \<Rightarrow> bytes result) \<Rightarrow> (bytes \<Rightarrow> bytes result) \<Rightarrow> ConnectionBuilder
    \<Rightarrow> 'c ServerConnection result" where
  "build c zstd lz4 b =
     (if flags_contains (init_options (init_msg b)) INITIAL_RSYNC \<and> \<not> rsynced b
      then Inl (Panicked ''If you requested rsync, you must rsync first before building a connection'')
      else
        rbind (if flags_contains (compress (init_msg b)) STREAM_ZSTD then zstd (netin b)
               else if flags_contains (compress (init_msg b)) STREAM_LZ4 then lz4 (netin b)
               else Inr (netin b)) (\<lambda>rd.
          Inr \<lparr>sc_write = netout b, sc_read = rd, rcv_buf = [], sc_mode = init_mode (init_msg b),
               sc_rt_comp = rt_compressor c (compress (init_msg b))\<rparr>))"

section \<open>Reading\<close>

definition read_exact :: "bytes \<Rightarrow> nat \<Rightarrow> (bytes \<times> bytes) result" where
  "read_exact b n = (if n \<le> length b then Inr (take n b, drop n b) else Inl (IoErr UnexpectedEof))"

text \<open>
  The receive buffer only grows; the frame is read into its front.  With a block compressor the
  decoder is given the frame from its fifth byte on.
\<close>

definition frame_bytes :: "'c msg_codec \<Rightarrow> 'c option \<Rightarrow> bytes \<Rightarrow> nat \<Rightarrow> (bytes \<times> 'c option) result" where
  "frame_bytes c rt buf len = (case rt of
       None \<Rightarrow> Inr (take len buf, None)
     | Some st \<Rightarrow>
         rbind (require (4 \<le> len) ''slice index starts at 4 but ends before'') (\<lambda>_.
           let (dbuf, st') = rt_decode c st (drop 4 (take len buf)) in Inr (dbuf, Some st')))"

definition read_msg :: "'c msg_codec \<Rightarrow> 'c ServerConnection \<Rightarrow> (FsyncerMsg \<times> 'c ServerConnection) result" where
  "read_msg c conn =
     rbind (read_exact (sc_read conn) 4) (\<lambda>(hdr, rest).
     let len = unat (rd_be32 hdr);
         buf = (if length (rcv_buf conn) < len then rcv_buf conn @ replicate (len - length (rcv_buf conn)) 0 else rcv_buf conn) in
     rbind (read_exact rest len) (\<lambda>(b, rest').
     let buf' = b @ drop len buf in
     rbind (frame_bytes c (sc_rt_comp conn) buf' len) (\<lambda>(m, rt).
     rbind (bincode_result (deser_msg c m)) (\<lambda>msg.
       Inr (msg, conn\<lparr>sc_read := rest', rcv_buf := buf', sc_rt_comp := rt\<rparr>)))))"

lemma read_msg_shorter:
  "read_msg c conn = Inr (msg, conn') \<Longrightarrow> length (sc_read conn') < length (sc_read conn)"
  by (auto simp: read_msg_def read_exact_def rbind_eq_Inr Let_def split: if_splits)

section \<open>Control\<close>

function cork_reply :: "'c msg_codec \<Rightarrow> 'c ServerConnection \<Rightarrow> 'c ServerConnection result" where
  "cork_reply c conn = (case read_msg c conn of
       Inl e \<Rightarrow> Inl e
     | Inr (msg, conn') \<Rightarrow> (case msg of
         Cork tid \<Rightarrow> rmap (\<lambda>w. conn'\<lparr>sc_write := w\<rparr>) (send_msg c (sc_write conn') (AckCork tid))
       | _ \<Rightarrow> cork_reply c conn'))"
  by pat_completeness auto
termination
  by (relation "measure (\<lambda>(c, conn). length (sc_read conn))") (auto dest: read_msg_shorter)

declare cork_reply.simps [simp del]

definition conn_cork_server :: "'c msg_codec \<Rightarrow> 'c ServerConnection \<Rightarrow> 'c ServerConnection result" where
  "conn_cork_server c conn =
     rbind (send_msg c (sc_write conn) (Cork 0)) (\<lambda>w. cork_reply c (conn\<lparr>sc_write := w\<rparr>))"

definition conn_uncork_server :: "'c msg_codec \<Rightarrow> 'c ServerConnection \<Rightarrow> 'c ServerConnection result" where
  "conn_uncork_server c conn = rmap (\<lambda>w. conn\<lparr>sc_write := w\<rparr>) (send_msg c (sc_write conn) Uncork)"

section \<open>Processing operations\<close>

record ('c, 's) worker =
  w_conn :: "'c ServerConnection"
  w_jobs :: "(VFSCall \<times> u64) list"
  w_disk :: 's

definition reply :: "'c msg_codec \<Rightarrow> ('c, 's) worker \<Rightarrow> FsyncerMsg \<Rightarrow> ('c, 's) worker result" where
  "reply c wk msg =
     rmap (\<lambda>w. wk\<lparr>w_conn := (w_conn wk)\<lparr>sc_write := w\<rparr>\<rparr>) (send_msg c (sc_write (w_conn wk)) msg)"

definition need_ack :: "ClientMode \<Rightarrow> bool" where
  "need_ack m \<longleftrightarrow> m = MODE_SYNC \<or> m = MODE_FLUSHSYNC"

text \<open>The closure that runs on a pool thread, or at once when there is none.\<close>

definition run_job :: "'c msg_codec \<Rightarrow> 's os \<Rightarrow> path \<Rightarrow> VFSCall \<times> u64 \<Rightarrow> ('c, 's) worker \<Rightarrow> ('c, 's) worker result" where
  "run_job c os root job wk =
     rbind (dispatch os (fst job) root (w_disk wk)) (\<lambda>(res, s).
     let wk1 = wk\<lparr>w_disk := s\<rparr> in
     if need_ack (sc_mode (w_conn wk))
     then expect ''Failed to send ack'' (reply c wk1 (Ack \<lparr>retcode = RetCode (word_of_int res), ack_tid = snd job\<rparr>))
     else Inr wk1)"

fun process_msg :: "'c msg_codec \<Rightarrow> 's os \<Rightarrow> path \<Rightarrow> bool \<Rightarrow> FsyncerMsg \<Rightarrow> ('c, 's) worker \<Rightarrow> ('c, 's) worker result" where
  "process_msg c os root pool (SyncOp call tid) wk =
     rbind (if sc_mode (w_conn wk) = MODE_SEMISYNC then reply c wk (Ack \<lparr>retcode = AckOk, ack_tid = tid\<rparr>) else Inr wk) (\<lambda>wk1.
       if pool then Inr (wk1\<lparr>w_jobs := w_jobs wk1 @ [(call, tid)]\<rparr>)
       else run_job c os root (call, tid) wk1)"
| "process_msg c os root pool (AsyncOp call) wk =
     rmap (\<lambda>(_, s). wk\<lparr>w_disk := s\<rparr>) (dispatch os call root (w_disk wk))"
| "process_msg c os root pool (Cork tid) wk = reply c wk (AckCork tid)"
| "process_msg c os root pool _ wk = Inr wk"

definition process_next :: "'c msg_codec \<Rightarrow> 's os \<Rightarrow> path \<Rightarrow> bool \<Rightarrow> ('c, 's) worker \<Rightarrow> ('c, 's) worker result" where
  "process_next c os root pool wk =
     rbind (read_msg c (w_conn wk)) (\<lambda>(msg, conn). process_msg c os root pool msg (wk\<lparr>w_conn := conn\<rparr>))"

text \<open>
  \<open>process_ops\<close> with a single dispatch thread: it ends with the first error, at the latest with
  the end of the stream, in the state before the message that failed.
\<close>

lemma reply_read: "reply c wk msg = Inr wk' \<Longrightarrow> sc_read (w_conn wk') = sc_read (w_conn wk)"
  by (auto simp: reply_def rmap_eq_Inr)

lemma run_job_read: "run_job c os root job wk = Inr wk' \<Longrightarrow> sc_read (w_conn wk') = sc_read (w_conn wk)"
  by (auto simp: run_job_def Let_def rbind_eq_Inr expect_eq_Inr dest: reply_read split: if_splits)

lemma process_msg_read: "process_msg c os root pool msg wk = Inr wk' \<Longrightarrow> sc_read (w_conn wk') = sc_read (w_conn wk)"
  by (cases msg) (auto simp: rbind_eq_Inr rmap_eq_Inr dest!: reply_read run_job_read split: if_splits)

lemma process_next_shorter:
  "process_next c os root pool wk = Inr wk' \<Longrightarrow> length (sc_read (w_conn wk')) < length (sc_read (w_conn wk))"
  by (auto simp: process_next_def rbind_eq_Inr dest!: read_msg_shorter process_msg_read)

function process_ops :: "'c msg_codec \<Rightarrow> 's os \<Rightarrow> path \<Rightarrow> ('c, 's) worker \<Rightarrow> failure \<times> ('c, 's) worker" where
  "process_ops c os root wk = (case process_next c os root False wk of
       Inl e \<Rightarrow> (e, wk)
     | Inr wk' \<Rightarrow> process_ops c os root wk')"
  by pat_completeness auto
termination
  by (relation "measure (\<lambda>(c, os, root, wk). length (sc_read (w_conn wk)))") (auto dest: process_next_shorter)

declare process_ops.simps [simp del]

text \<open>
  With a pool, the loop and the pool threads take turns: a message is taken from the stream, or
  any accepted job runs.
\<close>

definition take_nth :: "nat \<Rightarrow> 'a list \<Rightarrow> 'a list" where
  "take_nth i xs = take i xs @ drop (Suc i) xs"

inductive pool_step :: "'c msg_codec \<Rightarrow> 's os \<Rightarrow> path \<Rightarrow> ('c, 's) worker \<Rightarrow> ('c, 's) worker \<Rightarrow> bool"
  for c os root where
  pool_read: "process_next c os root True wk = Inr wk' \<Longrightarrow> pool_step c os root wk wk'"
| pool_run: "i < length (w_jobs wk) \<Longrightarrow>
    run_job c os root (w_jobs wk ! i) (wk\<lparr>w_jobs := take_nth i (w_jobs wk)\<rparr>) = Inr wk' \<Longrightarrow> pool_step c os root wk wk'"

inductive_cases pool_stepE: "pool_step c os root wk wk'"

section \<open>Options\<close>

record client_args =
  arg_sync :: string
  arg_stream :: string
  arg_rt :: string
  arg_rsync :: bool
  arg_iolimit :: string

definition parse_mode :: "string \<Rightarrow> ClientMode result" where
  "parse_mode v =
     (if v = ''sync'' then Inr MODE_SYNC
      else if v = ''async'' then Inr MODE_ASYNC
      else if v = ''semi'' then Inr MODE_SEMISYNC
      else if v = ''flush'' then Inr MODE_FLUSHSYNC
      else Inl (Panicked ''That is not possible''))"

definition parse_options :: "client_args \<Rightarrow> InitMsg result" where
  "parse_options a =
     rbind (parse_mode (arg_sync a)) (\<lambda>m.
     let stream = (if arg_stream a = ''default'' \<or> arg_stream a = ''lz4'' then STREAM_LZ4
                   else if arg_stream a = ''zstd'' then STREAM_ZSTD else 0);
         rt = (if arg_rt a = ''default'' \<or> arg_rt a = ''zstd'' then RT_DSSC_ZSTD
               else if arg_rt a = ''chunked'' then RT_DSSC_CHUNKED else 0) in
     rbind (parse_human_size (arg_iolimit a)) (\<lambda>lim.
     rbind (unwrap ''Invalid format for iolimit'' lim) (\<lambda>bps.
       Inr \<lparr>init_mode = m, dsthash = 0, compress = stream OR rt, iolimit_bps = of_nat bps,
            init_options = (if arg_rsync a then INITIAL_RSYNC else 0)\<rparr>)))"

text \<open>The checks of \<open>client_main\<close> on its options, and the hash that it adds.\<close>

definition client_init :: "client_args \<Rightarrow> nat \<Rightarrow> u64 result \<Rightarrow> InitMsg result" where
  "client_init a dispatch_threads dst =
     rbind (parse_options a) (\<lambda>init.
     rbind (require (dispatch_threads = 1 \<or> init_mode init = MODE_SYNC)
              ''Only synchronous mode is compatible with multiple dispatch threads'') (\<lambda>_.
     rmap (\<lambda>h. init\<lparr>dsthash := h\<rparr>) (expect ''Hash failed'' dst)))"

end
