(* ===== verification/ServerLaws.thy ===== *)
theory ServerLaws
  imports ClientConn FuseLaws
begin

text \<open>
  Properties of the connection between server and client: frames, acknowledgements, corking.
\<close>

section \<open>Frames\<close>

lemma length_be32 [simp]: "length (be32 w) = 4"
  by (simp add: be32_def)

lemma rd_be32_be32 [simp]: "rd_be32 (be32 w) = w" "rd_be32 (be32 w @ b) = w"
  by (simp_all add: rd_be32_def be32_def)

definition frame :: "'c msg_codec \<Rightarrow> FsyncerMsg \<Rightarrow> bytes" where
  "frame c m = be32 (of_nat (length (ser_msg c m))) @ ser_msg c m"

text \<open>A message that the encoding restores and whose length fits the frame.\<close>

definition msg_ok :: "'c msg_codec \<Rightarrow> FsyncerMsg \<Rightarrow> bool" where
  "msg_ok c m \<longleftrightarrow> deser_msg c (ser_msg c m) = Some m \<and> length (ser_msg c m) < 2 ^ 32"

text \<open>A client that can be reached: alive, its writer works and there is no block compressor.\<close>

definition reachable :: "'c Client \<Rightarrow> bool" where
  "reachable cl \<longleftrightarrow> status (net cl) = ALIVE \<and> wfault (net_write (net cl)) = None \<and> rt_comp (net cl) = None"

definition sent_bytes :: "'c Client \<Rightarrow> bytes" where
  "sent_bytes cl = wbytes (net_write (net cl))"

lemma write_frame_plain:
  "rt_comp n = None \<Longrightarrow> wfault (net_write n) = None \<Longrightarrow> write_frame c n (ser_msg c m) =
     (Inr (), n\<lparr>net_write := (net_write n)\<lparr>wbytes := wbytes (net_write n) @ frame c m\<rparr>\<rparr>)"
  by (simp add: write_frame_def rt_apply_def write_all_def frame_def Let_def)

definition stream :: "'c Client \<Rightarrow> bool" where
  "stream cl \<longleftrightarrow> flags_intersects (comp cl) STREAM_MASK"

text \<open>The messages that reach the wire when one is sent.\<close>

definition with_nop :: "bool \<Rightarrow> bool \<Rightarrow> FsyncerMsg \<Rightarrow> FsyncerMsg list" where
  "with_nop flush strm m = m # (if flush \<and> strm then [NOP] else [])"

lemma send_inner_plain:
  assumes "rt_comp n = None" "wfault (net_write n) = None"
  shows "\<exists>n'. send_inner c n (ser_msg c m) flush strm = (Inr (), n')
    \<and> wbytes (net_write n') = wbytes (net_write n) @ concat (map (frame c) (with_nop flush strm m))
    \<and> wfault (net_write n') = None \<and> rt_comp n' = None \<and> parked n' = parked n \<and> status n' = status n
    \<and> (flush \<longrightarrow> wflushed (net_write n') = length (wbytes (net_write n')))"
  using assms
  by (simp add: send_inner_def net_then_def net_flush_def wflush_def with_nop_def write_frame_plain)

lemma park_net [simp]:
  "park n rs tid = (a, n1, rs1) \<Longrightarrow> net_write n1 = net_write n \<and> rt_comp n1 = rt_comp n \<and> status n1 = status n"
  by (auto simp: park_def split: option.splits)

lemma response_msg_ok:
  assumes "reachable cl"
  shows "\<exists>resp cl' rs'. response_msg c tid cl rs m flush want = (Inr resp, cl', rs')
    \<and> reachable cl' \<and> mode cl' = mode cl \<and> comp cl' = comp cl
    \<and> sent_bytes cl' = sent_bytes cl @ concat (map (frame c) (with_nop flush (stream cl) m))
    \<and> (resp = None \<longleftrightarrow> \<not> want) \<and> (flush \<longrightarrow> wflushed (net_write (net cl')) = length (sent_bytes cl'))"
proof -
  obtain resp n1 rs1 where p: "(if want then let (a, n1, rs1) = park (net cl) rs tid in (Some a, n1, resp_clone rs1 a)
      else (None, net cl, rs)) = (resp, n1, rs1)"
    by (cases "if want then let (a, n1, rs1) = park (net cl) rs tid in (Some a, n1, resp_clone rs1 a) else (None, net cl, rs)")
  then have n1: "net_write n1 = net_write (net cl)" "rt_comp n1 = rt_comp (net cl)" "status n1 = status (net cl)" "resp = None \<longleftrightarrow> \<not> want"
    by (auto simp: Let_def split: prod.splits if_splits)
  obtain n2 where n2: "send_inner c n1 (ser_msg c m) flush (stream cl) = (Inr (), n2)"
    "wbytes (net_write n2) = wbytes (net_write n1) @ concat (map (frame c) (with_nop flush (stream cl) m))"
    "wfault (net_write n2) = None" "rt_comp n2 = None" "status n2 = status n1"
    "flush \<longrightarrow> wflushed (net_write n2) = length (wbytes (net_write n2))"
    using send_inner_plain [of n1 c m flush "stream cl"] assms n1 by (auto simp: reachable_def)
  have "response_msg c tid cl rs m flush want = (Inr resp, cl\<lparr>net := n2\<rparr>, rs1)"
    using assms p n2(1) unfolding response_msg_def reachable_def stream_def by (simp add: Let_def)
  then show ?thesis
    using assms n1 n2 by (auto simp: reachable_def sent_bytes_def)
qed

text \<open>A client receives a frame.\<close>

lemma read_msg_frame:
  assumes "msg_ok c m" "sc_rt_comp conn = None" "sc_read conn = frame c m @ rest"
  shows "\<exists>conn'. read_msg c conn = Inr (m, conn') \<and> sc_read conn' = rest \<and> sc_rt_comp conn' = None
    \<and> sc_mode conn' = sc_mode conn \<and> sc_write conn' = sc_write conn"
proof -
  have "unat (word_of_nat (length (ser_msg c m)) :: u32) = length (ser_msg c m)"
    using assms(1) by (simp add: msg_ok_def unsigned_of_nat take_bit_nat_eq_self)
  then show ?thesis
    using assms by (simp add: read_msg_def read_exact_def frame_def frame_bytes_def msg_ok_def Let_def)
qed

text \<open>All messages of a stream, up to its first error.\<close>

function read_msgs :: "'c msg_codec \<Rightarrow> 'c ServerConnection \<Rightarrow> FsyncerMsg list" where
  "read_msgs c conn = (case read_msg c conn of
       Inl e \<Rightarrow> []
     | Inr (m, conn') \<Rightarrow> m # read_msgs c conn')"
  by pat_completeness auto
termination
  by (relation "measure (\<lambda>(c, conn). length (sc_read conn))") (auto dest: read_msg_shorter)

declare read_msgs.simps [simp del]

lemma read_msgs_frames:
  assumes "\<forall>m \<in> set ms. msg_ok c m" "sc_rt_comp conn = None" "sc_read conn = concat (map (frame c) ms)"
  shows "read_msgs c conn = ms"
  using assms
proof (induction ms arbitrary: conn)
  case Nil
  then show ?case by (subst read_msgs.simps) (simp add: read_msg_def read_exact_def)
next
  case (Cons m ms)
  obtain conn' where "read_msg c conn = Inr (m, conn')" "sc_read conn' = concat (map (frame c) ms)" "sc_rt_comp conn' = None"
    using read_msg_frame [of c m conn "concat (map (frame c) ms)"] Cons.prems by auto
  then show ?case
    using Cons by (subst read_msgs.simps) simp
qed

section \<open>Routing\<close>

text \<open>
  What a client of a mode is meant to get for a call, and whether the operation is meant to wait
  for it: control clients see no operation, asynchronous and half-synchronous ones no
  \<open>fsync\<close>, and a flush-synchronous client is synchronous for \<open>fsync\<close> alone.
\<close>

fun routed :: "VFSCall \<Rightarrow> u64 \<Rightarrow> ClientMode \<Rightarrow> bool \<Rightarrow> FsyncerMsg list" where
  "routed call tid MODE_CONTROL strm = []"
| "routed call tid MODE_ASYNC strm = (if is_fsync call then [] else [AsyncOp call])"
| "routed call tid MODE_SEMISYNC strm = (if is_fsync call then [] else with_nop True strm (SyncOp call tid))"
| "routed call tid MODE_FLUSHSYNC strm = (if is_fsync call then with_nop True strm (SyncOp call tid) else [AsyncOp call])"
| "routed call tid MODE_SYNC strm = with_nop True strm (SyncOp call tid)"

fun waited :: "VFSCall \<Rightarrow> ClientMode \<Rightarrow> bool" where
  "waited call MODE_SYNC \<longleftrightarrow> True"
| "waited call MODE_SEMISYNC \<longleftrightarrow> \<not> is_fsync call"
| "waited call MODE_FLUSHSYNC \<longleftrightarrow> is_fsync call"
| "waited call _ \<longleftrightarrow> False"

lemma op_message_routed:
  "op_message m call tid = None \<Longrightarrow> routed call tid m strm = [] \<and> \<not> waited call m"
  "op_message m call tid = Some (msg, sync) \<Longrightarrow> routed call tid m strm = with_nop sync strm msg \<and> waited call m = sync"
  by (cases m; auto simp: op_message_def with_nop_def split: if_splits)+

definition received :: "'c msg_codec \<Rightarrow> 'c Client \<Rightarrow> 'c Client \<Rightarrow> FsyncerMsg list \<Rightarrow> bool" where
  "received c cl cl' ms \<longleftrightarrow> reachable cl' \<and> mode cl' = mode cl \<and> comp cl' = comp cl
     \<and> sent_bytes cl' = sent_bytes cl @ concat (map (frame c) ms)"

lemma send_op_routed:
  assumes "reachable cl"
  shows "\<exists>r cl' rs'. send_op c tid call cl rs = (r, cl', rs') \<and> received c cl cl' (routed call tid (mode cl) (stream cl))
    \<and> (r = None \<longleftrightarrow> \<not> waited call (mode cl))"
proof (cases "op_message (mode cl) call tid")
  case None
  then show ?thesis using assms op_message_routed(1) [OF None] by (simp add: send_op_def received_def)
next
  case (Some ms)
  obtain msg sync where ms: "ms = (msg, sync)" by (cases ms)
  then show ?thesis
    using response_msg_ok [OF assms, of c tid rs msg sync sync] Some op_message_routed(2) [of "mode cl" call tid msg sync "stream cl"]
    by (auto simp: send_op_def received_def)
qed

lemma each_client_routed:
  assumes "\<forall>cl \<in> set cls. reachable cl" "each_client (send_op c tid call) cls rs = (out, cls', rs')"
  shows "list_all2 (\<lambda>cl cl'. received c cl cl' (routed call tid (mode cl) (stream cl))) cls cls'
    \<and> length (List.map_filter (\<lambda>r. r) out) = length (filter (waited call \<circ> mode) cls)"
  using assms
proof (induction cls arbitrary: rs out cls' rs')
  case (Cons cl cls)
  obtain r cl1 rs1 where one: "send_op c tid call cl rs = (r, cl1, rs1)" "received c cl cl1 (routed call tid (mode cl) (stream cl))"
    "r = None \<longleftrightarrow> \<not> waited call (mode cl)"
    using send_op_routed [of cl c tid call rs] Cons.prems(1) by auto
  obtain out2 cls2 rs2 where rest: "each_client (send_op c tid call) cls rs1 = (out2, cls2, rs2)"
    by (cases "each_client (send_op c tid call) cls rs1")
  then show ?case
    using Cons.IH [OF _ rest] Cons.prems one by (auto simp: map_filter_simps)
qed (simp add: map_filter_simps)

text \<open>
  C5. An operation reaches every client that has to see it, in the form that its mode asks for:
  on a server that is not corked, each client reads, from the bytes that \<open>pre_op\<close> has added to
  its connection, exactly the message for its mode, followed by a \<open>NOP\<close> on a stream-compressed
  connection that is flushed; and the operation waits for the synchronous ones and no others.
\<close>

theorem pre_op_reaches_clients:
  assumes "\<not> cork srv" "srv_journal srv = None" "\<forall>cl \<in> set (sync_list srv). reachable cl"
    and "msg_ok (e_codec e) (SyncOp call tid)" "msg_ok (e_codec e) (AsyncOp call)" "msg_ok (e_codec e) NOP"
  shows "\<exists>opref srv'. pre_op e tid srv call = Some (Inr (opref, srv')) \<and> op_ret opref = None
    \<and> length (waits opref) = length (filter (waited call \<circ> mode) (sync_list srv))
    \<and> list_all2 (\<lambda>cl cl'. \<exists>d. sent_bytes cl' = sent_bytes cl @ d
        \<and> (\<forall>conn. sc_rt_comp conn = None \<and> sc_read conn = d \<longrightarrow>
             read_msgs (e_codec e) conn = routed call tid (mode cl) (stream cl))) (sync_list srv) (sync_list srv')"
proof -
  obtain out cls rs where run: "each_client (send_op (e_codec e) tid call) (sync_list srv) (resps srv) = (out, cls, rs)"
    by (cases "each_client (send_op (e_codec e) tid call) (sync_list srv) (resps srv)")
  have all: "list_all2 (\<lambda>cl cl'. received (e_codec e) cl cl' (routed call tid (mode cl) (stream cl))) (sync_list srv) cls"
    and len: "length (List.map_filter (\<lambda>r. r) out) = length (filter (waited call \<circ> mode) (sync_list srv))"
    using each_client_routed [OF assms(3) run] by auto
  have ok: "\<forall>m \<in> set (routed call tid md strm). msg_ok (e_codec e) m" for md strm
    using assms(4-6) by (cases md) (auto simp: with_nop_def)
  have "list_all2 (\<lambda>cl cl'. \<exists>d. sent_bytes cl' = sent_bytes cl @ d
        \<and> (\<forall>conn. sc_rt_comp conn = None \<and> sc_read conn = d \<longrightarrow>
             read_msgs (e_codec e) conn = routed call tid (mode cl) (stream cl))) (sync_list srv) cls"
    using all by (rule list_all2_mono) (use ok in \<open>auto simp: received_def intro: read_msgs_frames\<close>)
  moreover have "pre_op e tid srv call = Some (Inr (\<lparr>op_ret = None, waits = List.map_filter (\<lambda>r. r) out\<rparr>, srv\<lparr>sync_list := cls, resps := rs\<rparr>))"
    using assms(1,2) run by (simp add: pre_op_def with_clients_def)
  ultimately show ?thesis using len by auto
qed

definition sample_client :: "ClientMode \<Rightarrow> unit Client" where
  "sample_client m = \<lparr>mode = m, comp = 0, net = \<lparr>net_write = \<lparr>wbytes = [], wflushed = 0, wfault = None\<rparr>, rt_comp = None, parked = [],
     status = ALIVE\<rparr>\<rparr>"

lemma sample_reachable: "reachable (sample_client m)"
  by (simp add: reachable_def sample_client_def)

lemma sample_msgs: "msg_ok sample_codec (SyncOp sample_call 9)" "msg_ok sample_codec (AsyncOp sample_call)" "msg_ok sample_codec NOP"
  by (simp_all add: msg_ok_def sample_codec_def sample_deser_def)

theorem pre_op_reaches_clients_witness:
  "\<exists>opref srv'. pre_op (sample_env (view1 None)) 9 (sample_server\<lparr>srv_journal := None, sync_list := [sample_client MODE_SYNC, sample_client MODE_ASYNC]\<rparr>)
      sample_call = Some (Inr (opref, srv')) \<and> length (waits opref) = 1"
proof -
  let ?srv = "sample_server\<lparr>srv_journal := None, sync_list := [sample_client MODE_SYNC, sample_client MODE_ASYNC]\<rparr>"
  have [simp]: "e_codec (sample_env v) = sample_codec" for v by (simp add: sample_env_def)
  have "length (filter (waited sample_call \<circ> mode) (sync_list ?srv)) = 1"
    by (simp add: sample_client_def)
  then show ?thesis
    using pre_op_reaches_clients [of ?srv "sample_env (view1 None)" sample_call 9] sample_msgs sample_reachable
    by (auto simp: sample_server_def)
qed

section \<open>Block compression\<close>

text \<open>
  A block-compressed connection does not carry its messages.  The server frames the
  compressed bytes with their length, and the client gives its decoder the received bytes without
  the first four of them, as if the length stood among them: a message is whatever the decoder
  makes of the rest, and compressed bytes shorter than a length panic.
\<close>

theorem block_compression_cuts_frame:
  assumes "rt_comp n = Some st" "wfault (net_write n) = None" "rt_encode c st (ser_msg c m) = (enc, st')"
    and "length enc < 2 ^ 32" "sc_rt_comp conn = Some ct"
  shows "\<exists>n' d. write_frame c n (ser_msg c m) = (Inr (), n') \<and> rt_comp n' = Some st'
    \<and> wbytes (net_write n') = wbytes (net_write n) @ d
    \<and> (sc_read conn = d @ rest \<longrightarrow>
         (if length enc < 4 then \<exists>why. read_msg c conn = Inl (Panicked why)
          else rmap fst (read_msg c conn) = bincode_result (deser_msg c (fst (rt_decode c ct (drop 4 enc))))))"
proof -
  let ?d = "be32 (of_nat (length enc)) @ enc"
  have "unat (word_of_nat (length enc) :: u32) = length enc"
    using assms(4) by (simp add: unsigned_of_nat take_bit_nat_eq_self)
  then have "read_msg c conn = (if length enc < 4 then Inl (Panicked ''slice index starts at 4 but ends before'') else
      rbind (bincode_result (deser_msg c (fst (rt_decode c ct (drop 4 enc))))) (\<lambda>msg. Inr (msg, conn\<lparr>sc_read := rest,
        rcv_buf := enc @ drop (length enc) (rcv_buf conn), sc_rt_comp := Some (snd (rt_decode c ct (drop 4 enc)))\<rparr>)))"
    if "sc_read conn = ?d @ rest"
    using that assms(5) by (auto simp: read_msg_def read_exact_def frame_bytes_def Let_def require_def split: prod.splits)
  then have "sc_read conn = ?d @ rest \<longrightarrow> (if length enc < 4 then \<exists>why. read_msg c conn = Inl (Panicked why)
      else rmap fst (read_msg c conn) = bincode_result (deser_msg c (fst (rt_decode c ct (drop 4 enc)))))"
    by (cases "bincode_result (deser_msg c (fst (rt_decode c ct (drop 4 enc))))") auto
  moreover have "\<exists>n'. write_frame c n (ser_msg c m) = (Inr (), n') \<and> rt_comp n' = Some st'
      \<and> wbytes (net_write n') = wbytes (net_write n) @ ?d"
    using assms(1-3) by (simp add: write_frame_def rt_apply_def write_all_def)
  ultimately show ?thesis by blast
qed

text \<open>The compressor that changes nothing shows the loss: the first four bytes of the message are gone.\<close>

definition sample_net :: "unit ClientNetwork" where
  "sample_net = \<lparr>net_write = \<lparr>wbytes = [], wflushed = 0, wfault = None\<rparr>, rt_comp = Some (), parked = [], status = ALIVE\<rparr>"

definition echo_codec :: "unit msg_codec" where
  "echo_codec = sample_codec\<lparr>ser_msg := (\<lambda>m. [0, 0, 0, 0, 7]), deser_msg := (\<lambda>b. if b = [0, 0, 0, 0, 7] then Some NOP else None)\<rparr>"

theorem block_compression_cuts_frame_witness:
  "deser_msg echo_codec (ser_msg echo_codec NOP) = Some NOP
   \<and> (\<exists>n' d. write_frame echo_codec sample_net (ser_msg echo_codec NOP) = (Inr (), n') \<and> wbytes (net_write n') = d
        \<and> (\<exists>conn. sc_read conn = d \<and> sc_rt_comp conn = Some () \<and> rmap fst (read_msg echo_codec conn) = bincode_result None))"
proof -
  let ?conn = "\<lambda>b. \<lparr>sc_write = net_write sample_net, sc_read = b, rcv_buf = [], sc_mode = MODE_SYNC, sc_rt_comp = Some ()\<rparr>"
  let ?d = "be32 5 @ [0, 0, 0, 0, 7]"
  have w: "write_frame echo_codec sample_net (ser_msg echo_codec NOP) = (Inr (), sample_net\<lparr>net_write := (net_write sample_net)\<lparr>wbytes := ?d\<rparr>\<rparr>)"
    by (simp add: write_frame_def rt_apply_def write_all_def sample_net_def echo_codec_def sample_codec_def)
  have "rmap fst (read_msg echo_codec (?conn ?d)) = bincode_result None"
    using block_compression_cuts_frame [of sample_net "()" echo_codec NOP "[0, 0, 0, 0, 7]" "()" "?conn ?d" "()" "[]"] w
    by (auto simp: sample_net_def echo_codec_def sample_codec_def)
  then show ?thesis using w by (auto simp: echo_codec_def intro!: exI [of _ "?conn ?d"] simp: sample_net_def)
qed

end
