(* ===== verification/ReplicationLaws.thy ===== *)
theory ReplicationLaws
  imports ServerLaws
begin

text \<open>
  A synchronous operation from end to end: the server announces it, the client dispatches and
  acknowledges it, the reader thread of the server passes the acknowledgement on to the thread
  that waits.
\<close>

section \<open>Parked responses\<close>

text \<open>Every parked response is in the store and nobody waits for it.\<close>

definition parked_ok :: "'c Client \<Rightarrow> responses \<Rightarrow> bool" where
  "parked_ok cl rs \<longleftrightarrow> om_ok (parked (net cl))
     \<and> (\<forall>t a. om_get (parked (net cl)) t = Some a \<longrightarrow> a < length rs \<and> strong (rs ! a) = 1)"

text \<open>What a thread would be given at once if it waited.\<close>

definition pending :: "'c Client \<Rightarrow> responses \<Rightarrow> u64 \<Rightarrow> ClientAck option" where
  "pending cl rs tid = (case om_get (parked (net cl)) tid of None \<Rightarrow> None | Some a \<Rightarrow> resp_data (rs ! a))"

text \<open>The thread \<open>tid\<close> waits at the address \<open>a\<close>, which holds the given data.\<close>

definition waiting_at :: "'c Client \<Rightarrow> responses \<Rightarrow> u64 \<Rightarrow> nat \<Rightarrow> ClientAck option \<Rightarrow> bool" where
  "waiting_at cl rs tid a d \<longleftrightarrow> om_get (parked (net cl)) tid = Some a \<and> a < length rs \<and> strong (rs ! a) = 2
     \<and> resp_data (rs ! a) = d \<and> om_ok (parked (net cl))
     \<and> (\<forall>t b. om_get (parked (net cl)) t = Some b \<and> b \<noteq> a \<longrightarrow> b < length rs \<and> strong (rs ! b) = 1)"

lemma park_waiting:
  assumes "parked_ok cl rs" "park (net cl) rs tid = (a, n, rs1)" "parked (net cl') = parked n"
  shows "waiting_at cl' (resp_clone rs1 a) tid a (pending cl rs tid)"
proof (cases "om_get (parked (net cl)) tid")
  case None
  then have "a = length rs" "rs1 = rs @ [response_new]" "parked (net cl') = om_insert tid a (parked (net cl))"
    using assms(2,3) by (auto simp: park_def)
  then show ?thesis
    using assms(1) None
    by (auto simp: waiting_at_def parked_ok_def pending_def resp_clone_def response_new_def om_get_insert om_insert_ok
        nth_append split: if_splits)
next
  case (Some b)
  then show ?thesis
    using assms by (auto simp: park_def waiting_at_def parked_ok_def pending_def resp_clone_def nth_list_update)
qed

lemma response_msg_waiting:
  assumes "reachable cl" "parked_ok cl rs"
  shows "\<exists>a cl' rs'. response_msg c tid cl rs m True True = (Inr (Some a), cl', rs')
    \<and> received c cl cl' (with_nop True (stream cl) m) \<and> waiting_at cl' rs' tid a (pending cl rs tid)"
proof -
  obtain a n1 rs1 where p: "park (net cl) rs tid = (a, n1, rs1)" by (cases "park (net cl) rs tid")
  have n1: "net_write n1 = net_write (net cl)" "rt_comp n1 = None" "status n1 = ALIVE" "wfault (net_write n1) = None"
    using park_net [OF p] assms(1) by (auto simp: reachable_def)
  obtain n2 where n2: "send_inner c n1 (ser_msg c m) True (stream cl) = (Inr (), n2)"
    "wbytes (net_write n2) = wbytes (net_write n1) @ concat (map (frame c) (with_nop True (stream cl) m))"
    "wfault (net_write n2) = None" "rt_comp n2 = None" "status n2 = status n1" "parked n2 = parked n1"
    using send_inner_plain [of n1 c m True "stream cl"] n1 by auto
  have "response_msg c tid cl rs m True True = (Inr (Some a), cl\<lparr>net := n2\<rparr>, resp_clone rs1 a)"
    using assms(1) p n2(1) unfolding response_msg_def reachable_def stream_def by simp
  moreover have "waiting_at (cl\<lparr>net := n2\<rparr>) (resp_clone rs1 a) tid a (pending cl rs tid)"
    using park_waiting [OF assms(2) p, of "cl\<lparr>net := n2\<rparr>"] n2(6) by simp
  ultimately show ?thesis
    using assms(1) n1 n2 by (auto simp: received_def reachable_def sent_bytes_def)
qed

text \<open>The acknowledgement of a thread, and the end of its wait.\<close>

lemma reader_ack:
  assumes "waiting_at cl rs tid a d"
  shows "reader cl rs (Inr (Ack \<lparr>retcode = code, ack_tid = tid\<rparr>)) = Inr (Continue, cl, resp_notify rs a code)
    \<and> waiting_at cl (resp_notify rs a code) tid a (Some code)"
  using assms by (auto simp: park_def waiting_at_def resp_notify_def nth_list_update)

lemma reader_ack_idle:
  assumes "parked_ok cl rs" "om_get (parked (net cl)) tid = Some a"
  shows "reader cl rs (Inr (Ack \<lparr>retcode = code, ack_tid = tid\<rparr>)) = Inr (Continue, cl, resp_notify rs a code)
    \<and> parked_ok cl (resp_notify rs a code) \<and> pending cl (resp_notify rs a code) tid = Some code"
  using assms by (auto simp: park_def parked_ok_def pending_def resp_notify_def nth_list_update)

lemma post_op_wait:
  assumes "waiting_at cl rs tid a d" "resps srv = rs" "waits opref = [a]"
  shows "\<exists>rs'. post_op srv opref ret = (ret, [d], srv\<lparr>resps := rs'\<rparr>) \<and> parked_ok cl rs' \<and> pending cl rs' tid = None"
proof -
  let ?r = "rs[a := (rs ! a)\<lparr>resp_data := None, strong := 1\<rparr>]"
  have "post_op srv opref ret = (ret, [d], srv\<lparr>resps := ?r\<rparr>)"
    using assms by (simp add: post_op_def waiting_at_def resp_wait_def resp_drop_def)
  moreover have "parked_ok cl ?r" "pending cl ?r tid = None"
    using assms(1) by (auto simp: waiting_at_def parked_ok_def pending_def nth_list_update)
  ultimately show ?thesis by blast
qed

lemma pre_op_sync:
  assumes "\<not> cork srv" "srv_journal srv = None" "sync_list srv = [cl]" "mode cl = MODE_SYNC" "reachable cl" "parked_ok cl (resps srv)"
  shows "\<exists>a cl' rs'. pre_op e tid srv call = Some (Inr (\<lparr>op_ret = None, waits = [a]\<rparr>, srv\<lparr>sync_list := [cl'], resps := rs'\<rparr>))
    \<and> received (e_codec e) cl cl' (with_nop True (stream cl) (SyncOp call tid))
    \<and> waiting_at cl' rs' tid a (pending cl (resps srv) tid)"
proof -
  obtain a cl' rs' where r: "response_msg (e_codec e) tid cl (resps srv) (SyncOp call tid) True True = (Inr (Some a), cl', rs')"
    "received (e_codec e) cl cl' (with_nop True (stream cl) (SyncOp call tid))" "waiting_at cl' rs' tid a (pending cl (resps srv) tid)"
    using response_msg_waiting [OF assms(5,6)] by blast
  have "op_message MODE_SYNC call tid = Some (SyncOp call tid, True)"
    by (simp add: op_message_def)
  then have "pre_op e tid srv call = Some (Inr (\<lparr>op_ret = None, waits = [a]\<rparr>, srv\<lparr>sync_list := [cl'], resps := rs'\<rparr>))"
    using assms(1-4) r(1) by (simp add: pre_op_def with_clients_def send_op_def map_filter_simps)
  then show ?thesis using r(2,3) by blast
qed

section \<open>The client\<close>

lemma process_eof:
  assumes "sc_read (w_conn wk) = []"
  shows "process_ops c os root wk = (IoErr UnexpectedEof, wk)"
  using assms by (subst process_ops.simps) (simp add: process_next_def read_msg_def read_exact_def)

lemma process_nop:
  assumes "msg_ok c NOP" "sc_rt_comp (w_conn wk) = None" "sc_read (w_conn wk) = frame c NOP"
  shows "\<exists>wk'. process_ops c os root wk = (IoErr UnexpectedEof, wk') \<and> w_disk wk' = w_disk wk
    \<and> sc_write (w_conn wk') = sc_write (w_conn wk)"
proof -
  obtain conn' where r: "read_msg c (w_conn wk) = Inr (NOP, conn')" "sc_read conn' = []" "sc_write conn' = sc_write (w_conn wk)"
    using read_msg_frame [OF assms(1,2), of "[]"] assms(3) by auto
  then have "process_ops c os root wk = process_ops c os root (wk\<lparr>w_conn := conn'\<rparr>)"
    by (subst process_ops.simps) (simp add: process_next_def)
  then show ?thesis using process_eof [of "wk\<lparr>w_conn := conn'\<rparr>" c os root] r(2,3) by simp
qed

lemma process_sync:
  assumes "msg_ok c (SyncOp call tid)" "msg_ok c NOP" "sc_rt_comp (w_conn wk) = None" "sc_mode (w_conn wk) = MODE_SYNC"
    and "wfault (sc_write (w_conn wk)) = None" "sc_read (w_conn wk) = concat (map (frame c) (with_nop True strm (SyncOp call tid)))"
    and "dispatch os call root (w_disk wk) = Inr (r, s')"
  shows "\<exists>wk'. process_ops c os root wk = (IoErr UnexpectedEof, wk') \<and> w_disk wk' = s'
    \<and> wbytes (sc_write (w_conn wk')) = wbytes (sc_write (w_conn wk)) @ ser_msg c (Ack \<lparr>retcode = RetCode (word_of_int r), ack_tid = tid\<rparr>)"
proof -
  obtain conn' where r: "read_msg c (w_conn wk) = Inr (SyncOp call tid, conn')" "sc_read conn' = (if strm then frame c NOP else [])"
    "sc_rt_comp conn' = None" "sc_mode conn' = MODE_SYNC" "sc_write conn' = sc_write (w_conn wk)"
    using read_msg_frame [OF assms(1,3), of "if strm then frame c NOP else []"] assms(4,6)
    by (cases strm) (auto simp: with_nop_def)
  let ?w = "sc_write (w_conn wk)" and ?ack = "ser_msg c (Ack \<lparr>retcode = RetCode (word_of_int r), ack_tid = tid\<rparr>)"
  obtain wk1 where wk1: "process_next c os root False wk = Inr wk1" "w_disk wk1 = s'" "sc_read (w_conn wk1) = sc_read conn'"
    "sc_rt_comp (w_conn wk1) = None" "wbytes (sc_write (w_conn wk1)) = wbytes ?w @ ?ack"
    using r assms(5,7)
    by (simp add: process_next_def run_job_def need_ack_def reply_def send_msg_def write_all_def wflush_def Let_def)
  have "process_ops c os root wk = process_ops c os root wk1"
    using wk1(1) by (subst process_ops.simps) simp
  then show ?thesis
    using process_eof [of wk1 c os root] process_nop [OF assms(2) wk1(4), of os root] wk1 r(2) by (cases strm) auto
qed

section \<open>End to end\<close>

text \<open>
  C4. A synchronous operation is replicated and its result comes back.  The bytes that \<open>pre_op\<close>
  adds to the connection make the client perform the call on its disk, exactly once, and answer
  with the result of the dispatch; when the reader thread has taken this answer in, \<open>post_op\<close>
  of the waiting thread returns with it, and the response is free for the next operation.
\<close>

theorem sync_op_replicated:
  assumes "\<not> cork srv" "srv_journal srv = None" "sync_list srv = [cl]" "mode cl = MODE_SYNC" "reachable cl" "parked_ok cl (resps srv)"
    and "msg_ok (e_codec e) (SyncOp call tid)" "msg_ok (e_codec e) NOP"
    and "sc_rt_comp conn = None" "sc_mode conn = MODE_SYNC" "wfault (sc_write conn) = None"
    and "dispatch os call root disk = Inr (r, disk')"
  shows "\<exists>opref srv1 cl1 d wk rs2 srv2. pre_op e tid srv call = Some (Inr (opref, srv1)) \<and> sync_list srv1 = [cl1]
    \<and> sent_bytes cl1 = sent_bytes cl @ d
    \<and> process_ops (e_codec e) os root \<lparr>w_conn = conn\<lparr>sc_read := d\<rparr>, w_jobs = [], w_disk = disk\<rparr> = (IoErr UnexpectedEof, wk)
    \<and> w_disk wk = disk'
    \<and> wbytes (sc_write (w_conn wk)) = wbytes (sc_write conn) @ ser_msg (e_codec e) (Ack \<lparr>retcode = RetCode (word_of_int r), ack_tid = tid\<rparr>)
    \<and> reader cl1 (resps srv1) (Inr (Ack \<lparr>retcode = RetCode (word_of_int r), ack_tid = tid\<rparr>)) = Inr (Continue, cl1, rs2)
    \<and> post_op (srv1\<lparr>resps := rs2\<rparr>) opref ret = (ret, [Some (RetCode (word_of_int r))], srv2)
    \<and> parked_ok cl1 (resps srv2)"
proof -
  let ?c = "e_codec e" and ?code = "RetCode (word_of_int r)"
  obtain a cl1 rs1 where p: "pre_op e tid srv call = Some (Inr (\<lparr>op_ret = None, waits = [a]\<rparr>, srv\<lparr>sync_list := [cl1], resps := rs1\<rparr>))"
    "received ?c cl cl1 (with_nop True (stream cl) (SyncOp call tid))" "waiting_at cl1 rs1 tid a (pending cl (resps srv) tid)"
    using pre_op_sync [OF assms(1-6)] by blast
  define d where "d = concat (map (frame ?c) (with_nop True (stream cl) (SyncOp call tid)))"
  obtain wk where wk: "process_ops ?c os root \<lparr>w_conn = conn\<lparr>sc_read := d\<rparr>, w_jobs = [], w_disk = disk\<rparr> = (IoErr UnexpectedEof, wk)"
    "w_disk wk = disk'" "wbytes (sc_write (w_conn wk)) = wbytes (sc_write conn) @ ser_msg ?c (Ack \<lparr>retcode = ?code, ack_tid = tid\<rparr>)"
    using process_sync [of ?c call tid "\<lparr>w_conn = conn\<lparr>sc_read := d\<rparr>, w_jobs = [], w_disk = disk\<rparr>" "stream cl" os root r disk']
      assms(7-12) by (auto simp: d_def)
  have rd: "reader cl1 rs1 (Inr (Ack \<lparr>retcode = ?code, ack_tid = tid\<rparr>)) = Inr (Continue, cl1, resp_notify rs1 a ?code)"
    "waiting_at cl1 (resp_notify rs1 a ?code) tid a (Some ?code)"
    using reader_ack [OF p(3)] by blast+
  obtain rs' where "post_op (srv\<lparr>sync_list := [cl1], resps := resp_notify rs1 a ?code\<rparr>) \<lparr>op_ret = None, waits = [a]\<rparr> ret
      = (ret, [Some ?code], srv\<lparr>sync_list := [cl1], resps := rs'\<rparr>)" "parked_ok cl1 rs'"
    using post_op_wait [OF rd(2), of "srv\<lparr>sync_list := [cl1], resps := resp_notify rs1 a ?code\<rparr>" "\<lparr>op_ret = None, waits = [a]\<rparr>" ret] by auto
  then show ?thesis
    using p(1,2) wk rd(1) by (auto simp: received_def d_def)
qed

text \<open>
  C38. A late answer is taken for the answer to the next operation.  When the wait of a thread has
  run out of time, the acknowledgement that comes in afterwards stays in the parked response of
  that thread; the next operation of the same thread finds it there and returns at once with it,
  although the client has not even received that operation.
\<close>

theorem late_ack_answers_next:
  assumes "\<not> cork srv" "srv_journal srv = None" "sync_list srv = [cl]" "mode cl = MODE_SYNC" "reachable cl" "parked_ok cl (resps srv)"
    and "pending cl (resps srv) tid = None"
  shows "\<exists>opref srv1 cl1 srv2 rs3 opref' srv4 srv5.
      pre_op e tid srv call1 = Some (Inr (opref, srv1)) \<and> sync_list srv1 = [cl1]
    \<and> post_op srv1 opref ret1 = (ret1, [None], srv2)
    \<and> reader cl1 (resps srv2) (Inr (Ack \<lparr>retcode = code, ack_tid = tid\<rparr>)) = Inr (Continue, cl1, rs3)
    \<and> pre_op e tid (srv2\<lparr>resps := rs3\<rparr>) call2 = Some (Inr (opref', srv4))
    \<and> post_op srv4 opref' ret2 = (ret2, [Some code], srv5)"
proof -
  obtain a cl1 rs1 where p: "pre_op e tid srv call1 = Some (Inr (\<lparr>op_ret = None, waits = [a]\<rparr>, srv\<lparr>sync_list := [cl1], resps := rs1\<rparr>))"
    "received (e_codec e) cl cl1 (with_nop True (stream cl) (SyncOp call1 tid))" "waiting_at cl1 rs1 tid a None"
    using pre_op_sync [OF assms(1-6)] assms(7) by metis
  obtain rs2 where po: "post_op (srv\<lparr>sync_list := [cl1], resps := rs1\<rparr>) \<lparr>op_ret = None, waits = [a]\<rparr> ret1
      = (ret1, [None], srv\<lparr>sync_list := [cl1], resps := rs2\<rparr>)" "parked_ok cl1 rs2"
    using post_op_wait [OF p(3), of "srv\<lparr>sync_list := [cl1], resps := rs1\<rparr>" "\<lparr>op_ret = None, waits = [a]\<rparr>" ret1] by auto
  have "om_get (parked (net cl1)) tid = Some a" using p(3) by (simp add: waiting_at_def)
  then have rd: "reader cl1 rs2 (Inr (Ack \<lparr>retcode = code, ack_tid = tid\<rparr>)) = Inr (Continue, cl1, resp_notify rs2 a code)"
    "parked_ok cl1 (resp_notify rs2 a code)" "pending cl1 (resp_notify rs2 a code) tid = Some code"
    using reader_ack_idle [OF po(2)] by blast+
  let ?srv3 = "srv\<lparr>sync_list := [cl1], resps := resp_notify rs2 a code\<rparr>"
  have m: "mode cl1 = MODE_SYNC" "reachable cl1" using p(2) assms(4) by (auto simp: received_def)
  obtain b cl2 rs4 where p2: "pre_op e tid ?srv3 call2 = Some (Inr (\<lparr>op_ret = None, waits = [b]\<rparr>, ?srv3\<lparr>sync_list := [cl2], resps := rs4\<rparr>))"
    "waiting_at cl2 rs4 tid b (Some code)"
    using pre_op_sync [of ?srv3 cl1 e tid call2] assms(1,2) m rd(2,3) by auto
  then show ?thesis
    using p(1) po(1) rd(1) post_op_wait [OF p2(2), of "?srv3\<lparr>sync_list := [cl2], resps := rs4\<rparr>" "\<lparr>op_ret = None, waits = [b]\<rparr>" ret2] by fastforce
qed

lemma sample_parked: "parked_ok (sample_client m) []" "pending (sample_client m) [] tid = None"
  by (simp_all add: parked_ok_def pending_def sample_client_def om_ok_def om_get_def)

abbreviation sync_server :: "unit server" where
  "sync_server \<equiv> sample_server\<lparr>srv_journal := None, sync_list := [sample_client MODE_SYNC]\<rparr>"

theorem sync_op_replicated_witness:
  "\<exists>opref srv1. pre_op (sample_env (view1 None)) 9 sync_server sample_call = Some (Inr (opref, srv1))
    \<and> (\<exists>rs2 srv2. post_op (srv1\<lparr>resps := rs2\<rparr>) opref 0 = (0, [Some (RetCode 0)], srv2))"
proof -
  let ?conn = "\<lparr>sc_write = \<lparr>wbytes = [], wflushed = 0, wfault = None\<rparr>, sc_read = [], rcv_buf = [], sc_mode = MODE_SYNC, sc_rt_comp = None\<rparr> :: unit ServerConnection"
  have d: "dispatch toy_os sample_call wroot [] = Inr (0, [[RootDir, Normal ''d'', Normal ''a'']])"
    by (simp add: toy_os_def path_eval xmp_defs sample_call_def)
  have [simp]: "e_codec (sample_env v) = sample_codec" for v by (simp add: sample_env_def)
  show ?thesis
    using sync_op_replicated [of sync_server "sample_client MODE_SYNC" "sample_env (view1 None)" sample_call 9 ?conn toy_os wroot "[]" 0
        "[[RootDir, Normal ''d'', Normal ''a'']]" 0] d sample_msgs sample_reachable [of MODE_SYNC] sample_parked(1) [of MODE_SYNC]
    by (auto simp: sample_server_def sample_client_def)
qed

theorem late_ack_answers_next_witness:
  "\<exists>opref' srv3 srv4 srv5. pre_op (sample_env (view1 None)) 9 srv3 (VFS_unlink wpath) = Some (Inr (opref', srv4))
    \<and> post_op srv4 opref' 0 = (0, [Some (RetCode 17)], srv5)"
  using late_ack_answers_next [of sync_server "sample_client MODE_SYNC" 9 "sample_env (view1 None)" sample_call 0 "RetCode 17" "VFS_unlink wpath" 0]
    sample_reachable [of MODE_SYNC] sample_parked [of MODE_SYNC]
  by (auto simp: sample_server_def sample_client_def)

end
