(* ===== verification/CorkLaws.thy ===== *)
theory CorkLaws
  imports ServerLaws
begin

text \<open>
  Corking as a protocol between threads.  An operation holds the lock of the cork flag while it
  sends to one client after the other; the control thread sets the flag under the same lock and
  then corks the clients one by one, and takes it back after it has uncorked them.  The list of
  clients changes only when nobody iterates over it.
\<close>

record 'c sys =
  sys_srv :: "'c server"
  sending :: "(u64 \<times> VFSCall \<times> nat) option"
  corking :: "nat option"
  uncorking :: "nat option"

definition at_client :: "nat \<Rightarrow> ('c Client \<Rightarrow> responses \<Rightarrow> 'r \<times> 'c Client \<times> responses) \<Rightarrow> 'c server \<Rightarrow> 'c server" where
  "at_client i f srv = (let (_, cl, rs) = f (sync_list srv ! i) (resps srv)
     in srv\<lparr>sync_list := (sync_list srv)[i := cl], resps := rs\<rparr>)"

definition idle_list :: "'c sys \<Rightarrow> bool" where
  "idle_list st \<longleftrightarrow> sending st = None \<and> corking st = None \<and> uncorking st = None"

inductive cork_step :: "'c msg_codec \<Rightarrow> 'c sys \<Rightarrow> 'c sys \<Rightarrow> bool" for c where
  op_begin: "\<not> cork (sys_srv st) \<Longrightarrow> sending st = None \<Longrightarrow> cork_step c st (st\<lparr>sending := Some (tid, call, 0)\<rparr>)"
| op_send: "sending st = Some (tid, call, i) \<Longrightarrow> i < length (sync_list (sys_srv st)) \<Longrightarrow>
    cork_step c st (st\<lparr>sys_srv := at_client i (send_op c tid call) (sys_srv st), sending := Some (tid, call, Suc i)\<rparr>)"
| op_end: "sending st = Some (tid, call, length (sync_list (sys_srv st))) \<Longrightarrow> cork_step c st (st\<lparr>sending := None\<rparr>)"
| cork_begin: "sending st = None \<Longrightarrow> corking st = None \<Longrightarrow> uncorking st = None \<Longrightarrow>
    cork_step c st (st\<lparr>sys_srv := (sys_srv st)\<lparr>cork := True\<rparr>, corking := Some 0\<rparr>)"
| cork_one: "corking st = Some i \<Longrightarrow> i < length (sync_list (sys_srv st)) \<Longrightarrow>
    cork_step c st (st\<lparr>sys_srv := at_client i (cork_send c tid) (sys_srv st), corking := Some (Suc i)\<rparr>)"
| cork_end: "corking st = Some (length (sync_list (sys_srv st))) \<Longrightarrow> cork_step c st (st\<lparr>corking := None\<rparr>)"
| uncork_begin: "corking st = None \<Longrightarrow> uncorking st = None \<Longrightarrow> cork_step c st (st\<lparr>uncorking := Some 0\<rparr>)"
| uncork_one: "uncorking st = Some i \<Longrightarrow> i < length (sync_list (sys_srv st)) \<Longrightarrow>
    cork_step c st (st\<lparr>sys_srv := at_client i (client_uncork c tid) (sys_srv st), uncorking := Some (Suc i)\<rparr>)"
| uncork_end: "uncorking st = Some (length (sync_list (sys_srv st))) \<Longrightarrow> sending st = None \<Longrightarrow>
    cork_step c st (st\<lparr>sys_srv := (sys_srv st)\<lparr>cork := False\<rparr>, uncorking := None\<rparr>)"
| flush_one: "i < length (sync_list (sys_srv st)) \<Longrightarrow>
    cork_step c st (st\<lparr>sys_srv := at_client i (client_flush c tid) (sys_srv st)\<rparr>)"
| read_one: "i < length (sync_list (sys_srv st)) \<Longrightarrow>
    reader (sync_list (sys_srv st) ! i) (resps (sys_srv st)) msg = Inr (next, cl, rs) \<Longrightarrow>
    cork_step c st (st\<lparr>sys_srv := (sys_srv st)\<lparr>sync_list := (sync_list (sys_srv st))[i := cl], resps := rs\<rparr>\<rparr>)"
| accept: "idle_list st \<Longrightarrow> rt_comp (net cl) = None \<Longrightarrow> sent_bytes cl = [] \<Longrightarrow>
    cork_step c st (st\<lparr>sys_srv := (sys_srv st)\<lparr>sync_list := sync_list (sys_srv st) @ [cl]\<rparr>\<rparr>)"
| harvest: "idle_list st \<Longrightarrow> harvest (sys_srv st) = Inr srv \<Longrightarrow> cork_step c st (st\<lparr>sys_srv := srv\<rparr>)"

inductive_cases cork_stepE: "cork_step c st st'"

definition cork_start :: "'c sys \<Rightarrow> bool" where
  "cork_start st \<longleftrightarrow> sync_list (sys_srv st) = [] \<and> \<not> cork (sys_srv st) \<and> idle_list st"

section \<open>The messages of a client\<close>

text \<open>No operation between a cork and the next uncork; whether the last of these is a cork.\<close>

fun quiet :: "bool \<Rightarrow> FsyncerMsg list \<Rightarrow> bool" where
  "quiet b [] = True"
| "quiet b (Cork t # ms) = quiet True ms"
| "quiet b (Uncork # ms) = quiet False ms"
| "quiet b (SyncOp call t # ms) = (\<not> b \<and> quiet b ms)"
| "quiet b (AsyncOp call # ms) = (\<not> b \<and> quiet b ms)"
| "quiet b (m # ms) = quiet b ms"

fun corked_by :: "bool \<Rightarrow> FsyncerMsg list \<Rightarrow> bool" where
  "corked_by b [] = b"
| "corked_by b (Cork t # ms) = corked_by True ms"
| "corked_by b (Uncork # ms) = corked_by False ms"
| "corked_by b (m # ms) = corked_by b ms"

lemma quiet_append: "quiet b (ms @ ns) \<longleftrightarrow> quiet b ms \<and> quiet (corked_by b ms) ns"
  by (induction b ms rule: quiet.induct) auto

lemma corked_by_append: "corked_by b (ms @ ns) = corked_by (corked_by b ms) ns"
  by (induction b ms rule: corked_by.induct) auto

definition wire_log :: "'c msg_codec \<Rightarrow> 'c Client \<Rightarrow> FsyncerMsg list \<Rightarrow> bool" where
  "wire_log c cl ms \<longleftrightarrow> rt_comp (net cl) = None \<and> sent_bytes cl = concat (map (frame c) ms)"

definition dead :: "'c Client \<Rightarrow> bool" where
  "dead cl \<longleftrightarrow> status (net cl) = DEAD"

text \<open>What an action may do to a client: extend its log by some of the given messages, or find it dead.\<close>

definition extends :: "'c msg_codec \<Rightarrow> 'c Client \<Rightarrow> 'c Client \<Rightarrow> FsyncerMsg list \<Rightarrow> bool" where
  "extends c cl cl' ns \<longleftrightarrow> (rt_comp (net cl) = None \<longrightarrow> rt_comp (net cl') = None
     \<and> ((dead cl' \<and> sent_bytes cl' = sent_bytes cl)
        \<or> (\<not> dead cl \<and> \<not> dead cl' \<and> sent_bytes cl' = sent_bytes cl @ concat (map (frame c) ns))))"

lemma send_inner_fault:
  assumes "rt_comp n = None" "wfault (net_write n) = Some err"
  shows "\<exists>n'. send_inner c n b flush strm = (Inl (IoErr err), n') \<and> net_write n' = net_write n \<and> rt_comp n' = None"
  using assms by (simp add: send_inner_def net_then_def write_frame_def rt_apply_def write_all_def Let_def)

lemma response_msg_extends:
  assumes "response_msg c tid cl rs m flush want = (r, cl', rs')"
  shows "extends c cl cl' (with_nop flush (stream cl) m)"
proof (cases "dead cl \<or> rt_comp (net cl) \<noteq> None")
  case True
  then show ?thesis using assms by (auto simp: extends_def response_msg_def dead_def)
next
  case False
  show ?thesis
  proof (cases "wfault (net_write (net cl))")
    case None
    then have "reachable cl" using False by (cases "status (net cl)") (auto simp: reachable_def dead_def)
    then show ?thesis
      using response_msg_ok [of cl c tid rs m flush want] assms by (auto simp: extends_def reachable_def dead_def)
  next
    case (Some e)
    obtain a n1 rs1 where p: "park (net cl) rs tid = (a, n1, rs1)" by (cases "park (net cl) rs tid")
    let ?n = "if want then n1 else net cl"
    have n: "net_write ?n = net_write (net cl)" "rt_comp ?n = None"
      using park_net [OF p] False by auto
    then obtain n2 where "send_inner c ?n (ser_msg c m) flush (stream cl) = (Inl (IoErr e), n2)"
      "net_write n2 = net_write (net cl)" "rt_comp n2 = None"
      using send_inner_fault [of ?n e c "ser_msg c m" flush "stream cl"] Some by auto
    then have "cl' = cl\<lparr>net := n2\<lparr>status := DEAD\<rparr>\<rparr>" "rt_comp n2 = None" "net_write n2 = net_write (net cl)"
      using assms p False unfolding response_msg_def stream_def dead_def by (auto simp: Let_def split: if_splits)
    then show ?thesis by (simp add: extends_def dead_def sent_bytes_def)
  qed
qed

lemma send_op_extends:
  assumes "send_op c tid call cl rs = (r, cl', rs')"
  shows "extends c cl cl' (routed call tid (mode cl) (stream cl)) \<or> cl' = cl"
proof (cases "op_message (mode cl) call tid")
  case (Some ms)
  obtain msg sync where ms: "ms = (msg, sync)" by (cases ms)
  obtain r1 cl1 rs1 where m: "response_msg c tid cl rs msg sync sync = (r1, cl1, rs1)"
    by (cases "response_msg c tid cl rs msg sync sync")
  have "cl' = cl1" using assms Some ms m by (auto simp: send_op_def split: sum.splits)
  then show ?thesis using response_msg_extends [OF m] Some ms op_message_routed(2) [of "mode cl" call tid msg sync "stream cl"] by simp
qed (use assms in \<open>simp add: send_op_def\<close>)

lemma cork_send_extends: "cork_send c tid cl rs = (r, cl', rs') \<Longrightarrow> extends c cl cl' (with_nop True (stream cl) (Cork tid))"
  unfolding cork_send_def by (rule response_msg_extends)

lemma client_send_extends:
  "client_send_msg c tid cl rs m flush = (r, cl', rs') \<Longrightarrow> extends c cl cl' (with_nop flush (stream cl) m)"
  by (auto simp: client_send_msg_def split: prod.splits dest: response_msg_extends)

lemma uncork_extends: "client_uncork c tid cl rs = (r, cl', rs') \<Longrightarrow> extends c cl cl' [Uncork]"
  using client_send_extends [of c tid cl rs Uncork False] by (simp add: client_uncork_def with_nop_def)

text \<open>Flushing and reading change neither the operations nor the corks of a log.\<close>

definition harmless :: "'c Client \<Rightarrow> 'c Client \<Rightarrow> bool" where
  "harmless cl cl' \<longleftrightarrow> sent_bytes cl' = sent_bytes cl \<and> rt_comp (net cl') = rt_comp (net cl) \<and> (dead cl \<longrightarrow> dead cl')"

lemma flush_extends:
  "client_flush c tid cl rs = (r, cl', rs') \<Longrightarrow> extends c cl cl' [NOP, NOP] \<or> harmless cl cl'"
  by (auto simp: client_flush_def net_flush_def wflush_def with_nop_def stream_def harmless_def dead_def sent_bytes_def
      dest: client_send_extends split: if_splits prod.splits option.splits)

lemma reader_harmless: "reader cl rs msg = Inr (nx, cl', rs') \<Longrightarrow> harmless cl cl'"
  by (cases "(cl, rs, msg)" rule: reader.cases)
    (auto simp: harmless_def dead_def sent_bytes_def Let_def dest: park_net split: option.splits if_splits prod.splits)

section \<open>The invariant\<close>

definition passed :: "nat option \<Rightarrow> nat \<Rightarrow> bool" where
  "passed k i \<longleftrightarrow> (case k of None \<Rightarrow> False | Some n \<Rightarrow> i < n)"

text \<open>
  The log of a client is quiet; if it ends corked the flag is set; behind the uncorking thread
  it does not end corked, behind the corking thread it does.  Dead clients are exempt.
\<close>

definition good :: "'c msg_codec \<Rightarrow> bool \<Rightarrow> bool \<Rightarrow> bool \<Rightarrow> 'c Client \<Rightarrow> bool" where
  "good c flag un co cl \<longleftrightarrow> (\<exists>ms. wire_log c cl ms \<and> quiet False ms
     \<and> (corked_by False ms \<longrightarrow> flag \<and> \<not> un \<or> dead cl) \<and> (co \<longrightarrow> corked_by False ms \<or> dead cl))"

definition sys_inv :: "'c msg_codec \<Rightarrow> 'c sys \<Rightarrow> bool" where
  "sys_inv c st \<longleftrightarrow> (\<forall>i < length (sync_list (sys_srv st)).
       good c (cork (sys_srv st)) (passed (uncorking st) i) (passed (corking st) i) (sync_list (sys_srv st) ! i))
     \<and> (sending st \<noteq> None \<longrightarrow> \<not> cork (sys_srv st)) \<and> (corking st \<noteq> None \<longrightarrow> cork (sys_srv st) \<and> uncorking st = None)"

lemma good_extends:
  assumes "good c flag un co cl" "extends c cl cl' ns"
    and "\<And>b. (b \<longrightarrow> flag \<and> \<not> un) \<Longrightarrow> (co \<longrightarrow> b) \<Longrightarrow>
      quiet b ns \<and> (corked_by b ns \<longrightarrow> flag' \<and> \<not> un') \<and> (co' \<longrightarrow> corked_by b ns)"
  shows "good c flag' un' co' cl'"
proof -
  obtain ms where ms: "wire_log c cl ms" "quiet False ms" "corked_by False ms \<longrightarrow> flag \<and> \<not> un \<or> dead cl"
    "co \<longrightarrow> corked_by False ms \<or> dead cl"
    using assms(1) by (auto simp: good_def)
  have rt: "rt_comp (net cl) = None" using ms(1) by (simp add: wire_log_def)
  then consider "dead cl'" "wire_log c cl' ms" | "\<not> dead cl" "wire_log c cl' (ms @ ns)"
    using assms(2) ms(1) by (auto simp: extends_def wire_log_def)
  then show ?thesis
  proof cases
    case 1
    then show ?thesis using ms(2) by (auto simp: good_def)
  next
    case 2
    then show ?thesis
      using ms(2-4) assms(3) [of "corked_by False ms"] unfolding good_def
      by (intro exI [of _ "ms @ ns"]) (simp add: corked_by_append quiet_append)
  qed
qed

lemma good_harmless: "good c flag un co cl \<Longrightarrow> harmless cl cl' \<Longrightarrow> good c flag un co cl'"
  by (auto simp: good_def harmless_def wire_log_def)

lemma routed_calm:
  "quiet False (routed call tid m strm)" "corked_by b (routed call tid m strm) = b"
  by (cases m; simp add: with_nop_def)+

lemma good_op:
  "good c False un False cl \<Longrightarrow> extends c cl cl' (routed call tid m strm) \<Longrightarrow> good c False un False cl'"
  by (erule good_extends) (auto simp: routed_calm)

lemma good_cork:
  "good c True False co cl \<Longrightarrow> extends c cl cl' (with_nop True strm (Cork tid)) \<Longrightarrow> good c True False True cl'"
  by (erule good_extends) (auto simp: with_nop_def)

lemma good_uncork: "good c flag un False cl \<Longrightarrow> extends c cl cl' [Uncork] \<Longrightarrow> good c flag True False cl'"
  by (erule good_extends) auto

lemma good_nop: "good c flag un co cl \<Longrightarrow> extends c cl cl' [NOP, NOP] \<Longrightarrow> good c flag un co cl'"
  by (erule good_extends) auto

text \<open>An action on one client.\<close>

lemma at_client_list:
  assumes "i < length (sync_list srv)"
    and "\<And>r cl rs. f (sync_list srv ! i) (resps srv) = (r, cl, rs) \<Longrightarrow> Q i cl"
    and "\<And>j. j < length (sync_list srv) \<Longrightarrow> j \<noteq> i \<Longrightarrow> Q j (sync_list srv ! j)"
  shows "\<forall>j < length (sync_list (at_client i f srv)). Q j (sync_list (at_client i f srv) ! j)"
  using assms by (cases "f (sync_list srv ! i) (resps srv)") (auto simp: at_client_def nth_list_update)

lemma at_client_simps [simp]:
  "cork (at_client i f srv) = cork srv" "length (sync_list (at_client i f srv)) = length (sync_list srv)"
  by (simp_all add: at_client_def split: prod.splits)

lemma passed_simps [simp]: "passed None i = False" "passed (Some n) i \<longleftrightarrow> i < n"
  by (simp_all add: passed_def)

lemma drop_dead_good:
  "drop_dead cls rs = Inr (cls', rs') \<Longrightarrow> set cls' \<subseteq> set cls"
  by (induction cls rs arbitrary: cls' rs' rule: drop_dead.induct)
    (auto simp: rmap_eq_Inr rbind_eq_Inr split: if_splits)

lemma cork_step_inv:
  assumes "cork_step c st st'" "sys_inv c st"
  shows "sys_inv c st'"
  using assms
proof (induction rule: cork_step.induct)
  case (op_send st tid call i)
  then have "\<not> cork (sys_srv st)" "corking st = None" by (auto simp: sys_inv_def)
  then have "\<forall>j < length (sync_list (at_client i (send_op c tid call) (sys_srv st))).
      good c False (passed (uncorking st) j) False (sync_list (at_client i (send_op c tid call) (sys_srv st)) ! j)"
    using op_send by (intro at_client_list) (auto simp: sys_inv_def dest: send_op_extends good_op)
  then show ?case using op_send \<open>\<not> cork (sys_srv st)\<close> \<open>corking st = None\<close> by (simp add: sys_inv_def)
next
  case (cork_one st i tid)
  then have un: "uncorking st = None" "cork (sys_srv st)" by (auto simp: sys_inv_def)
  then have "\<forall>j < length (sync_list (at_client i (cork_send c tid) (sys_srv st))).
      good c True False (j < Suc i) (sync_list (at_client i (cork_send c tid) (sys_srv st)) ! j)"
    using cork_one
    by (intro at_client_list) (auto simp: sys_inv_def less_Suc_eq dest!: cork_send_extends intro: good_cork)
  then show ?case using cork_one un by (simp add: sys_inv_def)
next
  case (uncork_one st i tid)
  then have co: "corking st = None" by (auto simp: sys_inv_def)
  then have "\<forall>j < length (sync_list (at_client i (client_uncork c tid) (sys_srv st))).
      good c (cork (sys_srv st)) (j < Suc i) False (sync_list (at_client i (client_uncork c tid) (sys_srv st)) ! j)"
    using uncork_one
    by (intro at_client_list) (auto simp: sys_inv_def less_Suc_eq dest!: uncork_extends intro: good_uncork)
  then show ?case using uncork_one co by (simp add: sys_inv_def)
next
  case (flush_one i st tid)
  then have "\<forall>j < length (sync_list (at_client i (client_flush c tid) (sys_srv st))).
      good c (cork (sys_srv st)) (passed (uncorking st) j) (passed (corking st) j) (sync_list (at_client i (client_flush c tid) (sys_srv st)) ! j)"
    by (intro at_client_list) (auto simp: sys_inv_def dest!: flush_extends intro: good_nop good_harmless)
  then show ?case using flush_one by (simp add: sys_inv_def)
next
  case (read_one i st msg nx cl rs)
  then show ?case
    by (auto simp: sys_inv_def nth_list_update intro: good_harmless [OF _ reader_harmless])
next
  case (accept st cl)
  have "good c (cork (sys_srv st)) False False cl"
    using accept(2,3) by (auto simp: good_def wire_log_def intro!: exI [of _ "[]"])
  then show ?case using accept by (auto simp: sys_inv_def idle_list_def nth_append less_Suc_eq)
next
  case (harvest st srv)
  then have "cork srv = cork (sys_srv st)" "set (sync_list srv) \<subseteq> set (sync_list (sys_srv st))"
    by (auto simp: Server.harvest_def rmap_eq_Inr split: if_splits dest!: drop_dead_good)
  moreover have "good c (cork (sys_srv st)) False False cl" if "cl \<in> set (sync_list (sys_srv st))" for cl
    using that harvest(1,3) by (auto simp: sys_inv_def idle_list_def in_set_conv_nth)
  ultimately have "\<forall>cl \<in> set (sync_list srv). good c (cork srv) False False cl" by auto
  then show ?case using harvest(1) by (simp add: sys_inv_def idle_list_def all_set_conv_all_nth)
qed (auto simp: sys_inv_def good_def)



end
