(* ===== verification/IoLimit.thy ===== *)
theory IoLimit
  imports Common
begin

text \<open>
  The rate limiter of a client's connection (\<open>iolimit/src/lib.rs\<close>).  Times are nanoseconds; the
  readings of the clock, in order, are an argument, and so is the writer below.
\<close>

record 'w LimitWriter =
  lw_inner :: 'w
  bytes_left :: nat
  bps :: nat
  last_updated :: nat
  blocking :: bool
  partial_writes :: bool

definition limit_new :: "'w \<Rightarrow> nat \<Rightarrow> nat \<Rightarrow> 'w LimitWriter" where
  "limit_new w n now = \<lparr>lw_inner = w, bytes_left = n, bps = n, last_updated = now, blocking = True, partial_writes = False\<rparr>"

definition set_partial_writes :: "'w LimitWriter \<Rightarrow> bool \<Rightarrow> 'w LimitWriter" where
  "set_partial_writes lw b = lw\<lparr>partial_writes := b\<rparr>"

definition set_blocking :: "'w LimitWriter \<Rightarrow> bool \<Rightarrow> 'w LimitWriter" where
  "set_blocking lw b = lw\<lparr>blocking := b\<rparr>"

text \<open>The first reading of the clock behind the given time, and the readings that are left.\<close>

fun sleep_until :: "nat \<Rightarrow> nat list \<Rightarrow> (nat \<times> nat list) option" where
  "sleep_until i [] = None"
| "sleep_until i (now # rest) = (if i < now then Some (now, rest) else sleep_until i rest)"

text \<open>
  The quota step of \<open>write\<close>: the writer with its quota and time updated and the part of the
  buffer that may be written, or an error.  \<open>None\<close> when there are no more clock readings.
\<close>

definition refill :: "'w LimitWriter \<Rightarrow> nat \<Rightarrow> nat \<Rightarrow> 'w LimitWriter" where
  "refill lw now len = lw\<lparr>bytes_left := usize_add (bytes_left lw)
       (min (mul_usize (((now - last_updated lw) div 1000000) mod 2 ^ 64) (bps lw div 1000)) (max (len - bytes_left lw) (bps lw))),
     last_updated := now\<rparr>"

definition quota :: "'w LimitWriter \<Rightarrow> bytes \<Rightarrow> nat list \<Rightarrow> (('w LimitWriter \<times> bytes) result \<times> 'w LimitWriter \<times> nat list) option" where
  "quota lw buf clock =
     (if bps lw = 0 \<or> length buf \<le> bytes_left lw then Some (Inr (lw, buf), lw, clock)
      else if partial_writes lw \<and> bytes_left lw \<noteq> 0
      then Some (Inr (lw, take (min (bytes_left lw) (length buf)) buf), lw, clock)
      else case clock of
        [] \<Rightarrow> None
      | now # clock1 \<Rightarrow>
          let lw1 = refill lw now (length buf) in
          if length buf \<le> bytes_left lw1 then Some (Inr (lw1, buf), lw1, clock1)
          else if blocking lw1 then
            (if bps lw1 div 1000 = 0 then Some (Inl (Panicked ''attempt to divide by zero''), lw1, clock1)
             else map_option (\<lambda>(woke, clock2). let lw2 = lw1\<lparr>last_updated := woke\<rparr> in (Inr (lw2, buf), lw2, clock2))
               (sleep_until (now + ((length buf - bytes_left lw1) div (bps lw1 div 1000)) * 1000000) clock1))
          else Some (Inl (IoErr (Other ''IO limit exceeded'')), lw1, clock1))"

definition lw_write :: "('w \<Rightarrow> bytes \<Rightarrow> nat result \<times> 'w) \<Rightarrow> 'w LimitWriter \<Rightarrow> bytes \<Rightarrow> nat list
    \<Rightarrow> (nat result \<times> 'w LimitWriter \<times> nat list) option" where
  "lw_write inner lw buf clock =
     map_option (\<lambda>(r, lw1, clock1). case r of
         Inl e \<Rightarrow> (Inl e, lw1, clock1)
       | Inr (lw2, buf') \<Rightarrow> (case inner (lw_inner lw2) buf' of
           (Inl e, w) \<Rightarrow> (Inl e, lw2\<lparr>lw_inner := w\<rparr>, clock1)
         | (Inr written, w) \<Rightarrow>
             (Inr written, lw2\<lparr>lw_inner := w, bytes_left := bytes_left lw2 - min written (bytes_left lw2)\<rparr>, clock1)))
       (quota lw buf clock)"

definition lw_flush :: "('w \<Rightarrow> unit result \<times> 'w) \<Rightarrow> 'w LimitWriter \<Rightarrow> unit result \<times> 'w LimitWriter" where
  "lw_flush fl lw = (let (r, w) = fl (lw_inner lw) in (r, lw\<lparr>lw_inner := w\<rparr>))"

end
