(* ===== verification/IoLimitLaws.thy ===== *)
theory IoLimitLaws
  imports IoLimit
begin

text \<open>
  The rate limiter keeps its rate: an accounting argument over the quota, the bytes written and
  the time that the limiter has seen.
\<close>

definition writes_within :: "('w \<Rightarrow> bytes \<Rightarrow> nat result \<times> 'w) \<Rightarrow> bool" where
  "writes_within inner \<longleftrightarrow> (\<forall>w b n w'. inner w b = (Inr n, w') \<longrightarrow> n \<le> length b)"

text \<open>A sequence of writes that all succeed: what was written, the writer and the clock after it.\<close>

fun lw_run :: "('w \<Rightarrow> bytes \<Rightarrow> nat result \<times> 'w) \<Rightarrow> 'w LimitWriter \<Rightarrow> bytes list \<Rightarrow> nat list \<Rightarrow> (nat \<times> 'w LimitWriter \<times> nat list) option" where
  "lw_run inner lw [] clock = Some (0, lw, clock)"
| "lw_run inner lw (b # bs) clock = (case lw_write inner lw b clock of
       Some (Inr n, lw1, clock1) \<Rightarrow> map_option (\<lambda>(t, r). (n + t, r)) (lw_run inner lw1 bs clock1)
     | _ \<Rightarrow> None)"

lemma sleep_until_after:
  "sleep_until i clock = Some (woke, rest) \<Longrightarrow> i < woke \<and> (\<exists>skipped. clock = skipped @ woke # rest)"
proof (induction i clock rule: sleep_until.induct)
  case (2 i now rest')
  then show ?case by (auto split: if_splits) 
qed simp

lemma refill_simps [simp]:
  "bps (refill lw now n) = bps lw" "last_updated (refill lw now n) = now"
  by (simp_all add: refill_def)

lemma refill_bound:
  assumes "bytes_left lw < len" "len + bps lw < 2 ^ 64" "last_updated lw \<le> now"
  shows "1000000 * bytes_left (refill lw now len) \<le> 1000000 * bytes_left lw + (bps lw div 1000) * (now - last_updated lw)"
proof -
  let ?r = "bps lw div 1000" and ?ms = "(now - last_updated lw) div 1000000"
  have "mul_usize (?ms mod 2 ^ 64) ?r \<le> ?ms * ?r"
    unfolding mul_usize_def by (rule order_trans [OF mod_less_eq_dividend]) (simp add: mult_le_mono1)
  then have cap: "bytes_left lw + min (mul_usize (?ms mod 2 ^ 64) ?r) m \<le> bytes_left lw + ?ms * ?r" for m
    by (simp add: min.coboundedI1)
  have "bytes_left (refill lw now len) \<le> bytes_left lw + ?ms * ?r"
    using order_trans [OF mod_less_eq_dividend cap] by (simp add: refill_def usize_add_def)
  then have "1000000 * bytes_left (refill lw now len) \<le> 1000000 * bytes_left lw + (1000000 * ?ms) * ?r"
    by (metis add_mult_distrib2 mult.assoc mult_le_mono2)
  also have "\<dots> \<le> 1000000 * bytes_left lw + (now - last_updated lw) * ?r"
    by (intro add_left_mono mult_le_mono1) simp
  finally show ?thesis by (simp add: mult.commute)
qed

text \<open>The ways a quota step can succeed.\<close>

lemma quota_cases:
  assumes "quota lw buf clock = Some (Inr (lw1, buf1), lw2, clock1)" "0 < bps lw div 1000"
  shows "(length buf \<le> bytes_left lw \<and> lw1 = lw \<and> buf1 = buf \<and> clock1 = clock)
    \<or> (lw1 = lw \<and> length buf1 \<le> bytes_left lw \<and> clock1 = clock)
    \<or> (\<exists>now. bytes_left lw < length buf \<and> clock = now # clock1 \<and> lw1 = refill lw now (length buf) \<and> buf1 = buf \<and> length buf \<le> bytes_left lw1)
    \<or> (\<exists>now rest woke. bytes_left lw < length buf \<and> clock = now # rest \<and> bytes_left (refill lw now (length buf)) < length buf \<and> buf1 = buf
        \<and> sleep_until (now + ((length buf - bytes_left (refill lw now (length buf))) div (bps lw div 1000)) * 1000000) rest = Some (woke, clock1)
        \<and> lw1 = (refill lw now (length buf))\<lparr>last_updated := woke\<rparr>)"
proof -
  have "bps lw \<noteq> 0" using assms(2) by (metis div_0 less_numeral_extra(3))
  then show ?thesis
    using assms(1,2) unfolding quota_def
    by (auto simp: Let_def not_le split: if_splits list.splits prod.splits)
qed

text \<open>What one quota step grants, against the time it has taken.\<close>

lemma quota_bound:
  assumes "quota lw buf clock = Some (Inr (lw1, buf1), lw2, clock1)" "0 < bps lw div 1000" "length buf + bps lw < 2 ^ 64"
    and "sorted (last_updated lw # clock)"
  shows "1000000 * max (bytes_left lw1) (length buf1) \<le>
      1000000 * (bytes_left lw + (bps lw div 1000 - 1)) + (bps lw div 1000) * (last_updated lw1 - last_updated lw)
    \<and> last_updated lw \<le> last_updated lw1 \<and> sorted (last_updated lw1 # clock1) \<and> bps lw1 = bps lw"
proof -
  let ?r = "bps lw div 1000"
  show ?thesis
    using quota_cases [OF assms(1,2)]
  proof (elim disjE exE conjE, goal_cases)
    case 1
    then show ?case using assms(4) by (simp add: max_def)
  next
    case 2
    then show ?case using assms(4) by (simp add: max_def)
  next
    case (3 now)
    have "last_updated lw \<le> now" "last_updated lw1 = now" "bps lw1 = bps lw" using assms(4) 3(2,3) by simp_all
    moreover have "1000000 * bytes_left lw1 \<le> 1000000 * bytes_left lw + ?r * (now - last_updated lw)"
      using refill_bound [OF 3(1) assms(3)] 3(2,3) assms(4) by simp
    ultimately show ?case using 3(2,4,5) assms(4) by (simp add: max_def)
  next
    case (4 now rest woke)
    let ?b = "bytes_left (refill lw now (length buf))"
    let ?d = "length buf - ?b"
    have mono: "last_updated lw \<le> now" "sorted (now # rest)" using assms(4) 4(2) by auto
    obtain skipped where sl: "now + (?d div ?r) * 1000000 < woke" "rest = skipped @ woke # clock1"
      using sleep_until_after [OF 4(5)] by auto
    have "?d \<le> ?r * (?d div ?r) + (?r - 1)"
      using assms(2) mult_div_mod_eq [of ?r ?d] mod_less_divisor [of ?r ?d] by linarith
    then have "1000000 * ?d \<le> 1000000 * (?r * (?d div ?r) + (?r - 1))"
      by (rule mult_le_mono2)
    also have "\<dots> = ?r * (1000000 * (?d div ?r)) + 1000000 * (?r - 1)"
      by (simp only: add_mult_distrib2 mult.left_commute)
    also have "?r * (1000000 * (?d div ?r)) \<le> ?r * (woke - now)"
      using sl(1) by (intro mult_le_mono2) linarith
    finally have d: "1000000 * ?d \<le> ?r * (woke - now) + 1000000 * (?r - 1)" by simp
    have "?r * (now - last_updated lw) + ?r * (woke - now) = ?r * (woke - last_updated lw)"
      using mono(1) sl(1) by (simp flip: add_mult_distrib2)
    moreover have "1000000 * ?b \<le> 1000000 * bytes_left lw + ?r * (now - last_updated lw)"
      using refill_bound [of lw "length buf" now] 4(1) assms(3) mono(1) by simp
    moreover have "1000000 * length buf = 1000000 * ?b + 1000000 * ?d" using 4(3) by simp
    ultimately have "1000000 * length buf \<le> 1000000 * (bytes_left lw + (?r - 1)) + ?r * (woke - last_updated lw)"
      using d by simp
    moreover have "max (bytes_left lw1) (length buf1) = length buf" "last_updated lw1 = woke" "bps lw1 = bps lw"
      using 4(3,4,6) by simp_all
    moreover have "last_updated lw \<le> woke" "sorted (woke # clock1)"
      using mono sl by (auto simp: sorted_append)
    ultimately show ?case by simp
  qed
qed

lemma lw_write_bound:
  assumes "lw_write inner lw buf clock = Some (Inr n, lw', clock')" "writes_within inner"
    and "0 < bps lw div 1000" "length buf + bps lw < 2 ^ 64" "sorted (last_updated lw # clock)"
  shows "1000000 * (n + bytes_left lw') \<le>
      1000000 * (bytes_left lw + (bps lw div 1000 - 1)) + (bps lw div 1000) * (last_updated lw' - last_updated lw)
    \<and> last_updated lw \<le> last_updated lw' \<and> sorted (last_updated lw' # clock') \<and> bps lw' = bps lw"
proof -
  obtain lw1 buf1 lw2 w where q: "quota lw buf clock = Some (Inr (lw1, buf1), lw2, clock')"
    "inner (lw_inner lw1) buf1 = (Inr n, w)" "lw' = lw1\<lparr>lw_inner := w, bytes_left := bytes_left lw1 - min n (bytes_left lw1)\<rparr>"
  proof (cases "quota lw buf clock")
    case (Some q)
    obtain r lw2 clk where q: "q = (r, lw2, clk)" by (cases q)
    show thesis
    proof (cases r)
      case (Inr p)
      obtain lw1 buf1 where p: "p = (lw1, buf1)" by (cases p)
      obtain o1 w where i: "inner (lw_inner lw1) buf1 = (o1, w)" by (cases "inner (lw_inner lw1) buf1")
      show thesis using that [of lw1 buf1 lw2 w] assms(1) Some q Inr p i by (cases o1) (auto simp: lw_write_def)
    qed (use assms(1) Some q in \<open>simp add: lw_write_def\<close>)
  qed (use assms(1) in \<open>simp add: lw_write_def\<close>)
  have "n \<le> length buf1" using assms(2) q(2) by (auto simp: writes_within_def)
  then have "n + bytes_left lw' \<le> max (bytes_left lw1) (length buf1)" using q(3) by auto
  then show ?thesis
    using quota_bound [OF q(1) assms(3-5)] q(3) by (auto intro: order_trans [OF mult_le_mono2])
qed

lemma account:
  fixes n t b0 b1 b2 k l m a b c :: nat
  assumes "1000000 * (n + b1) \<le> 1000000 * (b0 + k) + a" "1000000 * (t + b2) \<le> 1000000 * (b1 + l) + b" "a + b = c" "m = k + l"
  shows "1000000 * (n + t + b2) \<le> 1000000 * (b0 + m) + c"
  using assms by (simp add: algebra_simps)

lemma lw_run_bound:
  assumes "lw_run inner lw bufs clock = Some (tot, lw', clock')" "writes_within inner"
    and "0 < bps lw div 1000" "\<forall>b \<in> set bufs. length b + bps lw < 2 ^ 64" "sorted (last_updated lw # clock)"
  shows "1000000 * (tot + bytes_left lw') \<le>
      1000000 * (bytes_left lw + length bufs * (bps lw div 1000 - 1)) + (bps lw div 1000) * (last_updated lw' - last_updated lw)
    \<and> last_updated lw \<le> last_updated lw'"
  using assms
proof (induction bufs arbitrary: lw clock tot)
  case (Cons b bs)
  let ?r = "bps lw div 1000"
  obtain n lw1 clock1 t where s: "lw_write inner lw b clock = Some (Inr n, lw1, clock1)" "lw_run inner lw1 bs clock1 = Some (t, lw', clock')"
    "tot = n + t"
    using Cons.prems(1) by (auto split: option.splits sum.splits prod.splits)
  have one: "1000000 * (n + bytes_left lw1) \<le> 1000000 * (bytes_left lw + (?r - 1)) + ?r * (last_updated lw1 - last_updated lw)"
    "last_updated lw \<le> last_updated lw1" "sorted (last_updated lw1 # clock1)" "bps lw1 = bps lw"
    using lw_write_bound [OF s(1) Cons.prems(2,3) _ Cons.prems(5)] Cons.prems(4) by auto
  have rest: "1000000 * (t + bytes_left lw') \<le> 1000000 * (bytes_left lw1 + length bs * (?r - 1)) + ?r * (last_updated lw' - last_updated lw1)"
    "last_updated lw1 \<le> last_updated lw'"
    using Cons.IH [OF s(2) Cons.prems(2)] Cons.prems(3,4) one(3,4) by auto
  have "?r * (last_updated lw1 - last_updated lw) + ?r * (last_updated lw' - last_updated lw1) = ?r * (last_updated lw' - last_updated lw)"
    using one(2) rest(2) by (simp flip: add_mult_distrib2)
  from account [OF one(1) rest(1) this, of "length (b # bs) * (?r - 1)"]
  show ?case using one(2) rest(2) s(3) by simp
qed simp

text \<open>
  C31. The limiter keeps its rate: a connection limited to \<open>B\<close> bytes per second has written, after
  any number of writes, at most \<open>B\<close> bytes (the initial allowance) plus \<open>B / 1000\<close> bytes per
  millisecond since its creation, plus less than \<open>B / 1000\<close> bytes of rounding for each write.
\<close>

theorem limit_rate:
  assumes "lw_run inner (limit_new w B start) bufs clock = Some (tot, lw', clock')" "writes_within inner"
    and "1000 \<le> B" "\<forall>b \<in> set bufs. length b + B < 2 ^ 64" "sorted (start # clock)"
  shows "1000000 * tot \<le> 1000000 * (B + length bufs * (B div 1000 - 1)) + (B div 1000) * (last_updated lw' - start)"
proof -
  have "1000000 * (tot + bytes_left lw') \<le>
      1000000 * (B + length bufs * (B div 1000 - 1)) + (B div 1000) * (last_updated lw' - start)"
    using lw_run_bound [OF assms(1,2)] assms(3-5) by (simp add: limit_new_def)
  then show ?thesis by simp
qed

theorem limit_rate_witness:
  "\<exists>lw'. lw_run (\<lambda>(w :: unit) b. (Inr (length b), w)) (limit_new () 2000 0) [replicate 1500 0, replicate 1500 0] [0, 900000000]
      = Some (3000, lw', [])
    \<and> 1000000 * 3000 \<le> 1000000 * (2000 + 2 * (2 - 1)) + 2 * (last_updated lw' - 0)"
proof -
  let ?inner = "\<lambda>(w :: unit) (b :: bytes). (Inr (length b), w) :: nat result \<times> unit"
  obtain lw' where run: "lw_run ?inner (limit_new () 2000 0) [replicate 1500 0, replicate 1500 0] [0, 900000000] = Some (3000, lw', [])"
    by (simp add: lw_write_def quota_def limit_new_def refill_def usize_add_def mul_usize_def Let_def)
  have "1000000 * 3000 \<le> 1000000 * (2000 + length [replicate 1500 (0 :: u8), replicate 1500 0] * (2000 div 1000 - 1)) + (2000 div 1000) * (last_updated lw' - 0)"
    by (rule limit_rate [OF run]) (auto simp: writes_within_def)
  then show ?thesis using run by auto
qed

text \<open>
  A limit below 1000 bytes per second cannot be used: the first write that exceeds the
  allowance divides by the rate per millisecond, which is zero, and panics.
\<close>

theorem limit_small_panics:
  assumes "0 < B" "B < 1000" "B < length buf" "length buf < 2 ^ 64"
  shows "\<exists>lw'. lw_write inner (limit_new w B start) buf (now # clock) = Some (Inl (Panicked ''attempt to divide by zero''), lw', clock)"
  using assms by (simp add: lw_write_def quota_def limit_new_def refill_def mul_usize_def usize_add_def Let_def)

theorem limit_small_panics_witness:
  "\<exists>lw'. lw_write (\<lambda>(w :: unit) b. (Inr (length b), w)) (limit_new () 512 0) (replicate 600 0) [5] = Some (Inl (Panicked ''attempt to divide by zero''), lw', [])"
  using limit_small_panics [of 512 "replicate 600 0"] by simp

end
