(* ===== verification/Viewer.thy ===== *)
theory Viewer
  imports Store OpsUnix
begin

text \<open>
  Viewing and replaying a journal (\<open>journal/viewer.rs\<close>), for entries of any type with their
  \<open>affected_paths\<close>, \<open>apply\<close> and \<open>describe\<close>.  The regular expression of the filter is a
  predicate on paths, the formatting of entries a parameter; \<open>apply\<close> sees the disk as it is when
  the entry is reached.
\<close>

record 'a entry_ops =
  affected_paths :: "'a \<Rightarrow> path list"
  apply_entry :: "fs_view \<Rightarrow> 'a \<Rightarrow> path \<Rightarrow> VFSCall result"
  describe :: "bool \<Rightarrow> 'a \<Rightarrow> string"

fun any_match :: "(path \<Rightarrow> bool) \<Rightarrow> path list \<Rightarrow> bool result" where
  "any_match re [] = Inr False"
| "any_match re (p # ps) = rbind (path_to_str p) (\<lambda>q. if re q then Inr True else any_match re ps)"

definition keeps :: "'a entry_ops \<Rightarrow> (path \<Rightarrow> bool) option \<Rightarrow> bool \<Rightarrow> 'a StoreEntry \<Rightarrow> bool result" where
  "keeps ops flt inv_filter e = (case flt of
       None \<Rightarrow> Inr True
     | Some re \<Rightarrow> (case inner e of
         Time _ \<Rightarrow> Inr True
       | Payload x \<Rightarrow> rmap (\<lambda>has_match. (\<not> has_match \<and> inv_filter) \<or> (has_match \<and> \<not> inv_filter)) (any_match re (affected_paths ops x))))"

fun filter_journal :: "'a entry_ops \<Rightarrow> (path \<Rightarrow> bool) option \<Rightarrow> bool \<Rightarrow> 'a StoreEntry list \<Rightarrow> 'a StoreEntry list result" where
  "filter_journal ops flt inv_filter [] = Inr []"
| "filter_journal ops flt inv_filter (e # es) =
     rbind (keeps ops flt inv_filter e) (\<lambda>k. rmap (\<lambda>r. if k then e # r else r) (filter_journal ops flt inv_filter es))"

section \<open>Viewing\<close>

datatype view_line = Event u32 string | At nat

definition view_entry :: "'a entry_ops \<Rightarrow> bool \<Rightarrow> 'a StoreEntry \<Rightarrow> view_line" where
  "view_entry ops verbose e = (case inner e of
       Payload x \<Rightarrow> Event (trans_id e) (describe ops verbose x)
     | Time t \<Rightarrow> At t)"

text \<open>
  The entries of a journal in the asked direction.  \<open>None\<close> when the fuel runs out; reading
  errors panic.
\<close>

definition journal_entries :: "nat \<Rightarrow> nat \<Rightarrow> 'a codec \<Rightarrow> bool \<Rightarrow> Journal \<Rightarrow> 'a StoreEntry list result option" where
  "journal_entries n m c backwards j =
     map_option (\<lambda>r. case r of Inl _ \<Rightarrow> Inl (Panicked ''Failed to read journal entry'') | Inr es \<Rightarrow> Inr es)
       (if backwards then read_reverse n m c j else read_forward n c j)"

definition view :: "nat \<Rightarrow> nat \<Rightarrow> 'a codec \<Rightarrow> 'a entry_ops \<Rightarrow> bool \<Rightarrow> bool \<Rightarrow> (path \<Rightarrow> bool) option \<Rightarrow> bool \<Rightarrow> Journal
    \<Rightarrow> view_line list result option" where
  "view n m c ops backwards verbose flt inv_filter j =
     map_option (\<lambda>r. rbind r (\<lambda>es. rmap (map (view_entry ops verbose)) (filter_journal ops flt inv_filter es)))
       (journal_entries n m c backwards j)"

section \<open>Replaying\<close>

definition replay_entry :: "'a entry_ops \<Rightarrow> 's os \<Rightarrow> ('s \<Rightarrow> fs_view) \<Rightarrow> path \<Rightarrow> 'a StoreEntry \<Rightarrow> 's \<Rightarrow> 's result" where
  "replay_entry ops os look root e s = (case inner e of
       Time _ \<Rightarrow> Inr s
     | Payload x \<Rightarrow>
         rbind (case apply_entry ops (look s) x root of
                  Inl _ \<Rightarrow> Inl (Panicked ''Failed to generate bilog vfscall'') | Inr call \<Rightarrow> Inr call) (\<lambda>call.
         rbind (dispatch os call root s) (\<lambda>(res, s1).
           if res < 0 then Inl (Panicked ''Failed to apply entry'') else Inr s1)))"

fun replay_all :: "'a entry_ops \<Rightarrow> 's os \<Rightarrow> ('s \<Rightarrow> fs_view) \<Rightarrow> path \<Rightarrow> 'a StoreEntry list \<Rightarrow> 's \<Rightarrow> 's result" where
  "replay_all ops os look root [] s = Inr s"
| "replay_all ops os look root (e # es) s = rbind (replay_entry ops os look root e s) (replay_all ops os look root es)"

definition replay :: "nat \<Rightarrow> nat \<Rightarrow> 'a codec \<Rightarrow> 'a entry_ops \<Rightarrow> 's os \<Rightarrow> ('s \<Rightarrow> fs_view) \<Rightarrow> bool \<Rightarrow> path \<Rightarrow> (path \<Rightarrow> bool) option \<Rightarrow> bool
    \<Rightarrow> Journal \<Rightarrow> 's \<Rightarrow> 's result option" where
  "replay n m c ops os look backwards root flt inv_filter j s =
     map_option (\<lambda>r. rbind r (\<lambda>es. rbind (filter_journal ops flt inv_filter es) (\<lambda>es'. replay_all ops os look root es' s)))
       (journal_entries n m c backwards j)"

section \<open>The command\<close>

definition viewer_open :: "'a codec \<Rightarrow> bfile \<Rightarrow> path \<Rightarrow> nat \<Rightarrow> sfs \<Rightarrow> (Journal \<times> sfs) result" where
  "viewer_open c f store_root now d =
     (case journal_open c f \<lparr>cfg_sync = False, cfg_journal_size = 0, cfg_filestore_size = 0, cfg_vfsroot = store_root,
        cfg_journal_type = JT_Invalid\<rparr> now d of
      Inl _ \<Rightarrow> Inl (Panicked ''Failed to recover journal'') | Inr r \<Rightarrow> Inr r)"

definition viewer_view :: "nat \<Rightarrow> nat \<Rightarrow> VFSCall codec \<Rightarrow> BilogEntry codec \<Rightarrow> VFSCall entry_ops \<Rightarrow> BilogEntry entry_ops
    \<Rightarrow> bool \<Rightarrow> bool \<Rightarrow> (path \<Rightarrow> bool) option \<Rightarrow> bool \<Rightarrow> Journal \<Rightarrow> view_line list result option" where
  "viewer_view n m fc bc fops bops backwards verbose flt inv_filter j = (case journal_type j of
       JT_Forward \<Rightarrow> view n m fc fops backwards verbose flt inv_filter j
     | JT_Undo \<Rightarrow> Some (Inr [])
     | JT_Bilog \<Rightarrow> view n m bc bops backwards verbose flt inv_filter j
     | JT_Invalid \<Rightarrow> Some (Inl (Panicked ''Invalid journal type'')))"

definition viewer_replay :: "nat \<Rightarrow> nat \<Rightarrow> VFSCall codec \<Rightarrow> BilogEntry codec \<Rightarrow> VFSCall entry_ops \<Rightarrow> BilogEntry entry_ops
    \<Rightarrow> 's os \<Rightarrow> ('s \<Rightarrow> fs_view) \<Rightarrow> bool \<Rightarrow> path \<Rightarrow> (path \<Rightarrow> bool) option \<Rightarrow> bool \<Rightarrow> Journal \<Rightarrow> 's \<Rightarrow> 's result option" where
  "viewer_replay n m fc bc fops bops os look backwards root flt inv_filter j s = (case journal_type j of
       JT_Forward \<Rightarrow>
         if backwards then Some (Inl (Panicked ''Forward-only journal cannot be replayed in reverse!''))
         else replay n m fc fops os look backwards root flt inv_filter j s
     | JT_Undo \<Rightarrow>
         if \<not> backwards then Some (Inl (Panicked ''Undo-only journal cannot be replayed forward!''))
         else Some (Inr s)
     | JT_Bilog \<Rightarrow> replay n m bc bops os look backwards root flt inv_filter j s
     | JT_Invalid \<Rightarrow> Some (Inl (Panicked ''Invalid journal type'')))"

text \<open>The entry operations of the two journal types that are replayed.\<close>

definition forward_ops :: "(bool \<Rightarrow> VFSCall \<Rightarrow> string) \<Rightarrow> VFSCall entry_ops" where
  "forward_ops descr = \<lparr>affected_paths = vfs_affected_paths, apply_entry = (\<lambda>_. forward_apply), describe = descr\<rparr>"

definition bilog_ops :: "crc \<Rightarrow> (bool \<Rightarrow> BilogEntry \<Rightarrow> string) \<Rightarrow> BilogEntry entry_ops" where
  "bilog_ops crc descr = \<lparr>affected_paths = bilog_affected_paths, apply_entry = bilog_apply crc, describe = descr\<rparr>"

end
