(* ===== verification/ViewerLaws.thy ===== *)
theory ViewerLaws
  imports Viewer JournalLaws DispatchLaws BilogLaws "HOL-Library.Countable"
begin

text \<open>
  Replaying a forward journal repeats the operations that were journalled.
\<close>

text \<open>The reference: the calls one after the other, up to the first failure.\<close>

fun perform :: "'s os \<Rightarrow> path \<Rightarrow> VFSCall list \<Rightarrow> 's \<Rightarrow> 's result" where
  "perform os root [] s = Inr s"
| "perform os root (call # calls) s =
     rbind (dispatch os call root s) (\<lambda>(res, s1). if res < 0 then Inl (Panicked ''Failed to apply entry'') else perform os root calls s1)"

definition calls_of :: "VFSCall StoreEntry list \<Rightarrow> VFSCall list" where
  "calls_of es = List.map_filter (\<lambda>e. case inner e of Payload x \<Rightarrow> Some x | Time _ \<Rightarrow> None) es"

definition selected :: "(path \<Rightarrow> bool) option \<Rightarrow> bool \<Rightarrow> VFSCall \<Rightarrow> bool" where
  "selected flt neg call = (case flt of None \<Rightarrow> True | Some re \<Rightarrow> (\<exists>p \<in> set (vfs_affected_paths call). re p) \<noteq> neg)"

definition readable :: "VFSCall \<Rightarrow> bool" where
  "readable call \<longleftrightarrow> (\<forall>p \<in> set (vfs_affected_paths call). path_to_str p = Inr p)"

lemma any_match_iff:
  assumes "\<forall>p \<in> set ps. path_to_str p = Inr p"
  shows "any_match re ps = Inr (\<exists>p \<in> set ps. re p)"
  using assms by (induction ps) auto

lemma keeps_forward:
  assumes "\<forall>x. inner e = Payload x \<longrightarrow> readable x"
  shows "keeps (forward_ops descr) flt neg e = Inr (case inner e of Payload x \<Rightarrow> selected flt neg x | Time _ \<Rightarrow> True)"
  using assms
  by (auto simp: keeps_def forward_ops_def selected_def readable_def any_match_iff split: option.splits EntryContent.splits)

lemma filter_journal_ok:
  "\<forall>call \<in> set (calls_of es). readable call \<Longrightarrow> is_ok (filter_journal (forward_ops descr) flt neg es)"
proof (induction es)
  case (Cons e es)
  have "\<forall>x. inner e = Payload x \<longrightarrow> readable x" "\<forall>call \<in> set (calls_of es). readable call"
    using Cons.prems by (auto simp: calls_of_def map_filter_simps split: EntryContent.splits)
  then show ?case using keeps_forward [of e] Cons.IH by (auto simp: is_ok_iff)
qed simp

lemma replay_filtered:
  assumes "\<forall>call \<in> set (calls_of es). readable call"
  shows "rbind (filter_journal (forward_ops descr) flt neg es) (\<lambda>es'. replay_all (forward_ops descr) os look root es' s)
    = perform os root (filter (selected flt neg) (calls_of es)) s"
  using assms
proof (induction es arbitrary: s)
  case (Cons e es)
  show ?case
  proof (cases "inner e")
    case (Time t)
    then have "calls_of (e # es) = calls_of es" by (simp add: calls_of_def map_filter_simps)
    moreover have "keeps (forward_ops descr) flt neg e = Inr True"
      using Time by (simp add: keeps_def split: option.splits)
    ultimately show ?thesis
      using Cons.IH [of s] Cons.prems Time
      by (cases "filter_journal (forward_ops descr) flt neg es") (auto simp: replay_entry_def)
  next
    case (Payload x)
    then have calls: "calls_of (e # es) = x # calls_of es" by (simp add: calls_of_def map_filter_simps)
    then have k: "keeps (forward_ops descr) flt neg e = Inr (selected flt neg x)"
      using keeps_forward [of e] Payload Cons.prems by simp
    obtain r where r: "filter_journal (forward_ops descr) flt neg es = Inr r"
      using filter_journal_ok [of es descr flt neg] Cons.prems calls by (auto simp: is_ok_iff)
    then have IH: "replay_all (forward_ops descr) os look root r s1 = perform os root (filter (selected flt neg) (calls_of es)) s1" for s1
      using Cons.IH [of s1] Cons.prems calls by simp
    show ?thesis
      using k r IH calls Payload
      by (cases "dispatch os x root s") (auto simp: replay_entry_def forward_ops_def forward_apply_def)
  qed
qed (simp add: calls_of_def map_filter_simps)


section \<open>An encoding of calls for evaluation\<close>

instance word :: (len) countable
  by (rule countable_classI [of unat]) (rule unsigned_word_eqI)

instance Timespec_ext :: (countable) countable
  by (rule countable_classI [of "\<lambda>t. to_nat (high t, low t, Timespec.more t)"]) (auto intro: Timespec.equality)

instance component :: countable
  by countable_datatype

instance FileSecurity :: countable
  by countable_datatype

instance VFSCall :: countable
  by countable_datatype

definition one_call :: VFSCall where
  "one_call = VFS_mkdir [RootDir, Normal ''x''] (Unix 1 2) 3"

text \<open>One call has a short code, the others are numbered.\<close>

fun call_body :: "VFSCall EntryContent \<Rightarrow> bytes" where
  "call_body (Payload x) = (if x = one_call then [2] else 0 # replicate (to_nat x) 1)"
| "call_body (Time t) = 1 # replicate t 1"

definition body_content :: "bytes \<Rightarrow> VFSCall EntryContent" where
  "body_content b = (if b = [2] then Payload one_call else if hd b = 0 then Payload (from_nat (length (tl b))) else Time (length (tl b)))"

definition call_codec :: "VFSCall codec" where
  "call_codec = \<lparr>header_size = 13, ser_header = ser_header plain_codec, deser_header = deser_header plain_codec,
     ser_entry = (\<lambda>e. le32 (fsize e) @ le32 (trans_id e) @ call_body (inner e) @ le32 (crc32 e)),
     deser_entry = (\<lambda>b. Some \<lparr>fsize = rd32 (take 4 b), trans_id = rd32 (take 4 (drop 4 b)),
       inner = body_content (take (length b - 12) (drop 8 b)), crc32 = rd32 (drop (length b - 4) b)\<rparr>),
     checksum_ieee = (\<lambda>b. 0)\<rparr>"

lemma body_content_body: "body_content (call_body x) = x"
  by (cases x) (auto simp: body_content_def)

lemma call_codec_ok: "codec_ok call_codec"
  unfolding codec_ok_def
proof (intro conjI allI exI [of _ call_body])
  fix e :: "VFSCall StoreEntry" and h
  show "ser_entry call_codec e = le32 (fsize e) @ le32 (trans_id e) @ call_body (inner e) @ le32 (crc32 e)"
    by (simp add: call_codec_def)
  show "deser_entry call_codec (ser_entry call_codec e) = Some e"
    by (cases e) (simp add: call_codec_def body_content_body)
  show "length (ser_header call_codec h) = header_size call_codec"
    by (simp add: call_codec_def plain_codec_def)
qed

definition call_journal :: Journal where
  "call_journal = blank_journal\<lparr>header := (header blank_journal)\<lparr>ty := JT_Forward\<rparr>\<rparr>"

definition call_item :: "VFSCall StoreEntry" where
  "call_item = \<lparr>fsize = 0, trans_id = 0, inner = Payload one_call, crc32 = 0\<rparr>"

lemma call_codec_sizes [simp]: "header_size call_codec = 13" "length (ser_entry call_codec call_item) = 13"
  by (simp_all add: call_codec_def call_item_def)

lemma call_journal_holds: "journal_holds call_codec call_journal []" "journal_room call_codec call_journal call_item"
  by (auto simp: journal_holds_def call_codec_ok journal_inv_def call_journal_def blank_journal_def ring_ok_def blank_file_def
      flen_def no_fault_def journal_room_def BLOCK_SIZE_def intro: log_seg.seg_nil)

definition no_bilog :: "BilogEntry codec" where
  "no_bilog = \<lparr>header_size = 13, ser_header = (\<lambda>h. replicate 13 0), deser_header = (\<lambda>b. None),
     ser_entry = (\<lambda>e. replicate 12 0), deser_entry = (\<lambda>b. None), checksum_ieee = (\<lambda>b. 0)\<rparr>"

abbreviation no_descr :: "bool \<Rightarrow> 'a \<Rightarrow> string" where
  "no_descr \<equiv> \<lambda>_ _. []"


end
