(* ===== verification/SnapshotWrite.thy ===== *)
theory SnapshotWrite
  imports AllocLaws
begin

text \<open>
  What a snapshot stores of a file.  The blocks of a file stand for the bytes of the writes that
  it has seen, at their offsets; \<open>encode_write\<close> refines the obvious specification, the old bytes
  overlaid with the new ones, whichever of its strategies it takes, and touches no byte of any
  other file.
\<close>

section \<open>Free lists are determined by the free positions\<close>

lemma free_setE:
  assumes "x \<in> free_set fl"
  obtains k v where "(k, v) \<in> set fl" "k \<le> x" "x < k + v"
  using assms by (auto simp: free_set_def cover_def)

lemma region_maximal:
  assumes "arena base fl" "arena base fl'" "free_set fl = free_set fl'" "(k, v) \<in> set fl"
  shows "(k, v) \<in> set fl'"
proof -
  have D: "\<And>k v k' v'. (k, v) \<in> set fl \<Longrightarrow> (k', v') \<in> set fl \<Longrightarrow> k < k' \<Longrightarrow> k + v < k'"
    and D': "\<And>k v k' v'. (k, v) \<in> set fl' \<Longrightarrow> (k', v') \<in> set fl' \<Longrightarrow> k < k' \<Longrightarrow> k + v < k'"
    and pos: "0 < v"
    using assms(1,2,4) regionsD(2,4) by (auto simp: arena_def)
  have uniq: "\<And>k v v'. (k, v) \<in> set fl \<Longrightarrow> (k, v') \<in> set fl \<Longrightarrow> v = v'"
    using assms(1) om_key_unique by (auto simp: arena_def)
  obtain a w where a: "(a, w) \<in> set fl'" "a \<le> k" "k < a + w"
    using free_setE [of k fl'] free_setI [OF assms(4), of k] assms(3) pos by auto
  have "a = k"
  proof (rule ccontr)
    assume "a \<noteq> k"
    then have "k - 1 \<in> free_set fl" using free_setI [OF a(1), of "k - 1"] a(2,3) assms(3) by auto
    then obtain c u where c: "(c, u) \<in> set fl" "c \<le> k - 1" "k - 1 < c + u" by (rule free_setE)
    then have "c < k" using \<open>a \<noteq> k\<close> a(2) by linarith
    then have "c + u < k" by (rule D [OF c(1) assms(4)])
    then show False using c(3) by linarith
  qed
  moreover have "w = v"
  proof (rule ccontr)
    assume "w \<noteq> v"
    show False
    proof (cases "v < w")
      case True
      then have "k + v \<in> free_set fl" using free_setI [OF a(1), of "k + v"] \<open>a = k\<close> assms(3) by auto
      then obtain c u where c: "(c, u) \<in> set fl" "c \<le> k + v" "k + v < c + u" by (rule free_setE)
      then show False
        using D [OF c(1) assms(4)] D [OF assms(4) c(1)] uniq [OF assms(4)] by (cases c k rule: linorder_cases) auto
    next
      case False
      then have "k + w \<in> free_set fl'" using free_setI [OF assms(4), of "k + w"] \<open>w \<noteq> v\<close> assms(3) by auto
      then obtain c u where c: "(c, u) \<in> set fl'" "c \<le> k + w" "k + w < c + u" by (rule free_setE)
      moreover have "\<And>k v v'. (k, v) \<in> set fl' \<Longrightarrow> (k, v') \<in> set fl' \<Longrightarrow> v = v'"
        using assms(2) om_key_unique by (auto simp: arena_def)
      ultimately show False
        using D' [OF c(1) a(1)] D' [OF a(1) c(1)] \<open>a = k\<close> a(1) by (cases c k rule: linorder_cases) fastforce+
    qed
  qed
  ultimately show ?thesis using a(1) by simp
qed

lemma om_set_unique:
  assumes "om_ok m" "om_ok m'" "set m = set m'"
  shows "m = m'"
proof -
  have "keys m = keys m'"
    using assms by (intro strict_sorted_equal) (auto simp: om_ok_def)
  moreover have "distinct (keys m)" using assms(1) by (simp add: om_ok_def strict_sorted_iff)
  ultimately show ?thesis using assms(3) by (metis distinct_map inj_on_map_eq_map map_eq_conv nth_equalityI zip_map_fst_snd Un_absorb)
qed

lemma arena_unique:
  assumes "arena base fl" "arena base fl'" "free_set fl = free_set fl'"
  shows "fl = fl'"
proof (rule om_set_unique)
  show "set fl = set fl'"
    using region_maximal [OF assms] region_maximal [OF assms(2,1) assms(3) [symmetric]] by auto
qed (use assms(1,2) in \<open>simp_all add: arena_def\<close>)

section \<open>Overlaps\<close>

lemma takeWhile_filter: "sorted_wrt (\<lambda>x y. P y \<longrightarrow> P x) xs \<Longrightarrow> takeWhile P xs = filter P xs"
  by (induction xs) (auto simp: filter_empty_conv)

definition touches :: "nat \<Rightarrow> nat \<Rightarrow> nat \<times> Block \<Rightarrow> bool" where
  "touches offset len e \<longleftrightarrow> fst e \<le> offset + len \<and> offset \<le> fst e + bsize (snd e)"

text \<open>The blocks of a file: ordered, not empty, and apart.\<close>

definition blocks_apart :: "nat \<Rightarrow> DataList \<Rightarrow> bool" where
  "blocks_apart N data \<longleftrightarrow> om_ok data \<and> N < 2 ^ 64 \<and> (\<forall>(k, b) \<in> set data. 0 < bsize b \<and> k + bsize b \<le> N)
     \<and> (\<forall>(k, b) \<in> set data. \<forall>(k', b') \<in> set data. k < k' \<longrightarrow> k + bsize b \<le> k')"

lemma blocks_apartD:
  assumes "blocks_apart N data" "(k, b) \<in> set data"
  shows "0 < bsize b" "k + bsize b \<le> N" "k + bsize b < 2 ^ 64" "(k', b') \<in> set data \<Longrightarrow> k < k' \<Longrightarrow> k + bsize b \<le> k'"
  using assms by (fastforce simp: blocks_apart_def)+

lemma blocks_apartI:
  assumes "om_ok data" "N < 2 ^ 64" "\<And>k b. (k, b) \<in> set data \<Longrightarrow> 0 < bsize b \<and> k + bsize b \<le> N"
    and "\<And>k b k' b'. (k, b) \<in> set data \<Longrightarrow> (k', b') \<in> set data \<Longrightarrow> k < k' \<Longrightarrow> k + bsize b \<le> k'"
  shows "blocks_apart N data"
  unfolding blocks_apart_def using assms by blast

lemma find_overlaps_touch:
  assumes "blocks_apart N data" "offset + len \<le> N"
  shows "find_overlaps data offset len = filter (touches offset len) data"
proof -
  let ?P = "\<lambda>(k, b). offset \<le> usize_add k (bsize b)"
  let ?D = "filter (\<lambda>(k, b). k \<le> usize_add offset len) data"
  have small: "usize_add k (bsize b) = k + bsize b" if "(k, b) \<in> set data" for k b
    using blocks_apartD(3) [OF assms(1) that] by (simp add: usize_add_small)
  have off: "usize_add offset len = offset + len"
    using assms by (simp add: usize_add_small blocks_apart_def)
  have "sorted_wrt (\<lambda>x y. fst x < fst y) data"
    using assms(1) by (simp add: blocks_apart_def om_ok_def sorted_wrt_map)
  then have "sorted_wrt (\<lambda>x y. ?P x \<longrightarrow> ?P y) data"
  proof (rule sorted_wrt_mono_rel [rotated])
    show "?P x \<longrightarrow> ?P y" if "x \<in> set data" "y \<in> set data" "fst x < fst y" for x y
      using that blocks_apartD(4) [OF assms(1), of "fst x" "snd x" "fst y" "snd y"] small [of "fst x" "snd x"] small [of "fst y" "snd y"]
      by (auto simp: case_prod_unfold)
  qed
  then have "sorted_wrt (\<lambda>x y. ?P y \<longrightarrow> ?P x) (rev ?D)"
    by (simp add: sorted_wrt_rev sorted_wrt_filter)
  then have "find_overlaps data offset len = filter ?P ?D"
    unfolding find_overlaps_def by (simp add: takeWhile_filter rev_filter)
  also have "\<dots> = filter (touches offset len) data"
    unfolding filter_filter by (rule filter_cong) (auto simp: touches_def off small)
  finally show ?thesis .
qed

section \<open>Moving a range\<close>

lemma move_from_copy:
  assumes "no_fault f" "from + sz \<le> flen f" "from + sz \<le> to \<or> to + sz \<le> from" "from + sz < 2 ^ 64" "to + sz < 2 ^ 64" "offset \<le> sz"
  shows "\<exists>f'. move_from f from to sz offset = Inr f' \<and> no_fault f' \<and> flen f \<le> flen f' \<and> (offset < sz \<longrightarrow> to + sz \<le> flen f')
    \<and> (\<forall>x. fbyte f' x = (if to + offset \<le> x \<and> x < to + sz then fbyte f (from + (x - to)) else fbyte f x))"
  using assms
proof (induction "sz - offset" arbitrary: f offset rule: less_induct)
  case less
  show ?case
  proof (cases "offset < sz")
    case False
    then show ?thesis using less.prems by (subst move_from.simps) auto
  next
    case True
    define len where "len = min (sz - offset) BUF_SIZE"
    have len: "0 < len" "offset + len \<le> sz" using True by (auto simp: len_def BUF_SIZE_def)
    have add: "usize_add from offset = from + offset" "usize_add to offset = to + offset"
      using less.prems(4,5) True by (simp_all add: usize_add_small)
    define b where "b = map (fbyte f) [from + offset..<from + offset + len]"
    have b: "read_exact_at f (from + offset) len = Inr b" "length b = len" "b \<noteq> []"
      using bf.rd_in [OF less.prems(1), of "from + offset" len] less.prems(2) len by (auto simp: b_def)
    let ?f = "fput f (to + offset) b"
    have f1: "no_fault ?f" "flen ?f = max (flen f) (to + offset + len)"
      "fbyte ?f x = (if to + offset \<le> x \<and> x < to + offset + len then fbyte f (from + (x - to)) else fbyte f x)" for x
      using less.prems(1) b by (auto simp: bf.good_put bf.len_put bf.byte_put b_def)
    have step: "move_from f from to sz offset = move_from ?f from to sz (offset + BUF_SIZE)"
      using True add b(1) bf.wr_put [OF less.prems(1)] by (subst move_from.simps) (simp add: len_def [symmetric])
    show ?thesis
    proof (cases "offset + BUF_SIZE \<le> sz")
      case True
      then have lenB: "len = BUF_SIZE" by (simp add: len_def)
      have "\<exists>f'. move_from ?f from to sz (offset + BUF_SIZE) = Inr f' \<and> no_fault f' \<and> flen ?f \<le> flen f'
          \<and> (offset + BUF_SIZE < sz \<longrightarrow> to + sz \<le> flen f')
          \<and> (\<forall>x. fbyte f' x = (if to + (offset + BUF_SIZE) \<le> x \<and> x < to + sz then fbyte ?f (from + (x - to)) else fbyte ?f x))"
        using True less.prems f1 \<open>offset < sz\<close> by (intro less.hyps) (auto simp: BUF_SIZE_def)
      then obtain f' where f': "move_from ?f from to sz (offset + BUF_SIZE) = Inr f'" "no_fault f'" "flen ?f \<le> flen f'"
          "offset + BUF_SIZE < sz \<longrightarrow> to + sz \<le> flen f'"
          "\<And>x. fbyte f' x = (if to + (offset + BUF_SIZE) \<le> x \<and> x < to + sz then fbyte ?f (from + (x - to)) else fbyte ?f x)" by blast
      have "to + sz \<le> flen f'" using f'(3,4) f1(2) True lenB by (cases "offset + BUF_SIZE = sz") auto
      moreover have "fbyte f' x = (if to + offset \<le> x \<and> x < to + sz then fbyte f (from + (x - to)) else fbyte f x)" for x
        unfolding f'(5) f1(3) lenB using less.prems(3) True by auto
      ultimately show ?thesis using step f' f1(2) by auto
    next
      case False
      then have lenS: "offset + len = sz" using \<open>offset < sz\<close> by (simp add: len_def)
      have "move_from ?f from to sz (offset + BUF_SIZE) = Inr ?f"
        using False by (subst move_from.simps) simp
      moreover have "fbyte ?f x = (if to + offset \<le> x \<and> x < to + sz then fbyte f (from + (x - to)) else fbyte f x)" for x
        unfolding f1(3) using lenS by auto
      ultimately show ?thesis using step f1(1,2) lenS by auto
    qed
  qed
qed

section \<open>Dropping blocks\<close>

definition spans :: "(nat \<times> Block) set \<Rightarrow> nat set" where
  "spans S = (\<Union>e \<in> S. span (snd e))"

lemma spans_simps [simp]: "spans {} = {}" "spans (insert e S) = span (snd e) \<union> spans S"
  by (auto simp: spans_def)

lemma drop_overlaps_ok:
  assumes "arena base fl" "om_ok data" "distinct ov" "set ov \<subseteq> set data" "spans (set ov) \<inter> free_set fl = {}"
    and "\<forall>e \<in> set ov. in_arena base (snd e)" "\<forall>e \<in> set ov. \<forall>e' \<in> set ov. e \<noteq> e' \<longrightarrow> span (snd e) \<inter> span (snd e') = {}"
  shows "\<exists>fl' data'. drop_overlaps fl data ov = Inr (fl', data') \<and> arena base fl' \<and> free_set fl' = free_set fl \<union> spans (set ov)
    \<and> om_ok data' \<and> set data' = set data - set ov"
  using assms
proof (induction ov arbitrary: fl data)
  case (Cons e ov)
  obtain k b where e: "e = (k, b)" by (cases e)
  have mem: "(k, b) \<in> set data" using Cons.prems(4) e by simp
  then have get: "om_get data k = Some b" using om_get_iff [OF Cons.prems(2)] by simp
  have de: "arena base (deallocate fl b)" "free_set (deallocate fl b) = free_set fl \<union> span b"
    using deallocate_arena [OF Cons.prems(1), of b] Cons.prems(5,6) e by auto
  have rem: "set (om_remove k data) = set data - {(k, b)}"
    using om_remove_entries [of k data] om_key_unique [OF Cons.prems(2)] mem by auto
  have "spans (set ov) \<inter> free_set (deallocate fl b) = {}"
    using Cons.prems(3,5,7) e unfolding de(2) by (fastforce simp: spans_def)
  moreover have "set ov \<subseteq> set (om_remove k data)"
    unfolding rem using Cons.prems(3,4) e by auto
  ultimately obtain fl' data' where "drop_overlaps (deallocate fl b) (om_remove k data) ov = Inr (fl', data')" "arena base fl'"
    "free_set fl' = free_set (deallocate fl b) \<union> spans (set ov)" "om_ok data'" "set data' = set (om_remove k data) - set ov"
    using Cons.IH [OF de(1) om_remove_ok [OF Cons.prems(2)], of k] Cons.prems(3,6,7) by auto
  then show ?case using get e de(2) rem by auto
qed simp

section \<open>Contents\<close>

text \<open>The byte that the blocks hold at an offset of the file, if any.\<close>

definition content :: "bfile \<Rightarrow> DataList \<Rightarrow> nat \<Rightarrow> u8 option" where
  "content f data i = map_option (\<lambda>(k, b). fbyte f (location b + (i - k))) (List.find (\<lambda>(k, b). k \<le> i \<and> i < k + bsize b) data)"

definition overlay :: "nat \<Rightarrow> bytes \<Rightarrow> (nat \<Rightarrow> u8 option) \<Rightarrow> nat \<Rightarrow> u8 option" where
  "overlay offset buff g i = (if offset \<le> i \<and> i < offset + length buff then Some (buff ! (i - offset)) else g i)"

text \<open>
  The invariant: the free list is in order; the blocks are apart in the file and in the data
  file, are written, and take up no free position and none of the positions \<open>X\<close> of others.
\<close>

definition blocks_ok :: "nat \<Rightarrow> nat \<Rightarrow> nat set \<Rightarrow> wstate \<Rightarrow> bool" where
  "blocks_ok base N X w \<longleftrightarrow> (case w of (fl, f, data) \<Rightarrow>
     arena base fl \<and> no_fault f \<and> blocks_apart N data \<and> X \<inter> free_set fl = {}
     \<and> (\<forall>e \<in> set data. in_arena base (snd e) \<and> span (snd e) \<subseteq> {..<flen f} \<and> span (snd e) \<inter> free_set fl = {} \<and> span (snd e) \<inter> X = {})
     \<and> (\<forall>e \<in> set data. \<forall>e' \<in> set data. e \<noteq> e' \<longrightarrow> span (snd e) \<inter> span (snd e') = {}))"

lemma blocks_okD:
  assumes "blocks_ok base N X (fl, f, data)"
  shows "arena base fl" "no_fault f" "blocks_apart N data" "X \<inter> free_set fl = {}" "om_ok data" "N < 2 ^ 64"
    "e \<in> set data \<Longrightarrow> in_arena base (snd e)" "e \<in> set data \<Longrightarrow> span (snd e) \<subseteq> {..<flen f}"
    "e \<in> set data \<Longrightarrow> span (snd e) \<inter> free_set fl = {}" "e \<in> set data \<Longrightarrow> span (snd e) \<inter> X = {}"
    "e \<in> set data \<Longrightarrow> e' \<in> set data \<Longrightarrow> e \<noteq> e' \<Longrightarrow> span (snd e) \<inter> span (snd e') = {}"
  using assms by (auto simp: blocks_ok_def blocks_apart_def)

definition at :: "nat \<Rightarrow> nat \<times> Block \<Rightarrow> bool" where
  "at i e \<longleftrightarrow> fst e \<le> i \<and> i < fst e + bsize (snd e)"

definition byte_at :: "bfile \<Rightarrow> nat \<Rightarrow> nat \<times> Block \<Rightarrow> u8" where
  "byte_at f i e = fbyte f (location (snd e) + (i - fst e))"

lemma at_unique:
  assumes "blocks_apart N data" "e \<in> set data" "e' \<in> set data" "at i e" "at i e'"
  shows "e = e'"
proof -
  have "fst e = fst e'"
  proof (rule ccontr)
    assume "fst e \<noteq> fst e'"
    then show False
      using blocks_apartD(4) [OF assms(1), of "fst e" "snd e" "fst e'" "snd e'"]
        blocks_apartD(4) [OF assms(1), of "fst e'" "snd e'" "fst e" "snd e"] assms(2-5)
      by (cases "fst e < fst e'") (auto simp: at_def)
  qed
  then show ?thesis
    using om_key_unique [of data "fst e" "snd e" "snd e'"] assms(1-3) by (cases e; cases e') (auto simp: blocks_apart_def)
qed

lemma content_at:
  assumes "blocks_apart N data" "e \<in> set data" "at i e"
  shows "content f data i = Some (byte_at f i e)"
proof -
  obtain e' where e': "List.find (\<lambda>(k, b). k \<le> i \<and> i < k + bsize b) data = Some e'"
  proof (cases "List.find (\<lambda>(k, b). k \<le> i \<and> i < k + bsize b) data")
    case None
    then show thesis using assms(2,3) unfolding find_None_iff by (auto simp: at_def case_prod_unfold)
  qed (use that in blast)
  then have "e' \<in> set data" "at i e'" by (auto simp: find_Some_iff at_def case_prod_unfold)
  then have "e' = e" using at_unique [OF assms(1)] assms(2,3) by blast
  then show ?thesis using e' by (simp add: content_def byte_at_def case_prod_unfold)
qed

lemma content_None: "(\<And>e. e \<in> set data \<Longrightarrow> \<not> at i e) \<Longrightarrow> content f data i = None"
  by (auto simp: content_def find_None_iff at_def)

lemma byte_in_span: "at i e \<Longrightarrow> location (snd e) + (i - fst e) \<in> span (snd e)"
  by (auto simp: at_def span_def)

section \<open>The used part of the data file\<close>

text \<open>All positions from \<open>T\<close> on, seen from the base, are free.\<close>

definition frontier :: "nat \<Rightarrow> nat \<Rightarrow> free_map \<Rightarrow> bool" where
  "frontier base T fl \<longleftrightarrow> {base + T..<base + USIZE_MAX} \<subseteq> free_set fl"

lemma frontier_mono: "frontier base T fl \<Longrightarrow> T \<le> T' \<Longrightarrow> free_set fl \<subseteq> free_set fl' \<Longrightarrow> frontier base T' fl'"
  by (fastforce simp: frontier_def)

text \<open>The last region reaches from below the frontier to the end of the arena, and no region starts behind it.\<close>

lemma frontier_region:
  assumes ar: "arena base fl" and fr: "frontier base T fl" and T: "T < USIZE_MAX"
  obtains a w where "(a, w) \<in> set fl" "a \<le> base + T" "a + w = base + USIZE_MAX" "\<And>k v. (k, v) \<in> set fl \<Longrightarrow> k \<le> a"
proof -
  have om: "om_ok fl" and rg: "regions base (set fl)" using ar by (auto simp: arena_def)
  note D = regionsD [OF rg]
  obtain a w where a: "(a, w) \<in> set fl" "a \<le> base + T" "base + T < a + w"
    using fr T by (auto simp: frontier_def subset_iff elim!: free_setE)
  have top: "a + w = base + USIZE_MAX"
  proof (rule ccontr)
    assume "a + w \<noteq> base + USIZE_MAX"
    then have "a + w \<in> free_set fl" using fr D(3) [OF a(1)] a(3) by (auto simp: frontier_def)
    then obtain c u where c: "(c, u) \<in> set fl" "c \<le> a + w" "a + w < c + u" by (rule free_setE)
    then show False
      using D(4) [OF a(1) c(1)] D(4) [OF c(1) a(1)] om_key_unique [OF om a(1)] by (cases a c rule: linorder_cases) auto
  qed
  have "k \<le> a" if "(k, v) \<in> set fl" for k v
    using D(4) [OF a(1) that] D(2,3) [OF that] top by (cases "a < k") auto
  then show thesis using that a(1,2) top by blast
qed

lemma frontier_alloc:
  assumes ar: "arena base fl" and fr: "frontier base T fl" and b: "(location b, v) \<in> set fl" "bsize b \<le> N"
    and fl': "free_set fl' = free_set fl - span b"
  shows "frontier base (T + N) fl'"
proof (cases "T < USIZE_MAX")
  case True
  obtain a w where "a \<le> base + T" "\<And>k v. (k, v) \<in> set fl \<Longrightarrow> k \<le> a" by (rule frontier_region [OF ar fr True]) blast
  then have "location b \<le> base + T" using b(1) order_trans by blast
  then show ?thesis using fr b(2) unfolding frontier_def fl' by (auto simp: span_def)
qed (auto simp: frontier_def)

section \<open>Replacing blocks\<close>

text \<open>What a write has to achieve: the invariant is kept, the bytes of the file are overlaid, those of
  others are the same, and the used part of the data file grows by at most \<open>N\<close>.\<close>

definition written :: "nat \<Rightarrow> nat \<Rightarrow> nat set \<Rightarrow> wstate \<Rightarrow> nat \<Rightarrow> bytes \<Rightarrow> wstate \<Rightarrow> bool" where
  "written base N X w offset buff w' \<longleftrightarrow> (case w of (fl, f, data) \<Rightarrow> case w' of (fl', f', data') \<Rightarrow>
     blocks_ok base N X w' \<and> content f' data' = overlay offset buff (content f data) \<and> (\<forall>x \<in> X. fbyte f' x = fbyte f x) \<and> flen f \<le> flen f'
     \<and> (\<forall>T. frontier base T fl \<longrightarrow> frontier base (T + N) fl'))"

text \<open>
  All strategies have this shape: some blocks (perhaps none) give way to one that holds the new
  bytes and, outside of the write, what the replaced blocks held.
\<close>

lemma replace_block:
  assumes inv: "blocks_ok base N X (fl, f, data)" and ov: "ov \<subseteq> set data"
    and nb: "in_arena base nb" "span nb \<subseteq> {..<flen f'}" "lo + bsize nb \<le> N" "span nb \<inter> X = {}"
      "\<And>e. e \<in> set data - ov \<Longrightarrow> span nb \<inter> span (snd e) = {}"
    and data': "om_ok data'" "set data' = insert (lo, nb) (set data - ov)"
    and log: "\<And>e. e \<in> set data - ov \<Longrightarrow> fst e + bsize (snd e) \<le> lo \<or> lo + bsize nb \<le> fst e"
    and free: "arena base fl'" "free_set fl' \<inter> span nb = {}" "free_set fl' \<subseteq> free_set fl \<union> spans ov"
    and far: "\<And>T. frontier base T fl \<Longrightarrow> frontier base (T + N) fl'"
    and f': "no_fault f'" "flen f \<le> flen f'" "\<And>x. x \<notin> span nb \<Longrightarrow> fbyte f' x = fbyte f x"
    and cov: "lo \<le> offset" "offset + length buff \<le> lo + bsize nb"
    and ovcov: "\<And>e. e \<in> ov \<Longrightarrow> lo \<le> fst e \<and> fst e + bsize (snd e) \<le> lo + bsize nb"
    and new: "\<And>i. offset \<le> i \<Longrightarrow> i < offset + length buff \<Longrightarrow> fbyte f' (location nb + (i - lo)) = buff ! (i - offset)"
    and old: "\<And>i. lo \<le> i \<Longrightarrow> i < lo + bsize nb \<Longrightarrow> \<not> (offset \<le> i \<and> i < offset + length buff) \<Longrightarrow>
      \<exists>e \<in> ov. at i e \<and> fbyte f' (location nb + (i - lo)) = byte_at f i e"
  shows "written base N X (fl, f, data) offset buff (fl', f', data')"
proof -
  note I = blocks_okD [OF inv]
  have nbpos: "0 < bsize nb" using nb(1) by (simp add: in_arena_def)
  have apart: "blocks_apart N data'"
  proof (rule blocks_apartI)
    show "0 < bsize b \<and> k + bsize b \<le> N" if "(k, b) \<in> set data'" for k b
      using that data'(2) blocks_apartD(1,2) [OF I(3)] nb(3) nbpos by auto
    show "k + bsize b \<le> k'" if "(k, b) \<in> set data'" "(k', b') \<in> set data'" "k < k'" for k b k' b'
      using that log [of "(k, b)"] log [of "(k', b')"] blocks_apartD(4) [OF I(3), of k b k' b'] nbpos
      unfolding data'(2) by auto
  qed (use data'(1) I(6) in auto)
  have ovX: "spans ov \<inter> X = {}" using ov I(10) by (fastforce simp: spans_def)
  have ovd: "spans ov \<inter> span (snd e) = {}" if "e \<in> set data - ov" for e
    using ov I(11) that by (fastforce simp: spans_def)
  have "blocks_ok base N X (fl', f', data')"
    unfolding blocks_ok_def prod.case
  proof (intro conjI ballI impI)
    show "X \<inter> free_set fl' = {}" using free(3) ovX I(4) by blast
    fix e assume "e \<in> set data'"
    then consider (new) "e = (lo, nb)" | (kept) "e \<in> set data - ov" unfolding data'(2) by blast
    note e = this
    show "in_arena base (snd e)" by (cases rule: e) (use nb(1) I(7) in auto)
    show "span (snd e) \<subseteq> {..<flen f'}"
    proof (cases rule: e)
      case kept
      then have "span (snd e) \<subseteq> {..<flen f}" using I(8) by blast
      also have "\<dots> \<subseteq> {..<flen f'}" using f'(2) by auto
      finally show ?thesis .
    qed (use nb(2) in simp)
    show "span (snd e) \<inter> X = {}" by (cases rule: e) (use nb(4) I(10) in auto)
    show "span (snd e) \<inter> free_set fl' = {}"
    proof (cases rule: e)
      case kept
      then have "span (snd e) \<inter> free_set fl = {}" "span (snd e) \<inter> spans ov = {}" using I(9) ovd by blast+
      then show ?thesis using free(3) by blast
    qed (use free(2) in auto)
    fix e' assume "e' \<in> set data'" "e \<noteq> e'"
    then consider (new') "e' = (lo, nb)" | (kept') "e' \<in> set data - ov" unfolding data'(2) by blast
    then show "span (snd e) \<inter> span (snd e') = {}"
    proof cases
      case new'
      then show ?thesis using \<open>e \<noteq> e'\<close> nb(5) [of e] by (cases rule: e) auto
    next
      case kept'
      then show ?thesis using \<open>e \<noteq> e'\<close> nb(5) [of e'] I(11) [of e e'] by (cases rule: e) auto
    qed
  qed (use free(1) f'(1) apart in auto)
  moreover have "content f' data' i = overlay offset buff (content f data) i" for i
  proof (cases "at i (lo, nb)")
    case True
    then have c: "content f' data' i = Some (fbyte f' (location nb + (i - lo)))"
      using content_at [OF apart, of "(lo, nb)" i f'] data'(2) by (simp add: byte_at_def)
    show ?thesis
    proof (cases "offset \<le> i \<and> i < offset + length buff")
      case True
      then show ?thesis using c new by (simp add: overlay_def)
    next
      case False
      then obtain e where "e \<in> ov" "at i e" "fbyte f' (location nb + (i - lo)) = byte_at f i e"
        using old [of i] \<open>at i (lo, nb)\<close> by (auto simp: at_def)
      then show ?thesis using False c content_at [OF I(3), of e i f] ov by (auto simp: overlay_def)
    qed
  next
    case False
    then have o: "overlay offset buff (content f data) i = content f data i"
      using cov by (auto simp: overlay_def at_def)
    show ?thesis
    proof (cases "\<exists>e \<in> set data. at i e")
      case True
      then obtain e where e: "e \<in> set data" "at i e" by blast
      then have rest: "e \<in> set data - ov" using False ovcov [of e] by (auto simp: at_def)
      then have "byte_at f' i e = byte_at f i e"
        unfolding byte_at_def using byte_in_span [OF e(2)] nb(5) [OF rest] f'(3) by blast
      moreover have "content f' data' i = Some (byte_at f' i e)"
        using content_at [OF apart _ e(2)] rest data'(2) by blast
      ultimately show ?thesis using o content_at [OF I(3) e] by simp
    next
      case False': False
      then have "content f data i = None" "content f' data' i = None"
        using False data'(2) by (auto intro!: content_None)
      then show ?thesis using o by simp
    qed
  qed
  moreover have "\<forall>x \<in> X. fbyte f' x = fbyte f x" using nb(4) f'(3) by blast
  ultimately show ?thesis unfolding written_def using f'(2) far by auto
qed

end
