(* ===== verification/SnapshotEncode.thy ===== *)
theory SnapshotEncode
  imports SnapshotWrite SnapshotLaws
begin

text \<open>
  \<open>encode_write\<close> refines the overlay of bytes: each of its strategies (overwriting inside a block,
  growing a block, a new block, and the joining of blocks) replaces some blocks by one.
\<close>

section \<open>Space\<close>

text \<open>Some region takes \<open>N\<close> bytes, and allocations of up to \<open>N\<close> bytes do not reach the end of the address space.\<close>

definition spacious :: "nat \<Rightarrow> free_map \<Rightarrow> bool" where
  "spacious N fl \<longleftrightarrow> (\<exists>(k, v) \<in> set fl. N \<le> v) \<and> alloc_room fl N"

lemma spacious_mono:
  assumes "spacious N fl" "n \<le> N"
  shows "spacious n fl"
proof -
  have "k + n < 2 ^ 64" if "(k, v) \<in> set fl" for k v
    using that assms by (fastforce simp: spacious_def alloc_room_def)
  moreover obtain k v where "(k, v) \<in> set fl" "N \<le> v" using assms(1) by (auto simp: spacious_def)
  ultimately show ?thesis
    unfolding spacious_def alloc_room_def using assms(2) by (auto intro!: bexI [of _ "(k, v)"])
qed

lemma span_below:
  assumes "0 < bsize b"
  shows "span b \<subseteq> {..<n} \<longleftrightarrow> location b + bsize b \<le> n"
proof
  assume "span b \<subseteq> {..<n}"
  moreover have "location b + bsize b - 1 \<in> span b" using assms by (auto simp: span_def)
  ultimately show "location b + bsize b \<le> n" by auto
qed (auto simp: span_def)

lemma allocate_spacious:
  assumes "arena base fl" "spacious N fl" "0 < n" "n \<le> N"
  obtains b fl' where "allocate fl n hint = Inr (b, fl')" "arena base fl'" "in_arena base b" "bsize b = n"
    "span b \<subseteq> free_set fl" "free_set fl' = free_set fl - span b" "\<And>T. frontier base T fl \<Longrightarrow> frontier base (T + N) fl'"
proof -
  have sp: "spacious n fl" using spacious_mono assms(2,4) by blast
  then have "List.find (\<lambda>(k, v). n \<le> v) fl \<noteq> None"
    unfolding find_None_iff by (auto simp: spacious_def)
  then obtain r where "allocate fl n hint = Inr r"
    by (cases "free_at fl n hint") (auto simp: allocate_def Let_def case_prod_unfold)
  moreover obtain b fl' where "r = (b, fl')" by (cases r)
  ultimately have al: "allocate fl n hint = Inr (b, fl')" by simp
  from allocate_arena [OF assms(1) _ assms(3) al] sp
  have A: "arena base fl'" "in_arena base b" "bsize b = n" "span b \<subseteq> free_set fl" "free_set fl' = free_set fl - span b"
    by (auto simp: spacious_def)
  have "om_ok fl" using assms(1) by (simp add: arena_def)
  then obtain v where "(location b, v) \<in> set fl" by (rule allocate_cases [OF _ al]) auto
  then have "frontier base (T + N) fl'" if "frontier base T fl" for T
    using frontier_alloc [OF assms(1) that _ _ A(5)] A(3) assms(4) by simp
  then show thesis using that al A by blast
qed

section \<open>Overwriting inside a block\<close>

lemma fits_written:
  assumes inv: "blocks_ok base N X (fl, f, data)" and e: "(k, b) \<in> set data"
    and fit: "k \<le> offset" "offset + length buff \<le> k + bsize b" and buff: "buff \<noteq> []"
  shows "written base N X (fl, f, data) offset buff (fl, fput f (location b + (offset - k)) buff, data)"
proof -
  note I = blocks_okD [OF inv]
  let ?off = "location b + (offset - k)"
  let ?f = "fput f ?off buff"
  have inside: "{?off..<?off + length buff} \<subseteq> span b" using fit by (auto simp: span_def)
  have wr: "?off + length buff \<le> flen f"
    using I(8) [OF e] span_below [OF blocks_apartD(1) [OF I(3) e]] fit by simp
  have len: "flen ?f = flen f" using wr buff by (simp add: bf.len_put)
  have set: "set data = insert (k, b) (set data - {(k, b)})" using e by blast
  have apart: "fst e' + bsize (snd e') \<le> k \<or> k + bsize b \<le> fst e'" if "e' \<in> set data - {(k, b)}" for e'
    using that e blocks_apartD(4) [OF I(3) e, of "fst e'" "snd e'"] blocks_apartD(4) [OF I(3), of "fst e'" "snd e'" k b]
      om_key_unique [OF I(5) e, of "snd e'"] by (cases "fst e'" k rule: linorder_cases) auto
  show ?thesis
  proof (rule replace_block [OF inv, where ov = "{(k, b)}" and nb = b and lo = k])
    show "om_ok data" "set data = insert (k, b) (set data - {(k, b)})" using I(5) set by auto
    show "fbyte ?f x = fbyte f x" if "x \<notin> span b" for x using that inside by (auto simp: bf.byte_put)
    show "fbyte ?f (location b + (i - k)) = buff ! (i - offset)" if "offset \<le> i" "i < offset + length buff" for i
      unfolding bf.byte_put using that fit by auto
    show "\<exists>e \<in> {(k, b)}. at i e \<and> fbyte ?f (location b + (i - k)) = byte_at f i e"
      if "k \<le> i" "i < k + bsize b" "\<not> (offset \<le> i \<and> i < offset + length buff)" for i
      using that fit by (auto simp: at_def byte_at_def bf.byte_put)
    show "span b \<inter> span (snd e') = {}" if "e' \<in> set data - {(k, b)}" for e'
      using that I(11) [OF e, of e'] by auto
  qed (use e fit apart len I(1,2) I(7-10) [OF e] blocks_apartD(2) [OF I(3) e] in \<open>auto simp: bf.good_put intro: frontier_mono\<close>)
qed

section \<open>Growing a block\<close>

text \<open>The other blocks of a file, seen from one of them.\<close>

lemma others_apart:
  assumes "blocks_apart N data" "(k, b) \<in> set data" "e \<in> set data" "e \<noteq> (k, b)"
  shows "fst e + bsize (snd e) \<le> k \<or> k + bsize b \<le> fst e"
  using assms blocks_apartD(4) [OF assms(1,2), of "fst e" "snd e"] blocks_apartD(4) [OF assms(1), of "fst e" "snd e" k b]
    om_key_unique [of data k b "snd e"] by (cases "fst e" k rule: linorder_cases) (auto simp: blocks_apart_def)

lemma om_insert_replace:
  assumes "om_ok m" "(k, b) \<in> set m"
  shows "set (om_insert k v m) = insert (k, v) (set m - {(k, b)})"
proof -
  have "{p \<in> set m. fst p \<noteq> k} = set m - {(k, b)}"
    using om_entries_split [OF assms] by auto
  then show ?thesis using om_insert_entries [OF assms(1)] by simp
qed

lemma grow_written:
  assumes inv: "blocks_ok base N X (fl, f, data)" and e: "(k, b) \<in> set data"
    and pos: "k \<le> offset" "offset \<le> k + bsize b" "k + bsize b < offset + length buff" "offset + length buff \<le> N"
    and others: "\<And>e. e \<in> set data \<Longrightarrow> e \<noteq> (k, b) \<Longrightarrow> \<not> touches offset (length buff) e"
    and fl': "arena base fl'" "in_arena base blk" "location blk = location b + bsize b"
      "bsize blk = offset + length buff - (k + bsize b)" "span blk \<subseteq> free_set fl" "free_set fl' = free_set fl - span blk"
    and far: "\<And>T. frontier base T fl \<Longrightarrow> frontier base (T + N) fl'"
  shows "written base N X (fl, f, data) offset buff
    (fl', fput f (location b + (offset - k)) buff, om_insert k (b\<lparr>bsize := bsize b + bsize blk\<rparr>) data)"
proof -
  note I = blocks_okD [OF inv]
  let ?nb = "b\<lparr>bsize := bsize b + bsize blk\<rparr>" and ?off = "location b + (offset - k)"
  let ?f = "fput f ?off buff"
  have nb: "span ?nb = span b \<union> span blk" using fl'(3) by (auto simp: span_def)
  have end_nb: "?off + length buff = location b + bsize ?nb" using pos(1,2,3) fl'(4) by simp
  have buff: "buff \<noteq> []" using pos by auto
  have len: "location b + bsize ?nb \<le> flen ?f" using end_nb buff by (simp add: bf.len_put)
  have ina: "in_arena base ?nb" using I(7) [OF e] fl'(2,3) by (simp add: in_arena_def)
  have rest: "span ?nb \<inter> span (snd e') = {}" if "e' \<in> set data - {(k, b)}" for e'
    using that I(11) [OF e, of e'] I(9) [of e'] fl'(5) unfolding nb by auto
  have apart: "fst e' + bsize (snd e') \<le> k \<or> k + bsize ?nb \<le> fst e'" if "e' \<in> set data - {(k, b)}" for e'
    using others_apart [OF I(3) e, of e'] others [of e'] that pos fl'(4) by (auto simp: touches_def)
  show ?thesis
  proof (rule replace_block [OF inv, where ov = "{(k, b)}" and nb = ?nb and lo = k])
    show "set (om_insert k ?nb data) = insert (k, ?nb) (set data - {(k, b)})"
      by (rule om_insert_replace [OF I(5) e])
    show "fbyte ?f x = fbyte f x" if "x \<notin> span ?nb" for x
      using that end_nb pos(1) unfolding bf.byte_put by (auto simp: span_def)
    show "fbyte ?f (location ?nb + (i - k)) = buff ! (i - offset)" if "offset \<le> i" "i < offset + length buff" for i
      unfolding bf.byte_put using that pos by auto
    show "\<exists>e \<in> {(k, b)}. at i e \<and> fbyte ?f (location ?nb + (i - k)) = byte_at f i e"
      if "k \<le> i" "i < k + bsize ?nb" "\<not> (offset \<le> i \<and> i < offset + length buff)" for i
      using that pos fl'(4) by (auto simp: at_def byte_at_def bf.byte_put)
    show "span ?nb \<subseteq> {..<flen ?f}" using len by (auto simp: span_def)
    show "span ?nb \<inter> X = {}" using I(4) I(10) [OF e] fl'(5) unfolding nb by auto
    show "free_set fl' \<inter> span ?nb = {}" using I(9) [OF e] fl'(6) unfolding nb by auto
    show "flen f \<le> flen ?f" using buff by (simp add: bf.len_put)
    show "k \<le> fst e \<and> fst e + bsize (snd e) \<le> k + bsize ?nb" if "e \<in> {(k, b)}" for e using that by auto
    show "k + bsize ?nb \<le> N" "offset + length buff \<le> k + bsize ?nb" using pos fl'(4) by auto
    show "free_set fl' \<subseteq> free_set fl \<union> spans {(k, b)}" using fl'(6) by auto
  qed (use e pos(1) rest apart ina fl'(1) far I(2) om_insert_ok [OF I(5)] in \<open>auto simp: bf.good_put\<close>)
qed

section \<open>A new block\<close>

lemma fresh_written:
  assumes inv: "blocks_ok base N X (fl, f, data)" and pos: "offset + length buff \<le> N" "buff \<noteq> []"
    and others: "\<And>e. e \<in> set data \<Longrightarrow> fst e + bsize (snd e) \<le> offset \<or> offset + length buff \<le> fst e"
    and fl': "arena base fl'" "in_arena base blk" "bsize blk = length buff" "span blk \<subseteq> free_set fl" "free_set fl' = free_set fl - span blk"
    and far: "\<And>T. frontier base T fl \<Longrightarrow> frontier base (T + N) fl'"
  shows "written base N X (fl, f, data) offset buff (fl', fput f (location blk) buff, om_insert offset blk data)"
proof -
  note I = blocks_okD [OF inv]
  let ?f = "fput f (location blk) buff"
  have new: "offset \<noteq> fst e" if "e \<in> set data" for e
    using others [OF that] blocks_apartD(1) [OF I(3), of "fst e" "snd e"] that pos(2) by auto
  show ?thesis
  proof (rule replace_block [OF inv, where ov = "{}" and nb = blk and lo = offset])
    show "set (om_insert offset blk data) = insert (offset, blk) (set data - {})"
      using om_insert_entries [OF I(5), of offset blk] new by force
    show "fbyte ?f x = fbyte f x" if "x \<notin> span blk" for x
      using that fl'(3) unfolding bf.byte_put by (auto simp: span_def)
    show "span blk \<inter> span (snd e) = {}" if "e \<in> set data - {}" for e using that I(9) [of e] fl'(4) by auto
    show "span blk \<inter> X = {}" using I(4) fl'(4) by auto
    show "fbyte ?f (location blk + (i - offset)) = buff ! (i - offset)" if "offset \<le> i" "i < offset + length buff" for i
      unfolding bf.byte_put using that by auto
    show "span blk \<subseteq> {..<flen ?f}" using pos(2) fl'(3) by (auto simp: span_def bf.len_put)
    show "flen f \<le> flen ?f" using pos(2) by (simp add: bf.len_put)
  qed (use pos others fl' far I(2) om_insert_ok [OF I(5)] in \<open>auto simp: bf.good_put\<close>)
qed

section \<open>Joining blocks\<close>

lemma move_if_copy:
  assumes "no_fault f" "from + n \<le> flen f" "from + n \<le> to \<or> to + n \<le> from" "from + n < 2 ^ 64" "to + n < 2 ^ 64"
  obtains f' where "move_if f from to n = Inr f'" "no_fault f'" "flen f \<le> flen f'" "0 < n \<Longrightarrow> to + n \<le> flen f'"
    "\<And>x. fbyte f' x = (if to \<le> x \<and> x < to + n then fbyte f (from + (x - to)) else fbyte f x)"
proof (cases "n = 0")
  case True
  show thesis by (rule that [of f]) (use True assms(1) in \<open>auto simp: move_if_def\<close>)
next
  case False
  then show thesis
    using move_from_copy [OF assms, of 0] that by (auto simp: move_if_def move_file_range_def)
qed

text \<open>The blocks that a write joins: some of the blocks of the file, in order, that the write touches; it is clear of all others.\<close>

definition joined :: "DataList \<Rightarrow> nat \<Rightarrow> nat \<Rightarrow> (nat \<times> Block) list \<Rightarrow> bool" where
  "joined data offset len ov \<longleftrightarrow> sorted_wrt (\<lambda>x y. fst x < fst y) ov \<and> set ov \<subseteq> set data
     \<and> (\<forall>e \<in> set ov. touches offset len e)
     \<and> (\<forall>e \<in> set data - set ov. fst e + bsize (snd e) \<le> offset \<or> offset + len \<le> fst e)"

lemma joinedD:
  assumes "joined data offset len ov"
  shows "set ov \<subseteq> set data" "e \<in> set ov \<Longrightarrow> fst e \<le> offset + len" "e \<in> set ov \<Longrightarrow> offset \<le> fst e + bsize (snd e)"
    "e \<in> set data - set ov \<Longrightarrow> fst e + bsize (snd e) \<le> offset \<or> offset + len \<le> fst e" "distinct ov"
    "e \<in> set ov \<Longrightarrow> fst (hd ov) \<le> fst e" "e \<in> set ov \<Longrightarrow> fst e \<le> fst (last ov)"
proof -
  have st: "sorted_wrt (\<lambda>x y. fst x < fst y) ov" using assms by (simp add: joined_def)
  then have "sorted_wrt (<) (map fst ov)" by (simp add: sorted_wrt_map)
  then show "distinct ov" using distinct_map strict_sorted_iff by blast
  show "fst (hd ov) \<le> fst e" "fst e \<le> fst (last ov)" if e: "e \<in> set ov"
  proof -
    show "fst (hd ov) \<le> fst e" using st e by (cases ov) auto
    obtain as bs where "ov = as @ e # bs" using split_list [OF e] by blast
    then show "fst e \<le> fst (last ov)" using st by (cases bs rule: rev_cases) (auto simp: sorted_wrt_append)
  qed
qed (use assms in \<open>auto simp: joined_def touches_def\<close>)

lemma joined_geometry:
  assumes ap: "blocks_apart N data" and jn: "joined data offset len ov" and ne: "ov \<noteq> []"
    and lo: "lo = min (fst (hd ov)) offset" and hi: "hi = max (offset + len) (fst (last ov) + bsize (snd (last ov)))"
  shows "e \<in> set ov \<Longrightarrow> lo \<le> fst e \<and> fst e + bsize (snd e) \<le> hi"
    and "e \<in> set data - set ov \<Longrightarrow> fst e + bsize (snd e) \<le> lo \<or> hi \<le> fst e"
proof -
  note J = joinedD [OF jn]
  let ?h = "hd ov" and ?l = "last ov"
  have h: "?h \<in> set ov" and l: "?l \<in> set ov" using ne by auto
  have inside: "(fst ?h, snd ?h) \<in> set data" "(fst ?l, snd ?l) \<in> set data" using h l J(1) by auto
  show "lo \<le> fst e \<and> fst e + bsize (snd e) \<le> hi" if "e \<in> set ov"
    using J(6,7) [OF that] that J(1) others_apart [OF ap inside(2), of e] blocks_apartD(1) [OF ap inside(2)]
    unfolding lo hi by (cases "e = ?l") auto
  show "fst e + bsize (snd e) \<le> lo \<or> hi \<le> fst e" if e: "e \<in> set data - set ov"
  proof -
    have pos: "0 < bsize (snd e)" using blocks_apartD(1) [OF ap, of "fst e" "snd e"] e by auto
    have "e \<noteq> (fst ?h, snd ?h)" "e \<noteq> (fst ?l, snd ?l)" using e h l by auto
    then show ?thesis
      using J(4) [OF e] J(2,3) [OF h] J(2,3) [OF l] others_apart [OF ap inside(1), of e] others_apart [OF ap inside(2), of e] e pos
      unfolding lo hi by auto
  qed
qed

text \<open>The bytes of the new block: the front of the first block, the write, and the end of the last block.\<close>

lemma splice_bytes:
  assumes f: "no_fault f" and n: "buff \<noteq> []" "to + fe + length buff + la < 2 ^ 64"
    and a: "from + fe \<le> flen f" "from + fe < 2 ^ 64" "from + fe \<le> to \<or> to + fe + length buff + la \<le> from"
    and b: "from2 + la \<le> flen f" "from2 + la < 2 ^ 64" "from2 + la \<le> to \<or> to + fe + length buff + la \<le> from2"
  obtains f1 f3 where "move_if f from to fe = Inr f1" "no_fault f1"
    "move_if (fput f1 (to + fe) buff) from2 (to + (fe + length buff)) la = Inr f3" "no_fault f3"
    "flen f \<le> flen f3" "to + fe + length buff + la \<le> flen f3"
    "\<And>x. fbyte f3 x = (if to \<le> x \<and> x < to + fe then fbyte f (from + (x - to))
       else if to + fe \<le> x \<and> x < to + fe + length buff then buff ! (x - (to + fe))
       else if to + fe + length buff \<le> x \<and> x < to + fe + length buff + la then fbyte f (from2 + (x - (to + (fe + length buff))))
       else fbyte f x)"
proof -
  obtain f1 where f1: "move_if f from to fe = Inr f1" "no_fault f1" "flen f \<le> flen f1"
    "\<And>x. fbyte f1 x = (if to \<le> x \<and> x < to + fe then fbyte f (from + (x - to)) else fbyte f x)"
    using move_if_copy [OF f a(1) _ a(2), of to] a(3) n(2) by (metis add_lessD1 add_leE)
  let ?f2 = "fput f1 (to + fe) buff"
  have f2: "no_fault ?f2" "flen ?f2 = max (flen f1) (to + fe + length buff)"
    using f1(2) n(1) by (simp_all add: bf.good_put bf.len_put)
  have la: "from2 + la \<le> flen ?f2" "from2 + la \<le> to + (fe + length buff) \<or> to + (fe + length buff) + la \<le> from2"
    "to + (fe + length buff) + la < 2 ^ 64"
    using b f1(3) f2(2) n(2) by auto
  obtain f3 where f3: "move_if ?f2 from2 (to + (fe + length buff)) la = Inr f3" "no_fault f3" "flen ?f2 \<le> flen f3"
    "0 < la \<Longrightarrow> to + (fe + length buff) + la \<le> flen f3"
    "\<And>x. fbyte f3 x = (if to + (fe + length buff) \<le> x \<and> x < to + (fe + length buff) + la
       then fbyte ?f2 (from2 + (x - (to + (fe + length buff)))) else fbyte ?f2 x)"
    using move_if_copy [OF f2(1) la(1,2) b(2) la(3)] by blast
  show thesis
  proof (rule that [OF f1(1,2) f3(1,2)])
    show "flen f \<le> flen f3" using f1(3) f2(2) f3(3) by auto
    show "to + fe + length buff + la \<le> flen f3" using f2(2) f3(3,4) by (cases "la = 0") auto
    show "fbyte f3 x = (if to \<le> x \<and> x < to + fe then fbyte f (from + (x - to))
       else if to + fe \<le> x \<and> x < to + fe + length buff then buff ! (x - (to + fe))
       else if to + fe + length buff \<le> x \<and> x < to + fe + length buff + la then fbyte f (from2 + (x - (to + (fe + length buff))))
       else fbyte f x)" for x
      unfolding f3(5) bf.byte_put f1(4) using b(3) by auto
  qed
qed

text \<open>The sizes that \<open>defragment\<close> computes do not wrap.\<close>

lemma defragment_sizes:
  assumes inv: "blocks_ok base N X (fl, f, data)" and jn: "joined data offset (length buff) ov" and ne: "ov \<noteq> []"
    and pos: "offset + length buff \<le> N" and hd: "hd ov = (k1, b1)" and last: "last ov = (k2, b2)"
    and fe: "fe = (if k1 < offset then offset - k1 else 0)" and la: "la = (if offset + length buff < k2 + bsize b2 then k2 + bsize b2 - (offset + length buff) else 0)"
  shows "(k1, b1) \<in> set data" "(k2, b2) \<in> set data" "fe \<le> bsize b1" "la \<le> bsize b2" "min k1 offset + fe = offset"
    "min k1 offset + (fe + length buff + la) = max (offset + length buff) (k2 + bsize b2)" "fe + length buff + la \<le> N"
    "k2 + bsize b2 < 2 ^ 64" "fe + length buff + la < 2 ^ 64"
proof -
  note I = blocks_okD [OF inv] and J = joinedD [OF jn]
  have mem: "(k1, b1) \<in> set ov" "(k2, b2) \<in> set ov" using ne hd last hd_in_set last_in_set by metis+
  then show in_data: "(k1, b1) \<in> set data" "(k2, b2) \<in> set data" using J(1) by auto
  show "fe \<le> bsize b1" "la \<le> bsize b2" using J(3) [OF mem(1)] J(2) [OF mem(2)] fe la by auto
  show "min k1 offset + fe = offset" using fe by auto
  then show "min k1 offset + (fe + length buff + la) = max (offset + length buff) (k2 + bsize b2)" using la by auto
  then show "fe + length buff + la \<le> N" using pos blocks_apartD(2) [OF I(3) in_data(2)] by linarith
  then show "fe + length buff + la < 2 ^ 64" "k2 + bsize b2 < 2 ^ 64" using I(6) blocks_apartD(3) [OF I(3) in_data(2)] by auto
qed

lemma span_clear:
  assumes "span b \<inter> span c = {}" "0 < bsize b" "0 < bsize c"
  shows "location b + bsize b \<le> location c \<or> location c + bsize c \<le> location b"
proof (rule ccontr)
  assume "\<not> ?thesis"
  then have "max (location b) (location c) \<in> span b \<inter> span c" using assms(2,3) by (auto simp: span_def max_def)
  then show False using assms(1) by simp
qed

lemma join_written:
  assumes inv: "blocks_ok base N X (fl, f, data)" and jn: "joined data offset (length buff) ov" and ne: "ov \<noteq> []"
    and pos: "offset + length buff \<le> N" and hd: "hd ov = (k1, b1)" and last: "last ov = (k2, b2)"
    and fe: "fe = (if k1 < offset then offset - k1 else 0)" and la: "la = (if offset + length buff < k2 + bsize b2 then k2 + bsize b2 - (offset + length buff) else 0)"
    and lo: "lo = min k1 offset"
    and blk: "in_arena base blk" "bsize blk = fe + length buff + la" "span blk \<subseteq> free_set fl"
    and fl': "arena base fl'" "free_set fl' = free_set fl - span blk \<union> spans (set ov)"
    and far: "\<And>T. frontier base T fl \<Longrightarrow> frontier base (T + N) fl'"
    and data': "om_ok data'" "set data' = insert (lo, blk) (set data - set ov)"
    and f': "no_fault f'" "flen f \<le> flen f'" "location blk + fe + length buff + la \<le> flen f'"
      "\<And>x. fbyte f' x = (if location blk \<le> x \<and> x < location blk + fe then fbyte f (location b1 + (x - location blk))
         else if location blk + fe \<le> x \<and> x < location blk + fe + length buff then buff ! (x - (location blk + fe))
         else if location blk + fe + length buff \<le> x \<and> x < location blk + fe + length buff + la
           then fbyte f (location b2 + (bsize b2 - la) + (x - (location blk + (fe + length buff))))
         else fbyte f x)"
  shows "written base N X (fl, f, data) offset buff (fl', f', data')"
proof -
  note I = blocks_okD [OF inv] and J = joinedD [OF jn]
  note Z = defragment_sizes [OF inv jn ne pos hd last fe la, folded lo]
  have G: "e \<in> set ov \<Longrightarrow> lo \<le> fst e \<and> fst e + bsize (snd e) \<le> lo + bsize blk"
    "e \<in> set data - set ov \<Longrightarrow> fst e + bsize (snd e) \<le> lo \<or> lo + bsize blk \<le> fst e" for e
    using joined_geometry [OF I(3) jn ne, of lo "lo + bsize blk" e] Z(6) hd last blk(2) by (simp_all add: lo)
  show ?thesis
  proof (rule replace_block [OF inv J(1), where nb = blk and lo = lo])
    show "lo + bsize blk \<le> N" using Z(6) blk(2) pos blocks_apartD(2) [OF I(3) Z(2)] by simp
    show "span blk \<subseteq> {..<flen f'}" using f'(3) blk(2) by (auto simp: span_def)
    show "span blk \<inter> X = {}" using I(4) blk(3) by auto
    show "span blk \<inter> span (snd e) = {}" if "e \<in> set data - set ov" for e using that I(9) [of e] blk(3) by auto
    have "spans (set ov) \<inter> span blk = {}" using I(9) J(1) blk(3) by (fastforce simp: spans_def)
    then show "free_set fl' \<inter> span blk = {}" "free_set fl' \<subseteq> free_set fl \<union> spans (set ov)" using fl'(2) by auto
    show "fbyte f' x = fbyte f x" if "x \<notin> span blk" for x
      using that unfolding f'(4) by (auto simp: span_def blk(2))
    show "lo \<le> offset" "offset + length buff \<le> lo + bsize blk" using Z(5) blk(2) by auto
    show "fbyte f' (location blk + (i - lo)) = buff ! (i - offset)" if i: "offset \<le> i" "i < offset + length buff" for i
    proof -
      obtain j where j: "i = offset + j" using le_Suc_ex [OF i(1)] by blast
      then have "i - lo = fe + j" using Z(5) by linarith
      then show ?thesis using i(2) j unfolding f'(4) by simp
    qed
    show "\<exists>e \<in> set ov. at i e \<and> fbyte f' (location blk + (i - lo)) = byte_at f i e"
      if i: "lo \<le> i" "i < lo + bsize blk" "\<not> (offset \<le> i \<and> i < offset + length buff)" for i
    proof (cases "i < offset")
      case True
      then have "fbyte f' (location blk + (i - lo)) = byte_at f i (k1, b1)" "at i (k1, b1)"
        using i(1) Z(3) unfolding f'(4) by (auto simp: fe lo byte_at_def at_def split: if_splits)
      then show ?thesis using hd hd_in_set [OF ne] by metis
    next
      case False
      have "0 < la" "i - lo = fe + length buff + (i - (offset + length buff))" "i - (offset + length buff) < la"
        using i False Z(5,6) blk(2) by linarith+
      moreover have "offset + length buff + la = k2 + bsize b2" using \<open>0 < la\<close> la by (auto split: if_splits)
      ultimately have "fbyte f' (location blk + (i - lo)) = byte_at f i (k2, b2)" "at i (k2, b2)"
        using Z(4) i False unfolding f'(4) by (auto simp: byte_at_def at_def intro!: arg_cong [where f = "fbyte f"])
      then show ?thesis using last last_in_set [OF ne] by metis
    qed
  qed (use blk(1) data' G fl'(1) far f'(1,2) in auto)
qed

lemma defragment_written:
  assumes inv: "blocks_ok base N X (fl, f, data)" and jn: "joined data offset (length buff) ov" and ne: "ov \<noteq> []"
    and pos: "offset + length buff \<le> N" "buff \<noteq> []" and sp: "spacious N fl"
  shows "\<exists>w'. defragment (fl, f, data) ov offset buff = Inr w' \<and> written base N X (fl, f, data) offset buff w'"
proof -
  note I = blocks_okD [OF inv] and J = joinedD [OF jn]
  obtain k1 b1 k2 b2 where hd: "hd ov = (k1, b1)" and last: "last ov = (k2, b2)" by fastforce
  define fe where "fe = (if k1 < offset then offset - k1 else 0)"
  define la where "la = (if offset + length buff < k2 + bsize b2 then k2 + bsize b2 - (offset + length buff) else 0)"
  define lo where "lo = min k1 offset"
  note Z = defragment_sizes [OF inv jn ne pos(1) hd last fe_def la_def, folded lo_def]
  have G: "e \<in> set ov \<Longrightarrow> lo \<le> fst e \<and> fst e + bsize (snd e) \<le> lo + (fe + length buff + la)"
    "e \<in> set data - set ov \<Longrightarrow> fst e + bsize (snd e) \<le> lo \<or> lo + (fe + length buff + la) \<le> fst e" for e
    using joined_geometry [OF I(3) jn ne, of lo "lo + (fe + length buff + la)" e] Z(6) hd last by (simp_all add: lo_def)
  obtain blk fl1 where al: "allocate fl (fe + length buff + la) None = Inr (blk, fl1)" "arena base fl1" "in_arena base blk"
    "bsize blk = fe + length buff + la" "span blk \<subseteq> free_set fl" "free_set fl1 = free_set fl - span blk"
    "\<And>T. frontier base T fl \<Longrightarrow> frontier base (T + N) fl1"
    using allocate_spacious [OF I(1) sp _ Z(7), of None] pos(2) by auto
  have loc: "location blk + fe + length buff + la < 2 ^ 64" using al(3,4) by (simp add: in_arena_def)
  have clear: "location b + bsize b \<le> location blk \<or> location blk + fe + length buff + la \<le> location b" if "(k, b) \<in> set data" for k b
  proof -
    have "span b \<inter> span blk = {}" using I(9) [OF that] al(5) by auto
    then show ?thesis using span_clear [of b blk] al(3,4) blocks_apartD(1) [OF I(3) that] by (simp add: in_arena_def add.assoc)
  qed
  have b1: "location b1 + fe \<le> flen f" "location b1 + fe < 2 ^ 64" "location b1 + fe \<le> location blk \<or> location blk + fe + length buff + la \<le> location b1"
    using I(7,8) [OF Z(1)] span_below [OF blocks_apartD(1) [OF I(3) Z(1)]] clear [OF Z(1)] Z(3) by (auto simp: in_arena_def)
  let ?from2 = "location b2 + (bsize b2 - la)"
  have b2: "?from2 + la \<le> flen f" "?from2 + la < 2 ^ 64" "?from2 + la \<le> location blk \<or> location blk + fe + length buff + la \<le> ?from2"
    using I(7,8) [OF Z(2)] span_below [OF blocks_apartD(1) [OF I(3) Z(2)]] clear [OF Z(2)] Z(4) by (auto simp: in_arena_def)
  obtain f1 f3 where M: "move_if f (location b1) (location blk) fe = Inr f1" "no_fault f1"
    "move_if (fput f1 (location blk + fe) buff) ?from2 (location blk + (fe + length buff)) la = Inr f3" "no_fault f3"
    "flen f \<le> flen f3" "location blk + fe + length buff + la \<le> flen f3"
    "\<And>x. fbyte f3 x = (if location blk \<le> x \<and> x < location blk + fe then fbyte f (location b1 + (x - location blk))
       else if location blk + fe \<le> x \<and> x < location blk + fe + length buff then buff ! (x - (location blk + fe))
       else if location blk + fe + length buff \<le> x \<and> x < location blk + fe + length buff + la
         then fbyte f (?from2 + (x - (location blk + (fe + length buff))))
       else fbyte f x)"
    using splice_bytes [OF I(2) pos(2) loc b1 b2] by blast
  have "spans (set ov) \<inter> free_set fl1 = {}" using I(9) J(1) al(6) by (auto simp: spans_def)
  moreover have "\<forall>e \<in> set ov. in_arena base (snd e)" using I(7) J(1) by blast
  moreover have "\<forall>e \<in> set ov. \<forall>e' \<in> set ov. e \<noteq> e' \<longrightarrow> span (snd e) \<inter> span (snd e') = {}" using I(11) J(1) by blast
  ultimately obtain fl2 data2 where dr: "drop_overlaps fl1 data ov = Inr (fl2, data2)" "arena base fl2" "free_set fl2 = free_set fl1 \<union> spans (set ov)"
    "om_ok data2" "set data2 = set data - set ov"
    using drop_overlaps_ok [OF al(2) I(5) J(5) J(1)] by blast
  have new: "lo \<noteq> fst e" if "e \<in> set data - set ov" for e
    using G(2) [OF that] that blocks_apartD(1) [OF I(3), of "fst e" "snd e"] pos(2) by auto
  have ins: "set (om_insert lo blk data2) = insert (lo, blk) (set data - set ov)"
    using om_insert_entries [OF dr(4), of lo blk] new dr(5) by force
  have run: "defragment (fl, f, data) ov offset buff = Inr (fl2, f3, om_insert lo blk data2)"
  proof -
    have add: "usize_add offset (length buff) = offset + length buff" "usize_add k2 (bsize b2) = k2 + bsize b2"
      "usize_add fe (length buff) = fe + length buff" "usize_add (fe + length buff) la = fe + length buff + la"
      "usize_add (location blk) fe = location blk + fe" "usize_add (location blk) (fe + length buff) = location blk + (fe + length buff)"
      "usize_sub (bsize b2) la = bsize b2 - la" "usize_add (location b2) (bsize b2 - la) = ?from2"
      using pos(1) I(6,7) Z loc b2(2) by (auto simp: usize_add_small usize_sub_le in_arena_def)
    show ?thesis
      unfolding defragment_def using hd last al(1) M dr(1) bf.wr_put [OF M(2)]
      by (simp add: add fe_def [symmetric] la_def [symmetric] lo_def)
  qed
  have "written base N X (fl, f, data) offset buff (fl2, f3, om_insert lo blk data2)"
    using M al(2-6) dr ins om_insert_ok [OF dr(4)] frontier_mono [OF al(7), of _ _ fl2]
    by (intro join_written [OF inv jn ne pos(1) hd last fe_def la_def lo_def]) simp_all
  then show ?thesis using run by blast
qed

section \<open>Writing to the blocks of a file\<close>

lemma find_overlaps_joined:
  assumes "blocks_apart N data" "offset + len \<le> N"
  shows "joined data offset len (find_overlaps data offset len)"
proof -
  have "sorted_wrt (\<lambda>x y. fst x < fst y) data"
    using assms(1) by (simp add: blocks_apart_def om_ok_def sorted_wrt_map)
  then show ?thesis
    unfolding find_overlaps_touch [OF assms] by (auto simp: joined_def sorted_wrt_filter touches_def)
qed

lemma trim_front_joined:
  assumes ap: "blocks_apart N data" and jn: "joined data offset len ov"
  shows "joined data offset len (trim_front ov offset)"
proof (cases ov)
  case (Cons e rest)
  have "(fst e, snd e) \<in> set data" using Cons joinedD(1) [OF jn] by simp
  then have "usize_add (fst e) (bsize (snd e)) = fst e + bsize (snd e)"
    using blocks_apartD(3) [OF ap] by (simp add: usize_add_small)
  then show ?thesis
    using jn Cons by (auto simp: trim_front_def joined_def case_prod_unfold)
qed (use jn in \<open>simp add: trim_front_def\<close>)

lemma trim_back_joined:
  assumes jn: "joined data offset len ov" and small: "offset + len < 2 ^ 64"
  shows "joined data offset len (trim_back ov offset len)"
proof (cases ov rule: rev_cases)
  case (snoc rest e)
  then show ?thesis
    using jn small by (auto simp: trim_back_def joined_def sorted_wrt_append usize_add_small)
qed (use jn in \<open>simp add: trim_back_def\<close>)

lemma place_write_written:
  assumes inv: "blocks_ok base N X (fl, f, data)" and jn: "joined data offset (length buff) ov"
    and pos: "offset + length buff \<le> N" "buff \<noteq> []" and sp: "spacious N fl"
  shows "\<exists>w'. place_write (fl, f, data) ov offset buff = Inr w' \<and> written base N X (fl, f, data) offset buff w'"
proof (cases "ov = []")
  case True
  note I = blocks_okD [OF inv]
  have "0 < length buff" "length buff \<le> N" using pos by auto
  then obtain blk fl1 where al: "allocate fl (length buff) None = Inr (blk, fl1)" "arena base fl1" "in_arena base blk"
    "bsize blk = length buff" "span blk \<subseteq> free_set fl" "free_set fl1 = free_set fl - span blk"
    "\<And>T. frontier base T fl \<Longrightarrow> frontier base (T + N) fl1"
    using allocate_spacious [OF I(1) sp, of "length buff" None] by metis
  have "written base N X (fl, f, data) offset buff (fl1, fput f (location blk) buff, om_insert offset blk data)"
    using fresh_written [OF inv pos _ al(2-7)] joinedD(4) [OF jn] True by simp
  then show ?thesis using True al(1) bf.wr_put [OF I(2)] by (simp add: place_write_def)
next
  case False
  then show ?thesis using defragment_written [OF inv jn False pos sp] by (simp add: place_write_def)
qed

lemma append_next_written:
  assumes inv: "blocks_ok base N X (fl, f, data)" and e: "(k, b) \<in> set data"
    and pos: "k \<le> offset" "offset \<le> k + bsize b" "k + bsize b < offset + length buff" "offset + length buff \<le> N"
    and others: "\<And>e. e \<in> set data \<Longrightarrow> e \<noteq> (k, b) \<Longrightarrow> \<not> touches offset (length buff) e" and sp: "spacious N fl"
  shows "(\<exists>w'. append_next (fl, f, data) (k, b) offset buff = Inr (True, w') \<and> written base N X (fl, f, data) offset buff w')
    \<or> append_next (fl, f, data) (k, b) offset buff = Inr (False, fl, f, data)"
proof -
  note I = blocks_okD [OF inv]
  let ?n = "offset + length buff - (k + bsize b)" and ?behind = "location b + bsize b"
  have "0 < ?n" "?n \<le> N" using pos by auto
  then obtain blk fl1 where al: "allocate fl ?n (Some ?behind) = Inr (blk, fl1)" "arena base fl1" "in_arena base blk"
    "bsize blk = ?n" "span blk \<subseteq> free_set fl" "free_set fl1 = free_set fl - span blk"
    "\<And>T. frontier base T fl \<Longrightarrow> frontier base (T + N) fl1"
    using allocate_spacious [OF I(1) sp, of ?n "Some ?behind"] by metis
  have sizes: "usize_add k (bsize b) = k + bsize b" "usize_sub (k + bsize b) offset = k + bsize b - offset"
    "usize_add (location b) (bsize b) = ?behind" "usize_sub (length buff) (k + bsize b - offset) = ?n"
    "usize_sub ?behind (k + bsize b - offset) = location b + (offset - k)"
    using pos I(6) I(7) [OF e] blocks_apartD(3) [OF I(3) e] by (auto simp: usize_add_small usize_sub_le in_arena_def)
  show ?thesis
  proof (cases "location blk = ?behind")
    case True
    then have "bsize b + bsize blk < 2 ^ 64" using al(3) by (simp add: in_arena_def)
    then have "append_next (fl, f, data) (k, b) offset buff
        = Inr (True, fl1, fput f (location b + (offset - k)) buff, om_insert k (b\<lparr>bsize := bsize b + bsize blk\<rparr>) data)"
      using True al(1) bf.wr_put [OF I(2)] by (simp add: append_next_def sizes usize_add_small)
    then show ?thesis using grow_written [OF inv e pos others al(2,3) True al(4-7)] by blast
  next
    case False
    have "arena base (deallocate fl1 blk)" "free_set (deallocate fl1 blk) = free_set fl"
      using deallocate_arena [OF al(2,3)] al(5,6) by auto
    then have "deallocate fl1 blk = fl" using arena_unique I(1) by blast
    then show ?thesis using False al(1) by (simp add: append_next_def sizes)
  qed
qed

lemma write_blocks_written:
  assumes inv: "blocks_ok base N X (fl, f, data)" and pos: "offset + length buff \<le> N" "buff \<noteq> []" and sp: "spacious N fl"
  shows "\<exists>w'. write_blocks (fl, f, data) offset buff = Inr w' \<and> written base N X (fl, f, data) offset buff w'"
proof -
  note I = blocks_okD [OF inv]
  define ov where "ov = find_overlaps data offset (length buff)"
  have ovf: "ov = filter (touches offset (length buff)) data" unfolding ov_def by (rule find_overlaps_touch [OF I(3) pos(1)])
  have small: "offset + length buff < 2 ^ 64" using pos(1) I(6) by simp
  have "joined data offset (length buff) (trim_back (trim_front ov offset) offset (length buff))"
    unfolding ov_def by (intro trim_back_joined trim_front_joined [OF I(3)] find_overlaps_joined [OF I(3) pos(1)] small)
  note rest = place_write_written [OF inv this pos sp]
  show ?thesis
  proof (cases "\<exists>k b. ov = [(k, b)]")
    case False
    then have "write_blocks (fl, f, data) offset buff
        = place_write (fl, f, data) (trim_back (trim_front ov offset) offset (length buff)) offset buff"
      by (auto simp: write_blocks_def ov_def [symmetric] Let_def split: list.split)
    then show ?thesis using rest by simp
  next
    case True
    then obtain k b where one: "ov = [(k, b)]" by blast
    have "(k, b) \<in> set ov" using one by simp
    then have e: "(k, b) \<in> set data" and tch: "touches offset (length buff) (k, b)" unfolding ovf by auto
    have others: "\<not> touches offset (length buff) e" if "e \<in> set data" "e \<noteq> (k, b)" for e
    proof
      assume "touches offset (length buff) e"
      then have "e \<in> set ov" using that(1) unfolding ovf by simp
      then show False using one that(2) by simp
    qed
    have fits: "fits_inside (k, b) offset (length buff) \<longleftrightarrow> k \<le> offset \<and> offset + length buff \<le> k + bsize b"
      using small blocks_apartD(3) [OF I(3) e] by (simp add: fits_inside_def usize_add_small)
    have "usize_add (location b) (offset - k) = location b + (offset - k)" if "offset + length buff \<le> k + bsize b"
      by (rule usize_add_small) (use that I(7) [OF e] in \<open>auto simp: in_arena_def\<close>)
    then have run: "write_blocks (fl, f, data) offset buff =
       (if k \<le> offset \<and> offset + length buff \<le> k + bsize b then Inr (fl, fput f (location b + (offset - k)) buff, data)
        else if k < offset then rbind (append_next (fl, f, data) (k, b) offset buff) (\<lambda>(fin, w'). if fin then Inr w'
          else place_write w' (trim_back (trim_front ov offset) offset (length buff)) offset buff)
        else place_write (fl, f, data) (trim_back (trim_front ov offset) offset (length buff)) offset buff)"
      unfolding write_blocks_def Let_def prod.case ov_def [symmetric] using one bf.wr_put [OF I(2)] by (simp add: fits)
    show ?thesis
      using fits_written [OF inv e _ _ pos(2)] append_next_written [OF inv e _ _ _ pos(1) others sp] rest tch
      unfolding run by (auto simp: touches_def)
  qed
qed

section \<open>Snapshots of many files\<close>

text \<open>The blocks of a path, none for one that the snapshot does not know, and the bytes that they hold.\<close>

definition blocks_of :: "Snapshot \<Rightarrow> path \<Rightarrow> DataList" where
  "blocks_of s p = (case Option.bind (om_get (s_files s) p) f_data of None \<Rightarrow> [] | Some d \<Rightarrow> d)"

definition stored :: "Snapshot \<Rightarrow> path \<Rightarrow> nat \<Rightarrow> u8 option" where
  "stored s p = content (serialised s) (blocks_of s p)"

definition others :: "Snapshot \<Rightarrow> path \<Rightarrow> nat set" where
  "others s p = (\<Union>q \<in> - {p}. spans (set (blocks_of s q)))"

text \<open>The invariant of a snapshot: files share no position of the data file with each other or with the free list.\<close>

definition snap_ok :: "nat \<Rightarrow> nat \<Rightarrow> Snapshot \<Rightarrow> bool" where
  "snap_ok base N s \<longleftrightarrow> om_ok (s_files s) \<and> (\<forall>p. blocks_ok base N (others s p) (free_list s, serialised s, blocks_of s p))"

definition all_data :: "Snapshot \<Rightarrow> bool" where
  "all_data s \<longleftrightarrow> (\<forall>p f. om_get (s_files s) p = Some f \<longrightarrow> f_data f \<noteq> None)"

lemma encode_write_run:
  assumes "om_ok (s_files s)" "all_data s" "write_blocks (free_list s, serialised s, blocks_of s p) offset buff = Inr (fl, f, data)"
  obtains s' where "encode_write s p offset buff = Inr s'" "om_ok (s_files s')" "all_data s'" "free_list s' = fl" "serialised s' = f"
    "\<And>q. blocks_of s' q = (if q = p then data else blocks_of s q)"
proof -
  obtain fl0 fs where go: "get_or_open (s_files s) p = (fl0, fs)" by (cases "get_or_open (s_files s) p")
  have fs: "om_ok fs" "f_data fl0 = Some (blocks_of s p)" "\<And>q. q \<noteq> p \<Longrightarrow> om_get fs q = om_get (s_files s) q"
    using go assms(1,2)
    by (auto simp: get_or_open_def blocks_of_def opened_file_def all_data_def om_insert_ok om_get_insert split: option.splits)
  let ?s' = "s\<lparr>s_files := om_insert p (fl0\<lparr>f_data := Some data\<rparr>) fs, serialised := f, free_list := fl\<rparr>"
  have "encode_write s p offset buff = Inr ?s'"
    using go fs(2) assms(3) by (simp add: encode_write_def)
  moreover have "blocks_of ?s' q = (if q = p then data else blocks_of s q)" for q
    using fs by (auto simp: blocks_of_def om_get_insert)
  moreover have "all_data ?s'"
    using assms(2) fs by (auto simp: all_data_def om_get_insert)
  ultimately show thesis using that [of ?s'] fs(1) by (simp add: om_insert_ok)
qed

lemma content_cong:
  assumes "blocks_apart N data" "\<And>x. x \<in> Y \<Longrightarrow> fbyte f x = fbyte g x" "\<And>e. e \<in> set data \<Longrightarrow> span (snd e) \<subseteq> Y"
  shows "content f data i = content g data i"
proof (cases "\<exists>e \<in> set data. at i e")
  case True
  then obtain e where e: "e \<in> set data" "at i e" by blast
  then have "byte_at f i e = byte_at g i e"
    unfolding byte_at_def using byte_in_span [OF e(2)] assms(2,3) by blast
  then show ?thesis using content_at [OF assms(1) e] by simp
next
  case False
  then show ?thesis using content_None [of data i] by auto
qed

text \<open>A write that keeps one file right keeps all files right.\<close>

lemma snap_ok_update:
  assumes ok: "snap_ok base N s" and w: "written base N (others s p) (free_list s, serialised s, blocks_of s p) offset buff (fl, f, data)"
    and s': "om_ok (s_files s')" "free_list s' = fl" "serialised s' = f" "\<And>q. blocks_of s' q = (if q = p then data else blocks_of s q)"
  shows "snap_ok base N s'" "stored s' p = overlay offset buff (stored s p)" "q \<noteq> p \<Longrightarrow> stored s' q = stored s q"
proof -
  have okp: "blocks_ok base N (others s p) (fl, f, data)" and ov: "content f data = overlay offset buff (content (serialised s) (blocks_of s p))"
    and same: "\<And>x. x \<in> others s p \<Longrightarrow> fbyte f x = fbyte (serialised s) x" and len: "flen (serialised s) \<le> flen f"
    using w by (auto simp: written_def)
  have inv: "blocks_ok base N (others s q) (free_list s, serialised s, blocks_of s q)" for q using ok by (simp add: snap_ok_def)
  have sub: "span (snd e) \<subseteq> others s p" if "q \<noteq> p" "e \<in> set (blocks_of s q)" for q e
    using that by (auto simp: others_def spans_def)
  have o: "others s' p = others s p" using s'(4) by (simp add: others_def)
  note P = blocks_okD [OF okp]
  show "stored s' p = overlay offset buff (stored s p)" using ov s' by (simp add: stored_def)
  show "stored s' q = stored s q" if "q \<noteq> p"
  proof -
    have "content f (blocks_of s q) i = content (serialised s) (blocks_of s q) i" for i
      using same sub [OF that] by (rule content_cong [OF blocks_okD(3) [OF inv]]) blast+
    then show ?thesis using that s' by (auto simp: stored_def)
  qed
  have "blocks_ok base N (others s' q) (fl, f, blocks_of s q)" if q: "q \<noteq> p" for q
    unfolding blocks_ok_def prod.case
  proof (intro conjI ballI impI)
    note Q = blocks_okD [OF inv [of q]]
    show "others s' q \<inter> free_set fl = {}"
      using P(4,9) sub by (fastforce simp: others_def spans_def s'(4) split: if_splits)
    fix e assume e: "e \<in> set (blocks_of s q)"
    show "in_arena base (snd e)" "span (snd e) \<subseteq> {..<flen f}" using Q(7,8) [OF e] len by auto
    show "span (snd e) \<inter> free_set fl = {}" using sub [OF q e] P(4) by blast
    show "span (snd e) \<inter> others s' q = {}"
      using sub [OF q e] P(10) Q(10) [OF e] by (fastforce simp: others_def spans_def s'(4) split: if_splits)
    show "span (snd e) \<inter> span (snd e') = {}" if "e' \<in> set (blocks_of s q)" "e \<noteq> e'" for e' using Q(11) [OF e that] .
  qed (use P(1,2) blocks_okD(3) [OF inv] in auto)
  then show "snap_ok base N s'" using okp s' o by (simp add: snap_ok_def)
qed

lemma encode_write_overlays:
  assumes ok: "snap_ok base N s" "all_data s" and sp: "spacious N (free_list s)" and pos: "offset + length buff \<le> N" "buff \<noteq> []"
  obtains s' where "encode_write s p offset buff = Inr s'" "snap_ok base N s'" "all_data s'"
    "stored s' p = overlay offset buff (stored s p)" "\<And>q. q \<noteq> p \<Longrightarrow> stored s' q = stored s q"
    "\<And>T. frontier base T (free_list s) \<Longrightarrow> frontier base (T + N) (free_list s')"
proof -
  have inv: "om_ok (s_files s)" "blocks_ok base N (others s p) (free_list s, serialised s, blocks_of s p)"
    using ok(1) by (auto simp: snap_ok_def)
  obtain fl f data where w: "write_blocks (free_list s, serialised s, blocks_of s p) offset buff = Inr (fl, f, data)"
    "written base N (others s p) (free_list s, serialised s, blocks_of s p) offset buff (fl, f, data)"
    using write_blocks_written [OF inv(2) pos sp] by auto
  obtain s' where s': "encode_write s p offset buff = Inr s'" "om_ok (s_files s')" "all_data s'" "free_list s' = fl" "serialised s' = f"
    "\<And>q. blocks_of s' q = (if q = p then data else blocks_of s q)"
    using encode_write_run [OF inv(1) ok(2) w(1)] by blast
  show thesis
    using that [OF s'(1) _ s'(3)] snap_ok_update [OF ok(1) w(2) s'(2,4-6)] w(2) s'(4) by (auto simp: written_def)
qed

section \<open>Merging writes\<close>

lemma frontier_spacious:
  assumes "arena base fl" "frontier base T fl" "base + T + N < 2 ^ 64" "0 < N"
  shows "spacious N fl"
proof -
  have "T < USIZE_MAX" using assms(3,4) by (simp add: USIZE_MAX_def)
  then obtain a w where a: "(a, w) \<in> set fl" "a \<le> base + T" "a + w = base + USIZE_MAX" "\<And>k v. (k, v) \<in> set fl \<Longrightarrow> k \<le> a"
    using frontier_region [OF assms(1,2)] by blast
  have "N \<le> w" using a(2,3) assms(3) by (simp add: USIZE_MAX_def)
  moreover have "k + N < 2 ^ 64" if "(k, v) \<in> set fl" for k v using a(4) [OF that] a(2) assms(3) by linarith
  ultimately show ?thesis using a(1) by (auto simp: spacious_def alloc_room_def)
qed

text \<open>The specification: the bytes of a path are the writes to it, laid over each other in their order.\<close>

fun overlaid :: "(path \<times> i64 \<times> bytes) list \<Rightarrow> path \<Rightarrow> (nat \<Rightarrow> u8 option) \<Rightarrow> nat \<Rightarrow> u8 option" where
  "overlaid [] q g = g"
| "overlaid ((p, off, b) # ws) q g = overlaid ws q (if p = q then overlay (unat off) b g else g)"

definition write_calls :: "(path \<times> i64 \<times> bytes) list \<Rightarrow> VFSCall list" where
  "write_calls ws = map (\<lambda>(p, off, b). VFS_write p off b) ws"

lemma merge_writes:
  assumes "snap_ok base N s" "all_data s" "frontier base T (free_list s)" "\<forall>(p, off, b) \<in> set ws. b \<noteq> [] \<and> unat off + length b \<le> N"
    and "base + T + length ws * N < 2 ^ 64"
  shows "\<exists>s'. merge_from s (write_calls ws) = Inr s' \<and> snap_ok base N s' \<and> (\<forall>q. stored s' q = overlaid ws q (stored s q))"
  using assms
proof (induction ws arbitrary: s T)
  case (Cons w ws)
  obtain p off b where w: "w = (p, off, b)" by (cases w)
  have b: "b \<noteq> []" "unat off + length b \<le> N" using Cons.prems(4) w by auto
  then have N: "0 < N" by (cases b) auto
  have "arena base (free_list s)" using Cons.prems(1) blocks_okD(1) unfolding snap_ok_def by blast
  then have "spacious N (free_list s)"
    using frontier_spacious [OF _ Cons.prems(3)] Cons.prems(5) N by auto
  then obtain s1 where s1: "encode_write s p (unat off) b = Inr s1" "snap_ok base N s1" "all_data s1"
    "stored s1 p = overlay (unat off) b (stored s p)" "\<And>q. q \<noteq> p \<Longrightarrow> stored s1 q = stored s q" "frontier base (T + N) (free_list s1)"
    using encode_write_overlays [OF Cons.prems(1,2) _ b(2,1), of p] Cons.prems(3) by metis
  obtain s' where s': "merge_from s1 (write_calls ws) = Inr s'" "snap_ok base N s'" "\<forall>q. stored s' q = overlaid ws q (stored s1 q)"
    using Cons.IH [OF s1(2,3,6)] Cons.prems(4,5) by (auto simp: algebra_simps)
  have "stored s1 q = (if p = q then overlay (unat off) b (stored s q) else stored s q)" for q
    using s1(4,5) by auto
  then show ?case using s' s1(1) w by (auto simp: write_calls_def)
qed (simp add: write_calls_def)

lemma snapshot_new_ok:
  assumes "no_fault f" "N < 2 ^ 64"
  shows "snap_ok (sh_size c) N (snapshot_new c f t1 t2)" "all_data (snapshot_new c f t1 t2)"
    "frontier (sh_size c) 0 (free_list (snapshot_new c f t1 t2))" "stored (snapshot_new c f t1 t2) q = (\<lambda>_. None)"
  using assms
  by (auto simp: snap_ok_def snapshot_new_def blocks_ok_def blocks_apart_def arena_def regions_def others_def blocks_of_def om_ok_def om_get_def
      all_data_def frontier_def free_set_def cover_def stored_def content_def USIZE_MAX_def spans_def)

text \<open>
  C10. Writes merged into a new snapshot are neither lost nor mixed up.  Whatever the order and
  the overlaps of the writes, and whichever way their blocks are laid out, grown, joined and given
  back in the data file, merging succeeds, and the blocks of each path hold exactly the bytes of
  the writes to that path, laid over each other in their order; no two files share a position of
  the data file.  The bound keeps the used part of the data file within the address space.
\<close>

theorem snapshot_writes_overlay:
  assumes "no_fault f" "\<forall>(p, off, b) \<in> set ws. b \<noteq> [] \<and> unat off + length b \<le> N" "sh_size c + (length ws + 1) * N < 2 ^ 64"
  shows "\<exists>s. merge_from (snapshot_new c f t1 t2) (write_calls ws) = Inr s \<and> snap_ok (sh_size c) N s
    \<and> (\<forall>q. stored s q = overlaid ws q (\<lambda>_. None))"
proof -
  have N: "N < 2 ^ 64" "sh_size c + 0 + length ws * N < 2 ^ 64" using assms(3) by (auto simp: algebra_simps)
  note new = snapshot_new_ok [OF assms(1) N(1), of c t1 t2]
  from merge_writes [OF new(1-3) assms(2) N(2)] show ?thesis using new(4) by simp
qed

theorem snapshot_writes_overlay_witness:
  "\<exists>s. merge_from blank_snapshot
        (write_calls [([RootDir], 0, [1, 2, 3]), ([Normal ''a''], 1, [7]), ([RootDir], 2, [4, 5])]) = Inr s
      \<and> map (stored s [RootDir]) [0, 1, 2, 3, 4] = [Some 1, Some 2, Some 4, Some 5, None]
      \<and> stored s [Normal ''a''] 1 = Some 7"
proof -
  let ?ws = "[([RootDir], 0, [1, 2, 3]), ([Normal ''a''], 1, [7]), ([RootDir], 2, [4, 5])] :: (path \<times> i64 \<times> bytes) list"
  obtain s where s: "merge_from blank_snapshot (write_calls ?ws) = Inr s"
    "\<forall>q. stored s q = overlaid ?ws q (\<lambda>_. None)"
    using snapshot_writes_overlay [of "\<lparr>fdata = [], rd_fault = None, wr_fault = None\<rparr>" ?ws 8 toy_sc 0 0] by (auto simp: no_fault_def toy_sc_def blank_snapshot_def)
  then show ?thesis by (intro exI [of _ s]) (simp add: overlay_def)
qed

end
