(* ===== verification/FuseRead.thy ===== *)
theory FuseRead
  imports FuseHl
begin

text \<open>
  The handlers of the mounted file system that only read (\<open>fuse_hl/read_unix.rs\<close>).  They pass
  system calls through to the backing store; the state they keep is the descriptor in the file
  handle, and for directories a boxed \<open>xmp_dirp\<close> whose address is the handle.

  The kernel is a parameter, a record of calls as in the wrappers for writing; calls that fill a
  buffer give its contents beside their result.  A file system status is a value of any type.
\<close>

record ('s, 'v) rd_os =
  rd_errno :: "'s \<Rightarrow> int"
  sys_opendir :: "path \<Rightarrow> 's \<Rightarrow> int option \<times> 's"
  sys_closedir :: "int \<Rightarrow> 's \<Rightarrow> 's"
  sys_llistxattr :: "path \<Rightarrow> nat \<Rightarrow> 's \<Rightarrow> int \<times> bytes \<times> 's"
  sys_lgetxattr :: "path \<Rightarrow> bytes \<Rightarrow> nat \<Rightarrow> 's \<Rightarrow> int \<times> bytes \<times> 's"
  rd_close :: "int \<Rightarrow> 's \<Rightarrow> int \<times> 's"
  sys_dup :: "int \<Rightarrow> 's \<Rightarrow> int \<times> 's"
  sys_statvfs :: "path \<Rightarrow> 's \<Rightarrow> int \<times> 'v \<times> 's"
  sys_pread :: "int \<Rightarrow> nat \<Rightarrow> i64 \<Rightarrow> 's \<Rightarrow> int \<times> bytes \<times> 's"
  rd_open :: "path \<Rightarrow> i32 \<Rightarrow> 's \<Rightarrow> int \<times> 's"
  sys_readlink :: "path \<Rightarrow> nat \<Rightarrow> 's \<Rightarrow> int \<times> bytes \<times> 's"
  sys_fstat :: "int \<Rightarrow> 's \<Rightarrow> int \<times> stat \<times> 's"
  sys_lstat :: "path \<Rightarrow> 's \<Rightarrow> int \<times> stat \<times> 's"

definition O_RDONLY :: i32 where "O_RDONLY = 0"

text \<open>\<open>if res == -1 { return neg_errno() }\<close>, otherwise the given answer; the out parameter is kept.\<close>

definition or_errno :: "('s, 'v) rd_os \<Rightarrow> int \<Rightarrow> int \<times> 'o \<times> 's \<Rightarrow> int \<times> 'o \<times> 's" where
  "or_errno os ok r = (case r of (res, out, s) \<Rightarrow> if res = -1 then (- rd_errno os s, out, s) else (ok, out, s))"

section \<open>Directories\<close>

record xmp_dirp =
  dp :: int
  dentry :: "int option"
  doffset :: i64

type_synonym dirps = "int \<rightharpoonup> xmp_dirp"

text \<open>\<open>Box::new\<close> and \<open>Box::into_raw\<close>: the box goes to an address that the allocator chooses.\<close>

definition xmp_opendir :: "'c env \<Rightarrow> ('s, 'v) rd_os \<Rightarrow> (dirps \<Rightarrow> int) \<Rightarrow> path \<Rightarrow> fuse_file_info \<Rightarrow> dirps \<Rightarrow> 's
    \<Rightarrow> (int \<times> fuse_file_info \<times> dirps \<times> 's) result" where
  "xmp_opendir e os box p fi ds s =
     rbind (trans_ppath e p) (\<lambda>rp. case sys_opendir os rp s of
         (None, s1) \<Rightarrow> Inr (- rd_errno os s1, fi, ds, s1)
       | (Some d, s1) \<Rightarrow>
           let a = box ds in
           Inr (0, fi\<lparr>fh := a\<rparr>, ds(a \<mapsto> \<lparr>dp = d, dentry = None, doffset = 0\<rparr>), s1))"

definition xmp_releasedir :: "('s, 'v) rd_os \<Rightarrow> fuse_file_info option \<Rightarrow> dirps \<Rightarrow> 's \<Rightarrow> (int \<times> dirps \<times> 's) result" where
  "xmp_releasedir os fi ds s =
     rbind (unwrap ''Cannot releasedir by path'' fi) (\<lambda>i.
     rbind (unwrap ''use of a freed box'' (ds (fh i))) (\<lambda>d.
       Inr (0, ds(fh i := None), sys_closedir os (dp d) s)))"

section \<open>Extended attributes\<close>

definition xmp_listxattr :: "'c env \<Rightarrow> ('s, 'v) rd_os \<Rightarrow> path \<Rightarrow> nat \<Rightarrow> 's \<Rightarrow> (int \<times> bytes \<times> 's) result" where
  "xmp_listxattr e os p sz s =
     rmap (\<lambda>rp. let r = sys_llistxattr os rp sz s in or_errno os (as_c_int (fst r)) r) (trans_ppath e p)"

definition xmp_getxattr :: "'c env \<Rightarrow> ('s, 'v) rd_os \<Rightarrow> path \<Rightarrow> bytes \<Rightarrow> nat \<Rightarrow> 's \<Rightarrow> (int \<times> bytes \<times> 's) result" where
  "xmp_getxattr e os p name sz s =
     rmap (\<lambda>rp. let r = sys_lgetxattr os rp name sz s in or_errno os (as_c_int (fst r)) r) (trans_ppath e p)"

section \<open>Open files\<close>

definition xmp_release :: "('s, 'v) rd_os \<Rightarrow> fuse_file_info option \<Rightarrow> 's \<Rightarrow> (int \<times> 's) result" where
  "xmp_release os fi s =
     rbind (unwrap ''Cannot release by path'' fi) (\<lambda>i. let (_, s1) = rd_close os (as_c_int (fh i)) s in Inr (0, s1))"

definition xmp_flush :: "('s, 'v) rd_os \<Rightarrow> fuse_file_info option \<Rightarrow> 's \<Rightarrow> (int \<times> 's) result" where
  "xmp_flush os fi s =
     rbind (unwrap ''Don't know how to flush by path'' fi) (\<lambda>i.
       let (fd, s1) = sys_dup os (as_c_int (fh i)) s; (res, s2) = rd_close os fd s1 in
       Inr (if res = -1 then (- rd_errno os s2, s2) else (0, s2)))"

definition xmp_statfs :: "'c env \<Rightarrow> ('s, 'v) rd_os \<Rightarrow> path \<Rightarrow> 's \<Rightarrow> (int \<times> 'v \<times> 's) result" where
  "xmp_statfs e os p s = rmap (\<lambda>rp. or_errno os 0 (sys_statvfs os rp s)) (trans_ppath e p)"

text \<open>Without a handle the file is opened for this one call.\<close>

definition xmp_read :: "'c env \<Rightarrow> ('s, 'v) rd_os \<Rightarrow> path \<Rightarrow> nat \<Rightarrow> i64 \<Rightarrow> fuse_file_info option \<Rightarrow> 's
    \<Rightarrow> (int \<times> bytes \<times> 's) result" where
  "xmp_read e os p sz offset fi s = (case fi of
       Some i \<Rightarrow> Inr (let r = sys_pread os (as_c_int (fh i)) sz offset s in or_errno os (as_c_int (fst r)) r)
     | None \<Rightarrow>
         rmap (\<lambda>rp.
           let (fd, s1) = rd_open os rp O_RDONLY s in
           if fd = -1 then (- rd_errno os s1, [], s1)
           else
             let r = sys_pread os fd sz offset s1;
                 (ret, out, s2) = or_errno os (as_c_int (fst r)) r;
                 (_, s3) = rd_close os fd s2
             in (ret, out, s3)) (trans_ppath e p))"

definition xmp_open :: "'c env \<Rightarrow> ('s, 'v) rd_os \<Rightarrow> path \<Rightarrow> fuse_file_info \<Rightarrow> 's \<Rightarrow> (int \<times> fuse_file_info \<times> 's) result" where
  "xmp_open e os p fi s =
     rmap (\<lambda>rp. let (fd, s1) = rd_open os rp (fi_flags fi) s in
       if fd = -1 then (- rd_errno os s1, fi, s1) else (0, fi\<lparr>fh := fd\<rparr>, s1)) (trans_ppath e p)"

section \<open>Links and attributes\<close>

text \<open>The target is cut to leave room for the zero byte that is put behind it.\<close>

definition xmp_readlink :: "'c env \<Rightarrow> ('s, 'v) rd_os \<Rightarrow> path \<Rightarrow> nat \<Rightarrow> 's \<Rightarrow> (int \<times> bytes \<times> 's) result" where
  "xmp_readlink e os p sz s =
     rmap (\<lambda>rp. let (res, out, s1) = sys_readlink os rp (usize_sub sz 1) s in
       if res = -1 then (- rd_errno os s1, out, s1) else (0, take (nat res) out @ [0], s1)) (trans_ppath e p)"

definition xmp_getattr :: "'c env \<Rightarrow> ('s, 'v) rd_os \<Rightarrow> path \<Rightarrow> fuse_file_info option \<Rightarrow> 's \<Rightarrow> (int \<times> stat \<times> 's) result" where
  "xmp_getattr e os p fi s = (case fi of
       Some i \<Rightarrow> Inr (or_errno os 0 (sys_fstat os (as_c_int (fh i)) s))
     | None \<Rightarrow> rmap (\<lambda>rp. or_errno os 0 (sys_lstat os rp s)) (trans_ppath e p))"

end
