(* ===== verification/FuseReadLaws.thy ===== *)
theory FuseReadLaws
  imports FuseRead FuseLaws
begin

text \<open>
  The reading handlers leave no descriptor behind: whatever they open for themselves they close,
  on their error paths too, and a released handle gives back what opening it took.
\<close>

text \<open>
  What the kernel promises about descriptors: \<open>open\<close> and \<open>dup\<close> answer a descriptor that was not
  open before, or -1 with an error number and change nothing; \<open>close\<close> of an open one closes it, of another one fails;
  reading opens and closes none.
\<close>

definition fresh_fd :: "('s \<Rightarrow> int set) \<Rightarrow> 's \<Rightarrow> int \<times> 's \<Rightarrow> bool" where
  "fresh_fd fds s r \<longleftrightarrow> (if fst r = -1 then fds (snd r) = fds s
     else fst r \<notin> fds s \<and> 0 \<le> fst r \<and> fst r < 2 ^ 31 \<and> fds (snd r) = insert (fst r) (fds s))"

definition closes_fd :: "('s \<Rightarrow> int set) \<Rightarrow> 's \<Rightarrow> int \<Rightarrow> int \<times> 's \<Rightarrow> bool" where
  "closes_fd fds s fd r \<longleftrightarrow> fds (snd r) = fds s - {fd} \<and> (fst r = -1 \<longleftrightarrow> fd \<notin> fds s)"

definition fd_kernel :: "('s, 'v) rd_os \<Rightarrow> ('s \<Rightarrow> int set) \<Rightarrow> bool" where
  "fd_kernel os fds \<longleftrightarrow>
     (\<forall>p fl s. fresh_fd fds s (rd_open os p fl s) \<and> (fst (rd_open os p fl s) = -1 \<longrightarrow> 0 < rd_errno os (snd (rd_open os p fl s))))
     \<and> (\<forall>d s. fresh_fd fds s (sys_dup os d s))
     \<and> (\<forall>fd s. closes_fd fds s fd (rd_close os fd s))
     \<and> (\<forall>fd n off s. fds (snd (snd (sys_pread os fd n off s))) = fds s)
     \<and> (\<forall>s. -1 \<notin> fds s)"

lemma fd_kernelD:
  assumes "fd_kernel os fds"
  shows "fresh_fd fds s (rd_open os p fl s)" "fst (rd_open os p fl s) = -1 \<Longrightarrow> 0 < rd_errno os (snd (rd_open os p fl s))"
    "fresh_fd fds s (sys_dup os d s)" "closes_fd fds s fd (rd_close os fd s)"
    "fds (snd (snd (sys_pread os fd n off s))) = fds s" "-1 \<notin> fds s"
  using assms by (simp_all add: fd_kernel_def)

lemma as_c_int_small: "- (2 ^ 31) \<le> r \<Longrightarrow> r < 2 ^ 31 \<Longrightarrow> as_c_int r = r"
  by (simp add: as_c_int_def signed_of_int signed_take_bit_int_eq_self)

text \<open>
  C19. The reading handlers are balanced: \<open>xmp_read\<close>, with a handle or by path, whether the read
  succeeds or fails, and \<open>xmp_flush\<close> leave exactly the descriptors open that were open before; and
  opening a file and releasing the handle that was given out does so too.
\<close>

theorem read_side_balanced:
  assumes K: "fd_kernel os fds"
  shows "(xmp_read e os p sz offset fi s = Inr (r, out, s') \<longrightarrow> fds s' = fds s)
    \<and> (xmp_flush os fi s = Inr (r, s') \<longrightarrow> fds s' = fds s)
    \<and> (xmp_open e os p i s = Inr (0, i', s1) \<and> xmp_release os (Some i') s1 = Inr (r, s') \<longrightarrow> fds s' = fds s)"
proof (intro conjI impI)
  note D = fd_kernelD [OF K]
  show "fds s' = fds s" if run: "xmp_read e os p sz offset fi s = Inr (r, out, s')"
  proof (cases fi)
    case (Some i)
    then show ?thesis
      using run D(5) [of "as_c_int (fh i)" sz offset s] by (auto simp: xmp_read_def or_errno_def Let_def split: prod.splits if_splits)
  next
    case None
    then obtain rp where rp: "trans_ppath e p = Inr rp" using run by (auto simp: xmp_read_def rmap_eq_Inr)
    obtain fd s1 where o: "rd_open os rp O_RDONLY s = (fd, s1)" by fastforce
    obtain n b s2 where r: "sys_pread os fd sz offset s1 = (n, b, s2)" by (cases "sys_pread os fd sz offset s1") auto
    obtain q s3 where c: "rd_close os fd s2 = (q, s3)" by fastforce
    have "s' = (if fd = -1 then s1 else s3)" using run None rp o r c by (auto simp: xmp_read_def or_errno_def split: if_splits)
    moreover have "fds s2 = fds s1" using D(5) [of fd sz offset s1] r by simp
    ultimately show ?thesis
      using D(1) [of s rp O_RDONLY] D(4) [of s2 fd] o c by (auto simp: fresh_fd_def closes_fd_def split: if_splits)
  qed
  show "fds s' = fds s" if run: "xmp_flush os fi s = Inr (r, s')"
  proof -
    obtain i where i: "fi = Some i" using run by (cases fi) (auto simp: xmp_flush_def)
    obtain fd s1 where d: "sys_dup os (as_c_int (fh i)) s = (fd, s1)" by fastforce
    obtain q s2 where c: "rd_close os fd s1 = (q, s2)" by fastforce
    have "s' = s2" using run i d c by (auto simp: xmp_flush_def split: if_splits)
    then show ?thesis
      using D(3) [of s "as_c_int (fh i)"] D(4) [of s1 fd] D(6) [of s] d c by (auto simp: fresh_fd_def closes_fd_def split: if_splits)
  qed
  show "fds s' = fds s" if run: "xmp_open e os p i s = Inr (0, i', s1) \<and> xmp_release os (Some i') s1 = Inr (r, s')"
  proof -
    obtain rp where rp: "trans_ppath e p = Inr rp" using run by (auto simp: xmp_open_def rmap_eq_Inr)
    obtain fd t where "rd_open os rp (fi_flags i) s = (fd, t)" by fastforce
    then have o: "rd_open os rp (fi_flags i) s = (fd, s1)" "fd \<noteq> -1" "i' = i\<lparr>fh := fd\<rparr>"
      using run rp D(2) [of rp "fi_flags i" s] by (auto simp: xmp_open_def split: if_splits)
    then have fresh: "fd \<notin> fds s" "fds s1 = insert fd (fds s)" "0 \<le> fd" "fd < 2 ^ 31"
      using D(1) [of s rp "fi_flags i"] by (auto simp: fresh_fd_def)
    have "as_c_int fd = fd" by (rule as_c_int_small) (use fresh in auto)
    then obtain q where "rd_close os fd s1 = (q, s')"
      using run o(3) by (auto simp: xmp_release_def split: prod.splits)
    then show ?thesis using D(4) [of s1 fd] fresh by (auto simp: closes_fd_def)
  qed
qed

text \<open>A kernel for evaluation: the state lists the open descriptors, of which there are at most a thousand.\<close>

definition fd_set :: "int list \<Rightarrow> int set" where
  "fd_set s = {fd \<in> set s. 0 \<le> fd}"

definition fd_open :: "int list \<Rightarrow> int \<times> int list" where
  "fd_open s = (if length s < 1000
     then let fd = hd (filter (\<lambda>n. n \<notin> set s) (map int [0..<Suc (length s)])) in (fd, fd # s) else (-1, s))"

definition fd_toy :: "(int list, unit) rd_os" where
  "fd_toy = \<lparr>rd_errno = (\<lambda>s. 24), sys_opendir = (\<lambda>p s. (None, s)), sys_closedir = (\<lambda>d s. s), sys_llistxattr = (\<lambda>p n s. (-1, [], s)),
     sys_lgetxattr = (\<lambda>p b n s. (-1, [], s)), rd_close = (\<lambda>fd s. (if fd \<in> fd_set s then 0 else -1, filter (\<lambda>x. x \<noteq> fd) s)),
     sys_dup = (\<lambda>d. fd_open), sys_statvfs = (\<lambda>p s. (-1, (), s)), sys_pread = (\<lambda>fd n off s. (2, [5, 6], s)), rd_open = (\<lambda>p fl. fd_open),
     sys_readlink = (\<lambda>p n s. (-1, [], s)), sys_fstat = (\<lambda>fd s. (-1, one_stat, s)), sys_lstat = (\<lambda>p s. (-1, one_stat, s))\<rparr>"

lemma fd_open_fresh: "fresh_fd fd_set s (fd_open s)"
proof (cases "length s < 1000")
  case True
  let ?free = "filter (\<lambda>n. n \<notin> set s) (map int [0..<Suc (length s)])"
  have "?free \<noteq> []"
  proof
    assume "?free = []"
    then have "int ` {..<Suc (length s)} \<subseteq> set s" by (auto simp: filter_empty_conv simp del: upt_Suc)
    then have "card (int ` {..<Suc (length s)}) \<le> card (set s)" by (rule card_mono [rotated]) simp
    also have "\<dots> \<le> length s" by (rule card_length)
    finally have "card (int ` {..<Suc (length s)}) \<le> length s" .
    then show False by (simp add: card_image)
  qed
  then have "hd ?free \<in> set ?free" by (rule hd_in_set)
  then have "hd ?free \<notin> set s" "0 \<le> hd ?free" "hd ?free < 1000" using True by auto
  then show ?thesis using True by (auto simp: fresh_fd_def fd_open_def fd_set_def Let_def)
qed (simp add: fresh_fd_def fd_open_def)

lemma fd_toy_kernel: "fd_kernel fd_toy fd_set"
  using fd_open_fresh by (auto simp: fd_kernel_def fd_toy_def closes_fd_def fd_set_def)

theorem read_side_balanced_witness:
  "fd_kernel fd_toy fd_set \<and> (\<exists>s'. xmp_read (sample_env (view1 None)) fd_toy wpath 2 0 None [0] = Inr (2, [5, 6], s') \<and> fd_set s' = {0})"
proof -
  have "trans_ppath (sample_env (view1 None)) wpath = Inr [RootDir, Normal ''d'', Normal ''a'']"
    by (simp add: trans_ppath_def sample_env_def path_eval)
  then obtain s' where run: "xmp_read (sample_env (view1 None)) fd_toy wpath 2 0 None [0] = Inr (2, [5, 6], s')"
    by (simp add: xmp_read_def fd_toy_def fd_open_def or_errno_def as_c_int_small upt_rec)
  then have "fd_set s' = fd_set [0]"
    using read_side_balanced [OF fd_toy_kernel, of "sample_env (view1 None)" wpath 2 0 None "[0]"] by blast
  also have "\<dots> = {0}" by (auto simp: fd_set_def)
  finally show ?thesis using run fd_toy_kernel by blast
qed

end
