(* ===== verification/FuseLl.thy ===== *)
theory FuseLl
  imports FuseHl Complex_Main
begin

unbundle bit_operations_syntax

text \<open>
  The low-level front end (\<open>fuse_ll/mod.rs\<close>): a table of inodes that the kernel refers to by
  number, each with its number of lookups, an open descriptor and its path.

  Inodes are boxed, and the number of an inode is the address of its box: the boxes live in a heap,
  the table maps the identity of a file to an address, and the allocator's choice of an address is
  a parameter.  Following an address with no box behind it has no meaning in the code; the model
  answers with a failure.  The root is not boxed: it is inode 1, at an address of its own.

  The kernel is a parameter as before; a call that fails gives -1.  Timeouts are only compared
  with zero and passed on.
\<close>

section \<open>Data\<close>

record ll_stat = stat +
  st_dev :: u64

record ll_file_info = fuse_file_info +
  keep_cache :: bool
  cache_readdir :: bool

record Inode =
  ifd :: int
  is_symlink :: bool
  src_dev :: u64
  src_ino :: u64
  nlookup :: u64
  ipath :: "(u64 \<times> bytes) option"

type_synonym SrcId = "u64 \<times> u64"

record Fs =
  inodes :: "SrcId \<rightharpoonup> u64"
  boxes :: "u64 \<rightharpoonup> Inode"
  root_inode :: Inode
  root_addr :: u64
  fs_dev :: u64
  fs_timeout :: rat

record fuse_entry_param =
  e_ino :: u64
  e_attr :: ll_stat
  e_timeout :: rat

record flock =
  l_type :: int
  l_whence :: int
  l_start :: i64
  l_len :: i64
  l_pid :: i32

datatype 'v FuseReply =
    R_attr ll_stat rat
  | R_bmap u64
  | R_buf bytes nat
  | R_create fuse_entry_param ll_file_info
  | R_data int i64 nat
  | R_entry fuse_entry_param
  | R_err int
  | R_ioctl int bytes nat
  | R_ioctl_iov int bytes int
  | R_ioctl_retry bytes nat bytes nat
  | R_iov bytes int
  | R_lock flock
  | R_none
  | R_open ll_file_info
  | R_poll u32
  | R_readlink bytes
  | R_statfs 'v
  | R_write nat
  | R_xattr nat

record dirent =
  d_name :: bytes
  d_ino :: u64
  d_type :: u8
  d_off :: i64

type_synonym ts_pair = "(i64 \<times> i64) \<times> (i64 \<times> i64)"

record ('s, 'v) ll_os =
  ll_errno :: "'s \<Rightarrow> int"
  ll_openat :: "int \<Rightarrow> bytes \<Rightarrow> i32 \<Rightarrow> u32 \<Rightarrow> 's \<Rightarrow> int \<times> 's"
  ll_fstatat :: "int \<Rightarrow> bytes \<Rightarrow> i32 \<Rightarrow> 's \<Rightarrow> int \<times> ll_stat \<times> 's"
  ll_close :: "int \<Rightarrow> 's \<Rightarrow> int \<times> 's"
  ll_dup :: "int \<Rightarrow> 's \<Rightarrow> int \<times> 's"
  ll_sys_fsync :: "int \<Rightarrow> 's \<Rightarrow> int \<times> 's"
  ll_sys_fdatasync :: "int \<Rightarrow> 's \<Rightarrow> int \<times> 's"
  ll_fstatvfs :: "int \<Rightarrow> 's \<Rightarrow> int \<times> 'v \<times> 's"
  ll_readlinkat :: "int \<Rightarrow> bytes \<Rightarrow> nat \<Rightarrow> 's \<Rightarrow> int \<times> bytes \<times> 's"
  ll_sys_open :: "path \<Rightarrow> i32 \<Rightarrow> 's \<Rightarrow> int \<times> 's"
  ll_fdopendir :: "int \<Rightarrow> 's \<Rightarrow> int option \<times> 's"
  ll_closedir :: "int \<Rightarrow> 's \<Rightarrow> 's"
  ll_dirfd :: "int \<Rightarrow> 's \<Rightarrow> int"
  ll_seekdir :: "int \<Rightarrow> i64 \<Rightarrow> 's \<Rightarrow> 's"
  ll_sys_readdir :: "int \<Rightarrow> 's \<Rightarrow> dirent option \<times> 's"
  ll_sys_listxattr :: "path \<Rightarrow> nat \<Rightarrow> 's \<Rightarrow> int \<times> bytes \<times> 's"
  ll_sys_getxattr :: "path \<Rightarrow> bytes \<Rightarrow> nat \<Rightarrow> 's \<Rightarrow> int \<times> bytes \<times> 's"
  ll_buf_copy :: "int \<Rightarrow> i64 \<Rightarrow> bytes \<Rightarrow> 's \<Rightarrow> int \<times> 's"
  ll_posix_fallocate :: "int \<Rightarrow> i64 \<Rightarrow> i64 \<Rightarrow> 's \<Rightarrow> int \<times> 's"
  ll_mknodat :: "int \<Rightarrow> bytes \<Rightarrow> u32 \<Rightarrow> u64 \<Rightarrow> 's \<Rightarrow> int \<times> 's"
  ll_mkdirat :: "int \<Rightarrow> bytes \<Rightarrow> u32 \<Rightarrow> 's \<Rightarrow> int \<times> 's"
  ll_symlinkat :: "bytes \<Rightarrow> int \<Rightarrow> bytes \<Rightarrow> 's \<Rightarrow> int \<times> 's"
  ll_linkat :: "int \<Rightarrow> path \<Rightarrow> int \<Rightarrow> bytes \<Rightarrow> i32 \<Rightarrow> 's \<Rightarrow> int \<times> 's"
  ll_sys_setxattr :: "path \<Rightarrow> bytes \<Rightarrow> bytes \<Rightarrow> i32 \<Rightarrow> 's \<Rightarrow> int \<times> 's"
  ll_sys_removexattr :: "path \<Rightarrow> bytes \<Rightarrow> 's \<Rightarrow> int \<times> 's"
  ll_sys_fchmod :: "int \<Rightarrow> u32 \<Rightarrow> 's \<Rightarrow> int \<times> 's"
  ll_sys_chmod :: "path \<Rightarrow> u32 \<Rightarrow> 's \<Rightarrow> int \<times> 's"
  ll_fchownat :: "int \<Rightarrow> bytes \<Rightarrow> u32 \<Rightarrow> u32 \<Rightarrow> i32 \<Rightarrow> 's \<Rightarrow> int \<times> 's"
  ll_sys_ftruncate :: "int \<Rightarrow> i64 \<Rightarrow> 's \<Rightarrow> int \<times> 's"
  ll_sys_truncate :: "path \<Rightarrow> i64 \<Rightarrow> 's \<Rightarrow> int \<times> 's"
  ll_futimens :: "int \<Rightarrow> ts_pair \<Rightarrow> 's \<Rightarrow> int \<times> 's"
  ll_utimensat :: "int \<Rightarrow> path \<Rightarrow> ts_pair \<Rightarrow> i32 \<Rightarrow> 's \<Rightarrow> int \<times> 's"
  ll_renameat :: "int \<Rightarrow> bytes \<Rightarrow> int \<Rightarrow> bytes \<Rightarrow> 's \<Rightarrow> int \<times> 's"
  ll_unlinkat :: "int \<Rightarrow> bytes \<Rightarrow> i32 \<Rightarrow> 's \<Rightarrow> int \<times> 's"

text \<open>Constants of the C library.\<close>

definition AT_SYMLINK_NOFOLLOW :: i32 where "AT_SYMLINK_NOFOLLOW = 0x100"
definition AT_REMOVEDIR :: i32 where "AT_REMOVEDIR = 0x200"
definition AT_SYMLINK_FOLLOW :: i32 where "AT_SYMLINK_FOLLOW = 0x400"
definition AT_EMPTY_PATH :: i32 where "AT_EMPTY_PATH = 0x1000"
definition AT_FDCWD :: int where "AT_FDCWD = -100"
definition O_ACCMODE :: i32 where "O_ACCMODE = 3"
definition O_WRONLY :: i32 where "O_WRONLY = 1"
definition O_RDWR :: i32 where "O_RDWR = 2"
definition O_CREAT :: i32 where "O_CREAT = 0x40"
definition O_APPEND :: i32 where "O_APPEND = 0x400"
definition O_NOFOLLOW :: i32 where "O_NOFOLLOW = 0x20000"
definition O_PATH :: i32 where "O_PATH = 0x200000"
definition EPERM :: int where "EPERM = 1"
definition EIO :: int where "EIO = 5"
definition EOPNOTSUPP :: int where "EOPNOTSUPP = 95"
definition ENOTSUP :: int where "ENOTSUP = 95"
definition FUSE_ROOT_ID :: u64 where "FUSE_ROOT_ID = 1"

type_synonym ('s, 'v) ll_result = "('v FuseReply \<times> Fs \<times> 's) result"

text \<open>\<open>FuseReply::err(if res == -1 { errno() } else { 0 })\<close>\<close>

definition reply_status :: "('s, 'v) ll_os \<Rightarrow> Fs \<Rightarrow> int \<times> 's \<Rightarrow> ('s, 'v) ll_result" where
  "reply_status os fs r = Inr (R_err (if fst r = -1 then ll_errno os (snd r) else 0), fs, snd r)"

definition self_path :: "int \<Rightarrow> path" where
  "self_path fd = [RootDir, Normal ''proc'', Normal ''self'', Normal ''fd'', Normal (show_nat (nat fd))]"

definition cstr_to_str :: "bytes \<Rightarrow> bytes result" where
  "cstr_to_str b = (if utf8_valid (map unat b) then Inr b else Inl (Panicked ''called Result::unwrap() on an Err value''))"

definition is_dot_or_dotdot :: "bytes \<Rightarrow> bool" where
  "is_dot_or_dotdot name \<longleftrightarrow> name = [46] \<or> name = [46, 46]"

section \<open>The table of inodes\<close>

definition get_inode :: "Fs \<Rightarrow> u64 \<Rightarrow> (u64 \<times> Inode) result" where
  "get_inode fs ino =
     (if ino = FUSE_ROOT_ID then Inr (root_addr fs, root_inode fs)
      else rbind (unwrap ''use of a freed inode'' (boxes fs ino)) (\<lambda>i.
        if ifd i = -1 then Inl (Panicked ''Unknown inode'') else Inr (ino, i)))"

definition get_fs_fd :: "Fs \<Rightarrow> u64 \<Rightarrow> int result" where
  "get_fs_fd fs ino = rmap (\<lambda>(_, i). ifd i) (get_inode fs ino)"

text \<open>The inode behind a reference, changed in place.\<close>

definition put_inode :: "Fs \<Rightarrow> u64 \<Rightarrow> Inode \<Rightarrow> Fs" where
  "put_inode fs a i = (if a = root_addr fs then fs\<lparr>root_inode := i\<rparr> else fs\<lparr>boxes := (boxes fs)(a \<mapsto> i)\<rparr>)"

text \<open>\<open>Err(e)\<close> of the code is \<open>Inl e\<close> inside of the result.\<close>

definition get_child :: "('s, 'v) ll_os \<Rightarrow> Fs \<Rightarrow> Inode \<Rightarrow> bytes \<Rightarrow> 's \<Rightarrow> ((int + u64) \<times> 's) result" where
  "get_child os fs i name s =
     (let (err, attr, s1) = ll_fstatat os (ifd i) name AT_SYMLINK_NOFOLLOW s in
      if err = -1 then Inr (Inl (ll_errno os s1), s1)
      else rmap (\<lambda>a. (Inr a, s1)) (unwrap ''File was not looked up'' (inodes fs (st_ino attr, st_dev attr))))"

definition replace_path :: "('s, 'v) ll_os \<Rightarrow> Fs \<Rightarrow> u64 \<times> Inode \<Rightarrow> bytes \<Rightarrow> (u64 \<times> bytes) option \<Rightarrow> 's
    \<Rightarrow> ((int + (u64 \<times> bytes)) \<times> Fs \<times> 's) result" where
  "replace_path os fs parent name newpath s =
     rbind (get_child os fs (snd parent) name s) (\<lambda>(child, s1). case child of
         Inl e \<Rightarrow> Inr (Inl e, fs, s1)
       | Inr a \<Rightarrow>
           rbind (unwrap ''use of a freed inode'' (boxes fs a)) (\<lambda>i. case ipath i of
               None \<Rightarrow> Inr (Inl 0, fs, s1)
             | Some primary \<Rightarrow>
                 rbind (cstr_to_str name) (\<lambda>path_name.
                   if fst primary = fst parent \<and> snd primary = path_name
                   then Inr (Inr primary, fs\<lparr>boxes := (boxes fs)(a \<mapsto> i\<lparr>ipath := newpath\<rparr>)\<rparr>, s1)
                   else Inr (Inl 0, fs, s1))))"

definition forget :: "Fs \<Rightarrow> u64 \<Rightarrow> u64 \<Rightarrow> Fs result" where
  "forget fs ino n =
     rbind (get_inode fs ino) (\<lambda>(a, i).
     rbind (require (n \<le> nlookup i) ''Negative lookup count'') (\<lambda>_.
       let i1 = i\<lparr>nlookup := nlookup i - n\<rparr>; fs1 = put_inode fs a i1; key = (src_ino i1, src_dev i1) in
       Inr (if nlookup i1 = 0 then
              (case inodes fs1 key of
                 None \<Rightarrow> fs1
               | Some b \<Rightarrow> fs1\<lparr>inodes := (inodes fs1)(key := None), boxes := (boxes fs1)(b := None)\<rparr>)
            else fs1)))"

definition new_inode :: "ll_stat \<Rightarrow> int \<Rightarrow> u64 \<Rightarrow> bytes \<Rightarrow> Inode" where
  "new_inode attr fd parent name = \<lparr>ifd = fd, is_symlink = (st_mode attr AND S_IFLNK = S_IFLNK), src_dev = st_dev attr,
     src_ino = st_ino attr, nlookup = 1, ipath = Some (parent, name)\<rparr>"

text \<open>\<open>inodes.entry(id).or_insert_with(..)\<close>: the address of the inode, entered when it is not there.\<close>

definition enter_inode :: "(Fs \<Rightarrow> u64) \<Rightarrow> Fs \<Rightarrow> ll_stat \<Rightarrow> int \<Rightarrow> u64 \<Rightarrow> bytes \<Rightarrow> (u64 \<times> Fs) result" where
  "enter_inode box fs attr fd parent name =
     (let key = (st_ino attr, st_dev attr) in
      case inodes fs key of
        Some a \<Rightarrow> Inr (a, fs)
      | None \<Rightarrow> rmap (\<lambda>nm. let a = box fs in
          (a, fs\<lparr>inodes := (inodes fs)(key \<mapsto> a), boxes := (boxes fs)(a \<mapsto> new_inode attr fd parent nm)\<rparr>)) (cstr_to_str name))"

definition lookup :: "('s, 'v) ll_os \<Rightarrow> (Fs \<Rightarrow> u64) \<Rightarrow> Fs \<Rightarrow> u64 \<Rightarrow> bytes \<Rightarrow> 's \<Rightarrow> ('s, 'v) ll_result" where
  "lookup os box fs parent name s =
     rbind (get_fs_fd fs parent) (\<lambda>pfd.
     let (newfd, s1) = ll_openat os pfd name (O_PATH OR O_NOFOLLOW) 0 s in
     if newfd = -1 then Inr (R_err (ll_errno os s1), fs, s1)
     else
       let (err, attr, s2) = ll_fstatat os newfd [] (AT_EMPTY_PATH OR AT_SYMLINK_NOFOLLOW) s1 in
       if err = -1 then Inr (R_err (ll_errno os s2), fs, s2)
       else if st_dev attr \<noteq> fs_dev fs then Inr (R_err ENOTSUP, fs, s2)
       else if st_ino attr = FUSE_ROOT_ID then Inr (R_err EIO, fs, s2)
       else
         rbind (enter_inode box fs attr newfd parent name) (\<lambda>(a, fs1).
         rbind (unwrap ''use of a freed inode'' (boxes fs1 a)) (\<lambda>i.
           let fs2 = fs1\<lparr>boxes := (boxes fs1)(a \<mapsto> i\<lparr>nlookup := nlookup i + 1\<rparr>)\<rparr>;
               (_, s3) = ll_close os newfd s2
           in Inr (R_entry \<lparr>e_ino = a, e_attr = attr, e_timeout = fs_timeout fs\<rparr>, fs2, s3))))"

fun forget_multi :: "Fs \<Rightarrow> (u64 \<times> u64) list \<Rightarrow> Fs result" where
  "forget_multi fs [] = Inr fs"
| "forget_multi fs ((ino, n) # rest) = rbind (forget fs ino n) (\<lambda>fs1. forget_multi fs1 rest)"

end
