(* ===== verification/FuseLlOps.thy ===== *)
theory FuseLlOps
  imports FuseLl
begin

unbundle bit_operations_syntax

text \<open>
  The operations of the low-level front end (\<open>fuse_ll/mod.rs\<close>) on the table of inodes, and the
  default \<open>setattr\<close> of the trait it implements (\<open>fuse/src/lib.rs\<close>).
\<close>

section \<open>Reading\<close>

definition ll_release :: "('s, 'v) ll_os \<Rightarrow> Fs \<Rightarrow> ll_file_info \<Rightarrow> 's \<Rightarrow> ('s, 'v) ll_result" where
  "ll_release os fs fi s = (let (_, s1) = ll_close os (as_c_int (fh fi)) s in Inr (R_err 0, fs, s1))"

definition ll_read :: "Fs \<Rightarrow> nat \<Rightarrow> i64 \<Rightarrow> ll_file_info \<Rightarrow> 's \<Rightarrow> ('s, 'v) ll_result" where
  "ll_read fs sz off fi s = Inr (R_data (as_c_int (fh fi)) off sz, fs, s)"

definition ll_fsync :: "('s, 'v) ll_os \<Rightarrow> Fs \<Rightarrow> i32 \<Rightarrow> ll_file_info \<Rightarrow> 's \<Rightarrow> ('s, 'v) ll_result" where
  "ll_fsync os fs datasync fi s =
     reply_status os fs (if datasync \<noteq> 0 then ll_sys_fdatasync os (as_c_int (fh fi)) s else ll_sys_fsync os (as_c_int (fh fi)) s)"

definition ll_flush :: "('s, 'v) ll_os \<Rightarrow> Fs \<Rightarrow> ll_file_info \<Rightarrow> 's \<Rightarrow> ('s, 'v) ll_result" where
  "ll_flush os fs fi s = (let (fd, s1) = ll_dup os (as_c_int (fh fi)) s in reply_status os fs (ll_close os fd s1))"

definition ll_statfs :: "('s, 'v) ll_os \<Rightarrow> Fs \<Rightarrow> u64 \<Rightarrow> 's \<Rightarrow> ('s, 'v) ll_result" where
  "ll_statfs os fs ino s =
     rbind (get_fs_fd fs ino) (\<lambda>fd. let (res, st, s1) = ll_fstatvfs os fd s in
       Inr (if res < 0 then R_err (- res) else R_statfs st, fs, s1))"

definition ll_getattr :: "('s, 'v) ll_os \<Rightarrow> Fs \<Rightarrow> u64 \<Rightarrow> 's \<Rightarrow> ('s, 'v) ll_result" where
  "ll_getattr os fs ino s =
     rbind (get_inode fs ino) (\<lambda>(_, i).
       let (res, attr, s1) = ll_fstatat os (ifd i) [] (AT_EMPTY_PATH OR AT_SYMLINK_NOFOLLOW) s in
       Inr (if res < 0 then R_err (ll_errno os s1) else R_attr attr (fs_timeout fs), fs, s1))"

text \<open>\<open>CString::new\<close> refuses bytes that hold a zero.\<close>

definition cstring_new :: "bytes \<Rightarrow> bytes result" where
  "cstring_new b = (if 0 \<in> set b then Inl (Panicked ''called Result::unwrap() on an Err value'') else Inr b)"

definition PATH_BUF_SIZE :: nat where "PATH_BUF_SIZE = 4097"

definition ll_readlink :: "('s, 'v) ll_os \<Rightarrow> Fs \<Rightarrow> u64 \<Rightarrow> 's \<Rightarrow> ('s, 'v) ll_result" where
  "ll_readlink os fs ino s =
     rbind (get_fs_fd fs ino) (\<lambda>fd.
       let (res, out, s1) = ll_readlinkat os fd [] PATH_BUF_SIZE s in
       if res = -1 then Inr (R_err (ll_errno os s1), fs, s1)
       else
         rbind (require (nat res < PATH_BUF_SIZE) ''index out of bounds'') (\<lambda>_.
         rbind (cstring_new (take (nat res) out @ [0])) (\<lambda>b. Inr (R_readlink b, fs, s1))))"

definition ll_open :: "('s, 'v) ll_os \<Rightarrow> Fs \<Rightarrow> u64 \<Rightarrow> ll_file_info \<Rightarrow> 's \<Rightarrow> ('s, 'v) ll_result" where
  "ll_open os fs ino fi s =
     (let cached = (fs_timeout fs \<noteq> 0);
          flags1 = (if cached \<and> fi_flags fi AND O_ACCMODE = O_WRONLY then (fi_flags fi AND NOT O_ACCMODE) OR O_RDWR else fi_flags fi);
          flags2 = (if cached then flags1 AND NOT O_APPEND else flags1);
          fi1 = fi\<lparr>fi_flags := flags2\<rparr> in
      rbind (get_fs_fd fs ino) (\<lambda>ifd.
        let (fd, s1) = ll_sys_open os (self_path ifd) (flags2 AND NOT O_NOFOLLOW) s in
        if fd = -1 then Inr (R_err (ll_errno os s1), fs, s1)
        else Inr (R_open (fi1\<lparr>keep_cache := cached, fh := fd\<rparr>), fs, s1)))"

definition ll_opendir :: "('s, 'v) ll_os \<Rightarrow> Fs \<Rightarrow> u64 \<Rightarrow> ll_file_info \<Rightarrow> 's \<Rightarrow> ('s, 'v) ll_result" where
  "ll_opendir os fs ino fi s =
     rbind (get_fs_fd fs ino) (\<lambda>ifd.
       let (fd, s1) = ll_openat os ifd [46] 0 0 s in
       if fd = -1 then Inr (R_err (ll_errno os s1), fs, s1)
       else (case ll_fdopendir os fd s1 of
           (None, s2) \<Rightarrow> Inr (R_err (ll_errno os s2), fs, s2)
         | (Some dp, s2) \<Rightarrow>
             let fi1 = fi\<lparr>fh := dp\<rparr> in
             Inr (R_open (if fs_timeout fs \<noteq> 0 then fi1\<lparr>keep_cache := True, cache_readdir := True\<rparr> else fi1), fs, s2)))"

definition ll_releasedir :: "('s, 'v) ll_os \<Rightarrow> Fs \<Rightarrow> ll_file_info \<Rightarrow> 's \<Rightarrow> ('s, 'v) ll_result" where
  "ll_releasedir os fs fi s = Inr (R_err 0, fs, ll_closedir os (fh fi) s)"

definition ll_fsyncdir :: "('s, 'v) ll_os \<Rightarrow> Fs \<Rightarrow> i32 \<Rightarrow> ll_file_info \<Rightarrow> 's \<Rightarrow> ('s, 'v) ll_result" where
  "ll_fsyncdir os fs datasync fi s =
     (let fd = ll_dirfd os (fh fi) s in
      reply_status os fs (if datasync \<noteq> 0 then ll_sys_fdatasync os fd s else ll_sys_fsync os fd s))"

text \<open>
  Filling a buffer with directory entries; the encoders of the FUSE library are parameters, an
  entry that does not fit is not written.  The loop runs as long as the stream gives entries:
  \<open>None\<close> when the fuel is used up.
\<close>

record dir_codec =
  add_direntry :: "bytes \<Rightarrow> u64 \<Rightarrow> u32 \<Rightarrow> i64 \<Rightarrow> bytes"
  add_direntry_plus :: "bytes \<Rightarrow> fuse_entry_param \<Rightarrow> i64 \<Rightarrow> bytes"

fun readdir_fill :: "nat \<Rightarrow> ('s, 'v) ll_os \<Rightarrow> dir_codec \<Rightarrow> (Fs \<Rightarrow> u64) \<Rightarrow> Fs \<Rightarrow> u64 \<Rightarrow> int \<Rightarrow> nat \<Rightarrow> bool \<Rightarrow> bytes \<Rightarrow> 's
    \<Rightarrow> ('s, 'v) ll_result option" where
  "readdir_fill 0 os c box fs ino dp sz with_attr buf s = None"
| "readdir_fill (Suc n) os c box fs ino dp sz with_attr buf s = (case ll_sys_readdir os dp s of
       (None, s1) \<Rightarrow>
         Some (Inr (if ll_errno os s1 \<noteq> 0 then R_err (ll_errno os s1) else R_buf buf (length buf), fs, s1))
     | (Some e, s1) \<Rightarrow>
         if is_dot_or_dotdot (d_name e) then readdir_fill n os c box fs ino dp sz with_attr buf s1
         else if with_attr then
           (case lookup os box fs ino (d_name e) s1 of
              Inl f \<Rightarrow> Some (Inl f)
            | Inr (R_err x, fs1, s2) \<Rightarrow> Some (Inr (R_err x, fs1, s2))
            | Inr (R_entry p, fs1, s2) \<Rightarrow>
                let ent = add_direntry_plus c (d_name e) p (d_off e) in
                if sz - length buf < length ent
                then Some (rbind (forget fs1 (e_ino p) 1) (\<lambda>fs2. Inr (R_buf buf (length buf), fs2, s2)))
                else readdir_fill n os c box fs1 ino dp sz with_attr (buf @ ent) s2
            | Inr _ \<Rightarrow> Some (Inl (Panicked ''internal error: entered unreachable code'')))
         else
           let ent = add_direntry c (d_name e) (d_ino e) (push_bit 12 (ucast (d_type e))) (d_off e) in
           if sz - length buf < length ent then Some (Inr (R_buf buf (length buf), fs, s1))
           else readdir_fill n os c box fs ino dp sz with_attr (buf @ ent) s1)"

definition readdir_common :: "nat \<Rightarrow> ('s, 'v) ll_os \<Rightarrow> dir_codec \<Rightarrow> (Fs \<Rightarrow> u64) \<Rightarrow> Fs \<Rightarrow> u64 \<Rightarrow> nat \<Rightarrow> i64 \<Rightarrow> ll_file_info \<Rightarrow> bool \<Rightarrow> 's
    \<Rightarrow> ('s, 'v) ll_result option" where
  "readdir_common n os c box fs ino sz off fi with_attr s = (case get_inode fs ino of
       Inl f \<Rightarrow> Some (Inl f)
     | Inr _ \<Rightarrow> readdir_fill n os c box fs ino (fh fi) sz with_attr [] (ll_seekdir os (fh fi) off s))"

definition attr_list :: "('s, 'v) ll_os \<Rightarrow> Fs \<Rightarrow> nat \<Rightarrow> int \<times> bytes \<times> 's \<Rightarrow> ('s, 'v) ll_result" where
  "attr_list os fs sz r = (case r of (ret, out, s) \<Rightarrow>
     Inr (if ret = -1 then R_err (ll_errno os s)
          else if sz = 0 then R_xattr (nat ret)
          else if ret = 0 then R_err 0
          else R_buf out (nat ret), fs, s))"

definition ll_listxattr :: "('s, 'v) ll_os \<Rightarrow> Fs \<Rightarrow> u64 \<Rightarrow> nat \<Rightarrow> 's \<Rightarrow> ('s, 'v) ll_result" where
  "ll_listxattr os fs ino sz s =
     rbind (get_inode fs ino) (\<lambda>(_, i).
       if is_symlink i then Inr (R_err ENOTSUP, fs, s)
       else attr_list os fs sz (ll_sys_listxattr os (self_path (ifd i)) sz s))"

definition ll_getxattr :: "('s, 'v) ll_os \<Rightarrow> Fs \<Rightarrow> u64 \<Rightarrow> bytes \<Rightarrow> nat \<Rightarrow> 's \<Rightarrow> ('s, 'v) ll_result" where
  "ll_getxattr os fs ino name sz s =
     rbind (get_inode fs ino) (\<lambda>(_, i).
       if is_symlink i then Inr (R_err ENOTSUP, fs, s)
       else attr_list os fs sz (ll_sys_getxattr os (self_path (ifd i)) name sz s))"

section \<open>Writing\<close>

definition ll_write_buf :: "('s, 'v) ll_os \<Rightarrow> Fs \<Rightarrow> bytes \<Rightarrow> i64 \<Rightarrow> ll_file_info \<Rightarrow> 's \<Rightarrow> ('s, 'v) ll_result" where
  "ll_write_buf os fs buf off fi s =
     (let (res, s1) = ll_buf_copy os (as_c_int (fh fi)) off buf s in
      Inr (if res < 0 then R_err (as_c_int (- res)) else R_write (nat res), fs, s1))"

definition ll_fallocate :: "('s, 'v) ll_os \<Rightarrow> Fs \<Rightarrow> i32 \<Rightarrow> i64 \<Rightarrow> i64 \<Rightarrow> ll_file_info \<Rightarrow> 's \<Rightarrow> ('s, 'v) ll_result" where
  "ll_fallocate os fs md off len fi s =
     (if md \<noteq> 0 then Inr (R_err EOPNOTSUPP, fs, s)
      else let (res, s1) = ll_posix_fallocate os (as_c_int (fh fi)) off len s in Inr (R_err res, fs, s1))"

text \<open>The three that make a node and look it up.\<close>

definition made :: "('s, 'v) ll_os \<Rightarrow> (Fs \<Rightarrow> u64) \<Rightarrow> Fs \<Rightarrow> u64 \<Rightarrow> bytes \<Rightarrow> (int \<Rightarrow> 's \<Rightarrow> int \<times> 's) \<Rightarrow> 's \<Rightarrow> ('s, 'v) ll_result" where
  "made os box fs parent name mk s =
     rbind (get_fs_fd fs parent) (\<lambda>pfd.
       let (res, s1) = mk pfd s in
       if res < 0 then Inr (R_err (ll_errno os s1), fs, s1) else lookup os box fs parent name s1)"

definition ll_mknod :: "('s, 'v) ll_os \<Rightarrow> (Fs \<Rightarrow> u64) \<Rightarrow> Fs \<Rightarrow> u64 \<Rightarrow> bytes \<Rightarrow> u32 \<Rightarrow> u64 \<Rightarrow> 's \<Rightarrow> ('s, 'v) ll_result" where
  "ll_mknod os box fs parent name md rdev s = made os box fs parent name (\<lambda>pfd. ll_mknodat os pfd name md rdev) s"

definition ll_mkdir :: "('s, 'v) ll_os \<Rightarrow> (Fs \<Rightarrow> u64) \<Rightarrow> Fs \<Rightarrow> u64 \<Rightarrow> bytes \<Rightarrow> u32 \<Rightarrow> 's \<Rightarrow> ('s, 'v) ll_result" where
  "ll_mkdir os box fs parent name md s = made os box fs parent name (\<lambda>pfd. ll_mkdirat os pfd name md) s"

definition ll_symlink :: "('s, 'v) ll_os \<Rightarrow> (Fs \<Rightarrow> u64) \<Rightarrow> Fs \<Rightarrow> bytes \<Rightarrow> u64 \<Rightarrow> bytes \<Rightarrow> 's \<Rightarrow> ('s, 'v) ll_result" where
  "ll_symlink os box fs link parent name s = made os box fs parent name (\<lambda>pfd. ll_symlinkat os link pfd name) s"

definition ll_create :: "('s, 'v) ll_os \<Rightarrow> (Fs \<Rightarrow> u64) \<Rightarrow> Fs \<Rightarrow> u64 \<Rightarrow> bytes \<Rightarrow> u32 \<Rightarrow> ll_file_info \<Rightarrow> 's \<Rightarrow> ('s, 'v) ll_result" where
  "ll_create os box fs parent name md fi s =
     rbind (get_fs_fd fs parent) (\<lambda>pfd.
       let (fd, s1) = ll_openat os pfd name ((fi_flags fi OR O_CREAT) AND NOT O_NOFOLLOW) md s in
       if fd = -1 then Inr (R_err (ll_errno os s1), fs, s1)
       else
         rbind (lookup os box fs parent name s1) (\<lambda>(r, fs1, s2). case r of
             R_err e \<Rightarrow> Inr (R_err e, fs1, s2)
           | R_entry e \<Rightarrow> Inr (R_create e (fi\<lparr>fh := fd\<rparr>), fs1, s2)
           | _ \<Rightarrow> Inl (Panicked ''internal error: entered unreachable code'')))"

definition ll_link :: "('s, 'v) ll_os \<Rightarrow> Fs \<Rightarrow> u64 \<Rightarrow> u64 \<Rightarrow> bytes \<Rightarrow> 's \<Rightarrow> ('s, 'v) ll_result" where
  "ll_link os fs ino newparent newname s =
     rbind (get_inode fs ino) (\<lambda>(a, i).
     rbind (get_fs_fd fs newparent) (\<lambda>pfd.
       let (res, s1) = (if is_symlink i then ll_linkat os (ifd i) [] pfd newname AT_EMPTY_PATH s
                        else ll_linkat os AT_FDCWD (self_path (ifd i)) pfd newname AT_SYMLINK_FOLLOW s);
           err = ll_errno os s1 in
       if is_symlink i \<and> res = -1 \<and> (err = ENOENT \<or> err = EINVAL) then Inr (R_err EOPNOTSUPP, fs, s1)
       else if res = -1 then Inr (R_err err, fs, s1)
       else
         let (res2, attr, s2) = ll_fstatat os (ifd i) [] (AT_EMPTY_PATH OR AT_SYMLINK_NOFOLLOW) s1 in
         if res2 = -1 then Inr (R_err (ll_errno os s2), fs, s2)
         else Inr (R_entry \<lparr>e_ino = ino, e_attr = attr, e_timeout = fs_timeout fs\<rparr>,
                   put_inode fs a (i\<lparr>nlookup := nlookup i + 1\<rparr>), s2)))"

definition ll_setxattr :: "('s, 'v) ll_os \<Rightarrow> Fs \<Rightarrow> u64 \<Rightarrow> bytes \<Rightarrow> bytes \<Rightarrow> i32 \<Rightarrow> 's \<Rightarrow> ('s, 'v) ll_result" where
  "ll_setxattr os fs ino name val flags s =
     rbind (get_inode fs ino) (\<lambda>(_, i).
       if is_symlink i then Inr (R_err ENOTSUP, fs, s)
       else reply_status os fs (ll_sys_setxattr os (self_path (ifd i)) name val flags s))"

definition ll_removexattr :: "('s, 'v) ll_os \<Rightarrow> Fs \<Rightarrow> u64 \<Rightarrow> bytes \<Rightarrow> 's \<Rightarrow> ('s, 'v) ll_result" where
  "ll_removexattr os fs ino name s =
     rbind (get_inode fs ino) (\<lambda>(_, i).
       if is_symlink i then Inr (R_err ENOTSUP, fs, s)
       else reply_status os fs (ll_sys_removexattr os (self_path (ifd i)) name s))"

definition ll_chmod :: "('s, 'v) ll_os \<Rightarrow> Fs \<Rightarrow> u64 \<Rightarrow> u32 \<Rightarrow> ll_file_info option \<Rightarrow> 's \<Rightarrow> ('s, 'v) ll_result" where
  "ll_chmod os fs ino md fi s = (case fi of
       Some i \<Rightarrow> reply_status os fs (ll_sys_fchmod os (as_c_int (fh i)) md s)
     | None \<Rightarrow> rbind (get_fs_fd fs ino) (\<lambda>fd. reply_status os fs (ll_sys_chmod os (self_path fd) md s)))"

definition ll_chown :: "('s, 'v) ll_os \<Rightarrow> Fs \<Rightarrow> u64 \<Rightarrow> u32 \<Rightarrow> u32 \<Rightarrow> 's \<Rightarrow> ('s, 'v) ll_result" where
  "ll_chown os fs ino uid gid s =
     rbind (get_fs_fd fs ino) (\<lambda>fd. reply_status os fs (ll_fchownat os fd [] uid gid (AT_EMPTY_PATH OR AT_SYMLINK_NOFOLLOW) s))"

definition ll_truncate :: "('s, 'v) ll_os \<Rightarrow> Fs \<Rightarrow> u64 \<Rightarrow> i64 \<Rightarrow> ll_file_info option \<Rightarrow> 's \<Rightarrow> ('s, 'v) ll_result" where
  "ll_truncate os fs ino sz fi s = (case fi of
       Some i \<Rightarrow> reply_status os fs (ll_sys_ftruncate os (as_c_int (fh i)) sz s)
     | None \<Rightarrow> rbind (get_fs_fd fs ino) (\<lambda>fd. reply_status os fs (ll_sys_truncate os (self_path fd) sz s)))"

definition ll_utimens :: "('s, 'v) ll_os \<Rightarrow> Fs \<Rightarrow> u64 \<Rightarrow> ts_pair \<Rightarrow> ll_file_info option \<Rightarrow> 's \<Rightarrow> ('s, 'v) ll_result" where
  "ll_utimens os fs ino ts fi s = (case fi of
       Some i \<Rightarrow> reply_status os fs (ll_futimens os (as_c_int (fh i)) ts s)
     | None \<Rightarrow>
         rbind (get_inode fs ino) (\<lambda>(_, i).
           if is_symlink i then
             let (res, s1) = ll_utimensat os (ifd i) [] ts (AT_EMPTY_PATH OR AT_SYMLINK_NOFOLLOW) s in
             if res = -1 \<and> ll_errno os s1 = EINVAL then Inr (R_err EPERM, fs, s1) else reply_status os fs (res, s1)
           else reply_status os fs (ll_utimensat os AT_FDCWD (self_path (ifd i)) ts 0 s)))"

section \<open>Changing paths\<close>

text \<open>The second half of a rename: the path of the inode that is replaced, and the system call.\<close>

definition rename_onto :: "('s, 'v) ll_os \<Rightarrow> Fs \<Rightarrow> u64 \<Rightarrow> Inode \<Rightarrow> bytes \<Rightarrow> bytes \<Rightarrow> 's \<Rightarrow> ('s, 'v) ll_result" where
  "rename_onto os fs parent op name newname s =
     rbind (get_inode fs parent) (\<lambda>np.
     rbind (replace_path os fs np newname None s) (\<lambda>(r, fs1, s1).
       case r of
         Inl e \<Rightarrow> if e \<noteq> 0 \<and> e \<noteq> ENOENT then Inr (R_err e, fs1, s1)
                  else reply_status os fs1 (ll_renameat os (ifd op) name (ifd (snd np)) newname s1)
       | Inr _ \<Rightarrow> reply_status os fs1 (ll_renameat os (ifd op) name (ifd (snd np)) newname s1)))"

definition ll_rename :: "('s, 'v) ll_os \<Rightarrow> Fs \<Rightarrow> u64 \<Rightarrow> bytes \<Rightarrow> u64 \<Rightarrow> bytes \<Rightarrow> u32 \<Rightarrow> 's \<Rightarrow> ('s, 'v) ll_result" where
  "ll_rename os fs parent name newparent newname flags s =
     (if flags \<noteq> 0 then Inr (R_err EINVAL, fs, s)
      else
        rbind (get_inode fs parent) (\<lambda>op.
        rbind (cstr_to_str name) (\<lambda>nm.
        rbind (replace_path os fs op name (Some (newparent, nm)) s) (\<lambda>(r, fs1, s1).
          case r of
            Inl e \<Rightarrow> if e \<noteq> 0 then Inr (R_err e, fs1, s1) else rename_onto os fs1 parent (snd op) name newname s1
          | Inr _ \<Rightarrow> rename_onto os fs1 parent (snd op) name newname s1))))"

definition ll_unlink :: "('s, 'v) ll_os \<Rightarrow> Fs \<Rightarrow> u64 \<Rightarrow> bytes \<Rightarrow> 's \<Rightarrow> ('s, 'v) ll_result" where
  "ll_unlink os fs parent name s =
     rbind (get_inode fs parent) (\<lambda>p.
     rbind (replace_path os fs p name None s) (\<lambda>(r, fs1, s1).
       case r of
         Inl e \<Rightarrow> if e \<noteq> 0 then Inr (R_err e, fs1, s1) else reply_status os fs1 (ll_unlinkat os (ifd (snd p)) name 0 s1)
       | Inr _ \<Rightarrow> reply_status os fs1 (ll_unlinkat os (ifd (snd p)) name 0 s1)))"

definition ll_rmdir :: "('s, 'v) ll_os \<Rightarrow> Fs \<Rightarrow> u64 \<Rightarrow> bytes \<Rightarrow> 's \<Rightarrow> ('s, 'v) ll_result" where
  "ll_rmdir os fs parent name s =
     rbind (get_inode fs parent) (\<lambda>p.
     rbind (replace_path os fs p name None s) (\<lambda>(r, fs1, s1).
       case r of
         Inl e \<Rightarrow> if e = 0 then Inl (Panicked ''It must have a path'') else Inr (R_err e, fs1, s1)
       | Inr _ \<Rightarrow> reply_status os fs1 (ll_unlinkat os (ifd (snd p)) name AT_REMOVEDIR s1)))"

section \<open>Attributes\<close>

definition FUSE_SET_ATTR_MODE :: u32 where "FUSE_SET_ATTR_MODE = 1"
definition FUSE_SET_ATTR_UID :: u32 where "FUSE_SET_ATTR_UID = 2"
definition FUSE_SET_ATTR_GID :: u32 where "FUSE_SET_ATTR_GID = 4"
definition FUSE_SET_ATTR_SIZE :: u32 where "FUSE_SET_ATTR_SIZE = 8"
definition FUSE_SET_ATTR_ATIME :: u32 where "FUSE_SET_ATTR_ATIME = 16"
definition FUSE_SET_ATTR_MTIME :: u32 where "FUSE_SET_ATTR_MTIME = 32"
definition FUSE_SET_ATTR_ATIME_NOW :: u32 where "FUSE_SET_ATTR_ATIME_NOW = 128"
definition FUSE_SET_ATTR_MTIME_NOW :: u32 where "FUSE_SET_ATTR_MTIME_NOW = 256"
definition UTIME_NOW :: i64 where "UTIME_NOW = 0x3fffffff"
definition UTIME_OMIT :: i64 where "UTIME_OMIT = 0x3ffffffe"

text \<open>Run the next part unless the reply of this one is an error reply.\<close>

definition unless_err :: "bool \<Rightarrow> (Fs \<Rightarrow> 's \<Rightarrow> ('s, 'v) ll_result) \<Rightarrow> Fs \<Rightarrow> 's \<Rightarrow> (Fs \<Rightarrow> 's \<Rightarrow> ('s, 'v) ll_result) \<Rightarrow> ('s, 'v) ll_result" where
  "unless_err wanted op fs s k =
     (if wanted then
        rbind (op fs s) (\<lambda>(r, fs1, s1). case r of R_err e \<Rightarrow> Inr (R_err e, fs1, s1) | _ \<Rightarrow> k fs1 s1)
      else k fs s)"

definition set_times :: "ll_stat \<Rightarrow> u32 \<Rightarrow> ts_pair" where
  "set_times attr to_set =
     ((0, if flags_intersects to_set FUSE_SET_ATTR_ATIME_NOW then UTIME_NOW
          else if flags_intersects to_set FUSE_SET_ATTR_ATIME then st_atime attr else UTIME_OMIT),
      (0, if flags_intersects to_set FUSE_SET_ATTR_MTIME_NOW then UTIME_NOW
          else if flags_intersects to_set FUSE_SET_ATTR_MTIME then st_mtime attr else UTIME_OMIT))"

text \<open>The trait's \<open>setattr\<close>, over the methods of the file system that has it.\<close>

record ('s, 'v) attr_methods =
  m_chmod :: "Fs \<Rightarrow> u64 \<Rightarrow> u32 \<Rightarrow> ll_file_info option \<Rightarrow> 's \<Rightarrow> ('s, 'v) ll_result"
  m_chown :: "Fs \<Rightarrow> u64 \<Rightarrow> u32 \<Rightarrow> u32 \<Rightarrow> 's \<Rightarrow> ('s, 'v) ll_result"
  m_truncate :: "Fs \<Rightarrow> u64 \<Rightarrow> i64 \<Rightarrow> ll_file_info option \<Rightarrow> 's \<Rightarrow> ('s, 'v) ll_result"
  m_utimens :: "Fs \<Rightarrow> u64 \<Rightarrow> ts_pair \<Rightarrow> ll_file_info option \<Rightarrow> 's \<Rightarrow> ('s, 'v) ll_result"
  m_getattr :: "Fs \<Rightarrow> u64 \<Rightarrow> 's \<Rightarrow> ('s, 'v) ll_result"

definition setattr :: "('s, 'v) attr_methods \<Rightarrow> Fs \<Rightarrow> u64 \<Rightarrow> ll_stat \<Rightarrow> u32 \<Rightarrow> ll_file_info option \<Rightarrow> 's \<Rightarrow> ('s, 'v) ll_result" where
  "setattr m fs ino attr to_set fi s =
     unless_err (flags_intersects to_set FUSE_SET_ATTR_MODE) (\<lambda>fs. m_chmod m fs ino (st_mode attr) fi) fs s (\<lambda>fs1 s1.
     unless_err (flags_intersects to_set (FUSE_SET_ATTR_UID OR FUSE_SET_ATTR_GID))
       (\<lambda>fs. m_chown m fs ino (if flags_intersects to_set FUSE_SET_ATTR_UID then st_uid attr else -1)
          (if flags_intersects to_set FUSE_SET_ATTR_GID then st_gid attr else -1)) fs1 s1 (\<lambda>fs2 s2.
     unless_err (flags_intersects to_set FUSE_SET_ATTR_SIZE) (\<lambda>fs. m_truncate m fs ino (st_size attr) fi) fs2 s2 (\<lambda>fs3 s3.
     unless_err (flags_intersects to_set (FUSE_SET_ATTR_ATIME OR FUSE_SET_ATTR_MTIME))
       (\<lambda>fs. m_utimens m fs ino (set_times attr to_set) fi) fs3 s3 (\<lambda>fs4 s4.
       m_getattr m fs4 ino s4))))"

definition fs_methods :: "('s, 'v) ll_os \<Rightarrow> ('s, 'v) attr_methods" where
  "fs_methods os = \<lparr>m_chmod = ll_chmod os, m_chown = ll_chown os, m_truncate = ll_truncate os, m_utimens = ll_utimens os,
     m_getattr = ll_getattr os\<rparr>"

section \<open>Requests\<close>

text \<open>
  The requests of \<open>ops.rs\<close> with their arguments; a buffer goes with its size.  The two that read
  directories and those that are answered by nothing (\<open>forget\<close>) are apart.
\<close>

datatype ll_request =
    Q_lookup u64 bytes
  | Q_getattr u64
  | Q_setattr u64 ll_stat u32 "ll_file_info option"
  | Q_readlink u64
  | Q_mknod u64 bytes u32 u64
  | Q_mkdir u64 bytes u32
  | Q_unlink u64 bytes
  | Q_rmdir u64 bytes
  | Q_symlink bytes u64 bytes
  | Q_rename u64 bytes u64 bytes u32
  | Q_link u64 u64 bytes
  | Q_open u64 ll_file_info
  | Q_read u64 nat i64 ll_file_info
  | Q_write u64 bytes i64 ll_file_info
  | Q_flush u64 ll_file_info
  | Q_release u64 ll_file_info
  | Q_fsync u64 i32 ll_file_info
  | Q_fsyncdir u64 i32 ll_file_info
  | Q_opendir u64 ll_file_info
  | Q_releasedir u64 ll_file_info
  | Q_statfs u64
  | Q_setxattr u64 bytes bytes i32
  | Q_getxattr u64 bytes nat
  | Q_listxattr u64 nat
  | Q_removexattr u64 bytes
  | Q_access u64 i32
  | Q_ioctl u64 u32 u64 ll_file_info u32 bytes nat
  | Q_retrieve_reply u64 u64 i64 bytes
  | Q_create u64 bytes u32 ll_file_info
  | Q_getlk u64 ll_file_info flock
  | Q_setlk u64 ll_file_info flock i32
  | Q_bmap u64 nat u64
  | Q_write_buf u64 bytes i64 ll_file_info
  | Q_flock u64 ll_file_info i32
  | Q_fallocate u64 i32 i64 i64 ll_file_info
  | Q_copy_file_range u64 i64 ll_file_info u64 i64 ll_file_info nat i32
  | Q_poll u64 ll_file_info u64

text \<open>A method that a file system does not define (\<open>declare_method!\<close>).\<close>

definition undefined_method :: "Fs \<Rightarrow> 's \<Rightarrow> ('s, 'v) ll_result" where
  "undefined_method fs s = Inr (R_err EOPNOTSUPP, fs, s)"

fun serve :: "('s, 'v) ll_os \<Rightarrow> (Fs \<Rightarrow> u64) \<Rightarrow> ll_request \<Rightarrow> Fs \<Rightarrow> 's \<Rightarrow> ('s, 'v) ll_result" where
  "serve os box (Q_lookup p n) fs s = lookup os box fs p n s"
| "serve os box (Q_getattr i) fs s = ll_getattr os fs i s"
| "serve os box (Q_setattr i a t fi) fs s = setattr (fs_methods os) fs i a t fi s"
| "serve os box (Q_readlink i) fs s = ll_readlink os fs i s"
| "serve os box (Q_mknod p n m d) fs s = ll_mknod os box fs p n m d s"
| "serve os box (Q_mkdir p n m) fs s = ll_mkdir os box fs p n m s"
| "serve os box (Q_unlink p n) fs s = ll_unlink os fs p n s"
| "serve os box (Q_rmdir p n) fs s = ll_rmdir os fs p n s"
| "serve os box (Q_symlink l p n) fs s = ll_symlink os box fs l p n s"
| "serve os box (Q_rename p n p' n' fl) fs s = ll_rename os fs p n p' n' fl s"
| "serve os box (Q_link i p n) fs s = ll_link os fs i p n s"
| "serve os box (Q_open i fi) fs s = ll_open os fs i fi s"
| "serve os box (Q_read i n off fi) fs s = ll_read fs n off fi s"
| "serve os box (Q_flush i fi) fs s = ll_flush os fs fi s"
| "serve os box (Q_release i fi) fs s = ll_release os fs fi s"
| "serve os box (Q_fsync i d fi) fs s = ll_fsync os fs d fi s"
| "serve os box (Q_fsyncdir i d fi) fs s = ll_fsyncdir os fs d fi s"
| "serve os box (Q_opendir i fi) fs s = ll_opendir os fs i fi s"
| "serve os box (Q_releasedir i fi) fs s = ll_releasedir os fs fi s"
| "serve os box (Q_statfs i) fs s = ll_statfs os fs i s"
| "serve os box (Q_setxattr i n v fl) fs s = ll_setxattr os fs i n v fl s"
| "serve os box (Q_getxattr i n sz) fs s = ll_getxattr os fs i n sz s"
| "serve os box (Q_listxattr i n) fs s = ll_listxattr os fs i n s"
| "serve os box (Q_removexattr i n) fs s = ll_removexattr os fs i n s"
| "serve os box (Q_create p n m fi) fs s = ll_create os box fs p n m fi s"
| "serve os box (Q_write_buf i b off fi) fs s = ll_write_buf os fs b off fi s"
| "serve os box (Q_fallocate i m off len fi) fs s = ll_fallocate os fs m off len fi s"
| "serve os box _ fs s = undefined_method fs s"

end
