(* ===== verification/FuseLlLaws.thy ===== *)
theory FuseLlLaws
  imports FuseLlOps FuseReadLaws
begin

text \<open>
  The inode table of the low-level front end against the kernel's account of it: every answer that
  carries an inode counts as one lookup, which the kernel gives back with \<open>forget\<close>.
\<close>

section \<open>The table\<close>

text \<open>
  Table and boxes correspond to each other, boxes are apart from the root, and the box of an inode
  counts one lookup more than the kernel holds: \<open>held\<close> says how many that are.
\<close>

definition table_ok :: "Fs \<Rightarrow> (u64 \<Rightarrow> nat) \<Rightarrow> bool" where
  "table_ok fs held \<longleftrightarrow>
     (\<forall>key a. inodes fs key = Some a \<longrightarrow> (\<exists>i. boxes fs a = Some i \<and> key = (src_ino i, src_dev i)))
     \<and> (\<forall>a i. boxes fs a = Some i \<longrightarrow> inodes fs (src_ino i, src_dev i) = Some a \<and> a \<noteq> root_addr fs \<and> a \<noteq> FUSE_ROOT_ID
          \<and> ifd i \<noteq> -1 \<and> unat (nlookup i) = held a + 1)
     \<and> (\<forall>a. 0 < held a \<longrightarrow> boxes fs a \<noteq> None)"

lemma table_okD:
  assumes "table_ok fs held"
  shows "inodes fs key = Some a \<Longrightarrow> \<exists>i. boxes fs a = Some i \<and> key = (src_ino i, src_dev i)"
    "boxes fs a = Some i \<Longrightarrow> inodes fs (src_ino i, src_dev i) = Some a" "boxes fs a = Some i \<Longrightarrow> a \<noteq> root_addr fs"
    "boxes fs a = Some i \<Longrightarrow> a \<noteq> FUSE_ROOT_ID" "boxes fs a = Some i \<Longrightarrow> ifd i \<noteq> -1"
    "boxes fs a = Some i \<Longrightarrow> unat (nlookup i) = held a + 1" "0 < held a \<Longrightarrow> boxes fs a \<noteq> None"
  using assms unfolding table_ok_def by blast+

text \<open>Changing a box without its identity, and the count that goes with it.\<close>

lemma table_ok_update:
  assumes "table_ok fs held" "boxes fs a = Some i" "src_ino i' = src_ino i" "src_dev i' = src_dev i" "ifd i' = ifd i"
    and "unat (nlookup i') = held' a + 1" "\<And>b. b \<noteq> a \<Longrightarrow> held' b = held b"
  shows "table_ok (fs\<lparr>boxes := (boxes fs)(a \<mapsto> i')\<rparr>) held'"
  unfolding table_ok_def
proof (intro conjI allI impI)
  note T = table_okD [OF assms(1)]
  fix key b assume "inodes (fs\<lparr>boxes := (boxes fs)(a \<mapsto> i')\<rparr>) key = Some b"
  then obtain j where "boxes fs b = Some j" "key = (src_ino j, src_dev j)" using T(1) [of key b] by auto
  then show "\<exists>j. boxes (fs\<lparr>boxes := (boxes fs)(a \<mapsto> i')\<rparr>) b = Some j \<and> key = (src_ino j, src_dev j)"
    using assms(2-4) by auto
next
  note T = table_okD [OF assms(1)]
  fix b j assume "boxes (fs\<lparr>boxes := (boxes fs)(a \<mapsto> i')\<rparr>) b = Some j"
  then show "inodes (fs\<lparr>boxes := (boxes fs)(a \<mapsto> i')\<rparr>) (src_ino j, src_dev j) = Some b"
    "b \<noteq> root_addr (fs\<lparr>boxes := (boxes fs)(a \<mapsto> i')\<rparr>)" "b \<noteq> FUSE_ROOT_ID" "ifd j \<noteq> -1" "unat (nlookup j) = held' b + 1"
    using assms(2-7) T(2-6) by (auto split: if_splits)
next
  fix b assume "0 < held' b"
  then show "boxes (fs\<lparr>boxes := (boxes fs)(a \<mapsto> i')\<rparr>) b \<noteq> None" using assms(7) table_okD(7) [OF assms(1)] by (cases "b = a") auto
qed

lemma unat_Suc: "unat (w :: u64) < 2 ^ 64 - 1 \<Longrightarrow> unat (w + 1) = unat w + 1"
  by (simp add: unat_word_ariths)

text \<open>The allocator gives an address that nothing else has.\<close>

definition fresh_box :: "(Fs \<Rightarrow> u64) \<Rightarrow> Fs \<Rightarrow> bool" where
  "fresh_box box fs \<longleftrightarrow> boxes fs (box fs) = None \<and> box fs \<noteq> root_addr fs \<and> box fs \<noteq> FUSE_ROOT_ID"

section \<open>Looking up\<close>

lemma enter_inode_ok:
  assumes "enter_inode box fs attr fd parent name = Inr (a, fs1)" "table_ok fs held" "fresh_box box fs" "fd \<noteq> -1"
  shows "\<exists>i. boxes fs1 a = Some i \<and> unat (nlookup i) = held a + 1 \<and> (inodes fs (st_ino attr, st_dev attr) = None \<longrightarrow> ifd i = fd \<and> boxes fs a = None)"
    "table_ok fs1 held" "dom (boxes fs) \<subseteq> dom (boxes fs1)"
proof -
  note T = table_okD [OF assms(2)]
  let ?key = "(st_ino attr, st_dev attr)"
  have "(\<exists>i. boxes fs1 a = Some i \<and> unat (nlookup i) = held a + 1 \<and> (inodes fs ?key = None \<longrightarrow> ifd i = fd \<and> boxes fs a = None))
      \<and> table_ok fs1 held \<and> dom (boxes fs) \<subseteq> dom (boxes fs1)"
  proof (cases "inodes fs ?key")
    case (Some b)
    then show ?thesis using assms(1,2) T(1) [OF Some] T(6) by (auto simp: enter_inode_def)
  next
    case None
    let ?i = "new_inode attr fd parent name"
    have fs1: "a = box fs" "fs1 = fs\<lparr>inodes := (inodes fs)(?key \<mapsto> a), boxes := (boxes fs)(a \<mapsto> ?i)\<rparr>"
      using assms(1) None by (auto simp: enter_inode_def cstr_to_str_def Let_def split: if_splits)
    have free: "boxes fs a = None" "a \<noteq> root_addr fs" "a \<noteq> FUSE_ROOT_ID" using assms(3) fs1(1) by (auto simp: fresh_box_def)
    then have held: "held a = 0" using T(7) by blast
    have i: "src_ino ?i = st_ino attr" "src_dev ?i = st_dev attr" "nlookup ?i = 1" "ifd ?i = fd" by (simp_all add: new_inode_def)
    have "table_ok fs1 held"
      unfolding table_ok_def
    proof (intro conjI allI impI)
      show "\<exists>j. boxes fs1 b = Some j \<and> key = (src_ino j, src_dev j)" if "inodes fs1 key = Some b" for key b
        using that T(1) [of key b] free(1) i unfolding fs1(2) by (auto split: if_splits)
      fix b j assume b: "boxes fs1 b = Some j"
      show "inodes fs1 (src_ino j, src_dev j) = Some b"
        using b T(2) [of b j] None i unfolding fs1(2) by (auto split: if_splits)
      show "b \<noteq> root_addr fs1" "b \<noteq> FUSE_ROOT_ID" "ifd j \<noteq> -1" "unat (nlookup j) = held b + 1"
        using b T(3-6) free held i assms(4) unfolding fs1(2) by (auto split: if_splits)
    next
      show "boxes fs1 b \<noteq> None" if "0 < held b" for b using that T(7) unfolding fs1(2) by auto
    qed
    moreover have "boxes fs1 a = Some ?i" unfolding fs1(2) by simp
    ultimately show ?thesis using i held free(1) fs1(2) by auto
  qed
  then show "\<exists>i. boxes fs1 a = Some i \<and> unat (nlookup i) = held a + 1 \<and> (inodes fs ?key = None \<longrightarrow> ifd i = fd \<and> boxes fs a = None)"
    "table_ok fs1 held" "dom (boxes fs) \<subseteq> dom (boxes fs1)" by blast+
qed

text \<open>The inode that an answer hands to the kernel.\<close>

fun given :: "'v FuseReply \<Rightarrow> u64 option" where
  "given (R_entry e) = Some (e_ino e)"
| "given (R_create e fi) = Some (e_ino e)"
| "given _ = None"

definition holding :: "(u64 \<Rightarrow> nat) \<Rightarrow> u64 option \<Rightarrow> u64 \<Rightarrow> nat" where
  "holding held g = (case g of None \<Rightarrow> held | Some a \<Rightarrow> held(a := held a + 1))"

text \<open>No counter is about to run over.\<close>

definition counts_ok :: "(u64 \<Rightarrow> nat) \<Rightarrow> bool" where
  "counts_ok held \<longleftrightarrow> (\<forall>a. held a + 2 < 2 ^ 64)"

text \<open>What every operation does to the table: nothing is given back, and the account stays right.\<close>

definition keeps_table :: "Fs \<Rightarrow> (u64 \<Rightarrow> nat) \<Rightarrow> 'v FuseReply \<times> Fs \<times> 's \<Rightarrow> bool" where
  "keeps_table fs held res \<longleftrightarrow> (case res of (r, fs', s') \<Rightarrow>
     table_ok fs' (holding held (given r)) \<and> dom (boxes fs) \<subseteq> dom (boxes fs') \<and> root_addr fs' = root_addr fs)"

lemma lookup_cases:
  assumes "lookup os box fs parent name s = Inr (r, fs', s')"
  obtains (err) e where "r = R_err e" "fs' = fs"
  | (found) newfd attr t a fs1 i e where "newfd \<noteq> -1" "enter_inode box fs attr newfd parent name = Inr (a, fs1)" "boxes fs1 a = Some i"
      "r = R_entry e" "e_ino e = a" "fs' = fs1\<lparr>boxes := (boxes fs1)(a \<mapsto> i\<lparr>nlookup := nlookup i + 1\<rparr>)\<rparr>" "s' = snd (ll_close os newfd t)"
proof -
  obtain pfd where p: "get_fs_fd fs parent = Inr pfd" using assms by (auto simp: lookup_def rbind_eq_Inr)
  obtain newfd s1 where o: "ll_openat os pfd name (O_PATH OR O_NOFOLLOW) 0 s = (newfd, s1)" by fastforce
  obtain er attr s2 where f: "ll_fstatat os newfd [] (AT_EMPTY_PATH OR AT_SYMLINK_NOFOLLOW) s1 = (er, attr, s2)"
    by (cases "ll_fstatat os newfd [] (AT_EMPTY_PATH OR AT_SYMLINK_NOFOLLOW) s1") auto
  note run = assms [unfolded lookup_def p rbind_Inr Let_def o f prod.case]
  show thesis
  proof (cases "newfd = -1 \<or> er = -1 \<or> st_dev attr \<noteq> fs_dev fs \<or> st_ino attr = FUSE_ROOT_ID")
    case True
    then show thesis using run err by (auto split: if_splits)
  next
    case False
    then obtain a fs1 where en: "enter_inode box fs attr newfd parent name = Inr (a, fs1)" using run by (auto simp: rbind_eq_Inr)
    obtain i where i: "boxes fs1 a = Some i" using run False en by (auto simp: rbind_eq_Inr unwrap_eq_Inr)
    show thesis
      using run False by (intro found [OF _ en i, where t = s2]) (auto simp: en i unwrap_def split: prod.splits)
  qed
qed

lemma lookup_keeps:
  assumes "lookup os box fs parent name s = Inr (r, fs', s')" "table_ok fs held" "fresh_box box fs" "counts_ok held"
  shows "keeps_table fs held (r, fs', s')"
  using assms(1)
proof (cases rule: lookup_cases)
  case (err e)
  then show ?thesis using assms(2) by (simp add: keeps_table_def holding_def)
next
  case (found newfd attr t a fs1 i e)
  note E = enter_inode_ok [OF found(2) assms(2,3) found(1)]
  have n: "unat (nlookup i) = held a + 1" using E(1) found(3) by auto
  then have "unat (nlookup i + 1) = held a + 1 + 1"
    using unat_Suc [of "nlookup i"] assms(4) by (simp add: counts_ok_def)
  then have "table_ok fs' (held(a := held a + 1))"
    unfolding found(6) by (intro table_ok_update [OF E(2) found(3)]) simp_all
  moreover have "root_addr fs1 = root_addr fs"
    using found(2) by (auto simp: enter_inode_def Let_def rmap_eq_Inr split: option.splits)
  ultimately show ?thesis
    using E(3) found(4-6) by (auto simp: keeps_table_def holding_def)
qed

section \<open>The other operations\<close>

lemma keeps_table_err: "table_ok fs held \<Longrightarrow> keeps_table fs held (R_err e, fs, s)"
  by (simp add: keeps_table_def holding_def)

lemma made_keeps:
  assumes "made os box fs parent name mk s = Inr (r, fs', s')" "table_ok fs held" "fresh_box box fs" "counts_ok held"
  shows "keeps_table fs held (r, fs', s')"
proof -
  obtain pfd where p: "get_fs_fd fs parent = Inr pfd" using assms(1) by (auto simp: made_def rbind_eq_Inr)
  obtain res s1 where "mk pfd s = (res, s1)" by fastforce
  then show ?thesis
    using assms p lookup_keeps [OF _ assms(2-4), of os parent name s1 r fs' s'] keeps_table_err [OF assms(2)]
    by (auto simp: made_def split: if_splits)
qed

lemma create_keeps:
  assumes "ll_create os box fs parent name md fi s = Inr (r, fs', s')" "table_ok fs held" "fresh_box box fs" "counts_ok held"
  shows "keeps_table fs held (r, fs', s')"
proof -
  obtain pfd where p: "get_fs_fd fs parent = Inr pfd" using assms(1) by (auto simp: ll_create_def rbind_eq_Inr)
  obtain fd s1 where o: "ll_openat os pfd name ((fi_flags fi OR O_CREAT) AND NOT O_NOFOLLOW) md s = (fd, s1)" by fastforce
  consider (err) e where "r = R_err e" "fs' = fs"
    | (found) r' where "lookup os box fs parent name s1 = Inr (r', fs', s')" "given r' = given r"
  proof (cases "fd = -1")
    case False
    then obtain r' fs2 s2 where l: "lookup os box fs parent name s1 = Inr (r', fs2, s2)"
      using assms(1) p o by (auto simp: ll_create_def rbind_eq_Inr)
    then show thesis using assms(1) p o False that by (cases r') (auto simp: ll_create_def)
  qed (use assms(1) p o that in \<open>auto simp: ll_create_def\<close>)
  then show ?thesis
  proof cases
    case err
    then show ?thesis using assms(2) by (simp add: keeps_table_def holding_def)
  next
    case found
    then show ?thesis using lookup_keeps [OF found(1) assms(2-4)] by (simp add: keeps_table_def)
  qed
qed

lemma get_inode_box:
  "get_inode fs ino = Inr (a, i) \<Longrightarrow> ino \<noteq> FUSE_ROOT_ID \<Longrightarrow> a = ino \<and> boxes fs ino = Some i"
  by (auto simp: get_inode_def rbind_eq_Inr unwrap_eq_Inr split: if_splits)

lemma link_keeps:
  assumes "ll_link os fs ino newparent newname s = Inr (r, fs', s')" "ino \<noteq> FUSE_ROOT_ID" "table_ok fs held" "counts_ok held"
  shows "keeps_table fs held (r, fs', s')"
proof -
  obtain a i where g0: "get_inode fs ino = Inr (a, i)" using assms(1) by (auto simp: ll_link_def rbind_eq_Inr)
  then have g: "get_inode fs ino = Inr (ino, i)" "boxes fs ino = Some i" using get_inode_box [OF g0 assms(2)] by auto
  obtain pfd where p: "get_fs_fd fs newparent = Inr pfd" using assms(1) g by (auto simp: ll_link_def rbind_eq_Inr)
  obtain res s1 where l: "(if is_symlink i then ll_linkat os (ifd i) [] pfd newname AT_EMPTY_PATH s
      else ll_linkat os AT_FDCWD (self_path (ifd i)) pfd newname AT_SYMLINK_FOLLOW s) = (res, s1)" by fastforce
  obtain res2 attr s2 where f: "ll_fstatat os (ifd i) [] (AT_EMPTY_PATH OR AT_SYMLINK_NOFOLLOW) s1 = (res2, attr, s2)"
    by (cases "ll_fstatat os (ifd i) [] (AT_EMPTY_PATH OR AT_SYMLINK_NOFOLLOW) s1") auto
  note run = assms(1) [unfolded ll_link_def g(1) p rbind_Inr Let_def prod.case l f]
  consider (err) e where "r = R_err e" "fs' = fs"
    | (linked) e where "r = R_entry e" "e_ino e = ino" "fs' = put_inode fs ino (i\<lparr>nlookup := nlookup i + 1\<rparr>)"
    using run that by (auto split: if_splits)
  then show ?thesis
  proof cases
    case err
    then show ?thesis using assms(3) by (simp add: keeps_table_def holding_def)
  next
    case linked
    note T = table_okD [OF assms(3)]
    have "unat (nlookup i + 1) = held ino + 1 + 1"
      using unat_Suc [of "nlookup i"] T(6) [OF g(2)] assms(4) by (simp add: counts_ok_def)
    then have "table_ok (fs\<lparr>boxes := (boxes fs)(ino \<mapsto> i\<lparr>nlookup := nlookup i + 1\<rparr>)\<rparr>) (held(ino := held ino + 1))"
      by (intro table_ok_update [OF assms(3) g(2)]) simp_all
    then show ?thesis using linked T(3) [OF g(2)] by (auto simp: keeps_table_def holding_def put_inode_def)
  qed
qed

lemma replace_path_keeps:
  assumes "replace_path os fs parent name newpath s = Inr (r, fs', s')" "table_ok fs held"
  shows "table_ok fs' held" "dom (boxes fs) \<subseteq> dom (boxes fs')" "root_addr fs' = root_addr fs"
proof -
  obtain child s1 where c: "get_child os fs (snd parent) name s = Inr (child, s1)"
    using assms(1) by (auto simp: replace_path_def rbind_eq_Inr)
  consider "fs' = fs" | a i where "boxes fs a = Some i" "fs' = fs\<lparr>boxes := (boxes fs)(a \<mapsto> i\<lparr>ipath := newpath\<rparr>)\<rparr>"
  proof (cases child)
    case (Inr a)
    then obtain i where i: "boxes fs a = Some i" using assms(1) c by (auto simp: replace_path_def rbind_eq_Inr unwrap_eq_Inr)
    note run = assms(1) [unfolded replace_path_def c Inr rbind_Inr prod.case sum.case i unwrap_def option.case]
    show thesis
    proof (cases "ipath i")
      case (Some primary)
      show thesis
        using run [unfolded Some option.case] that(1) that(2) [OF i] by (auto simp: cstr_to_str_def split: if_splits)
    qed (use run that(1) in simp)
  next
    case (Inl e)
    then show thesis using assms(1) c that(1) by (simp add: replace_path_def)
  qed
  then have "table_ok fs' held \<and> dom (boxes fs) \<subseteq> dom (boxes fs') \<and> root_addr fs' = root_addr fs"
  proof cases
    case 2
    then show ?thesis using table_ok_update [OF assms(2) 2(1), of "i\<lparr>ipath := newpath\<rparr>" held] table_okD(6) [OF assms(2) 2(1)] by auto
  qed (use assms(2) in simp)
  then show "table_ok fs' held" "dom (boxes fs) \<subseteq> dom (boxes fs')" "root_addr fs' = root_addr fs" by auto
qed

lemma reply_status_run: "reply_status os fs res = Inr (r, fs', s') \<Longrightarrow> fs' = fs \<and> (\<exists>e. r = R_err e)"
  by (auto simp: reply_status_def)

text \<open>After a change of paths the answer is a status.\<close>

lemma path_change_keeps:
  assumes "replace_path os fs p name newpath s = Inr (x, fs1, s1)" "table_ok fs held" "fs' = fs1" "r = R_err e"
  shows "keeps_table fs held (r, fs', s')"
  using replace_path_keeps [OF assms(1,2)] assms(3,4) by (simp add: keeps_table_def holding_def)

lemma unlink_keeps:
  assumes "ll_unlink os fs parent name s = Inr (r, fs', s')" "table_ok fs held"
  shows "keeps_table fs held (r, fs', s')"
proof -
  obtain p where p: "get_inode fs parent = Inr p" using assms(1) by (auto simp: ll_unlink_def rbind_eq_Inr)
  obtain x fs1 s1 where x: "replace_path os fs p name None s = Inr (x, fs1, s1)" using assms(1) p by (auto simp: ll_unlink_def rbind_eq_Inr)
  note run = assms(1) [unfolded ll_unlink_def p rbind_Inr x prod.case]
  have "fs' = fs1 \<and> (\<exists>e. r = R_err e)"
    using run by (cases x) (auto simp: reply_status_def split: if_splits)
  then show ?thesis by (elim conjE exE) (rule path_change_keeps [OF x assms(2)])
qed

lemma rmdir_keeps:
  assumes "ll_rmdir os fs parent name s = Inr (r, fs', s')" "table_ok fs held"
  shows "keeps_table fs held (r, fs', s')"
proof -
  obtain p where p: "get_inode fs parent = Inr p" using assms(1) by (auto simp: ll_rmdir_def rbind_eq_Inr)
  obtain x fs1 s1 where x: "replace_path os fs p name None s = Inr (x, fs1, s1)" using assms(1) p by (auto simp: ll_rmdir_def rbind_eq_Inr)
  note run = assms(1) [unfolded ll_rmdir_def p rbind_Inr x prod.case]
  have "fs' = fs1 \<and> (\<exists>e. r = R_err e)"
    using run by (cases x) (auto simp: reply_status_def split: if_splits)
  then show ?thesis by (elim conjE exE) (rule path_change_keeps [OF x assms(2)])
qed

lemma rename_onto_keeps:
  assumes "rename_onto os fs parent op name newname s = Inr (r, fs', s')" "table_ok fs held"
  shows "keeps_table fs held (r, fs', s')"
proof -
  obtain p where p: "get_inode fs parent = Inr p" using assms(1) by (auto simp: rename_onto_def rbind_eq_Inr)
  obtain x fs1 s1 where x: "replace_path os fs p newname None s = Inr (x, fs1, s1)" using assms(1) p by (auto simp: rename_onto_def rbind_eq_Inr)
  note run = assms(1) [unfolded rename_onto_def p rbind_Inr x prod.case]
  have "fs' = fs1 \<and> (\<exists>e. r = R_err e)"
    using run by (cases x) (auto simp: reply_status_def split: if_splits)
  then show ?thesis by (elim conjE exE) (rule path_change_keeps [OF x assms(2)])
qed

lemma rename_keeps:
  assumes "ll_rename os fs parent name newparent newname flags s = Inr (r, fs', s')" "table_ok fs held"
  shows "keeps_table fs held (r, fs', s')"
proof (cases "flags = 0")
  case True
  obtain p nm where p: "get_inode fs parent = Inr p" "cstr_to_str name = Inr nm" using assms(1) True by (auto simp: ll_rename_def rbind_eq_Inr)
  obtain x fs1 s1 where x: "replace_path os fs p name (Some (newparent, nm)) s = Inr (x, fs1, s1)"
    using assms(1) p True by (auto simp: ll_rename_def rbind_eq_Inr)
  note K = replace_path_keeps [OF x assms(2)]
  note run = assms(1) [unfolded ll_rename_def p rbind_Inr x prod.case True if_not_P [of "0 \<noteq> (0 :: u32)", simplified]]
  consider e where "r = R_err e" "fs' = fs1" | "rename_onto os fs1 parent (snd p) name newname s1 = Inr (r, fs', s')"
  proof (cases x)
    case (Inl e)
    show thesis using run [unfolded Inl sum.case] that(1) [of e] that(2) by (cases "e = 0") (simp, simp)
  next
    case (Inr b)
    show thesis using run [unfolded Inr sum.case] by (intro that(2)) simp
  qed
  then show ?thesis
  proof cases
    case 1
    show ?thesis by (rule path_change_keeps [OF x assms(2) 1(2,1)])
  next
    case 2
    then show ?thesis using rename_onto_keeps [OF 2 K(1)] K(2,3) by (auto simp: keeps_table_def)
  qed
qed (use assms in \<open>auto simp: ll_rename_def keeps_table_def holding_def\<close>)


text \<open>The requests that neither hand out an inode nor touch the table.\<close>

definition plain :: "Fs \<Rightarrow> 'v FuseReply \<times> Fs \<times> 's \<Rightarrow> bool" where
  "plain fs res \<longleftrightarrow> fst (snd res) = fs \<and> given (fst res) = None"

lemma plain_keeps: "plain fs (r, fs', s') \<Longrightarrow> table_ok fs held \<Longrightarrow> keeps_table fs held (r, fs', s')"
  by (simp add: plain_def keeps_table_def holding_def)

lemma plain_status: "reply_status os fs x = Inr res \<Longrightarrow> plain fs res"
  by (auto simp: plain_def reply_status_def)

lemma plain_attr_list: "attr_list os fs sz x = Inr res \<Longrightarrow> plain fs res"
  by (auto simp: plain_def attr_list_def split: prod.splits)

lemma chmod_status: "ll_chmod os fs ino md fi s = Inr res \<Longrightarrow> plain fs res \<and> (\<exists>e. fst res = R_err e)"
  by (auto simp: ll_chmod_def reply_status_def plain_def rbind_eq_Inr split: option.splits)

lemma chown_status: "ll_chown os fs ino u g s = Inr res \<Longrightarrow> plain fs res \<and> (\<exists>e. fst res = R_err e)"
  by (auto simp: ll_chown_def reply_status_def plain_def rbind_eq_Inr)

lemma truncate_status: "ll_truncate os fs ino sz fi s = Inr res \<Longrightarrow> plain fs res \<and> (\<exists>e. fst res = R_err e)"
  by (auto simp: ll_truncate_def reply_status_def plain_def rbind_eq_Inr split: option.splits)

lemma utimens_status: "ll_utimens os fs ino ts fi s = Inr res \<Longrightarrow> plain fs res \<and> (\<exists>e. fst res = R_err e)"
  by (auto simp: ll_utimens_def reply_status_def plain_def rbind_eq_Inr split: option.splits if_splits prod.splits)

lemmas attr_status = chmod_status chown_status truncate_status utimens_status

text \<open>What always answers with a status ends the sequence of attributes.\<close>

lemma unless_err_status:
  assumes "\<And>res. op fs s = Inr res \<Longrightarrow> \<exists>e. fst res = R_err e"
  shows "unless_err wanted op fs s k = (if wanted then op fs s else k fs s)"
proof (cases "op fs s")
  case (Inr res)
  then show ?thesis using assms [OF Inr] by (cases res) (auto simp: unless_err_def)
qed (simp add: unless_err_def)

lemma unless_attr:
  "unless_err w (\<lambda>fs. ll_chmod os fs ino md fi) fs s k = (if w then ll_chmod os fs ino md fi s else k fs s)"
  "unless_err w (\<lambda>fs. ll_chown os fs ino u g) fs s k = (if w then ll_chown os fs ino u g s else k fs s)"
  "unless_err w (\<lambda>fs. ll_truncate os fs ino sz fi) fs s k = (if w then ll_truncate os fs ino sz fi s else k fs s)"
  "unless_err w (\<lambda>fs. ll_utimens os fs ino ts fi) fs s k = (if w then ll_utimens os fs ino ts fi s else k fs s)"
  by (rule unless_err_status, drule attr_status, erule conjunct2)+

lemma fs_methods_simps:
  "m_chmod (fs_methods os) = ll_chmod os" "m_chown (fs_methods os) = ll_chown os" "m_truncate (fs_methods os) = ll_truncate os"
  "m_utimens (fs_methods os) = ll_utimens os" "m_getattr (fs_methods os) = ll_getattr os"
  by (simp_all add: fs_methods_def)

lemma getattr_plain: "ll_getattr os fs ino s = Inr res \<Longrightarrow> plain fs res"
  by (auto simp: ll_getattr_def plain_def rbind_eq_Inr case_prod_unfold Let_def)

lemma setattr_plain: "setattr (fs_methods os) fs ino attr to_set fi s = Inr res \<Longrightarrow> plain fs res"
  unfolding setattr_def fs_methods_simps unless_attr by (auto dest: attr_status getattr_plain split: if_splits)


lemma undefined_plain: "undefined_method fs s = Inr res \<Longrightarrow> plain fs res"
  by (auto simp: undefined_method_def plain_def)

lemmas plain_defs = plain_def rbind_eq_Inr case_prod_unfold Let_def reply_status_def attr_list_def

lemma xattr_plain:
  "ll_listxattr os fs ino sz s = Inr res \<Longrightarrow> plain fs res" "ll_getxattr os fs ino name sz s = Inr res \<Longrightarrow> plain fs res"
  "ll_setxattr os fs ino name v fl s = Inr res \<Longrightarrow> plain fs res" "ll_removexattr os fs ino name s = Inr res \<Longrightarrow> plain fs res"
  by (auto simp: ll_listxattr_def ll_getxattr_def ll_setxattr_def ll_removexattr_def plain_defs split: if_splits)

lemma handle_plain:
  "ll_release os fs fi s = Inr res \<Longrightarrow> plain fs res" "ll_read fs sz off fi s = Inr res \<Longrightarrow> plain fs res"
  "ll_fsync os fs d fi s = Inr res \<Longrightarrow> plain fs res" "ll_flush os fs fi s = Inr res \<Longrightarrow> plain fs res"
  "ll_releasedir os fs fi s = Inr res \<Longrightarrow> plain fs res" "ll_fsyncdir os fs d fi s = Inr res \<Longrightarrow> plain fs res"
  "ll_write_buf os fs b off fi s = Inr res \<Longrightarrow> plain fs res" "ll_fallocate os fs md off len fi s = Inr res \<Longrightarrow> plain fs res"
  by (auto simp: ll_release_def ll_read_def ll_fsync_def ll_flush_def ll_releasedir_def ll_fsyncdir_def ll_write_buf_def
      ll_fallocate_def plain_defs split: if_splits)

lemma statfs_plain: "ll_statfs os fs ino s = Inr res \<Longrightarrow> plain fs res"
  by (auto simp: ll_statfs_def plain_defs)

lemma readlink_plain: "ll_readlink os fs ino s = Inr res \<Longrightarrow> plain fs res"
  by (auto simp: ll_readlink_def plain_defs split: if_splits)

lemma open_reply: "(if c then Inr (R_err e, fs, s) else Inr (R_open x, fs, s)) = Inr res \<Longrightarrow> plain fs res"
  by (cases c) (auto simp: plain_def)

lemma open_plain:
  assumes "ll_open os fs ino fi s = Inr res"
  shows "plain fs res"
proof -
  obtain d where d: "get_fs_fd fs ino = Inr d" using assms unfolding ll_open_def Let_def rbind_eq_Inr by blast
  note run = assms [unfolded ll_open_def Let_def d rbind_Inr case_prod_beta]
  show ?thesis by (rule open_reply) (rule run)
qed

lemma opendir_plain:
  assumes "ll_opendir os fs ino fi s = Inr res"
  shows "plain fs res"
proof -
  obtain d where d: "get_fs_fd fs ino = Inr d" using assms unfolding ll_opendir_def rbind_eq_Inr by blast
  obtain fd s1 where o: "ll_openat os d [46] 0 0 s = (fd, s1)" by fastforce
  obtain dp s2 where f: "ll_fdopendir os fd s1 = (dp, s2)" by fastforce
  note run = assms [unfolded ll_opendir_def d o f rbind_Inr Let_def prod.case]
  show ?thesis using run by (cases dp; cases "fd = -1") (auto simp: plain_def)
qed

lemmas inode_plain = statfs_plain readlink_plain open_plain opendir_plain

section \<open>Forgetting\<close>

lemma forget_ok:
  assumes "table_ok fs held" "ino \<noteq> FUSE_ROOT_ID" "0 < held ino" "unat n \<le> held ino"
  shows "\<exists>fs'. forget fs ino n = Inr fs' \<and> table_ok fs' (held(ino := held ino - unat n))
    \<and> dom (boxes fs') = dom (boxes fs) \<and> root_addr fs' = root_addr fs"
proof -
  note T = table_okD [OF assms(1)]
  obtain i where i: "boxes fs ino = Some i" using T(7) [OF assms(3)] by blast
  have n: "unat (nlookup i) = held ino + 1" "ifd i \<noteq> -1" "ino \<noteq> root_addr fs" using T(3,5,6) [OF i] by auto
  then have le: "n \<le> nlookup i" using assms(4) by (simp add: word_le_nat_alt)
  let ?i = "i\<lparr>nlookup := nlookup i - n\<rparr>"
  have left: "unat (nlookup ?i) = held ino - unat n + 1" using le n(1) assms(4) by (simp add: unat_sub)
  then have "nlookup i - n \<noteq> 0" by (auto simp: unat_eq_0)
  then have "forget fs ino n = Inr (fs\<lparr>boxes := (boxes fs)(ino \<mapsto> ?i)\<rparr>)"
    using i n assms(2) le by (simp add: forget_def get_inode_def put_inode_def Let_def)
  moreover have "table_ok (fs\<lparr>boxes := (boxes fs)(ino \<mapsto> ?i)\<rparr>) (held(ino := held ino - unat n))"
    by (rule table_ok_update [OF assms(1) i]) (use left in auto)
  ultimately show ?thesis using i by auto
qed

section \<open>The kernel and the front end\<close>

text \<open>The kernel links files and symbolic links, never the root.\<close>

fun links_root :: "ll_request \<Rightarrow> bool" where
  "links_root (Q_link i p n) = (i = FUSE_ROOT_ID)"
| "links_root _ = False"

lemma serve_keeps:
  assumes "serve os box q fs s = Inr (r, fs', s')" "\<not> links_root q" "table_ok fs held" "fresh_box box fs" "counts_ok held"
  shows "keeps_table fs held (r, fs', s')"
proof -
  note K = lookup_keeps made_keeps create_keeps link_keeps rename_keeps unlink_keeps rmdir_keeps
  note P = plain_keeps [OF _ assms(3)]
  note R = assms(1) [simplified]
  show ?thesis
    using assms
    by (cases q)
      (auto simp: ll_mknod_def ll_mkdir_def ll_symlink_def intro: K P getattr_plain setattr_plain xattr_plain handle_plain inode_plain undefined_plain)
qed


text \<open>
  The front end beside the kernel's account: a request is answered and an inode in the answer counts
  as held; the kernel gives back at most what it holds.  Addresses of boxes are fresh and no counter
  is about to run over.
\<close>

record 's ll_state =
  lf :: Fs
  lk :: 's
  lheld :: "u64 \<Rightarrow> nat"

inductive ll_step :: "('s, 'v) ll_os \<Rightarrow> (Fs \<Rightarrow> u64) \<Rightarrow> 's ll_state \<Rightarrow> 's ll_state \<Rightarrow> bool" for os box where
  answer: "serve os box q (lf st) (lk st) = Inr (r, fs', s') \<Longrightarrow> \<not> links_root q \<Longrightarrow> fresh_box box (lf st) \<Longrightarrow> counts_ok (lheld st)
    \<Longrightarrow> ll_step os box st \<lparr>lf = fs', lk = s', lheld = holding (lheld st) (given r)\<rparr>"
| give_back: "forget (lf st) ino n = Inr fs' \<Longrightarrow> ino \<noteq> FUSE_ROOT_ID \<Longrightarrow> 0 < lheld st ino \<Longrightarrow> unat n \<le> lheld st ino
    \<Longrightarrow> ll_step os box st \<lparr>lf = fs', lk = lk st, lheld = (lheld st)(ino := lheld st ino - unat n)\<rparr>"

text \<open>A mounted file system that nothing was looked up in yet.\<close>

definition mounted :: "'s ll_state \<Rightarrow> bool" where
  "mounted st \<longleftrightarrow> inodes (lf st) = (\<lambda>_. None) \<and> boxes (lf st) = (\<lambda>_. None) \<and> lheld st = (\<lambda>_. 0)"

lemma ll_step_keeps:
  assumes "ll_step os box st st'" "table_ok (lf st) (lheld st)"
  shows "table_ok (lf st') (lheld st')" "dom (boxes (lf st)) \<subseteq> dom (boxes (lf st'))"
proof -
  have "table_ok (lf st') (lheld st') \<and> dom (boxes (lf st)) \<subseteq> dom (boxes (lf st'))"
    using assms(1)
  proof cases
    case (answer q r fs' s')
    then show ?thesis using serve_keeps [OF answer(2,3) assms(2) answer(4,5)] by (simp add: keeps_table_def)
  next
    case (give_back ino n fs')
    then show ?thesis using forget_ok [OF assms(2) give_back(3-5)] by auto
  qed
  then show "table_ok (lf st') (lheld st')" "dom (boxes (lf st)) \<subseteq> dom (boxes (lf st'))" by auto
qed

lemma mounted_ok: "mounted st \<Longrightarrow> table_ok (lf st) (lheld st)"
  by (simp add: mounted_def table_ok_def)

lemma reached_ok:
  assumes "(ll_step os box)\<^sup>*\<^sup>* st0 st" "mounted st0"
  shows "table_ok (lf st) (lheld st)"
  using assms(1)
proof (induction rule: rtranclp_induct)
  case base
  then show ?case using assms(2) by (rule mounted_ok)
next
  case (step y z)
  then show ?case using ll_step_keeps(1) by blast
qed

lemma get_inode_held:
  assumes "table_ok fs held" "0 < held a"
  shows "\<exists>i. get_inode fs a = Inr (a, i) \<and> unat (nlookup i) = held a + 1"
proof -
  note T = table_okD [OF assms(1)]
  obtain i where i: "boxes fs a = Some i" using T(7) [OF assms(2)] by blast
  then show ?thesis using T(4-6) [OF i] by (simp add: get_inode_def)
qed



text \<open>A kernel for evaluation: every name is the same file, the state lists the open descriptors.\<close>

definition ll_toy_stat :: ll_stat where
  "ll_toy_stat = stat.extend one_stat \<lparr>st_dev = 5\<rparr>"

definition ll_toy :: "(int list, unit) ll_os" where
  "ll_toy = \<lparr>ll_errno = (\<lambda>s. 5), ll_openat = (\<lambda>d n fl m. fd_open), ll_fstatat = (\<lambda>fd n fl s. (0, ll_toy_stat, s)),
     ll_close = (\<lambda>fd s. (if fd \<in> fd_set s then 0 else -1, filter (\<lambda>x. x \<noteq> fd) s)),
     ll_dup = (\<lambda>d. fd_open), ll_sys_fsync = (\<lambda>fd s. (0, s)), ll_sys_fdatasync = (\<lambda>fd s. (0, s)), ll_fstatvfs = (\<lambda>fd s. (0, (), s)),
     ll_readlinkat = (\<lambda>fd n sz s. (1, [97], s)), ll_sys_open = (\<lambda>p fl. fd_open), ll_fdopendir = (\<lambda>fd s. (Some fd, s)),
     ll_closedir = (\<lambda>dp s. filter (\<lambda>x. x \<noteq> dp) s), ll_dirfd = (\<lambda>dp s. dp), ll_seekdir = (\<lambda>dp off s. s),
     ll_sys_readdir = (\<lambda>dp s. (None, s)), ll_sys_listxattr = (\<lambda>p n s. (-1, [], s)), ll_sys_getxattr = (\<lambda>p n sz s. (-1, [], s)),
     ll_buf_copy = (\<lambda>fd off b s. (int (length b), s)), ll_posix_fallocate = (\<lambda>fd off len s. (0, s)),
     ll_mknodat = (\<lambda>d n m r s. (0, s)), ll_mkdirat = (\<lambda>d n m s. (0, s)), ll_symlinkat = (\<lambda>l d n s. (0, s)),
     ll_linkat = (\<lambda>d p d' n fl s. (0, s)), ll_sys_setxattr = (\<lambda>p n v fl s. (0, s)), ll_sys_removexattr = (\<lambda>p n s. (0, s)),
     ll_sys_fchmod = (\<lambda>fd m s. (0, s)), ll_sys_chmod = (\<lambda>p m s. (0, s)), ll_fchownat = (\<lambda>d n u g fl s. (0, s)),
     ll_sys_ftruncate = (\<lambda>fd n s. (0, s)), ll_sys_truncate = (\<lambda>p n s. (0, s)), ll_futimens = (\<lambda>fd ts s. (0, s)),
     ll_utimensat = (\<lambda>d p ts fl s. (0, s)), ll_renameat = (\<lambda>d n d' n' s. (0, s)), ll_unlinkat = (\<lambda>d n fl s. (0, s))\<rparr>"

definition ll_toy_fs :: Fs where
  "ll_toy_fs = \<lparr>inodes = (\<lambda>_. None), boxes = (\<lambda>_. None),
     root_inode = \<lparr>ifd = 0, is_symlink = False, src_dev = 5, src_ino = 2, nlookup = 1, ipath = None\<rparr>,
     root_addr = 8, fs_dev = 5, fs_timeout = 0\<rparr>"

lemma ll_toy_lookup:
  "\<exists>e fs' i. lookup ll_toy (\<lambda>_. 4096) ll_toy_fs 1 [97] [0] = Inr (R_entry e, fs', [0]) \<and> e_ino e = 4096 \<and> boxes fs' 4096 = Some i \<and> ifd i = 1"
proof -
  have u: "utf8_valid [97]" by code_simp
  have "fd_open [0] = (1, [1, 0])" by (simp add: fd_open_def upt_rec)
  then show ?thesis
    by (simp add: lookup_def get_fs_fd_def get_inode_def FUSE_ROOT_ID_def ll_toy_def ll_toy_fs_def ll_toy_stat_def stat.defs one_stat_def
        enter_inode_def cstr_to_str_def u new_inode_def)
qed


section \<open>Reading directories\<close>

text \<open>What the loop relies on: every entry that the stream gives leaves fewer of them, and looking up moves no stream.\<close>

definition dir_stream :: "('s, 'v) ll_os \<Rightarrow> ('s \<Rightarrow> nat) \<Rightarrow> bool" where
  "dir_stream os ahead \<longleftrightarrow>
     (\<forall>dp s e s1. ll_sys_readdir os dp s = (Some e, s1) \<longrightarrow> ahead s1 < ahead s)
     \<and> (\<forall>d n fl m s. ahead (snd (ll_openat os d n fl m s)) = ahead s)
     \<and> (\<forall>fd n fl s. ahead (snd (snd (ll_fstatat os fd n fl s))) = ahead s)
     \<and> (\<forall>fd s. ahead (snd (ll_close os fd s)) = ahead s)"

lemma lookup_stream:
  assumes "dir_stream os ahead" "lookup os box fs parent name s = Inr (r, fs', s')"
  shows "ahead s' = ahead s"
proof -
  obtain pfd where p: "get_fs_fd fs parent = Inr pfd" using assms(2) by (auto simp: lookup_def rbind_eq_Inr)
  obtain newfd s1 where o: "ll_openat os pfd name (O_PATH OR O_NOFOLLOW) 0 s = (newfd, s1)" by fastforce
  obtain er attr s2 where f: "ll_fstatat os newfd [] (AT_EMPTY_PATH OR AT_SYMLINK_NOFOLLOW) s1 = (er, attr, s2)"
    by (cases "ll_fstatat os newfd [] (AT_EMPTY_PATH OR AT_SYMLINK_NOFOLLOW) s1") auto
  have S: "ahead s1 = ahead s" "ahead s2 = ahead s1" "ahead (snd (ll_close os newfd s2)) = ahead s2"
    using assms(1) o f unfolding dir_stream_def by (metis snd_conv)+
  have "s' = s1 \<or> s' = s2 \<or> s' = snd (ll_close os newfd s2)"
    using assms(2) [unfolded lookup_def p rbind_Inr Let_def o f prod.case] by (auto simp: rbind_eq_Inr case_prod_unfold split: if_splits)
  then show ?thesis using S by auto
qed

lemma readdir_fill_returns:
  assumes D: "dir_stream os ahead"
  shows "ahead s < n \<Longrightarrow> \<exists>res. \<forall>m\<ge>n. readdir_fill m os c box fs ino d sz with_attr buf s = Some res"
proof (induction n arbitrary: fs buf s)
  case (Suc n)
  let ?more = "\<lambda>k fs buf s. readdir_fill k os c box fs ino d sz with_attr buf s"
  have "\<exists>res. \<forall>k\<ge>n. ?more (Suc k) fs buf s = Some res"
  proof (cases "ll_sys_readdir os d s")
    case (Pair eo s1)
    show ?thesis
    proof (cases eo)
      case None
      then show ?thesis using Pair by simp
    next
      case (Some e)
      then have "ahead s1 < ahead s" using D Pair unfolding dir_stream_def by blast
      then have lt: "ahead s1 < n" using Suc.prems by simp
      note next_entry = Suc.IH [OF lt]
      show ?thesis
      proof (cases "is_dot_or_dotdot (d_name e)")
        case True
        then show ?thesis using next_entry [of fs buf] Pair Some by simp
      next
        case False
        let ?plain = "add_direntry c (d_name e) (d_ino e) (push_bit 12 (ucast (d_type e))) (d_off e)"
        show ?thesis
        proof (cases with_attr)
          case True
          show ?thesis
          proof (cases "lookup os box fs ino (d_name e) s1")
            case (Inr out)
            obtain r fs1 s2 where out: "out = (r, fs1, s2)" by (cases out)
            have "ahead s2 < n" using lookup_stream [OF D Inr [unfolded out]] lt by simp
            note after = Suc.IH [OF this, of fs1]
            show ?thesis
            proof (cases r)
              case (R_entry p)
              then show ?thesis
                using after [of "buf @ add_direntry_plus c (d_name e) p (d_off e)"] Pair Some False True Inr out
                by (cases "sz - length buf < length (add_direntry_plus c (d_name e) p (d_off e))") simp_all
            qed (use Pair Some False True Inr out in simp_all)
          qed (use Pair Some False True in simp)
        next
          case plain: False
          then show ?thesis using next_entry [of fs "buf @ ?plain"] Pair Some False by (cases "sz - length buf < length ?plain") simp_all
        qed
      qed
    qed
  qed
  then show ?case by (metis Suc_le_D Suc_le_mono)
qed simp

lemma readdir_fill_fits:
  "length buf \<le> sz \<Longrightarrow> readdir_fill n os c box fs ino d sz with_attr buf s = Some (Inr (R_buf b k, fs', s')) \<Longrightarrow> k = length b \<and> k \<le> sz"
proof (induction n arbitrary: fs with_attr buf s)
  case (Suc n)
  have fits: "length (buf @ ent) \<le> sz" if "length buf \<le> sz" "\<not> sz - length buf < length ent" for ent :: bytes
    using that by simp
  show ?case
    using Suc.prems
    by (auto simp: Let_def rbind_eq_Inr dest: Suc.IH Suc.IH [OF fits, rotated 2] split: prod.splits option.splits if_splits sum.splits FuseReply.splits)
qed simp

text \<open>
  C15. Reading a directory ends and stays within its buffer: when a stream gives fewer than \<open>n\<close>
  entries after the seek, \<open>n\<close> rounds of the loop are enough, for both kinds of listing, whatever
  the lookups answer; more rounds change nothing; and a buffer that is answered is no longer than
  what was asked for.
\<close>

theorem readdir_returns:
  assumes "dir_stream os ahead" "ahead (ll_seekdir os (fh fi) off s) < n"
  shows "\<exists>res. (\<forall>m\<ge>n. readdir_common m os c box fs ino sz off fi with_attr s = Some res)
    \<and> (\<forall>b k fs' s'. res = Inr (R_buf b k, fs', s') \<longrightarrow> k = length b \<and> k \<le> sz)"
proof (cases "get_inode fs ino")
  case (Inr p)
  obtain res where res: "\<forall>m\<ge>n. readdir_fill m os c box fs ino (fh fi) sz with_attr [] (ll_seekdir os (fh fi) off s) = Some res"
    using readdir_fill_returns [OF assms] by blast
  have "k = length b \<and> k \<le> sz" if "res = Inr (R_buf b k, fs', s')" for b k fs' s'
    by (rule readdir_fill_fits [OF _ res [rule_format, OF order_refl, unfolded that]]) simp
  then show ?thesis using Inr res by (intro exI [of _ res]) (auto simp: readdir_common_def)
qed (auto simp: readdir_common_def)

text \<open>A kernel for evaluation: the state lists the entries ahead.\<close>

definition ll_toy_dir :: "(dirent list, unit) ll_os" where
  "ll_toy_dir = ll_os.make (\<lambda>s. 0) (\<lambda>d n fl m s. (3, s)) (\<lambda>fd n fl s. (0, ll_toy_stat, s)) (\<lambda>fd s. (0, s)) (\<lambda>d s. (4, s)) (\<lambda>fd s. (0, s))
     (\<lambda>fd s. (0, s)) (\<lambda>fd s. (0, (), s)) (\<lambda>fd n sz s. (-1, [], s)) (\<lambda>p fl s. (-1, s)) (\<lambda>fd s. (Some fd, s)) (\<lambda>d s. s) (\<lambda>d s. d)
     (\<lambda>d off s. drop (unat off) s) (\<lambda>d s. case s of [] \<Rightarrow> (None, []) | e # es \<Rightarrow> (Some e, es)) (\<lambda>p n s. (-1, [], s)) (\<lambda>p n sz s. (-1, [], s))
     (\<lambda>fd off b s. (-1, s)) (\<lambda>fd off len s. (-1, s)) (\<lambda>d n m r s. (-1, s)) (\<lambda>d n m s. (-1, s)) (\<lambda>l d n s. (-1, s)) (\<lambda>d p d' n fl s. (-1, s))
     (\<lambda>p n v fl s. (-1, s)) (\<lambda>p n s. (-1, s)) (\<lambda>fd m s. (-1, s)) (\<lambda>p m s. (-1, s)) (\<lambda>d n u g fl s. (-1, s)) (\<lambda>fd n s. (-1, s)) (\<lambda>p n s. (-1, s))
     (\<lambda>fd ts s. (-1, s)) (\<lambda>d p ts fl s. (-1, s)) (\<lambda>d n d' n' s. (-1, s)) (\<lambda>d n fl s. (-1, s))"

definition ll_toy_codec :: dir_codec where
  "ll_toy_codec = \<lparr>add_direntry = (\<lambda>n i m off. n), add_direntry_plus = (\<lambda>n e off. 0 # n)\<rparr>"

definition ll_toy_entries :: "dirent list" where
  "ll_toy_entries = [\<lparr>d_name = [46], d_ino = 2, d_type = 4, d_off = 1\<rparr>, \<lparr>d_name = [97], d_ino = 3, d_type = 8, d_off = 2\<rparr>]"

definition ll_toy_info :: ll_file_info where
  "ll_toy_info = ll_file_info.make 0 9 False False"

theorem readdir_returns_witness:
  "\<exists>res. (\<forall>m\<ge>3. readdir_common m ll_toy_dir ll_toy_codec (\<lambda>_. 4096) ll_toy_fs 1 16 0 ll_toy_info True ll_toy_entries = Some res)
    \<and> (\<forall>b k fs' s'. res = Inr (R_buf b k, fs', s') \<longrightarrow> k \<le> 16)"
proof -
  have "dir_stream ll_toy_dir length" by (auto simp: dir_stream_def ll_toy_dir_def ll_os.defs split: list.splits)
  moreover have "length (ll_seekdir ll_toy_dir (fh ll_toy_info) 0 ll_toy_entries) < 3" by (simp add: ll_toy_dir_def ll_os.defs ll_toy_entries_def)
  ultimately show ?thesis
    using readdir_returns [of ll_toy_dir length ll_toy_info 0 ll_toy_entries 3 ll_toy_codec "\<lambda>_. 4096" ll_toy_fs 1 16 True] by blast
qed

section \<open>What the front end does not get right\<close>

text \<open>
  A lookup that enters an inode stores in it the descriptor that it opened and then closes that
  descriptor: the inode is entered with a descriptor that is not open.
\<close>

theorem ll_lookup_stores_closed_fd:
  assumes "\<And>fd s. opened (snd (ll_close os fd s)) = opened s - {fd}"
    and "lookup os box fs parent name s = Inr (r, fs', s')" "boxes fs a = None" "boxes fs' a = Some i"
  shows "ifd i \<notin> opened s'"
  using assms(2)
proof (cases rule: lookup_cases)
  case (err e)
  then show ?thesis using assms(3,4) by simp
next
  case (found newfd attr t b fs1 j e)
  have "a = b" "i = j\<lparr>nlookup := nlookup j + 1\<rparr>" "ifd j = newfd"
    using assms(3,4) found(2,3,6) by (auto simp: enter_inode_def Let_def rmap_eq_Inr new_inode_def split: if_splits option.splits)
  then show ?thesis using assms(1) found(7) by simp
qed

theorem ll_lookup_stores_closed_fd_witness:
  "\<exists>r fs' s' i. lookup ll_toy (\<lambda>_. 4096) ll_toy_fs 1 [97] [0] = Inr (r, fs', s') \<and> boxes fs' 4096 = Some i \<and> ifd i \<notin> fd_set s'"
proof -
  obtain e fs' i where l: "lookup ll_toy (\<lambda>_. 4096) ll_toy_fs 1 [97] [0] = Inr (R_entry e, fs', [0])" "boxes fs' 4096 = Some i"
    using ll_toy_lookup by blast
  have "ifd i \<notin> fd_set [0]"
    by (rule ll_lookup_stores_closed_fd [OF _ l(1) _ l(2)]) (auto simp: ll_toy_def fd_set_def ll_toy_fs_def)
  then show ?thesis using l by blast
qed

text \<open>
  Of the attributes that a request sets at most the first group is set, and the answer is the
  status of that one call, never the attributes: \<open>setattr\<close> takes the answers of \<open>chmod\<close>, \<open>chown\<close>,
  \<open>truncate\<close> and \<open>utimens\<close> for errors, but those answer \<open>err(0)\<close> when they succeed.
\<close>

theorem ll_setattr_first_only:
  "setattr (fs_methods os) fs ino attr to_set fi s =
     (if flags_intersects to_set FUSE_SET_ATTR_MODE then ll_chmod os fs ino (st_mode attr) fi s
      else if flags_intersects to_set (FUSE_SET_ATTR_UID OR FUSE_SET_ATTR_GID)
      then ll_chown os fs ino (if flags_intersects to_set FUSE_SET_ATTR_UID then st_uid attr else -1)
          (if flags_intersects to_set FUSE_SET_ATTR_GID then st_gid attr else -1) s
      else if flags_intersects to_set FUSE_SET_ATTR_SIZE then ll_truncate os fs ino (st_size attr) fi s
      else if flags_intersects to_set (FUSE_SET_ATTR_ATIME OR FUSE_SET_ATTR_MTIME) then ll_utimens os fs ino (set_times attr to_set) fi s
      else ll_getattr os fs ino s)"
  unfolding setattr_def fs_methods_simps unless_attr by (rule refl)

end
