(* ===== verification/StartUp.thy ===== *)
theory StartUp
  imports ClientConn Complex_Main
begin

text \<open>
  Starting the server (\<open>server/mod.rs\<close>, \<open>fuse_hl/mod.rs\<close>, \<open>common/security_unix.rs\<close>, Unix parts):
  which directory is mounted and which one holds the files, the options, the threads and the
  listener, the journal, and the arguments that FUSE is started with.

  The machine is a parameter: a state of its own, the calls on it, and the commands \<open>mountpoint\<close> and
  \<open>mount --move\<close>.  A call answers and leaves a state, also when it fails.
\<close>

section \<open>Paths\<close>

text \<open>\<open>Path::new\<close>: the components of a string; a dot is kept only in front.\<close>

fun split_slash :: "string \<Rightarrow> string \<Rightarrow> string list" where
  "split_slash acc [] = [rev acc]"
| "split_slash acc (c # cs) = (if c = CHR 0x2F then rev acc # split_slash [] cs else split_slash (c # acc) cs)"

definition path_of :: "string \<Rightarrow> path" where
  "path_of s =
     (let parts = filter (\<lambda>x. x \<noteq> []) (split_slash [] s);
          rooted = (s \<noteq> [] \<and> hd s = CHR 0x2F);
          comp = (\<lambda>x. if x = ''.'' then CurDir else if x = ''..'' then ParentDir else Normal x);
          comps = map comp parts in
      (if rooted then [RootDir] else if comps \<noteq> [] \<and> hd comps = CurDir then [CurDir] else []) @ filter (\<lambda>c. c \<noteq> CurDir) comps)"

definition file_name :: "path \<Rightarrow> string option" where
  "file_name p = (case p of [] \<Rightarrow> None | _ \<Rightarrow> (case last p of Normal n \<Rightarrow> Some n | _ \<Rightarrow> None))"

definition with_file_name :: "path \<Rightarrow> string \<Rightarrow> path" where
  "with_file_name p n = (case file_name p of None \<Rightarrow> p | Some _ \<Rightarrow> butlast p) @ [Normal n]"

section \<open>The machine\<close>

record 'h host =
  h_canonicalize :: "path \<Rightarrow> 'h \<Rightarrow> path result"
  h_exists :: "path \<Rightarrow> 'h \<Rightarrow> bool"
  h_metadata :: "path \<Rightarrow> 'h \<Rightarrow> stat result"
  h_errno :: "'h \<Rightarrow> int"
  h_chown :: "path \<Rightarrow> u32 \<Rightarrow> u32 \<Rightarrow> 'h \<Rightarrow> int \<times> 'h"
  h_chmod :: "path \<Rightarrow> u32 \<Rightarrow> 'h \<Rightarrow> int \<times> 'h"
  h_rename :: "path \<Rightarrow> path \<Rightarrow> 'h \<Rightarrow> unit result \<times> 'h"
  h_create_dir_all :: "path \<Rightarrow> 'h \<Rightarrow> unit result \<times> 'h"
  h_remove_file :: "path \<Rightarrow> 'h \<Rightarrow> unit result \<times> 'h"
  h_mountpoint :: "path \<Rightarrow> 'h \<Rightarrow> bool result \<times> 'h"
  h_mount_move :: "path \<Rightarrow> path \<Rightarrow> 'h \<Rightarrow> bool result \<times> 'h"
  h_bind_tcp :: "string \<Rightarrow> nat \<Rightarrow> 'h \<Rightarrow> unit result \<times> 'h"
  h_bind_unix :: "path \<Rightarrow> 'h \<Rightarrow> unit result \<times> 'h"

text \<open>Run one call after another; an error stops with the state it left.\<close>

definition hbind :: "'a result \<times> 'h \<Rightarrow> ('a \<Rightarrow> 'h \<Rightarrow> 'b result \<times> 'h) \<Rightarrow> 'b result \<times> 'h" where
  "hbind m f = (case m of (Inl e, h) \<Rightarrow> (Inl e, h) | (Inr x, h) \<Rightarrow> f x h)"

definition copy_security :: "'h host \<Rightarrow> path \<Rightarrow> path \<Rightarrow> 'h \<Rightarrow> unit result \<times> 'h" where
  "copy_security host src dst h =
     hbind (h_metadata host src h, h) (\<lambda>st h.
     hbind (into_cstring dst, h) (\<lambda>dst_path h.
       let (r1, h1) = h_chown host dst_path (st_uid st) (st_gid st) h in
       if r1 = -1 then (Inl (IoErr (Os (h_errno host h1))), h1)
       else
         let (r2, h2) = h_chmod host dst_path (st_mode st) h1 in
         if r2 = -1 then (Inl (IoErr (Os (h_errno host h2))), h2) else (Inr (), h2)))"

definition canonize_path :: "'h host \<Rightarrow> path \<Rightarrow> 'h \<Rightarrow> path result" where
  "canonize_path host p h = h_canonicalize host p h"

definition check_mount :: "'h host \<Rightarrow> path \<Rightarrow> 'h \<Rightarrow> bool result \<times> 'h" where
  "check_mount host p h = h_mountpoint host p h"

section \<open>Which directory is which\<close>

definition backing_path :: "'h host \<Rightarrow> string option \<Rightarrow> path \<Rightarrow> 'h \<Rightarrow> path result" where
  "backing_path host arg_backing mount_path h = (case arg_backing of
       Some b \<Rightarrow>
         if \<not> h_exists host (path_of b) h then Inl (IoErr (Other ''Backing path does not exist''))
         else h_canonicalize host (path_of b) h
     | None \<Rightarrow>
         rbind (unwrap ''You specified a weird file path'' (file_name mount_path)) (\<lambda>n.
         if utf8_valid (map of_char n) then Inr (with_file_name mount_path (''.fsyncer-'' @ n))
         else Inl (Panicked ''called Option::unwrap() on a None value'')))"

text \<open>The files that are still in the place of the mount point go to the backing store.\<close>

definition move_to_backing :: "'h host \<Rightarrow> string \<Rightarrow> path \<Rightarrow> path \<Rightarrow> 'h \<Rightarrow> unit result \<times> 'h" where
  "move_to_backing host arg_mount mount_path backing h =
     hbind (path_to_str mount_path, h) (\<lambda>_ h.
     hbind (check_mount host mount_path h) (\<lambda>mounted h.
       if mounted then
         hbind (h_create_dir_all host mount_path h) (\<lambda>_ h.
         hbind (path_to_str backing, h) (\<lambda>_ h.
         hbind (h_mount_move host (path_of arg_mount) backing h) (\<lambda>ok h.
           if ok then (Inr (), h) else (Inl (IoErr (Other ''Failed to move old mountpoint'')), h))))
       else h_rename host mount_path backing h))"

definition figure_out_paths :: "'h host \<Rightarrow> string \<Rightarrow> string option \<Rightarrow> 'h \<Rightarrow> (path \<times> path) result \<times> 'h" where
  "figure_out_paths host arg_mount arg_backing h =
     hbind (canonize_path host (path_of arg_mount) h, h) (\<lambda>mount_path h.
     let mount_exists = h_exists host mount_path h in
     hbind (backing_path host arg_backing mount_path h, h) (\<lambda>backing h.
     hbind (if \<not> h_exists host backing h \<and> mount_exists then move_to_backing host arg_mount mount_path backing h
            else (Inr (), h)) (\<lambda>_ h.
     hbind (if h_exists host backing h \<and> \<not> mount_exists then
              hbind (h_create_dir_all host mount_path h) (\<lambda>_ h. copy_security host backing mount_path h)
            else if \<not> h_exists host backing h \<and> \<not> mount_exists then (Inl (IoErr (Other ''Mount path does not exist'')), h)
            else (Inr (), h)) (\<lambda>_ h.
       (Inr (mount_path, backing), h)))))"

section \<open>The server\<close>

text \<open>What \<open>url::Url\<close> tells about an address; parsing one is a parameter.\<close>

record Url =
  url_scheme :: string
  url_host :: string
  url_port :: "nat option"
  url_path :: string

record server_opts = server_args +
  arg_url :: string
  arg_mount_path :: string
  arg_backing_store :: "string option"
  arg_flush_interval :: string
  arg_diff_writes :: bool
  arg_dont_check :: bool
  arg_buffer :: string

text \<open>The threads that are started and what the process goes on with.\<close>

datatype server_thread = FlushThread nat | HarvesterThread | AcceptThread string | StdioThread

record server_start =
  ss_server_path :: path
  ss_mount_path :: path
  ss_diff_writes :: bool
  ss_dont_check :: bool
  ss_buffer_size :: nat
  ss_threads :: "server_thread list"
  ss_journal :: "JournalConfig option"
  ss_fuse_args :: "string list"

definition start_listener :: "'h host \<Rightarrow> Url \<Rightarrow> 'h \<Rightarrow> server_thread result \<times> 'h" where
  "start_listener host url h =
     (if url_scheme url = ''tcp'' then
        hbind (h_bind_tcp host (url_host url) (case url_port url of None \<Rightarrow> 2323 | Some p \<Rightarrow> p) h) (\<lambda>_ h. (Inr (AcceptThread ''tcp''), h))
      else if url_scheme url = ''unix'' then
        hbind (if h_exists host (path_of (url_path url)) h then h_remove_file host (path_of (url_path url)) h else (Inr (), h)) (\<lambda>_ h.
        hbind (h_bind_unix host (path_of (url_path url)) h) (\<lambda>_ h. (Inr (AcceptThread ''unix''), h)))
      else if url_scheme url = ''stdio'' then (Inr StdioThread, h)
      else (Inl (Panicked (''Scheme '' @ url_scheme url @ '' is not supported'')), h))"

text \<open>The arguments of FUSE: a string with a zero byte is refused.\<close>

definition c_string :: "string \<Rightarrow> string result" where
  "c_string s = (if CHR 0x00 \<in> set s then Inl (Panicked ''called Result::unwrap() on an Err value'') else Inr s)"

fun c_strings :: "string list \<Rightarrow> string list result" where
  "c_strings [] = Inr []"
| "c_strings (s # ss) = rbind (c_string s) (\<lambda>c. rmap (\<lambda>cs. c # cs) (c_strings ss))"

definition path_string :: "path \<Rightarrow> string" where
  "path_string p =
     (let name = (\<lambda>c. case c of RootDir \<Rightarrow> [] | CurDir \<Rightarrow> ''.'' | ParentDir \<Rightarrow> ''..'' | Normal n \<Rightarrow> n) in
      if p = [RootDir] then ''/''
      else concat (case map name p of [] \<Rightarrow> [] | c # cs \<Rightarrow> c # concat (map (\<lambda>x. [''/'', x]) cs)))"

definition start_fuse_args :: "path \<Rightarrow> string list \<Rightarrow> string list result" where
  "start_fuse_args mount_path extra_args =
     rbind (expect ''Mount path is not a valid string'' (path_to_str mount_path)) (\<lambda>p.
       c_strings ([''fsyncd'', path_string p, ''-o'', ''default_permissions''] @ extra_args))"

text \<open>The process arguments behind the double dash (\<open>env::args().skip_while(..).skip(1)\<close>).\<close>

definition fuse_extra_args :: "string list \<Rightarrow> string list" where
  "fuse_extra_args argv = tl (dropWhile (\<lambda>v. v \<noteq> ''--'') argv)"

definition server_main :: "'h host \<Rightarrow> (string \<Rightarrow> Url result) \<Rightarrow> string list \<Rightarrow> server_opts \<Rightarrow> 'h \<Rightarrow> server_start result \<times> 'h" where
  "server_main host url_parse argv a h =
     hbind (expect ''Invalid url specified'' (url_parse (arg_url a)), h) (\<lambda>url h.
     hbind (figure_out_paths host (arg_mount_path a) (arg_backing_store a) h) (\<lambda>(mount_path, backing) h.
     hbind (unwrap ''Invalid format for flush interval'' (parse_usize (arg_flush_interval a)), h) (\<lambda>interval h.
     hbind (rbind (parse_human_size (arg_buffer a)) (unwrap ''Buffer format incorrect''), h) (\<lambda>buffer_size h.
     hbind (start_listener host url h) (\<lambda>listener h.
     hbind (journal_config (server_args.truncate a) backing, h) (\<lambda>journal h.
     hbind (start_fuse_args mount_path (fuse_extra_args argv), h) (\<lambda>args h.
       (Inr \<lparr>ss_server_path = backing, ss_mount_path = mount_path, ss_diff_writes = arg_diff_writes a,
             ss_dont_check = arg_dont_check a, ss_buffer_size = buffer_size,
             ss_threads = (if interval \<noteq> 0 then [FlushThread interval] else []) @ [HarvesterThread, listener],
             ss_journal = journal, ss_fuse_args = args\<rparr>, h))))))))"

text \<open>What the session of FUSE is told (\<open>xmp_init\<close>).\<close>

record fuse_config =
  cf_set_gid :: i32
  cf_gid :: u32
  cf_set_uid :: i32
  cf_uid :: u32
  cf_set_mode :: i32
  cf_umask :: u32
  cf_entry_timeout :: rat
  cf_negative_timeout :: rat
  cf_attr_timeout :: rat
  cf_intr :: i32
  cf_intr_signal :: i32
  cf_remember :: i32
  cf_hard_remove :: i32
  cf_use_ino :: i32
  cf_readdir_ino :: i32
  cf_direct_io :: i32
  cf_kernel_cache :: i32
  cf_auto_cache :: i32
  cf_ac_attr_timeout_set :: i32
  cf_ac_attr_timeout :: rat
  cf_nullpath_ok :: i32
  cf_show_help :: i32
  cf_modules :: "bytes option"
  cf_debug :: i32

record fuse_conn_info =
  proto_major :: u32
  proto_minor :: u32
  max_write :: u32
  max_read :: u32
  max_readahead :: u32
  conn_capable :: u32
  conn_want :: u32
  max_background :: u32
  congestion_threshold :: u32
  time_gran :: u32
  reserved :: "u32 list"

definition xmp_init :: "fuse_conn_info \<Rightarrow> fuse_config \<Rightarrow> fuse_conn_info \<times> fuse_config" where
  "xmp_init conn cfg = (conn\<lparr>max_write := 32 * 1024\<rparr>, cfg\<lparr>cf_use_ino := 1, cf_auto_cache := 1\<rparr>)"

end
