(* ===== verification/FuseSession.thy ===== *)
theory FuseSession
  imports FuseLlOps StartUp
begin

text \<open>
  Serving a low-level file system (\<open>fuse/src/lib.rs\<close>): how a reply is handed to the FUSE library,
  the callbacks that the library is given, and \<open>mount\<close> with the session that it cleans up when it
  ends, by a panic too.

  The library and its session are parameters; a session is a handle, \<open>None\<close> the null pointer.
\<close>

section \<open>Replies\<close>

record ('s, 'v) fuse_lib =
  fuse_reply_attr :: "nat \<Rightarrow> ll_stat \<Rightarrow> rat \<Rightarrow> 's \<Rightarrow> int \<times> 's"
  fuse_reply_bmap :: "nat \<Rightarrow> u64 \<Rightarrow> 's \<Rightarrow> int \<times> 's"
  fuse_reply_buf :: "nat \<Rightarrow> bytes \<Rightarrow> nat \<Rightarrow> 's \<Rightarrow> int \<times> 's"
  fuse_reply_create :: "nat \<Rightarrow> fuse_entry_param \<Rightarrow> ll_file_info \<Rightarrow> 's \<Rightarrow> int \<times> 's"
  fuse_reply_data :: "nat \<Rightarrow> int \<Rightarrow> i64 \<Rightarrow> nat \<Rightarrow> 's \<Rightarrow> int \<times> 's"
  fuse_reply_entry :: "nat \<Rightarrow> fuse_entry_param \<Rightarrow> 's \<Rightarrow> int \<times> 's"
  fuse_reply_err :: "nat \<Rightarrow> int \<Rightarrow> 's \<Rightarrow> int \<times> 's"
  fuse_reply_ioctl :: "nat \<Rightarrow> int \<Rightarrow> bytes \<Rightarrow> nat \<Rightarrow> 's \<Rightarrow> int \<times> 's"
  fuse_reply_ioctl_iov :: "nat \<Rightarrow> int \<Rightarrow> bytes \<Rightarrow> int \<Rightarrow> 's \<Rightarrow> int \<times> 's"
  fuse_reply_ioctl_retry :: "nat \<Rightarrow> bytes \<Rightarrow> nat \<Rightarrow> bytes \<Rightarrow> nat \<Rightarrow> 's \<Rightarrow> int \<times> 's"
  fuse_reply_iov :: "nat \<Rightarrow> bytes \<Rightarrow> int \<Rightarrow> 's \<Rightarrow> int \<times> 's"
  fuse_reply_lock :: "nat \<Rightarrow> flock \<Rightarrow> 's \<Rightarrow> int \<times> 's"
  fuse_reply_none :: "nat \<Rightarrow> 's \<Rightarrow> 's"
  fuse_reply_open :: "nat \<Rightarrow> ll_file_info \<Rightarrow> 's \<Rightarrow> int \<times> 's"
  fuse_reply_poll :: "nat \<Rightarrow> u32 \<Rightarrow> 's \<Rightarrow> int \<times> 's"
  fuse_reply_readlink :: "nat \<Rightarrow> bytes \<Rightarrow> 's \<Rightarrow> int \<times> 's"
  fuse_reply_statfs :: "nat \<Rightarrow> 'v \<Rightarrow> 's \<Rightarrow> int \<times> 's"
  fuse_reply_write :: "nat \<Rightarrow> nat \<Rightarrow> 's \<Rightarrow> int \<times> 's"
  fuse_reply_xattr :: "nat \<Rightarrow> nat \<Rightarrow> 's \<Rightarrow> int \<times> 's"

fun send :: "('s, 'v) fuse_lib \<Rightarrow> 'v FuseReply \<Rightarrow> nat \<Rightarrow> 's \<Rightarrow> int \<times> 's" where
  "send lib (R_attr attr t) req s = fuse_reply_attr lib req attr t s"
| "send lib (R_bmap idx) req s = fuse_reply_bmap lib req idx s"
| "send lib (R_buf buf sz) req s = fuse_reply_buf lib req buf sz s"
| "send lib (R_create e fi) req s = fuse_reply_create lib req e fi s"
| "send lib (R_data fd pos sz) req s = fuse_reply_data lib req fd pos sz s"
| "send lib (R_entry e) req s = fuse_reply_entry lib req e s"
| "send lib (R_err err) req s = fuse_reply_err lib req err s"
| "send lib (R_ioctl r buf sz) req s = fuse_reply_ioctl lib req r buf sz s"
| "send lib (R_ioctl_iov r iov n) req s = fuse_reply_ioctl_iov lib req r iov n s"
| "send lib (R_ioctl_retry i n out m) req s = fuse_reply_ioctl_retry lib req i n out m s"
| "send lib (R_iov iov n) req s = fuse_reply_iov lib req iov n s"
| "send lib (R_lock l) req s = fuse_reply_lock lib req l s"
| "send lib R_none req s = (0, fuse_reply_none lib req s)"
| "send lib (R_open fi) req s = fuse_reply_open lib req fi s"
| "send lib (R_poll ev) req s = fuse_reply_poll lib req ev s"
| "send lib (R_readlink l) req s = fuse_reply_readlink lib req l s"
| "send lib (R_statfs st) req s = fuse_reply_statfs lib req st s"
| "send lib (R_write n) req s = fuse_reply_write lib req n s"
| "send lib (R_xattr n) req s = fuse_reply_xattr lib req n s"

section \<open>Callbacks\<close>

text \<open>
  The file system that is served: the one of \<open>fuse_ll\<close> or the one that defines nothing.  The
  trait's own \<open>setattr\<close> is there for both.
\<close>

datatype served = LL_Fs | NopFs

definition nop_methods :: "('s, 'v) attr_methods" where
  "nop_methods = \<lparr>m_chmod = (\<lambda>fs i m f. undefined_method fs), m_chown = (\<lambda>fs i u g. undefined_method fs),
     m_truncate = (\<lambda>fs i n f. undefined_method fs), m_utimens = (\<lambda>fs i ts f. undefined_method fs), m_getattr = (\<lambda>fs i. undefined_method fs)\<rparr>"

fun nop_serve :: "ll_request \<Rightarrow> Fs \<Rightarrow> 's \<Rightarrow> ('s, 'v) ll_result" where
  "nop_serve (Q_setattr i a t fi) fs s = setattr nop_methods fs i a t fi s"
| "nop_serve q fs s = undefined_method fs s"

text \<open>\<open>FS.as_ref().unwrap()\<close> is the file system that is served.\<close>

definition proxy_generic :: "('s, 'v) ll_os \<Rightarrow> ('s, 'v) fuse_lib \<Rightarrow> (Fs \<Rightarrow> u64) \<Rightarrow> served option \<Rightarrow> nat \<Rightarrow> ll_request \<Rightarrow> Fs \<Rightarrow> 's \<Rightarrow> (Fs \<times> 's) result" where
  "proxy_generic os lib box FS req q fs s =
     rbind (unwrap ''called Option::unwrap() on a None value'' FS) (\<lambda>f.
     rbind (case f of LL_Fs \<Rightarrow> serve os box q fs s | NopFs \<Rightarrow> nop_serve q fs s) (\<lambda>(r, fs1, s1).
       Inr (fs1, snd (send lib r req s1))))"

definition proxy_forget_multi :: "('s, 'v) fuse_lib \<Rightarrow> served option \<Rightarrow> nat \<Rightarrow> (u64 \<times> u64) list \<Rightarrow> Fs \<Rightarrow> 's \<Rightarrow> (Fs \<times> 's) result" where
  "proxy_forget_multi lib FS req forgets fs s =
     rbind (unwrap ''called Option::unwrap() on a None value'' FS) (\<lambda>f.
     rbind (case f of LL_Fs \<Rightarrow> forget_multi fs forgets | NopFs \<Rightarrow> Inr fs) (\<lambda>fs1.
       Inr (fs1, snd (send lib R_none req s))))"

section \<open>Mounting\<close>

record 's session_lib =
  sl_parse_cmdline :: "string list \<Rightarrow> 's \<Rightarrow> int \<times> 's"
  sl_session_new :: "string list \<Rightarrow> 's \<Rightarrow> nat option \<times> 's"
  sl_set_signal_handlers :: "nat option \<Rightarrow> 's \<Rightarrow> int \<times> 's"
  sl_umask :: "u32 \<Rightarrow> 's \<Rightarrow> 's"
  sl_session_mount :: "nat option \<Rightarrow> string \<Rightarrow> 's \<Rightarrow> int \<times> 's"
  sl_session_loop :: "nat option \<Rightarrow> 's \<Rightarrow> int \<times> 's"
  sl_session_loop_mt :: "nat option \<Rightarrow> u32 \<Rightarrow> 's \<Rightarrow> int \<times> 's"
  sl_session_unmount :: "nat option \<Rightarrow> 's \<Rightarrow> 's"
  sl_remove_signal_handlers :: "nat option \<Rightarrow> 's \<Rightarrow> 's"
  sl_session_destroy :: "nat option \<Rightarrow> 's \<Rightarrow> 's"

record FuseSession =
  ses_ptr :: "nat option"
  ses_signals :: bool
  ses_mounted :: bool

definition session_drop :: "'s session_lib \<Rightarrow> FuseSession \<Rightarrow> 's \<Rightarrow> 's" where
  "session_drop lib se s =
     (let s1 = (if ses_mounted se then sl_session_unmount lib (ses_ptr se) s else s);
          s2 = (if ses_signals se then sl_remove_signal_handlers lib (ses_ptr se) s1 else s1) in
      sl_session_destroy lib (ses_ptr se) s2)"

text \<open>
  With a session: the state is dropped at the end of the function, whether it returns or panics.
  The answer is the file system that was installed beside the outcome.
\<close>

definition run_session :: "'s session_lib \<Rightarrow> string \<Rightarrow> u32 \<Rightarrow> nat option \<Rightarrow> 's \<Rightarrow> int result \<times> 's" where
  "run_session lib cpath threads p s =
     (let se = \<lparr>ses_ptr = p, ses_signals = False, ses_mounted = False\<rparr> in
      if p = None then (Inl (Panicked ''Could not create fuse session''), session_drop lib se s)
      else
        let (r1, s1) = sl_set_signal_handlers lib p s in
        if r1 \<noteq> 0 then (Inl (Panicked ''Failed to parse fuse cmdline''), session_drop lib se s1)
        else
          let se1 = se\<lparr>ses_signals := True\<rparr>; (r2, s2) = sl_session_mount lib p cpath (sl_umask lib 0 s1) in
          if r2 \<noteq> 0 then (Inl (Panicked ''Failed to mount''), session_drop lib se1 s2)
          else
            let se2 = se1\<lparr>ses_mounted := True\<rparr>;
                (r3, s3) = (if threads = 1 then sl_session_loop lib p s2 else sl_session_loop_mt lib p threads s2)
            in (Inr r3, session_drop lib se2 s3))"

definition fuse_mount :: "'s session_lib \<Rightarrow> path \<Rightarrow> string list \<Rightarrow> u32 \<Rightarrow> 's \<Rightarrow> int result \<times> served option \<times> 's" where
  "fuse_mount lib p extra_args threads s =
     (case rbind (path_to_str p) (\<lambda>q. c_string (path_string q)) of
        Inl e \<Rightarrow> (Inl e, None, s)
      | Inr cpath \<Rightarrow>
          (case start_fuse_args p extra_args of
             Inl e \<Rightarrow> (Inl e, Some NopFs, s)
           | Inr args \<Rightarrow>
               let (r0, s0) = sl_parse_cmdline lib args s in
               if r0 \<noteq> 0 then (Inl (Panicked ''Failed to parse fuse cmdline''), Some NopFs, s0)
               else
                 let (ptr, s1) = sl_session_new lib args s0; (r, s2) = run_session lib cpath threads ptr s1 in
                 (r, Some NopFs, s2)))"

end
