(* ===== verification/FuseSessionLaws.thy ===== *)
theory FuseSessionLaws
  imports FuseSession FuseLlLaws
begin

unbundle bit_operations_syntax

text \<open>What a session leaves behind, and what the callbacks answer.\<close>

section \<open>The session\<close>

text \<open>
  What the library holds: a session, its signal handlers, its mount.  Making one is undone by its
  counterpart; nothing else changes what is held.
\<close>

definition holds_session :: "'s session_lib \<Rightarrow> ('s \<Rightarrow> (nat \<times> nat) set) \<Rightarrow> bool" where
  "holds_session lib held \<longleftrightarrow>
     (\<forall>a s r s'. sl_parse_cmdline lib a s = (r, s') \<longrightarrow> held s' = held s)
     \<and> (\<forall>a s n s'. sl_session_new lib a s = (Some n, s') \<longrightarrow> held s' = insert (n, 0) (held s) \<and> (\<forall>k. (n, k) \<notin> held s))
     \<and> (\<forall>n s r s'. sl_set_signal_handlers lib (Some n) s = (r, s') \<longrightarrow> held s' = (if r = 0 then insert (n, 1) (held s) else held s))
     \<and> (\<forall>n p s r s'. sl_session_mount lib (Some n) p s = (r, s') \<longrightarrow> held s' = (if r = 0 then insert (n, 2) (held s) else held s))
     \<and> (\<forall>m s. held (sl_umask lib m s) = held s)
     \<and> (\<forall>q s r s'. sl_session_loop lib q s = (r, s') \<longrightarrow> held s' = held s)
     \<and> (\<forall>q t s r s'. sl_session_loop_mt lib q t s = (r, s') \<longrightarrow> held s' = held s)
     \<and> (\<forall>n s. held (sl_session_unmount lib (Some n) s) = held s - {(n, 2)})
     \<and> (\<forall>n s. held (sl_remove_signal_handlers lib (Some n) s) = held s - {(n, 1)})
     \<and> (\<forall>n s. held (sl_session_destroy lib (Some n) s) = held s - {(n, 0)})"

lemma holds_sessionD:
  assumes "holds_session lib held"
  shows "sl_parse_cmdline lib a s = (r, s') \<Longrightarrow> held s' = held s"
    "sl_session_new lib a s = (Some n, s') \<Longrightarrow> held s' = insert (n, 0) (held s) \<and> (\<forall>k. (n, k) \<notin> held s)"
    "sl_set_signal_handlers lib (Some n) s = (r, s') \<Longrightarrow> held s' = (if r = 0 then insert (n, 1) (held s) else held s)"
    "sl_session_mount lib (Some n) p s = (r, s') \<Longrightarrow> held s' = (if r = 0 then insert (n, 2) (held s) else held s)"
    "held (sl_umask lib m s) = held s"
    "sl_session_loop lib q s = (r, s') \<Longrightarrow> held s' = held s" "sl_session_loop_mt lib q t s = (r, s') \<Longrightarrow> held s' = held s"
    "held (sl_session_unmount lib (Some n) s) = held s - {(n, 2)}" "held (sl_remove_signal_handlers lib (Some n) s) = held s - {(n, 1)}"
    "held (sl_session_destroy lib (Some n) s) = held s - {(n, 0)}"
proof -
  note H = assms [unfolded holds_session_def]
  note H1 = H [THEN conjunct2, THEN conjunct2, THEN conjunct2, THEN conjunct2]
  show "sl_parse_cmdline lib a s = (r, s') \<Longrightarrow> held s' = held s" by (rule H [THEN conjunct1, rule_format])
  show "sl_session_new lib a s = (Some n, s') \<Longrightarrow> held s' = insert (n, 0) (held s) \<and> (\<forall>k. (n, k) \<notin> held s)"
    by (rule H [THEN conjunct2, THEN conjunct1, THEN spec, THEN spec, THEN spec, THEN spec, THEN mp])
  show "sl_set_signal_handlers lib (Some n) s = (r, s') \<Longrightarrow> held s' = (if r = 0 then insert (n, 1) (held s) else held s)"
    by (rule H [THEN conjunct2, THEN conjunct2, THEN conjunct1, rule_format])
  show "sl_session_mount lib (Some n) p s = (r, s') \<Longrightarrow> held s' = (if r = 0 then insert (n, 2) (held s) else held s)"
    by (rule H [THEN conjunct2, THEN conjunct2, THEN conjunct2, THEN conjunct1, rule_format])
  show "held (sl_umask lib m s) = held s" by (rule H1 [THEN conjunct1, rule_format])
  note H2 = H1 [THEN conjunct2]
  show "sl_session_loop lib q s = (r, s') \<Longrightarrow> held s' = held s" by (rule H2 [THEN conjunct1, rule_format])
  show "sl_session_loop_mt lib q t s = (r, s') \<Longrightarrow> held s' = held s" by (rule H2 [THEN conjunct2, THEN conjunct1, rule_format])
  show "held (sl_session_unmount lib (Some n) s) = held s - {(n, 2)}" "held (sl_remove_signal_handlers lib (Some n) s) = held s - {(n, 1)}"
    "held (sl_session_destroy lib (Some n) s) = held s - {(n, 0)}" using H2 by simp_all
qed

lemma session_drop_gives_back:
  assumes "holds_session lib held" "ses_ptr se = Some n"
  shows "held (session_drop lib se s) = held s - ({(n, 0)} \<union> (if ses_signals se then {(n, 1)} else {}) \<union> (if ses_mounted se then {(n, 2)} else {}))"
  using assms(2) by (auto simp: session_drop_def holds_sessionD(8-10) [OF assms(1)] Let_def)

lemma run_session_balanced:
  assumes H: "holds_session lib held" and fresh: "\<And>k. k \<noteq> 0 \<Longrightarrow> (n, k) \<notin> held s"
  shows "held (snd (run_session lib cpath threads (Some n) s)) = held s - {(n, 0)}"
proof -
  obtain r1 s1 where a: "sl_set_signal_handlers lib (Some n) s = (r1, s1)" by fastforce
  obtain r2 s2 where b: "sl_session_mount lib (Some n) cpath (sl_umask lib 0 s1) = (r2, s2)" by fastforce
  obtain r3 s3 where c: "(if threads = 1 then sl_session_loop lib (Some n) s2 else sl_session_loop_mt lib (Some n) threads s2) = (r3, s3)" by fastforce
  note D = holds_sessionD [OF H]
  have h1: "held s1 = (if r1 = 0 then insert (n, 1) (held s) else held s)" by (rule D(3) [OF a])
  have h2: "held s2 = (if r2 = 0 then insert (n, 2) (held s1) else held s1)" using D(4) [OF b] D(5) by simp
  have h3: "held s3 = held s2" using c D(6,7) by (auto split: if_splits)
  show ?thesis
    using h1 h2 h3 fresh [of 1] fresh [of 2] session_drop_gives_back [OF H]
    by (auto simp: run_session_def a b c Let_def)
qed

text \<open>
  C18. Mounting gives back all it takes: however \<open>mount\<close> ends, by the end of the session or by a
  panic on any of its failures, no session, no signal handlers and no mount of it are left, as long
  as the library could create a session at all.
\<close>

theorem fuse_mount_balanced:
  assumes "holds_session lib held" "\<And>a t. fst (sl_session_new lib a t) \<noteq> None"
  shows "held (snd (snd (fuse_mount lib p extra_args threads s))) = held s"
proof (cases "rbind (path_to_str p) (\<lambda>q. c_string (path_string q))")
  case (Inr cpath)
  show ?thesis
  proof (cases "start_fuse_args p extra_args")
    case (Inr args)
    obtain r0 s0 where a: "sl_parse_cmdline lib args s = (r0, s0)" by fastforce
    then have h0: "held s0 = held s" by (rule holds_sessionD(1) [OF assms(1)])
    obtain n s1 where b: "sl_session_new lib args s0 = (Some n, s1)" using assms(2) [of args s0] by (cases "sl_session_new lib args s0") auto
    have h1: "held s1 = insert (n, 0) (held s0)" "\<And>k. (n, k) \<notin> held s0"
      using holds_sessionD(2) [OF assms(1) b] by auto
    have "held (snd (run_session lib cpath threads (Some n) s1)) = held s0"
      using run_session_balanced [OF assms(1), of n s1] h1 by auto
    then show ?thesis
      using \<open>rbind _ _ = Inr cpath\<close> Inr a b h0 by (auto simp: fuse_mount_def split: prod.splits)
  qed (simp add: fuse_mount_def Inr)
qed (simp add: fuse_mount_def)

text \<open>A library for evaluation: the state lists what is held, a new session gets a new number, and mounting fails.\<close>

definition held_lib :: "(nat \<times> nat) list session_lib" where
  "held_lib = \<lparr>sl_parse_cmdline = (\<lambda>a s. (0, s)),
     sl_session_new = (\<lambda>a s. let n = Suc (sum_list (map fst s)) in (Some n, (n, 0) # s)),
     sl_set_signal_handlers = (\<lambda>p s. (0, (the p, 1) # s)), sl_umask = (\<lambda>m s. s), sl_session_mount = (\<lambda>p q s. (-1, s)),
     sl_session_loop = (\<lambda>p s. (0, s)), sl_session_loop_mt = (\<lambda>p n s. (0, s)),
     sl_session_unmount = (\<lambda>p s. filter (\<lambda>x. x \<noteq> (the p, 2)) s), sl_remove_signal_handlers = (\<lambda>p s. filter (\<lambda>x. x \<noteq> (the p, 1)) s),
     sl_session_destroy = (\<lambda>p s. filter (\<lambda>x. x \<noteq> (the p, 0)) s)\<rparr>"

lemma held_lib_holds: "holds_session held_lib set"
proof -
  have "n \<le> sum_list (map fst s)" if "(n, k) \<in> set s" for n k and s :: "(nat \<times> nat) list"
    using that by (intro member_le_sum_list) (force, simp)
  then have "(Suc (sum_list (map fst s)), k) \<notin> set s" for k and s :: "(nat \<times> nat) list" by (meson Suc_n_not_le_n)
  then show ?thesis by (auto simp: holds_session_def held_lib_def Let_def)
qed

theorem fuse_mount_balanced_witness:
  "\<exists>FS s'. fuse_mount held_lib [RootDir, Normal ''m''] [] 1 [(3, 0)] = (Inl (Panicked ''Failed to mount''), FS, s') \<and> set s' = {(3, 0)}"
proof -
  have run: "fst (fuse_mount held_lib [RootDir, Normal ''m''] [] 1 [(3, 0)]) = Inl (Panicked ''Failed to mount'')" by code_simp
  have "set (snd (snd (fuse_mount held_lib [RootDir, Normal ''m''] [] 1 [(3, 0)]))) = set [(3, 0)]"
    by (rule fuse_mount_balanced [OF held_lib_holds]) (simp add: held_lib_def Let_def)
  with run show ?thesis by (metis list.simps(15) prod.collapse set_empty2)
qed

section \<open>What is served\<close>

lemma nop_serve_all: "nop_serve q fs s = Inr (R_err EOPNOTSUPP, fs, s)"
  by (cases q) (simp_all add: undefined_method_def setattr_def nop_methods_def unless_err_def)

text \<open>
  C40. Whatever file system is given to \<open>mount\<close>, once the session runs every request is answered with
  \<open>EOPNOTSUPP\<close> and reaches nothing: what is installed is the file system that defines no method.
\<close>

theorem fuse_mount_serves_nothing:
  assumes "fuse_mount lib p extra_args threads s = (Inr r, FS, s')"
  shows "proxy_generic os rl box FS req q fs t = Inr (fs, snd (fuse_reply_err rl req EOPNOTSUPP t))"
proof -
  have "FS = Some NopFs" using assms by (auto simp: fuse_mount_def Let_def split: sum.splits prod.splits if_splits)
  then show ?thesis by (simp add: proxy_generic_def nop_serve_all)
qed

definition serving_lib :: "(nat \<times> nat) list session_lib" where
  "serving_lib = held_lib\<lparr>sl_session_mount := (\<lambda>p q s. (0, (the p, 2) # s))\<rparr>"

theorem fuse_mount_serves_nothing_witness:
  "\<exists>FS s'. fuse_mount serving_lib [RootDir, Normal ''m''] [] 1 [] = (Inr 0, FS, s')
    \<and> (\<forall>os rl box req q fs t. proxy_generic os rl box FS req q fs (t :: nat) = Inr (fs, snd (fuse_reply_err (rl :: (nat, unit) fuse_lib) req EOPNOTSUPP t)))"
proof -
  have "fst (fuse_mount serving_lib [RootDir, Normal ''m''] [] 1 []) = Inr 0" by code_simp
  then obtain FS s' where run: "fuse_mount serving_lib [RootDir, Normal ''m''] [] 1 [] = (Inr 0, FS, s')" by (metis prod.collapse)
  show ?thesis using run fuse_mount_serves_nothing [OF run] by blast
qed

end
