(* ===== verification/Rsync.thy ===== *)
theory Rsync
  imports ClientConn
begin

text \<open>
  The first synchronisation (\<open>common/rsync.rs\<close>): two \<open>rsync\<close> processes talk through the
  connection between server and client.  At each end \<open>rsync_bridge\<close> copies in both directions, in
  frames of a big-endian length and that many bytes; a length of zero ends a direction.

  A process and its pipes are parameters: what reading its output gives is a list of events, an
  exhausted list is the end of the output; its input is a writer.  The two directions run in two
  threads that share the writer to the connection, which is locked for each single write.
\<close>

section \<open>The bridge\<close>

datatype read_event = Got bytes | Interrupted | ReadFailed io_error

text \<open>The main loop: what \<open>rsync\<close> says goes to the connection.\<close>

fun from_rsync :: "read_event list \<Rightarrow> writer \<Rightarrow> writer result" where
  "from_rsync [] nout = write_all nout (be32 0)"
| "from_rsync (Interrupted # evs) nout = from_rsync evs nout"
| "from_rsync (ReadFailed e # evs) nout = Inl (IoErr e)"
| "from_rsync (Got b # evs) nout =
     (if b = [] then write_all nout (be32 0)
      else rbind (write_all nout (be32 (of_nat (length b)))) (\<lambda>n1. rbind (write_all n1 b) (from_rsync evs)))"

text \<open>
  The second thread: what the connection says goes to \<open>rsync\<close>.  At the end it gives back the
  rest of the connection, or it answers with an end of its own and the process exits.
\<close>

datatype bridge_end =
    Returned bytes writer
  | Exited writer writer

definition grow_buf :: "bytes \<Rightarrow> nat \<Rightarrow> bytes" where
  "grow_buf vec len = (if length vec < len then vec @ replicate (len - length vec) 0 else vec)"

function to_rsync :: "bool \<Rightarrow> bytes \<Rightarrow> bytes \<Rightarrow> writer \<Rightarrow> writer \<Rightarrow> bridge_end result" where
  "to_rsync terminate nin vec rin nout = (case read_exact nin 4 of
       Inl e \<Rightarrow> Inl e
     | Inr (hdr, rest) \<Rightarrow>
         let len = unat (rd_be32 hdr) in
         if len = 0 then
           (if terminate then rmap (Exited rin) (write_all nout (be32 0)) else Inr (Returned rest rin))
         else (case read_exact rest len of
             Inl e \<Rightarrow> Inl e
           | Inr (b, rest') \<Rightarrow>
               let vec' = b @ drop len (grow_buf vec len) in
               (case write_all rin (take len vec') of
                  Inl e \<Rightarrow> Inl e
                | Inr rin' \<Rightarrow> to_rsync terminate rest' vec' rin' nout)))"
  by pat_completeness auto

termination
  by (relation "measure (\<lambda>(t, nin, vec, rin, nout). length nin)") (auto simp: read_exact_def split: if_splits)

declare to_rsync.simps [simp del]

text \<open>
  With \<open>terminate\<close> off the threads share nothing that either changes, and the bridge is one after
  the other: the main loop runs to its end and then waits for the thread.
\<close>

definition rsync_bridge :: "bytes \<Rightarrow> writer \<Rightarrow> writer \<Rightarrow> read_event list \<Rightarrow> (bytes \<times> writer) result" where
  "rsync_bridge nin nout rin rout =
     rbind (from_rsync rout nout) (\<lambda>n1.
     rbind (to_rsync False nin [] rin n1) (\<lambda>joined. case joined of
         Returned rest rin' \<Rightarrow> Inr (rest, n1)
       | Exited rin' n2 \<Rightarrow> Inl (Panicked ''internal error: entered unreachable code'')))"

text \<open>The writes of the main loop, each under its own lock.\<close>

fun locked_writes :: "read_event list \<Rightarrow> bytes list" where
  "locked_writes [] = [be32 0]"
| "locked_writes (Interrupted # evs) = locked_writes evs"
| "locked_writes (ReadFailed e # evs) = []"
| "locked_writes (Got b # evs) = (if b = [] then [be32 0] else be32 (of_nat (length b)) # b # locked_writes evs)"

text \<open>
  With \<open>terminate\<close> on the thread may come in between any two of these writes, and it takes the
  process down: what has been written then is some of the writes and the answer of the thread.
\<close>

definition exit_after :: "nat \<Rightarrow> read_event list \<Rightarrow> bytes" where
  "exit_after k evs = concat (take k (locked_writes evs)) @ be32 0"

section \<open>The two processes\<close>

record 's rsync_os =
  rs_dup :: "int \<Rightarrow> 's \<Rightarrow> int \<times> 's"
  rs_setfd :: "int \<Rightarrow> int \<Rightarrow> 's \<Rightarrow> int \<times> 's"
  rs_errno :: "'s \<Rightarrow> int"
  rs_current_exe :: "'s \<Rightarrow> string result"
  rs_run :: "string \<Rightarrow> string list \<Rightarrow> 's \<Rightarrow> unit result \<times> 's"

definition deleted_mark :: string where
  "deleted_mark = '' (deleted)''"

definition exe_name :: "string \<Rightarrow> string" where
  "exe_name fsyncd =
     (if drop (length fsyncd - length deleted_mark) fsyncd = deleted_mark then take (length fsyncd - length deleted_mark) fsyncd else fsyncd)"

definition show_fd :: "int \<Rightarrow> string" where
  "show_fd fd = (if fd < 0 then CHR 0x2D # show_nat (nat (- fd)) else show_nat (nat fd))"

definition push_dot :: "string \<Rightarrow> string" where
  "push_dot p = (if p = [] \<or> last p = CHR 0x2F then p @ ''./'' else p @ ''/./'')"

definition rsync_server_args :: "string \<Rightarrow> int \<Rightarrow> int \<Rightarrow> string \<Rightarrow> string list" where
  "rsync_server_args fsyncd nin nout src =
     [''-avhAX'', ''--delete'', ''-e'', fsyncd @ '' fakeshell '' @ show_fd nin @ '' '' @ show_fd nout, push_dot src, '':.'']"

text \<open>The descriptors are kept open across the start of the process: their close-on-exec flag is cleared.\<close>

definition rsync_server :: "'s rsync_os \<Rightarrow> int \<Rightarrow> int \<Rightarrow> string \<Rightarrow> 's \<Rightarrow> unit result \<times> 's" where
  "rsync_server os fdin fdout src s =
     (let (nin, s1) = rs_dup os fdin s; (nout, s2) = rs_dup os fdout s1; (r3, s3) = rs_setfd os nin 0 s2 in
      if r3 = -1 then (Inl (IoErr (Os (rs_errno os s3))), s3)
      else
        let (r4, s4) = rs_setfd os nout 0 s3 in
        if r4 = -1 then (Inl (IoErr (Os (rs_errno os s4))), s4)
        else (case rs_current_exe os s4 of
            Inl e \<Rightarrow> (Inl e, s4)
          | Inr exe \<Rightarrow>
              if \<not> utf8_valid (map of_char exe) then (Inl (Panicked ''called Option::unwrap() on a None value''), s4)
              else rs_run os ''rsync'' (rsync_server_args (exe_name exe) nin nout src) s4))"

definition rsync_client_args :: "string \<Rightarrow> string list" where
  "rsync_client_args dst = [''--server'', ''-vlogDtpAXre.iLsfxC'', ''--delete'', ''.'', dst]"

text \<open>The client's end: the bridge between the connection and a process whose pipes are given when it starts.\<close>

definition rsync_client :: "(string \<Rightarrow> string list \<Rightarrow> (writer \<times> read_event list) result) \<Rightarrow> bytes \<Rightarrow> writer \<Rightarrow> string \<Rightarrow> (bytes \<times> writer) result" where
  "rsync_client spawn nin nout dst =
     rbind (spawn ''rsync'' (rsync_client_args dst)) (\<lambda>(rin, rout). rsync_bridge nin nout rin rout)"

end
