(* ===== verification/RsyncLaws.thy ===== *)
theory RsyncLaws
  imports Rsync ServerLaws
begin

text \<open>
  The two ends of the first synchronisation together: what one end reads from its process and sends
  is what the other end hands to its process.
\<close>

text \<open>The output of a process: all that was read up to its end.\<close>

fun said :: "read_event list \<Rightarrow> bytes" where
  "said [] = []"
| "said (Got b # evs) = (if b = [] then [] else b @ said evs)"
| "said (_ # evs) = said evs"

text \<open>Reads that succeed, into a buffer of 4096 bytes.\<close>

fun good_read :: "read_event \<Rightarrow> bool" where
  "good_read (Got b) = (length b \<le> 4096)"
| "good_read Interrupted = True"
| "good_read (ReadFailed e) = False"

lemma length_of_nat_chunk: "length b \<le> 4096 \<Longrightarrow> unat (of_nat (length b) :: u32) = length b"
  by (simp add: unat_of_nat)

text \<open>The main loop writes exactly its locked writes.\<close>

lemma from_rsync_writes:
  "list_all good_read evs \<Longrightarrow> wfault w = None \<Longrightarrow> from_rsync evs w = Inr (w\<lparr>wbytes := wbytes w @ concat (locked_writes evs)\<rparr>)"
  by (induction evs w rule: from_rsync.induct) (auto simp: write_all_def)

text \<open>A frame is taken off the connection as a whole.\<close>

lemma to_rsync_frame:
  assumes "b \<noteq> []" "length b \<le> 4096" "wfault rin = None"
  shows "\<exists>vec'. to_rsync t (be32 (of_nat (length b)) @ b @ rest) vec rin nout
    = to_rsync t rest vec' (rin\<lparr>wbytes := wbytes rin @ b\<rparr>) nout"
  using assms length_of_nat_chunk [OF assms(2)]
  by (subst to_rsync.simps) (auto simp: read_exact_def write_all_def Let_def)

lemma to_rsync_end:
  "to_rsync False (be32 0 @ rest) vec rin nout = Inr (Returned rest rin)"
  by (subst to_rsync.simps) (simp add: read_exact_def Let_def)

lemma to_rsync_frames:
  "list_all good_read evs \<Longrightarrow> wfault rin = None \<Longrightarrow>
    to_rsync False (concat (locked_writes evs) @ rest) vec rin nout = Inr (Returned rest (rin\<lparr>wbytes := wbytes rin @ said evs\<rparr>))"
proof (induction evs arbitrary: vec rin)
  case Nil
  then show ?case using to_rsync_end by simp
next
  case (Cons ev evs)
  show ?case
  proof (cases ev)
    case (Got b)
    show ?thesis
    proof (cases "b = []")
      case True
      then show ?thesis using to_rsync_end Got by simp
    next
      case False
      obtain vec' where "to_rsync False (be32 (of_nat (length b)) @ b @ concat (locked_writes evs) @ rest) vec rin nout
          = to_rsync False (concat (locked_writes evs) @ rest) vec' (rin\<lparr>wbytes := wbytes rin @ b\<rparr>) nout"
        using to_rsync_frame [OF False] Cons.prems Got by fastforce
      then show ?thesis using Cons.IH [of "rin\<lparr>wbytes := wbytes rin @ b\<rparr>" vec'] Cons.prems Got False by simp
    qed
  qed (use Cons in simp_all)
qed


definition idle_writer :: writer where
  "idle_writer = \<lparr>wbytes = [], wflushed = 0, wfault = None\<rparr>"


text \<open>
  When the process that ends takes its bridge down between the length and the bytes of a frame, the
  peer is left with a frame it cannot complete: the two locks of a frame are two, not one.
\<close>

theorem rsync_exit_cuts_frame:
  assumes "b \<noteq> []" "4 < length b" "length b \<le> 4096"
  shows "to_rsync False (exit_after 1 (Got b # evs)) vec rin nout = Inl (IoErr UnexpectedEof)"
  using assms length_of_nat_chunk [OF assms(3)]
  by (subst to_rsync.simps) (auto simp: exit_after_def read_exact_def Let_def)

end
