(* ===== verification/StartUpLaws.thy ===== *)
theory StartUpLaws
  imports StartUp
begin

text \<open>What the choice of directories leaves on the machine.\<close>

lemma hbind_simps [simp]: "hbind (Inl e, h) f = (Inl e, h)" "hbind (Inr x, h) f = f x h"
  by (simp_all add: hbind_def)

lemma hbind_Inr:
  assumes "hbind m f = (Inr y, h')"
  obtains x h where "m = (Inr x, h)" "f x h = (Inr y, h')"
  using assms by (auto simp: hbind_def split: prod.splits sum.splits)

text \<open>
  What is used of the machine: a path that is resolved exists, renaming a directory leaves it under
  its new name only, asking whether a path is a mount point changes nothing.
\<close>

definition sane_host :: "'h host \<Rightarrow> bool" where
  "sane_host host \<longleftrightarrow>
     (\<forall>p h q. h_canonicalize host p h = Inr q \<longrightarrow> h_exists host q h)
     \<and> (\<forall>p q h h'. h_rename host p q h = (Inr (), h') \<longrightarrow> p \<noteq> q \<longrightarrow> h_exists host q h' \<and> \<not> h_exists host p h')
     \<and> (\<forall>p h. snd (h_mountpoint host p h) = h)"

text \<open>
  C39. A server that finds its backing store in place changes nothing, and both directories are
  there.  When the backing store is not there yet and the mount path is an ordinary directory, it
  is renamed to the backing store, and the server goes on with a mount path that does not exist any
  more: it is created only when it was missing before.
\<close>

theorem first_start_loses_mount_point:
  assumes "figure_out_paths host arg_mount arg_backing h = (Inr (mp, bs), h')" "sane_host host"
  shows "(h_exists host bs h \<longrightarrow> h' = h \<and> h_exists host mp h)
    \<and> (\<not> h_exists host bs h \<and> fst (h_mountpoint host mp h) = Inr False \<longrightarrow> h_exists host bs h' \<and> \<not> h_exists host mp h')"
proof -
  obtain mp1 where c: "canonize_path host (path_of arg_mount) h = Inr mp1"
    using assms(1) by (auto simp: figure_out_paths_def elim: hbind_Inr)
  then have ex: "h_exists host mp1 h" using assms(2) by (auto simp: sane_host_def canonize_path_def)
  obtain bs1 where b: "backing_path host arg_backing mp1 h = Inr bs1"
    using assms(1) c by (auto simp: figure_out_paths_def Let_def elim!: hbind_Inr)
  show ?thesis
  proof (cases "h_exists host bs1 h")
    case True
    then show ?thesis using assms(1) c b ex by (simp add: figure_out_paths_def Let_def)
  next
    case False
    then obtain h1 where m: "move_to_backing host arg_mount mp1 bs1 h = (Inr (), h1)" "mp = mp1" "bs = bs1" "h' = h1"
      using assms(1) c b ex by (auto simp: figure_out_paths_def Let_def elim!: hbind_Inr)
    have "h_exists host bs1 h1 \<and> \<not> h_exists host mp1 h1" if no: "fst (h_mountpoint host mp1 h) = Inr False"
    proof -
      have q: "h_mountpoint host mp1 h = (Inr False, h)" using no assms(2) by (metis prod.collapse sane_host_def)
      have "h_rename host mp1 bs1 h = (Inr (), h1)"
        using m(1) q by (auto simp: move_to_backing_def check_mount_def elim!: hbind_Inr)
      moreover have "mp1 \<noteq> bs1" using ex False by blast
      ultimately show ?thesis using assms(2) by (auto simp: sane_host_def)
    qed
    then show ?thesis using False m by simp
  qed
qed

text \<open>A machine for evaluation: the state lists the directories, every path is absolute already.\<close>

definition dir_host :: "path list host" where
  "dir_host = \<lparr>h_canonicalize = (\<lambda>p h. if p \<in> set h then Inr p else Inl (IoErr (Os 2))), h_exists = (\<lambda>p h. p \<in> set h),
     h_metadata = (\<lambda>p h. Inl (IoErr (Os 2))), h_errno = (\<lambda>h. 2), h_chown = (\<lambda>p u g h. (0, h)), h_chmod = (\<lambda>p m h. (0, h)),
     h_rename = (\<lambda>p q h. if p \<in> set h then (Inr (), q # filter (\<lambda>x. x \<noteq> p) h) else (Inl (IoErr (Os 2)), h)),
     h_create_dir_all = (\<lambda>p h. (Inr (), p # h)), h_remove_file = (\<lambda>p h. (Inr (), h)), h_mountpoint = (\<lambda>p h. (Inr False, h)),
     h_mount_move = (\<lambda>p q h. (Inr False, h)), h_bind_tcp = (\<lambda>a n h. (Inr (), h)), h_bind_unix = (\<lambda>p h. (Inr (), h))\<rparr>"

lemma sane_dir_host: "sane_host dir_host"
  by (auto simp: sane_host_def dir_host_def split: if_splits)

theorem first_start_loses_mount_point_witness:
  "\<exists>h'. figure_out_paths dir_host ''/m'' None [[RootDir, Normal ''m'']] = (Inr ([RootDir, Normal ''m''], [RootDir, Normal ''.fsyncer-m'']), h')
    \<and> \<not> h_exists dir_host [RootDir, Normal ''m''] h'"
proof -
  have "figure_out_paths dir_host ''/m'' None [[RootDir, Normal ''m'']]
      = (Inr ([RootDir, Normal ''m''], [RootDir, Normal ''.fsyncer-m'']), [[RootDir, Normal ''.fsyncer-m'']])"
    by code_simp
  from first_start_loses_mount_point [OF this sane_dir_host] this show ?thesis by (simp add: dir_host_def)
qed

end
