(* ===== verification/Cli.thy ===== *)
theory Cli
  imports StartUp
begin

text \<open>
  The command line (\<open>main.rs\<close>): the commands and arguments that are declared, and the commands that
  read them, among them the client (\<open>client_main\<close> and \<open>with_url\<close> of \<open>client/mod.rs\<close>).

  Matching the process arguments against the declaration is done by a package; its outcome is a
  tree of values, one level for the program and one for each command inside of another.
\<close>

section \<open>Declaration\<close>

record Arg =
  arg_name :: string
  takes_value :: bool
  arg_required :: bool
  arg_multiple :: bool
  default_value :: "string option"
  default_ifs :: "(string \<times> string \<times> string) list"
  possible_values :: "string list"

definition with_name :: "string \<Rightarrow> Arg" where
  "with_name n = \<lparr>arg_name = n, takes_value = False, arg_required = False, arg_multiple = False, default_value = None, default_ifs = [],
     possible_values = []\<rparr>"

datatype App = App (app_name: string) (app_args: "Arg list") (app_groups: "string list") (app_subs: "App list")

definition client_and_server_args :: "Arg list" where
  "client_and_server_args =
     [(with_name ''mount-path'')\<lparr>arg_required := True, takes_value := True\<rparr>,
      with_name ''rsync'']"

definition net_args :: "Arg list" where
  "net_args =
     [(with_name ''url'')\<lparr>arg_required := True, takes_value := True, default_value := Some ''tcp://localhost:2323''\<rparr>,
      (with_name ''buffer'')\<lparr>default_value := Some ''1M'', takes_value := True\<rparr>]"

definition server_cmd :: App where
  "server_cmd = App ''server'' (client_and_server_args @ net_args @
     [(with_name ''journal'')\<lparr>takes_value := True, default_value := Some ''off'', possible_values := [''bilog'', ''forward'', ''off'']\<rparr>,
      with_name ''journal-sync'',
      (with_name ''journal-path'')\<lparr>takes_value := True, default_value := Some ''test.fj''\<rparr>,
      (with_name ''journal-size'')\<lparr>takes_value := True, default_value := Some ''1024M''\<rparr>,
      with_name ''dont-check'',
      (with_name ''backing-store'')\<lparr>takes_value := True\<rparr>,
      with_name ''diff-writes'',
      (with_name ''flush-interval'')\<lparr>default_value := Some ''1'', takes_value := True\<rparr>]) [] []"

definition client_cmd :: App where
  "client_cmd = App ''client'' (client_and_server_args @ net_args @
     [(with_name ''rt-compressor'')\<lparr>possible_values := [''default'', ''chunked'', ''zstd'', ''none''], default_value := Some ''none'', takes_value := True\<rparr>,
      (with_name ''stream-compressor'')\<lparr>possible_values := [''default'', ''zstd'', ''lz4'', ''none''],
         default_ifs := [(''sync'', ''sync'', ''none''), (''sync'', ''semi'', ''none'')], default_value := Some ''default'', takes_value := True\<rparr>,
      (with_name ''sync'')\<lparr>possible_values := [''sync'', ''async'', ''semi'', ''flush''], default_value := Some ''async''\<rparr>,
      (with_name ''threads'')\<lparr>takes_value := True, default_value := Some ''1''\<rparr>,
      (with_name ''iolimit'')\<lparr>takes_value := True, default_value := Some ''0''\<rparr>]) [] []"

definition view_and_replay_args :: "Arg list" where
  "view_and_replay_args = [with_name ''reverse'', (with_name ''filter'')\<lparr>takes_value := True\<rparr>, with_name ''invert-filter'']"

definition journal_cmd :: App where
  "journal_cmd = App ''journal'' [(with_name ''journal-path'')\<lparr>takes_value := True, default_value := Some ''test.fj'', arg_required := True\<rparr>] []
     [App ''view'' (with_name ''verbose'' # view_and_replay_args) [] [],
      App ''replay'' ((with_name ''backing-store'')\<lparr>takes_value := True, arg_required := True\<rparr> # view_and_replay_args) [] []]"

definition snapshot_cmd :: App where
  "snapshot_cmd = App ''snapshot'' [(with_name ''snapshot-path'')\<lparr>takes_value := True, arg_required := True\<rparr>] []
     [App ''merge'' [(with_name ''with'')\<lparr>arg_required := True, takes_value := True\<rparr>] [] [],
      App ''apply'' [(with_name ''backing-store'')\<lparr>takes_value := True, arg_required := True\<rparr>] [] []]"

definition checksum_cmd :: App where
  "checksum_cmd = App ''checksum'' [(with_name ''mount-path'')\<lparr>arg_required := True, arg_multiple := True, takes_value := True\<rparr>] [] []"

definition control_cmd :: App where
  "control_cmd = App ''control''
     [(with_name ''host'')\<lparr>arg_required := True, takes_value := True, default_value := Some ''localhost''\<rparr>,
      with_name ''cork'', with_name ''uncork''] [''cmd''] []"

definition fakeshell_cmd :: App where
  "fakeshell_cmd = App ''fakeshell''
     [(with_name ''netin'')\<lparr>arg_required := True, takes_value := True\<rparr>, (with_name ''netout'')\<lparr>arg_required := True, takes_value := True\<rparr>,
      (with_name ''extra-args'')\<lparr>takes_value := True, arg_multiple := True\<rparr>] [] []"

definition fsyncer_app :: App where
  "fsyncer_app = App ''Fsyncer Replication Daemon'' [with_name ''debug''] []
     [client_cmd, server_cmd, journal_cmd, snapshot_cmd, checksum_cmd, control_cmd, fakeshell_cmd]"

section \<open>Matches\<close>

text \<open>The values of the arguments that are present, and the command that was given with its own matches.\<close>

datatype ArgMatches = ArgMatches (m_args: "(string \<times> string list) list") (m_sub: "(string \<times> ArgMatches) option")

definition value_of :: "ArgMatches \<Rightarrow> string \<Rightarrow> string option" where
  "value_of m name = (case map_of (m_args m) name of Some (v # _) \<Rightarrow> Some v | _ \<Rightarrow> None)"

definition subcommand_name :: "ArgMatches \<Rightarrow> string option" where
  "subcommand_name m = map_option fst (m_sub m)"

definition is_present :: "ArgMatches \<Rightarrow> string \<Rightarrow> bool" where
  "is_present m name \<longleftrightarrow> map_of (m_args m) name \<noteq> None \<or> subcommand_name m = Some name"

definition subcommand_matches :: "ArgMatches \<Rightarrow> string \<Rightarrow> ArgMatches option" where
  "subcommand_matches m name = (case m_sub m of Some (n, sm) \<Rightarrow> if n = name then Some sm else None | None \<Rightarrow> None)"

definition no_value :: string where
  "no_value = ''called Option::unwrap() on a None value''"

definition get_value :: "ArgMatches \<Rightarrow> string \<Rightarrow> string result" where
  "get_value m name = unwrap no_value (value_of m name)"

section \<open>The client\<close>

record 'k net_os =
  tcp_connect :: "string \<Rightarrow> nat \<Rightarrow> 'k result"
  set_nodelay :: "'k \<Rightarrow> bool \<Rightarrow> 'k result"
  set_recv_buffer_size :: "'k \<Rightarrow> nat \<Rightarrow> 'k result"
  try_clone :: "'k \<Rightarrow> 'k result"
  unix_connect :: "path \<Rightarrow> 'k result"
  raw_fd :: "nat \<Rightarrow> 'k"
  sock_in :: "'k \<Rightarrow> bytes"
  sock_out :: "'k \<Rightarrow> writer"

definition with_url :: "'c msg_codec \<Rightarrow> 'k net_os \<Rightarrow> Url \<Rightarrow> bool \<Rightarrow> nat \<Rightarrow> InitMsg \<Rightarrow> ConnectionBuilder result" where
  "with_url c nw url nodelay buffer_size init =
     rbind
       (if url_scheme url = ''tcp'' then
          rbind (tcp_connect nw (url_host url) (case url_port url of None \<Rightarrow> 2323 | Some p \<Rightarrow> p)) (\<lambda>k.
          rbind (if nodelay then set_nodelay nw k True else Inr k) (\<lambda>k1.
          rbind (set_recv_buffer_size nw k1 buffer_size) (\<lambda>k2.
          rbind (try_clone nw k2) (\<lambda>r. Inr (sock_in nw r, sock_out nw k2)))))
        else if url_scheme url = ''unix'' then
          rbind (unix_connect nw (path_of (url_path url))) (\<lambda>k.
          rbind (try_clone nw k) (\<lambda>r. Inr (sock_in nw r, sock_out nw k)))
        else if url_scheme url = ''stdio'' then Inr (sock_in nw (raw_fd nw 0), sock_out nw (raw_fd nw 1))
        else Inl (Panicked (''Scheme '' @ url_scheme url @ '' is not supported'')))
       (\<lambda>(i, out). with_net c i out init)"

text \<open>The options that the client's command reads.\<close>

definition client_args_of :: "ArgMatches \<Rightarrow> client_args result" where
  "client_args_of cm =
     rbind (get_value cm ''sync'') (\<lambda>sync.
     rbind (get_value cm ''stream-compressor'') (\<lambda>stream.
     rbind (get_value cm ''rt-compressor'') (\<lambda>rt.
     rbind (get_value cm ''iolimit'') (\<lambda>lim.
       Inr \<lparr>arg_sync = sync, arg_stream = stream, arg_rt = rt, arg_rsync = is_present cm ''rsync'', arg_iolimit = lim\<rparr>))))"

text \<open>Everything up to the connection; what follows is \<open>process_ops\<close>.\<close>

definition client_main :: "'c msg_codec \<Rightarrow> 'k net_os \<Rightarrow> (string \<Rightarrow> Url result) \<Rightarrow> (path \<Rightarrow> path result) \<Rightarrow> (path \<Rightarrow> u64 result)
    \<Rightarrow> (path \<Rightarrow> bytes \<times> writer \<Rightarrow> (bytes \<times> writer) result) \<Rightarrow> (bytes \<Rightarrow> bytes result) \<Rightarrow> (bytes \<Rightarrow> bytes result) \<Rightarrow> ArgMatches
    \<Rightarrow> ('c ServerConnection \<times> nat \<times> path) result" where
  "client_main c nw url_parse canonize hash rsync_run zstd lz4 m =
     rbind (get_value m ''url'') (\<lambda>u.
     rbind (expect ''Invalid url specified'' (url_parse u)) (\<lambda>url.
     rbind (unwrap no_value (subcommand_matches m ''client'')) (\<lambda>cm.
     rbind (client_args_of cm) (\<lambda>a.
     rbind (parse_options a) (\<lambda>init0.
     rbind (get_value m ''buffer'') (\<lambda>b.
     rbind (rbind (parse_human_size b) (unwrap ''Buffer size format incorrect'')) (\<lambda>buffer_size.
     rbind (get_value cm ''threads'') (\<lambda>t.
     rbind (unwrap ''Invalid thread number'' (parse_usize t)) (\<lambda>dispatch_threads.
     rbind (require (dispatch_threads = 1 \<or> init_mode init0 = MODE_SYNC)
              ''Only synchronous mode is compatible with multiple dispatch threads'') (\<lambda>_.
     rbind (unwrap ''Destination not specified'' (value_of cm ''mount-path'')) (\<lambda>mp.
     rbind (expect ''Failed to normalize path'' (canonize (path_of mp))) (\<lambda>client_path.
     rbind (rmap (\<lambda>h. init0\<lparr>dsthash := h\<rparr>) (expect ''Hash failed'' (hash client_path))) (\<lambda>init.
     rbind (expect ''Failed to connect to client'' (with_url c nw url (init_mode init \<noteq> MODE_ASYNC) buffer_size init)) (\<lambda>builder.
     rbind (if flags_contains (init_options init) INITIAL_RSYNC
            then expect ''Failed to rsync with server'' (rsync (rsync_run client_path) builder) else Inr builder) (\<lambda>builder1.
     rbind (expect ''Failed to create server connection'' (build c zstd lz4 builder1)) (\<lambda>client.
       Inr (client, dispatch_threads, client_path)))))))))))))))))"

section \<open>The program\<close>

text \<open>The options of the server as its command reads them.\<close>

definition server_opts_of :: "ArgMatches \<Rightarrow> server_opts result" where
  "server_opts_of sm =
     rbind (get_value sm ''url'') (\<lambda>url.
     rbind (get_value sm ''mount-path'') (\<lambda>mp.
     rbind (get_value sm ''flush-interval'') (\<lambda>fi.
     rbind (get_value sm ''buffer'') (\<lambda>buf.
     rbind (get_value sm ''journal-size'') (\<lambda>js.
     rbind (get_value sm ''journal'') (\<lambda>j.
       Inr \<lparr>arg_journal = j, arg_journal_path = value_of sm ''journal-path'', arg_journal_size = js,
            arg_journal_sync = is_present sm ''journal-sync'', arg_url = url, arg_mount_path = mp,
            arg_backing_store = value_of sm ''backing-store'', arg_flush_interval = fi,
            arg_diff_writes = is_present sm ''diff-writes'', arg_dont_check = is_present sm ''dont-check'', arg_buffer = buf\<rparr>))))))"

text \<open>The direction that the journal's commands ask for (\<open>viewer_main\<close>, \<open>view\<close>, \<open>replay\<close>).\<close>

definition journal_backwards :: "ArgMatches \<Rightarrow> bool result" where
  "journal_backwards m = rmap (\<lambda>jm. is_present jm ''reverse'') (unwrap no_value (subcommand_matches m ''journal''))"

definition control_main :: "'c msg_codec \<Rightarrow> 'k net_os \<Rightarrow> (string \<Rightarrow> Url result) \<Rightarrow> (bytes \<Rightarrow> bytes result) \<Rightarrow> (bytes \<Rightarrow> bytes result)
    \<Rightarrow> ArgMatches \<Rightarrow> 'c ServerConnection result" where
  "control_main c nw url_parse zstd lz4 m =
     rbind (unwrap no_value (subcommand_matches m ''control'')) (\<lambda>cm.
     rbind (get_value m ''buffer'') (\<lambda>b.
     rbind (rbind (parse_human_size b) (unwrap ''Buffer size format incorrect'')) (\<lambda>buffer_size.
     rbind (get_value m ''url'') (\<lambda>u.
     rbind (expect ''Invalid url specified'' (url_parse u)) (\<lambda>url.
     rbind (expect ''Failed to initialize client'' (with_url c nw url True buffer_size
       \<lparr>init_mode = MODE_CONTROL, dsthash = 0, compress = 0, iolimit_bps = 0, init_options = 0\<rparr>)) (\<lambda>builder.
     rbind (expect ''Failed to create server connection'' (build c zstd lz4 builder)) (\<lambda>client.
     rbind (get_value cm ''cmd'') (\<lambda>cmd.
     expect ''Failed to execute command server''
       (if cmd = ''cork'' then conn_cork_server c client
        else if cmd = ''uncork'' then conn_uncork_server c client
        else Inl (Panicked ''internal error: entered unreachable code''))))))))))"

definition checksum_main :: "(path \<Rightarrow> u64 result) \<Rightarrow> ArgMatches \<Rightarrow> u64 result" where
  "checksum_main hash m =
     rbind (unwrap no_value (subcommand_matches m ''checksum'')) (\<lambda>cm.
     rbind (unwrap ''No destination specified'' (value_of cm ''mount-path'')) (\<lambda>p.
       expect ''Hash failed'' (hash (path_of p))))"

end
