(* ===== verification/CliLaws.thy ===== *)
theory CliLaws
  imports Cli
begin

text \<open>
  The declared command line against the commands that read it.  What the argument parser promises:
  on every level only declared arguments (and groups) have values, values are among the possible
  ones, and an argument that is required or has a default has a value.
\<close>

section \<open>Matches of a declaration\<close>

definition conforms_args :: "Arg list \<Rightarrow> string list \<Rightarrow> (string \<times> string list) list \<Rightarrow> bool" where
  "conforms_args args groups vals \<longleftrightarrow>
     list_all (\<lambda>(n, vs). list_ex (\<lambda>a. arg_name a = n \<and> (possible_values a = [] \<or> list_all (\<lambda>v. v \<in> set (possible_values a)) vs)) args
        \<or> n \<in> set groups) vals
     \<and> list_all (\<lambda>a. arg_required a \<or> default_value a \<noteq> None \<longrightarrow> (case map_of vals (arg_name a) of Some (v # vs) \<Rightarrow> True | _ \<Rightarrow> False)) args"

definition find_sub :: "App list \<Rightarrow> string \<Rightarrow> App option" where
  "find_sub subs n = find (\<lambda>a. app_name a = n) subs"

fun conforms :: "App \<Rightarrow> ArgMatches \<Rightarrow> bool" where
  "conforms app (ArgMatches vals None) \<longleftrightarrow> conforms_args (app_args app) (app_groups app) vals"
| "conforms app (ArgMatches vals (Some (n, m))) \<longleftrightarrow> conforms_args (app_args app) (app_groups app) vals
     \<and> (case find_sub (app_subs app) n of None \<Rightarrow> False | Some sub \<Rightarrow> conforms sub m)"

lemma conforms_here: "conforms app m \<Longrightarrow> conforms_args (app_args app) (app_groups app) (m_args m)"
  by (induction app m rule: conforms.induct) simp_all

lemma conforms_sub:
  assumes "conforms app m" "subcommand_matches m n = Some sm"
  shows "\<exists>sub. find_sub (app_subs app) n = Some sub \<and> conforms sub sm"
proof (cases m)
  case (ArgMatches vals s)
  have "s = Some (n, sm)" using assms(2) ArgMatches by (simp add: subcommand_matches_def split: option.splits prod.splits if_splits)
  then show ?thesis using assms(1) ArgMatches by (auto split: option.splits)
qed

text \<open>A name that is not declared on a level has no value there, one that is required or has a default does.\<close>

lemma conforms_undeclared:
  assumes "conforms app m" "n \<notin> arg_name ` set (app_args app)" "n \<notin> set (app_groups app)"
  shows "map_of (m_args m) n = None"
  using conforms_here [OF assms(1)] assms(2,3)
  by (force simp: conforms_args_def list_all_iff list_ex_iff map_of_eq_None_iff)

lemma conforms_value:
  assumes "conforms app m" "a \<in> set (app_args app)" "arg_required a \<or> default_value a \<noteq> None"
  shows "\<exists>v. get_value m (arg_name a) = Inr v"
  using conforms_here [OF assms(1)] assms(2,3)
  by (fastforce simp: conforms_args_def list_all_iff get_value_def value_of_def split: option.splits list.splits)

lemma get_value_undeclared:
  "conforms app m \<Longrightarrow> n \<notin> arg_name ` set (app_args app) \<Longrightarrow> n \<notin> set (app_groups app) \<Longrightarrow> get_value m n = Inl (Panicked no_value)"
  by (simp add: get_value_def value_of_def conforms_undeclared)

lemmas app_defs = fsyncer_app_def client_cmd_def server_cmd_def journal_cmd_def snapshot_cmd_def checksum_cmd_def control_cmd_def
  fakeshell_cmd_def client_and_server_args_def net_args_def view_and_replay_args_def with_name_def

section \<open>The commands\<close>

lemma conforms_possible:
  assumes "conforms app m" "value_of m n = Some v" "\<And>a. a \<in> set (app_args app) \<Longrightarrow> arg_name a = n \<Longrightarrow> possible_values a = ps"
    and "n \<notin> set (app_groups app)" "ps \<noteq> []"
  shows "v \<in> set ps"
proof -
  obtain vs where "map_of (m_args m) n = Some (v # vs)" using assms(2) by (auto simp: value_of_def split: option.splits list.splits)
  then have "(n, v # vs) \<in> set (m_args m)" by (rule map_of_SomeD)
  then show ?thesis
    using conforms_here [OF assms(1)] assms(3-5) by (fastforce simp: conforms_args_def list_all_iff list_ex_iff)
qed

lemma server_values:
  assumes "conforms server_cmd sm"
  shows "\<exists>a. server_opts_of sm = Inr a \<and> arg_journal_path a \<noteq> None \<and> (arg_journal a = ''off'' \<or> (\<exists>k. journal_kind (arg_journal a) = Inr k))"
proof -
  have V: "\<exists>v. get_value sm n = Inr v"
    if "n \<in> {''url'', ''mount-path'', ''flush-interval'', ''buffer'', ''journal-size'', ''journal'', ''journal-path''}" for n
  proof -
    have "\<exists>a \<in> set (app_args server_cmd). arg_name a = n \<and> (arg_required a \<or> default_value a \<noteq> None)"
      using that by (auto simp: app_defs)
    then show ?thesis using conforms_value [OF assms] by blast
  qed
  obtain url mp fi buf js j jp where v: "get_value sm ''url'' = Inr url" "get_value sm ''mount-path'' = Inr mp"
    "get_value sm ''flush-interval'' = Inr fi" "get_value sm ''buffer'' = Inr buf" "get_value sm ''journal-size'' = Inr js"
    "get_value sm ''journal'' = Inr j" "get_value sm ''journal-path'' = Inr jp"
    using V by (metis insertCI)
  have "value_of sm ''journal'' = Some j" using v(6) by (simp add: get_value_def unwrap_eq_Inr)
  then have "j \<in> set [''bilog'', ''forward'', ''off'']"
    by (rule conforms_possible [OF assms]) (auto simp: app_defs)
  then show ?thesis using v by (auto simp: server_opts_of_def get_value_def unwrap_eq_Inr journal_kind_def)
qed

lemma top_level:
  assumes "conforms fsyncer_app m" "n \<noteq> ''debug''"
  shows "get_value m n = Inl (Panicked no_value)"
  by (rule get_value_undeclared [OF assms(1)]) (use assms(2) in \<open>simp_all add: fsyncer_app_def with_name_def\<close>)

lemma journal_forwards:
  assumes "conforms fsyncer_app m" "subcommand_matches m ''journal'' = Some jm"
  shows "journal_backwards m = Inr False"
proof -
  have jm: "conforms journal_cmd jm"
    using conforms_sub [OF assms] by (auto simp: find_sub_def fsyncer_app_def client_cmd_def server_cmd_def journal_cmd_def)
  have "map_of (m_args jm) ''reverse'' = None"
    by (rule conforms_undeclared [OF jm]) (simp_all add: app_defs)
  moreover have "subcommand_name jm \<noteq> Some ''reverse''"
  proof
    assume "subcommand_name jm = Some ''reverse''"
    then obtain sm where "subcommand_matches jm ''reverse'' = Some sm" by (auto simp: subcommand_name_def subcommand_matches_def)
    from conforms_sub [OF jm this] show False by (simp add: find_sub_def journal_cmd_def)
  qed
  ultimately show ?thesis using assms(2) by (simp add: journal_backwards_def is_present_def)
qed

text \<open>
  C20. What the declared command line gives its commands.  The server's command finds a value for
  every option that it takes for granted, and a journal kind that it knows.  The client's and the
  control command look for the address and the buffer size on the level of the program, where they
  are not declared: both panic before they connect to anything.  The journal's commands look for
  the direction on the level above the one where it is declared: a journal is never read backwards.
\<close>

theorem command_line_values:
  assumes "conforms fsyncer_app m"
  shows "(subcommand_matches m ''server'' = Some sm \<longrightarrow>
      (\<exists>a. server_opts_of sm = Inr a \<and> arg_journal_path a \<noteq> None \<and> (arg_journal a = ''off'' \<or> (\<exists>k. journal_kind (arg_journal a) = Inr k))))
    \<and> client_main c nw url_parse canonize hash rsync_run zstd lz4 m = Inl (Panicked no_value)
    \<and> (subcommand_matches m ''control'' = Some cm \<longrightarrow> control_main c nw url_parse zstd lz4 m = Inl (Panicked no_value))
    \<and> (subcommand_matches m ''journal'' = Some jm \<longrightarrow> journal_backwards m = Inr False)"
proof (intro conjI impI)
  show "\<exists>a. server_opts_of sm = Inr a \<and> arg_journal_path a \<noteq> None \<and> (arg_journal a = ''off'' \<or> (\<exists>k. journal_kind (arg_journal a) = Inr k))"
    if "subcommand_matches m ''server'' = Some sm"
    using conforms_sub [OF assms that] server_values
    by (auto simp: find_sub_def fsyncer_app_def client_cmd_def server_cmd_def)
  show "client_main c nw url_parse canonize hash rsync_run zstd lz4 m = Inl (Panicked no_value)"
    using top_level [OF assms, of "''url''"] by (simp add: client_main_def)
  show "control_main c nw url_parse zstd lz4 m = Inl (Panicked no_value)" if "subcommand_matches m ''control'' = Some cm"
    using top_level [OF assms, of "''buffer''"] that by (simp add: control_main_def)
  show "journal_backwards m = Inr False" if "subcommand_matches m ''journal'' = Some jm"
    by (rule journal_forwards [OF assms that])
qed

definition replay_backwards :: ArgMatches where
  "replay_backwards = ArgMatches [] (Some (''journal'', ArgMatches [(''journal-path'', [''test.fj''])]
     (Some (''replay'', ArgMatches [(''backing-store'', [''d'']), (''reverse'', [])] None))))"

theorem command_line_values_witness:
  "conforms fsyncer_app replay_backwards \<and> journal_backwards replay_backwards = Inr False"
proof -
  have c: "conforms fsyncer_app replay_backwards" by code_simp
  have "subcommand_matches replay_backwards ''journal'' = Some (snd (the (m_sub replay_backwards)))" by code_simp
  with c command_line_values [OF c] show ?thesis by blast
qed

end
