(* ===== verification/WinSecurity.thy ===== *)
theory WinSecurity
  imports Common
begin

unbundle bit_operations_syntax

text \<open>
  Security descriptors on Windows (\<open>common/security_windows.rs\<close>): they travel as text, in which the
  identifiers of accounts (SIDs) are replaced by the names of the accounts in quotes, and names by
  the identifiers of the destination when a descriptor is made from the text.

  Parameters: the conversions and account lookups of the Windows API.  The two regular expressions
  of the code are fixed; what they match is written out.
\<close>

section \<open>The text of a descriptor\<close>

definition is_digit :: "char \<Rightarrow> bool" where
  "is_digit c \<longleftrightarrow> CHR ''0'' \<le> c \<and> c \<le> CHR ''9''"

text \<open>\<open>S-1-5(-[0-9]+)+\<close>: as many groups as there are.\<close>

function sid_groups :: "string \<Rightarrow> string \<times> string" where
  "sid_groups s = (case s of
       [] \<Rightarrow> ([], s)
     | c # r \<Rightarrow>
         if c = CHR 0x2D \<and> takeWhile is_digit r \<noteq> []
         then let (m, rest) = sid_groups (dropWhile is_digit r) in (c # takeWhile is_digit r @ m, rest)
         else ([], s))"
  by pat_completeness auto

termination
  by (relation "measure length") (auto intro: le_imp_less_Suc length_dropWhile_le)

declare sid_groups.simps [simp del]

definition sid_at :: "string \<Rightarrow> (string \<times> string) option" where
  "sid_at s =
     (if take 5 s = ''S-1-5'' then
        (case sid_groups (drop 5 s) of (g, rest) \<Rightarrow> if g = [] then None else Some (''S-1-5'' @ g, rest))
      else None)"

lemma sid_groups_split: "sid_groups s = (g, rest) \<Longrightarrow> s = g @ rest"
proof (induction s arbitrary: g rest rule: sid_groups.induct)
  case (1 s)
  then show ?case
    by (auto simp: sid_groups.simps [of s] split: list.splits if_splits prod.splits) (metis takeWhile_dropWhile_id)
qed

lemma sid_at_split: "sid_at s = Some (m, rest) \<Longrightarrow> s = m @ rest \<and> m \<noteq> []"
  by (auto simp: sid_at_def split: if_splits prod.splits dest!: sid_groups_split) (metis append_take_drop_id append_Cons append_Nil)

lemma sid_at_shorter: "sid_at s = Some (m, rest) \<Longrightarrow> length rest < length s"
  using sid_at_split [of s m rest] by (cases m) auto

text \<open>\<open>SID_REGEX.replace_all\<close>\<close>

function replace_sids :: "(string \<Rightarrow> string result) \<Rightarrow> string \<Rightarrow> string result" where
  "replace_sids f s = (case s of
       [] \<Rightarrow> Inr []
     | c # r \<Rightarrow> (case sid_at s of
           Some (m, rest) \<Rightarrow> rbind (f m) (\<lambda>n. rmap (\<lambda>t. n @ t) (replace_sids f rest))
         | None \<Rightarrow> rmap (\<lambda>t. c # t) (replace_sids f r)))"
  by pat_completeness auto

termination
  by (relation "measure (length \<circ> snd)") (auto dest: sid_at_shorter)

declare replace_sids.simps [simp del]

definition delim :: char where "delim = CHR 0x27"

text \<open>\<open>'(.+?)'\<close>: one character at least, then up to the next quote; a line break is not matched.\<close>

definition name_at :: "string \<Rightarrow> (string \<times> string) option" where
  "name_at s = (case s of
       q # c # r \<Rightarrow>
         if q = delim \<and> c \<noteq> CHR 0x0A then
           (let n = takeWhile (\<lambda>x. x \<noteq> delim \<and> x \<noteq> CHR 0x0A) r in
            case drop (length n) r of [] \<Rightarrow> None | e # rest \<Rightarrow> if e = delim then Some (c # n, rest) else None)
         else None
     | _ \<Rightarrow> None)"

lemma name_at_shorter: "name_at s = Some (n, rest) \<Longrightarrow> length rest < length s"
  by (auto simp: name_at_def Let_def split: list.splits if_splits dest!: arg_cong [where f = length])

text \<open>\<open>NAME_REGEX.replace_all\<close>\<close>

function replace_names :: "(string \<Rightarrow> string result) \<Rightarrow> string \<Rightarrow> string result" where
  "replace_names f s = (case s of
       [] \<Rightarrow> Inr []
     | c # r \<Rightarrow> (case name_at s of
           Some (n, rest) \<Rightarrow> rbind (f n) (\<lambda>m. rmap (\<lambda>t. m @ t) (replace_names f rest))
         | None \<Rightarrow> rmap (\<lambda>t. c # t) (replace_names f r)))"
  by pat_completeness auto

termination
  by (relation "measure (length \<circ> snd)") (auto dest: name_at_shorter)

declare replace_names.simps [simp del]

section \<open>Descriptors\<close>

record SECURITY_DESCRIPTOR =
  Control :: "16 word"
  Owner :: "bytes option"
  Group :: "bytes option"
  Sacl :: "bytes option"
  Dacl :: "bytes option"

record win_sec =
  ws_sid_to_string :: "bytes \<Rightarrow> string option"
  ws_string_to_sid :: "string \<Rightarrow> bytes option"
  ws_lookup_account_sid :: "bytes \<Rightarrow> (string \<times> string) result"
  ws_lookup_account_name :: "string \<Rightarrow> bytes result"
  ws_desc_to_string :: "SECURITY_DESCRIPTOR \<Rightarrow> u32 \<Rightarrow> string result"
  ws_string_to_desc :: "string \<Rightarrow> SECURITY_DESCRIPTOR result"

definition psid_to_string :: "win_sec \<Rightarrow> bytes \<Rightarrow> string result" where
  "psid_to_string w sid = unwrap ''Failed to get string SID'' (ws_sid_to_string w sid)"

definition string_to_sid :: "win_sec \<Rightarrow> string \<Rightarrow> bytes result" where
  "string_to_sid w ssid = unwrap ''Failed to get string SID'' (ws_string_to_sid w ssid)"

text \<open>The names come in buffers of their own; they have to be valid text.\<close>

definition lookup_account :: "win_sec \<Rightarrow> bytes \<Rightarrow> (string \<times> string) result" where
  "lookup_account w psid =
     rbind (ws_lookup_account_sid w psid) (\<lambda>(domain, name).
     rbind (require (utf8_valid (map of_char domain)) ''Domain cannot be represented in UTF-8'') (\<lambda>_.
     rbind (require (utf8_valid (map of_char name)) ''Account name be represented in UTF-8'') (\<lambda>_.
       Inr (domain, name))))"

definition lookup_sid :: "win_sec \<Rightarrow> string \<Rightarrow> string result" where
  "lookup_sid w name = rbind (ws_lookup_account_name w name) (psid_to_string w)"

definition mut_sddl :: "FileSecurity \<Rightarrow> string result" where
  "mut_sddl sec = (case sec of Windows str_desc _ \<Rightarrow> Inr str_desc | _ \<Rightarrow> Inl (Panicked ''Cannot retrieve sddl of non windows security''))"

definition default_info :: u32 where
  "default_info = 0x4 OR 0x80000000 OR 0x40000000 OR 0x1 OR 0x8 OR 0x2 OR 0x20000000 OR 0x10000000"

text \<open>
  The text for an identifier: the name of its account, or the identifier itself when the lookup
  fails with an error; a panic on the way is a panic.
\<close>

definition name_for_sid :: "win_sec \<Rightarrow> string \<Rightarrow> string result" where
  "name_for_sid w m =
     rbind (string_to_sid w m) (\<lambda>psid. case lookup_account w psid of
         Inr (_, name) \<Rightarrow> Inr (delim # name @ [delim])
       | Inl (IoErr e) \<Rightarrow> Inr m
       | Inl (Panicked p) \<Rightarrow> Inl (Panicked p))"

definition parse_security :: "win_sec \<Rightarrow> SECURITY_DESCRIPTOR option \<Rightarrow> u32 option \<Rightarrow> bool \<Rightarrow> FileSecurity result" where
  "parse_security w desc info translate_sid = (case desc of
       None \<Rightarrow> Inr (Windows [] info)
     | Some d \<Rightarrow>
         rbind (ws_desc_to_string w d (case info of None \<Rightarrow> default_info | Some i \<Rightarrow> i)) (\<lambda>str_desc.
         rbind (if translate_sid
                then rbind (require (delim \<notin> set str_desc) ''assertion failed: !str_desc.contains(SDDL_DELIM!())'') (\<lambda>_.
                       replace_sids (name_for_sid w) str_desc)
                else Inr str_desc) (\<lambda>t. Inr (Windows t info))))"

text \<open>The identifier for a name: that of nobody when the lookup fails.\<close>

definition sid_for_name :: "win_sec \<Rightarrow> string \<Rightarrow> string result" where
  "sid_for_name w n = (case lookup_sid w n of
       Inr sid \<Rightarrow> Inr sid
     | Inl (IoErr e) \<Rightarrow> Inr ''S-1-0-0''
     | Inl (Panicked p) \<Rightarrow> Inl (Panicked p))"

definition to_descriptor :: "win_sec \<Rightarrow> FileSecurity \<Rightarrow> SECURITY_DESCRIPTOR result" where
  "to_descriptor w sec = (case sec of
       Windows str_desc _ \<Rightarrow> rbind (replace_names (sid_for_name w) str_desc) (ws_string_to_desc w)
     | _ \<Rightarrow> Inl (Panicked ''Cannot yet convert non windows filesecurity to descriptor''))"

end
