(* ===== verification/OpsWin.thy ===== *)
theory OpsWin
  imports OpsUnix WinSecurity
begin

unbundle bit_operations_syntax

text \<open>
  The operations of the Windows build (\<open>common/ops_windows.rs\<close>), its conversions of times
  (\<open>common/mod.rs\<close>) and its dispatcher (\<open>client/dispatch_windows.rs\<close>).

  The Windows API is a parameter: calls on a state, with a zero for failure and the last error in
  the state; so are the three operations that the repository has in C (\<open>OpCreateFile\<close>,
  \<open>OpCreateDirectory\<close>, \<open>OpMoveFile\<close>).  A handle is a number.
\<close>

section \<open>The Windows API\<close>

definition INVALID_HANDLE_VALUE :: int where "INVALID_HANDLE_VALUE = -1"
definition ERROR_SUCCESS :: u32 where "ERROR_SUCCESS = 0"

record FILETIME =
  dwLowDateTime :: u32
  dwHighDateTime :: u32

text \<open>How a file is opened: \<open>OpenOptions\<close> with its Windows extensions.\<close>

record open_opts =
  oo_read :: bool
  oo_write :: bool
  oo_access :: "u32 option"
  oo_attributes :: u32

definition oo_new :: open_opts where
  "oo_new = \<lparr>oo_read = False, oo_write = False, oo_access = None, oo_attributes = 0\<rparr>"

definition FILE_FLAG_BACKUP_SEMANTICS :: u32 where "FILE_FLAG_BACKUP_SEMANTICS = 0x02000000"
definition GENERIC_WRITE :: u32 where "GENERIC_WRITE = 0x40000000"
definition WRITE_DAC :: u32 where "WRITE_DAC = 0x00040000"
definition WRITE_OWNER :: u32 where "WRITE_OWNER = 0x00080000"
definition DELETE_ACCESS :: u32 where "DELETE_ACCESS = 0x00010000"
definition ACCESS_SYSTEM_SECURITY :: u32 where "ACCESS_SYSTEM_SECURITY = 0x01000000"
definition FILE_SHARE_READ :: u32 where "FILE_SHARE_READ = 1"
definition FILE_SHARE_WRITE :: u32 where "FILE_SHARE_WRITE = 2"
definition FILE_SHARE_DELETE :: u32 where "FILE_SHARE_DELETE = 4"
definition CREATE_NEW :: u32 where "CREATE_NEW = 1"
definition CREATE_ALWAYS :: u32 where "CREATE_ALWAYS = 2"
definition OPEN_ALWAYS :: u32 where "OPEN_ALWAYS = 4"
definition TRUNCATE_EXISTING :: u32 where "TRUNCATE_EXISTING = 5"
definition SE_DACL_PRESENT :: "16 word" where "SE_DACL_PRESENT = 0x0004"
definition SE_DACL_DEFAULTED :: "16 word" where "SE_DACL_DEFAULTED = 0x0008"
definition SE_SACL_PRESENT :: "16 word" where "SE_SACL_PRESENT = 0x0010"
definition SE_SACL_DEFAULTED :: "16 word" where "SE_SACL_DEFAULTED = 0x0020"

record 's win_os =
  w_GetLastError :: "'s \<Rightarrow> u32"
  w_FlushFileBuffers :: "int \<Rightarrow> 's \<Rightarrow> int \<times> 's"
  w_DeleteFileW :: "path \<Rightarrow> 's \<Rightarrow> int \<times> 's"
  w_RemoveDirectoryW :: "path \<Rightarrow> 's \<Rightarrow> int \<times> 's"
  w_SetUserObjectSecurity :: "int \<Rightarrow> u32 \<Rightarrow> SECURITY_DESCRIPTOR \<Rightarrow> 's \<Rightarrow> int \<times> 's"
  w_SetFileTime :: "int \<Rightarrow> FILETIME \<Rightarrow> FILETIME \<Rightarrow> FILETIME \<Rightarrow> 's \<Rightarrow> int \<times> 's"
  w_SetFileAttributesW :: "path \<Rightarrow> u32 \<Rightarrow> 's \<Rightarrow> int \<times> 's"
  w_SetFilePointerEx :: "int \<Rightarrow> i64 \<Rightarrow> 's \<Rightarrow> int \<times> 's"
  w_SetEndOfFile :: "int \<Rightarrow> 's \<Rightarrow> int \<times> 's"
  w_WriteFile :: "int \<Rightarrow> bytes \<Rightarrow> u32 \<Rightarrow> u32 \<Rightarrow> 's \<Rightarrow> int \<times> u32 \<times> 's"
  w_CloseHandle :: "int \<Rightarrow> 's \<Rightarrow> 's"
  w_open :: "path \<Rightarrow> open_opts \<Rightarrow> 's \<Rightarrow> (io_error + int) \<times> 's"
  w_seek_read :: "int \<Rightarrow> nat \<Rightarrow> u64 \<Rightarrow> 's \<Rightarrow> (io_error + bytes) \<times> 's"
  OpCreateFile :: "path \<Rightarrow> SECURITY_DESCRIPTOR option \<Rightarrow> u32 \<Rightarrow> u32 \<Rightarrow> u32 \<Rightarrow> u32 \<Rightarrow> 's \<Rightarrow> u32 \<times> int \<times> 's"
  OpCreateDirectory :: "path \<Rightarrow> SECURITY_DESCRIPTOR option \<Rightarrow> u32 \<Rightarrow> u32 \<Rightarrow> u32 \<Rightarrow> u32 \<Rightarrow> 's \<Rightarrow> u32 \<times> int \<times> 's"
  OpMoveFile :: "path \<Rightarrow> i32 \<Rightarrow> int \<Rightarrow> 's \<Rightarrow> u32 \<times> 's"

section \<open>Times\<close>

definition timespec_of_filetime :: "FILETIME \<Rightarrow> Timespec" where
  "timespec_of_filetime ft = \<lparr>high = ucast (dwHighDateTime ft), low = ucast (dwLowDateTime ft)\<rparr>"

definition filetime_of_timespec :: "Timespec \<Rightarrow> FILETIME" where
  "filetime_of_timespec ts = \<lparr>dwLowDateTime = ucast (low ts), dwHighDateTime = ucast (high ts)\<rparr>"

section \<open>The operations\<close>

text \<open>\<open>if call == 0 { return GetLastError() } return ERROR_SUCCESS\<close>\<close>

definition win_status :: "'s win_os \<Rightarrow> int \<times> 's \<Rightarrow> u32 \<times> 's" where
  "win_status os r = (if fst r = 0 then w_GetLastError os (snd r) else ERROR_SUCCESS, snd r)"

definition valid_handle :: "int \<Rightarrow> unit result" where
  "valid_handle h = require (h \<noteq> 0 \<and> h \<noteq> INVALID_HANDLE_VALUE) ''assertion failed: !handle.is_null() && handle != INVALID_HANDLE_VALUE''"

definition OpFlushFileBuffers :: "'s win_os \<Rightarrow> int \<Rightarrow> 's \<Rightarrow> u32 \<times> 's" where
  "OpFlushFileBuffers os h s = win_status os (w_FlushFileBuffers os h s)"

definition OpDeleteFile :: "'s win_os \<Rightarrow> path \<Rightarrow> 's \<Rightarrow> u32 \<times> 's" where
  "OpDeleteFile os p s = win_status os (w_DeleteFileW os p s)"

definition OpDeleteDirectory :: "'s win_os \<Rightarrow> path \<Rightarrow> 's \<Rightarrow> u32 \<times> 's" where
  "OpDeleteDirectory os p s = win_status os (w_RemoveDirectoryW os p s)"

definition OpSetFileSecurity :: "'s win_os \<Rightarrow> u32 \<Rightarrow> SECURITY_DESCRIPTOR \<Rightarrow> int \<Rightarrow> 's \<Rightarrow> (u32 \<times> 's) result" where
  "OpSetFileSecurity os info desc h s = rmap (\<lambda>_. win_status os (w_SetUserObjectSecurity os h info desc s)) (valid_handle h)"

definition OpSetFileTime :: "'s win_os \<Rightarrow> FILETIME \<Rightarrow> FILETIME \<Rightarrow> FILETIME \<Rightarrow> int \<Rightarrow> 's \<Rightarrow> (u32 \<times> 's) result" where
  "OpSetFileTime os creation access wr h s = rmap (\<lambda>_. win_status os (w_SetFileTime os h creation access wr s)) (valid_handle h)"

definition OpSetFileAttributes :: "'s win_os \<Rightarrow> path \<Rightarrow> u32 \<Rightarrow> 's \<Rightarrow> u32 \<times> 's" where
  "OpSetFileAttributes os p attributes s = win_status os (w_SetFileAttributesW os p attributes s)"

definition OpSetEndOfFile :: "'s win_os \<Rightarrow> i64 \<Rightarrow> int \<Rightarrow> 's \<Rightarrow> (u32 \<times> 's) result" where
  "OpSetEndOfFile os byte_offset h s =
     rmap (\<lambda>_. let (ok, s1) = w_SetFilePointerEx os h byte_offset s in
        if ok = 0 then (w_GetLastError os s1, s1) else win_status os (w_SetEndOfFile os h s1)) (valid_handle h)"

text \<open>The offset of a write is passed in two halves.\<close>

definition overlapped :: "i64 \<Rightarrow> u32 \<times> u32" where
  "overlapped byte_offset = (ucast byte_offset, ucast (signed_drop_bit 32 byte_offset))"

definition OpWriteFile :: "'s win_os \<Rightarrow> bytes \<Rightarrow> i64 \<Rightarrow> int \<Rightarrow> 's \<Rightarrow> (u32 \<times> u32 \<times> 's) result" where
  "OpWriteFile os buffer byte_offset h s =
     rmap (\<lambda>_. let (off, hi) = overlapped byte_offset; (ok, n, s1) = w_WriteFile os h buffer off hi s in
        (if ok = 0 then w_GetLastError os s1 else ERROR_SUCCESS, n, s1)) (valid_handle h)"

section \<open>Dispatch\<close>

text \<open>\<open>status as i32\<close>\<close>

definition as_i32 :: "u32 \<Rightarrow> int" where
  "as_i32 w = sint w"

definition win_with_file :: "'s win_os \<Rightarrow> path \<Rightarrow> open_opts \<Rightarrow> (int \<Rightarrow> 's \<Rightarrow> (int \<times> 's) result) \<Rightarrow> 's \<Rightarrow> (int \<times> 's) result" where
  "win_with_file os p opts f s = (case w_open os p opts s of
       (Inl e, s1) \<Rightarrow> rbind (unwrap ''raw_os_error'' (raw_os_error e)) (\<lambda>n. Inr (err_or_ok (Inl n), s1))
     | (Inr h, s1) \<Rightarrow> rmap (\<lambda>(res, s2). (err_or_ok (Inr res), w_CloseHandle os h s2)) (f h s1))"

definition in_i32 :: "(u32 \<times> 's) result \<Rightarrow> (int \<times> 's) result" where
  "in_i32 r = rmap (\<lambda>(st, s). (as_i32 st, s)) r"

text \<open>The access lists that are not there are marked as defaults.\<close>

definition default_lists :: "SECURITY_DESCRIPTOR \<Rightarrow> SECURITY_DESCRIPTOR" where
  "default_lists d =
     (let d1 = (if Control d AND SE_DACL_PRESENT = SE_DACL_PRESENT then d else d\<lparr>Control := Control d OR SE_DACL_DEFAULTED\<rparr>) in
      if Control d1 AND SE_SACL_PRESENT = SE_SACL_PRESENT then d1 else d1\<lparr>Control := Control d1 OR SE_SACL_DEFAULTED\<rparr>)"

definition made_handle :: "'s win_os \<Rightarrow> u32 \<times> int \<times> 's \<Rightarrow> int \<times> 's" where
  "made_handle os r = (case r of (res, h, s) \<Rightarrow> (as_i32 res, if h \<noteq> INVALID_HANDLE_VALUE then w_CloseHandle os h s else s))"

text \<open>\<open>buf.len() as u32\<close>: what is written of a buffer.\<close>

definition u32_len :: "bytes \<Rightarrow> bytes" where
  "u32_len buf = take (unat (of_nat (length buf) :: u32)) buf"

text \<open>A difference: the exclusive or with what is there now, and the rest as it is.\<close>

definition diff_with :: "bytes \<Rightarrow> bytes \<Rightarrow> bytes result" where
  "diff_with old buf =
     rbind (require (length old \<le> length buf) ''range end index out of range'') (\<lambda>_.
       rmap (\<lambda>x. x @ drop (length old) buf) (xor_buf old (take (length old) buf)))"

definition win_diff_write :: "'s win_os \<Rightarrow> bytes \<Rightarrow> i64 \<Rightarrow> int \<Rightarrow> 's \<Rightarrow> (int \<times> 's) result" where
  "win_diff_write os buf offset h s = (case w_seek_read os h (length buf) offset s of
       (Inl e, s1) \<Rightarrow> rbind (unwrap ''raw_os_error'' (raw_os_error e)) (\<lambda>n. Inr (n, s1))
     | (Inr old, s1) \<Rightarrow> rbind (diff_with old buf) (\<lambda>b. rmap (\<lambda>(st, _, s2). (as_i32 st, s2)) (OpWriteFile os (u32_len b) offset h s1)))"

fun dispatch_win :: "win_sec \<Rightarrow> 's win_os \<Rightarrow> VFSCall \<Rightarrow> path \<Rightarrow> 's \<Rightarrow> (int \<times> 's) result" where
  "dispatch_win w os (VFS_utimens p (t0, t1, t2)) root s =
     win_with_file os (translate_path p root) (oo_new\<lparr>oo_write := True, oo_attributes := FILE_FLAG_BACKUP_SEMANTICS\<rparr>)
       (\<lambda>h s. in_i32 (OpSetFileTime os (filetime_of_timespec t0) (filetime_of_timespec t1) (filetime_of_timespec t2) h s)) s"
| "dispatch_win w os (VFS_create p flags sec mode) root s =
     rbind (case to_descriptor w sec of Inl (IoErr e) \<Rightarrow> Inl (Panicked ''Failed to create security descriptor'') | r \<Rightarrow> r) (\<lambda>d.
       Inr (made_handle os (OpCreateFile os (translate_path p root) (Some (default_lists d)) (GENERIC_WRITE OR WRITE_OWNER OR WRITE_DAC)
         mode (FILE_SHARE_DELETE OR FILE_SHARE_READ OR FILE_SHARE_WRITE) flags s)))"
| "dispatch_win w os (VFS_diff_write p offset buf) root s =
     win_with_file os (translate_path p root) (oo_new\<lparr>oo_write := True, oo_read := True\<rparr>) (win_diff_write os buf offset) s"
| "dispatch_win w os (VFS_write p offset buf) root s =
     win_with_file os (translate_path p root) (oo_new\<lparr>oo_write := True\<rparr>)
       (\<lambda>h s. rmap (\<lambda>(st, _, s1). (as_i32 st, s1)) (OpWriteFile os (u32_len buf) offset h s)) s"
| "dispatch_win w os (VFS_truncate p sz) root s =
     win_with_file os (translate_path p root) (oo_new\<lparr>oo_write := True\<rparr>) (\<lambda>h s. in_i32 (OpSetEndOfFile os sz h s)) s"
| "dispatch_win w os (VFS_rename from to flags) root s =
     win_with_file os (translate_path from root) (oo_new\<lparr>oo_access := Some DELETE_ACCESS, oo_attributes := FILE_FLAG_BACKUP_SEMANTICS\<rparr>)
       (\<lambda>h s. in_i32 (Inr (OpMoveFile os (translate_path to root) flags h s))) s"
| "dispatch_win w os (VFS_rmdir p) root s = in_i32 (Inr (OpDeleteDirectory os (translate_path p root) s))"
| "dispatch_win w os (VFS_unlink p) root s = in_i32 (Inr (OpDeleteFile os (translate_path p root) s))"
| "dispatch_win w os (VFS_mkdir p sec mode) root s =
     rbind (case to_descriptor w sec of Inl (IoErr e) \<Rightarrow> Inl (Panicked ''Failed to create security descriptor'') | r \<Rightarrow> r) (\<lambda>d.
       Inr (made_handle os (OpCreateDirectory os (translate_path p root) (Some (default_lists d)) GENERIC_WRITE
         mode (FILE_SHARE_DELETE OR FILE_SHARE_READ OR FILE_SHARE_WRITE) CREATE_NEW s)))"
| "dispatch_win w os (VFS_security p sec) root s =
     rbind (case sec of Windows t info \<Rightarrow> unwrap ''called Option::unwrap() on a None value'' info
            | _ \<Rightarrow> Inl (Panicked ''Security information needs translation'')) (\<lambda>info.
     rbind (case to_descriptor w sec of Inl (IoErr e) \<Rightarrow> Inl (Panicked ''Failed to create security descriptor'') | r \<Rightarrow> r) (\<lambda>d.
       win_with_file os (translate_path p root)
         (oo_new\<lparr>oo_access := Some (ACCESS_SYSTEM_SECURITY OR GENERIC_WRITE OR WRITE_DAC OR WRITE_OWNER), oo_attributes := FILE_FLAG_BACKUP_SEMANTICS\<rparr>)
         (\<lambda>h s. in_i32 (OpSetFileSecurity os info d h s)) s))"
| "dispatch_win w os (VFS_chmod p mode) root s = in_i32 (Inr (OpSetFileAttributes os (translate_path p root) mode s))"
| "dispatch_win w os (VFS_fsync p d) root s = Inr (as_i32 ERROR_SUCCESS, s)"
| "dispatch_win w os call root s = Inl (Panicked ''Windows cannot dispatch'')"

end
