(* ===== verification/DokanFs.thy ===== *)
theory DokanFs
  imports FuseHl OpsWin
begin

unbundle bit_operations_syntax

text \<open>
  The handlers of the file system on Windows (\<open>dokan/write_windows.rs\<close>) and the start of Dokan
  (\<open>dokan/src/lib.rs\<close>).  As on Unix each handler announces the call that describes it, performs
  the operation below the backing store and finishes with the answers of the clients; the frame is
  the same one.

  Beside the Windows API the Dokan library is a parameter: the mapping of flags and error numbers,
  the token of the user on whose behalf a file is opened, and what is known about a path.
\<close>

section \<open>Dokan\<close>

record DOKAN_FILE_INFO =
  Context :: int
  DokanContext :: u64
  ProcessId :: u32
  IsDirectory :: u8
  DeleteOnClose :: u8
  PagingIo :: u8
  SynchronousIo :: u8
  Nocache :: u8
  WriteToEndOfFile :: u8

record win_meta =
  wm_is_dir :: bool
  wm_attributes :: u32
  wm_len :: u64

record 's dokan =
  NtStatusFromWin32 :: "u32 \<Rightarrow> u32"
  MapKernelToUserCreateFileFlags :: "u32 \<Rightarrow> u32 \<Rightarrow> u32 \<Rightarrow> u32 \<Rightarrow> u32 \<times> u32 \<times> u32"
  OpenRequestorToken :: "DOKAN_FILE_INFO \<Rightarrow> 's \<Rightarrow> int \<times> 's"
  ImpersonateLoggedOnUser :: "int \<Rightarrow> 's \<Rightarrow> int \<times> 's"
  RevertToSelf :: "'s \<Rightarrow> 's"
  token_user :: "int \<Rightarrow> 's \<Rightarrow> bytes result"
  GetFileSizeEx :: "int \<Rightarrow> 's \<Rightarrow> int \<times> i64"
  symlink_metadata :: "path \<Rightarrow> 's \<Rightarrow> win_meta result"

definition FILE_NON_DIRECTORY_FILE :: u32 where "FILE_NON_DIRECTORY_FILE = 0x00000040"
definition FILE_FLAG_DELETE_ON_CLOSE :: u32 where "FILE_FLAG_DELETE_ON_CLOSE = 0x04000000"
definition FILE_ATTRIBUTE_READONLY :: u32 where "FILE_ATTRIBUTE_READONLY = 1"
definition STATUS_SUCCESS :: u32 where "STATUS_SUCCESS = 0"
definition STATUS_OBJECT_NAME_COLLISION :: u32 where "STATUS_OBJECT_NAME_COLLISION = 0xC0000035"
definition STATUS_FILE_IS_A_DIRECTORY :: u32 where "STATUS_FILE_IS_A_DIRECTORY = 0xC00000BA"
definition STATUS_CANNOT_DELETE :: u32 where "STATUS_CANNOT_DELETE = 0xC0000121"

text \<open>The result of the frame as a status of the kernel.\<close>

definition nt_result :: "'t dokan \<Rightarrow> (int \<times> 'c server \<times> 's) result option \<Rightarrow> (u32 \<times> 'c server \<times> 's) result option" where
  "nt_result dk r = map_option (rmap (\<lambda>(st, srv, s). (NtStatusFromWin32 dk (word_of_int st), srv, s))) r"

definition os_status :: "'s dokan \<Rightarrow> string \<Rightarrow> failure \<Rightarrow> u32 result" where
  "os_status dk msg e = (case e of
       IoErr x \<Rightarrow> rmap (\<lambda>n. NtStatusFromWin32 dk (word_of_int n)) (unwrap msg (raw_os_error x))
     | Panicked p \<Rightarrow> Inl (Panicked p))"

text \<open>\<open>ErrorKind::NotFound\<close>: the error numbers for a missing file and for a missing directory on the way.\<close>

definition win_not_found :: "failure \<Rightarrow> bool" where
  "win_not_found f \<longleftrightarrow> f = IoErr (Os 2) \<or> f = IoErr (Os 3)"

section \<open>Opening\<close>

definition user_from_token :: "win_sec \<Rightarrow> 's dokan \<Rightarrow> int \<Rightarrow> 's \<Rightarrow> string result" where
  "user_from_token w dk token s = rbind (token_user dk token s) (psid_to_string w)"

text \<open>A descriptor without an owner gets that of the user.\<close>

definition defaulted_descriptor :: "win_sec \<Rightarrow> 's dokan \<Rightarrow> bool \<Rightarrow> SECURITY_DESCRIPTOR option \<Rightarrow> int \<Rightarrow> 's \<Rightarrow> FileSecurity result" where
  "defaulted_descriptor w dk translate_sids sec_desc user_handle s =
     rbind (parse_security w sec_desc None translate_sids) (\<lambda>sec.
       if sec_desc = None \<or> Owner (the sec_desc) = None \<or> Group (the sec_desc) = None then
         rbind (user_from_token w dk user_handle s) (\<lambda>user_sid.
         rbind (mut_sddl sec) (\<lambda>sddl.
           Inr (Windows ((if sec_desc = None \<or> Owner (the sec_desc) = None then ''O:'' @ user_sid else []) @ sddl) None)))
       else Inr sec)"

definition as_user :: "'s win_os \<Rightarrow> 's dokan \<Rightarrow> int \<Rightarrow> ('s \<Rightarrow> 'a \<times> 's) \<Rightarrow> 's \<Rightarrow> ('a \<times> 's) result" where
  "as_user os dk h f s =
     (let (ok, s1) = ImpersonateLoggedOnUser dk h s in
      rbind (require (ok \<noteq> 0) ''Error impersonating logged on user'') (\<lambda>_.
        let (r, s2) = f s1 in Inr (r, w_CloseHandle os h (RevertToSelf dk s2))))"

text \<open>The call that an opening is announced with, if it changes anything.\<close>

definition create_call :: "bool \<Rightarrow> bool \<Rightarrow> u32 \<Rightarrow> u32 \<Rightarrow> path \<Rightarrow> FileSecurity result \<Rightarrow> VFSCall option result" where
  "create_call found is_dir disposition attributes p security =
     (if \<not> found \<and> (disposition = CREATE_ALWAYS \<or> disposition = CREATE_NEW) \<and> is_dir
      then rmap (\<lambda>sec. Some (VFS_mkdir p sec attributes)) security
      else if found \<and> (disposition = TRUNCATE_EXISTING \<or> disposition = CREATE_ALWAYS) then Inr (Some (VFS_truncate p 0))
      else if \<not> found \<and> (disposition = CREATE_ALWAYS \<or> disposition = CREATE_NEW \<or> disposition = OPEN_ALWAYS)
      then rmap (\<lambda>sec. Some (VFS_create p disposition sec attributes)) security
      else Inr None)"

text \<open>Opening with the flags already mapped; the handle goes to the context of the file.\<close>

definition create_open :: "win_sec \<Rightarrow> 's win_os \<Rightarrow> 's dokan \<Rightarrow> 'c env \<Rightarrow> (responses \<Rightarrow> responses) \<Rightarrow> u64 \<Rightarrow> bool \<Rightarrow> path \<Rightarrow> SECURITY_DESCRIPTOR option
    \<Rightarrow> win_meta option \<Rightarrow> int \<Rightarrow> u32 \<Rightarrow> u32 \<Rightarrow> u32 \<Rightarrow> u32 \<Rightarrow> DOKAN_FILE_INFO \<Rightarrow> 'c server \<Rightarrow> 's
    \<Rightarrow> (u32 \<times> DOKAN_FILE_INFO \<times> 'c server \<times> 's) result option" where
  "create_open w os dk e arrive tid translate_sids p sec_desc attr user access attributes shared disposition info srv s =
     (let real_path = translate_path p (e_path e); found = (attr \<noteq> None); is_dir = (IsDirectory info \<noteq> 0);
          as_dir = (\<not> found \<and> (disposition = CREATE_ALWAYS \<or> disposition = CREATE_NEW) \<and> is_dir);
          readonly = (found \<and> wm_attributes (the attr) AND FILE_ATTRIBUTE_READONLY = FILE_ATTRIBUTE_READONLY
                      \<or> attributes AND FILE_ATTRIBUTE_READONLY = FILE_ATTRIBUTE_READONLY);
          make = (if as_dir then OpCreateDirectory os else OpCreateFile os);
          local = (\<lambda>(info, s).
            rmap (\<lambda>((st, h), s1). (as_i32 st, info\<lparr>Context := h\<rparr>, s1))
              (as_user os dk user (\<lambda>s. case make real_path sec_desc access attributes shared disposition s of (st, h, s1) \<Rightarrow> ((st, h), s1)) s)) in
      if \<not> as_dir \<and> readonly \<and> attributes AND FILE_FLAG_DELETE_ON_CLOSE = FILE_FLAG_DELETE_ON_CLOSE
      then Some (Inr (STATUS_CANNOT_DELETE, info, srv, s))
      else (case create_call found is_dir disposition attributes p
              (expect ''Failed to serialize descriptor'' (defaulted_descriptor w dk translate_sids sec_desc user s)) of
          Inl f \<Rightarrow> Some (Inl f)
        | Inr None \<Rightarrow> Some (rmap (\<lambda>(st, info1, s1). (NtStatusFromWin32 dk (word_of_int st), info1, srv, s1)) (local (info, s)))
        | Inr (Some call) \<Rightarrow>
            map_option (rmap (\<lambda>(st, srv1, info1, s1).
              (if st = STATUS_SUCCESS \<and> Context info1 \<noteq> INVALID_HANDLE_VALUE \<and> disposition = OPEN_ALWAYS \<and> found
               then STATUS_OBJECT_NAME_COLLISION else st, info1, srv1, s1)))
              (nt_result dk (replicated e arrive tid call local srv (info, s)))))"

definition MirrorCreateFile :: "win_sec \<Rightarrow> 's win_os \<Rightarrow> 's dokan \<Rightarrow> 'c env \<Rightarrow> (responses \<Rightarrow> responses) \<Rightarrow> u64 \<Rightarrow> bool \<Rightarrow> path \<Rightarrow> SECURITY_DESCRIPTOR option
    \<Rightarrow> u32 \<Rightarrow> u32 \<Rightarrow> u32 \<Rightarrow> u32 \<Rightarrow> u32 \<Rightarrow> DOKAN_FILE_INFO \<Rightarrow> 'c server \<Rightarrow> 's \<Rightarrow> (u32 \<times> DOKAN_FILE_INFO \<times> 'c server \<times> 's) result option" where
  "MirrorCreateFile w os dk e arrive tid translate_sids p sec_desc dokan_access dokan_attributes shared dokan_disposition dokan_options info srv s =
     (case (case symlink_metadata dk (translate_path p (e_path e)) s of
              Inr m \<Rightarrow> Inr (Inr (Some m))
            | Inl f \<Rightarrow> if win_not_found f then Inr (Inr None) else rmap Inl (os_status dk ''Failed to extract OS error'' f)) of
        Inl f \<Rightarrow> Some (Inl f)
      | Inr (Inl st) \<Rightarrow> Some (Inr (st, info, srv, s))
      | Inr (Inr attr) \<Rightarrow>
          let (user, s1) = OpenRequestorToken dk info s;
              (access, attributes, disposition) = MapKernelToUserCreateFileFlags dk dokan_access dokan_attributes dokan_options dokan_disposition;
              dir = (attr \<noteq> None \<and> wm_is_dir (the attr)) in
          if user = INVALID_HANDLE_VALUE then Some (Inl (Panicked ''assertion failed: user_handle != INVALID_HANDLE_VALUE''))
          else if dir \<and> dokan_options AND FILE_NON_DIRECTORY_FILE = FILE_NON_DIRECTORY_FILE
          then Some (Inr (STATUS_FILE_IS_A_DIRECTORY, info, srv, s1))
          else create_open w os dk e arrive tid translate_sids p sec_desc attr user access
                 (if dir then attributes OR FILE_FLAG_BACKUP_SEMANTICS else attributes) (if dir then shared OR FILE_SHARE_READ else shared) disposition
                 (if dir then info\<lparr>IsDirectory := 1\<rparr> else info) srv s1)"

section \<open>Closing\<close>

definition MirrorCleanup :: "'s win_os \<Rightarrow> 'c env \<Rightarrow> (responses \<Rightarrow> responses) \<Rightarrow> u64 \<Rightarrow> path \<Rightarrow> DOKAN_FILE_INFO \<Rightarrow> 'c server \<Rightarrow> 's
    \<Rightarrow> (DOKAN_FILE_INFO \<times> 'c server \<times> 's) result option" where
  "MirrorCleanup os e arrive tid p info srv s =
     (let real_path = translate_path p (e_path e); opened = (Context info \<noteq> 0 \<and> Context info \<noteq> INVALID_HANDLE_VALUE);
          s1 = (if opened then w_CloseHandle os (Context info) s else s); info1 = (if opened then info\<lparr>Context := 0\<rparr> else info) in
      if DeleteOnClose info1 = 0 then Some (Inr (info1, srv, s1))
      else map_option (rmap (\<lambda>(_, srv1, s2). (info1, srv1, s2)))
        (if IsDirectory info1 \<noteq> 0
         then replicated e arrive tid (VFS_rmdir p) (\<lambda>s. in_i32 (Inr (OpDeleteDirectory os real_path s))) srv s1
         else replicated e arrive tid (VFS_unlink p) (\<lambda>s. in_i32 (Inr (OpDeleteFile os real_path s))) srv s1))"

section \<open>Writing\<close>

text \<open>The offset and the number of bytes of a write: a paging write stays within the file.\<close>

definition paging_len :: "u64 \<Rightarrow> i64 \<Rightarrow> u32 \<Rightarrow> u32" where
  "paging_len file_size offset len =
     (if file_size < offset + ucast len then
        let bytes = file_size - offset in
        if drop_bit 32 bytes \<noteq> 0 then ucast (bytes AND 0xFFFFFFFF) else ucast bytes
      else len)"

datatype write_target = WriteStatus u32 | WriteAt i64 u32

definition write_place :: "'s dokan \<Rightarrow> path \<Rightarrow> u32 \<Rightarrow> i64 \<Rightarrow> DOKAN_FILE_INFO \<Rightarrow> 's \<Rightarrow> write_target result" where
  "write_place dk real_path len offset info s =
     (if WriteToEndOfFile info \<noteq> 0 then Inr (WriteAt (2 ^ 63 - 1) len)
      else if PagingIo info \<noteq> 0 then
        (case symlink_metadata dk real_path s of
           Inl f \<Rightarrow> rmap WriteStatus (os_status dk ''Failed to get OS error'' f)
         | Inr m \<Rightarrow>
             if wm_len m \<le> offset then Inr (WriteStatus STATUS_SUCCESS)
             else Inr (WriteAt offset (paging_len (wm_len m) offset len)))
      else Inr (WriteAt offset len))"

text \<open>The call that a write is announced with: with \<open>DIFF_WRITES\<close> the difference from what is there.\<close>

definition win_write_call :: "'s win_os \<Rightarrow> bool \<Rightarrow> path \<Rightarrow> bytes \<Rightarrow> i64 \<Rightarrow> int \<Rightarrow> 's \<Rightarrow> (VFSCall \<times> 's) result" where
  "win_write_call os diff_writes p new_buf offset h s =
     (if diff_writes then
        (case w_seek_read os h (length new_buf) offset s of
           (Inr old, s1) \<Rightarrow> rmap (\<lambda>d. (VFS_diff_write p offset d, s1)) (diff_with old new_buf)
         | (Inl _, s1) \<Rightarrow> Inr (VFS_write p offset new_buf, s1))
      else Inr (VFS_write p offset new_buf, s))"

text \<open>The number of bytes written is answered beside the status.\<close>

definition MirrorWriteFile :: "'s win_os \<Rightarrow> 's dokan \<Rightarrow> 'c env \<Rightarrow> (responses \<Rightarrow> responses) \<Rightarrow> u64 \<Rightarrow> bool \<Rightarrow> path \<Rightarrow> bytes \<Rightarrow> i64 \<Rightarrow> DOKAN_FILE_INFO
    \<Rightarrow> 'c server \<Rightarrow> 's \<Rightarrow> (u32 \<times> 'c server \<times> u32 \<times> 's) result option" where
  "MirrorWriteFile os dk e arrive tid diff_writes p buffer offset info srv s =
     (case write_place dk (translate_path p (e_path e)) (of_nat (length buffer)) offset info s of
        Inl f \<Rightarrow> Some (Inl f)
      | Inr (WriteStatus st) \<Rightarrow> Some (Inr (st, srv, 0, s))
      | Inr (WriteAt off len) \<Rightarrow>
          (case win_write_call os diff_writes p (take (unat len) buffer) off (Context info) s of
             Inl f \<Rightarrow> Some (Inl f)
           | Inr (call, s1) \<Rightarrow>
               nt_result dk (replicated e arrive tid call
                 (\<lambda>(_, s). rmap (\<lambda>(st, n, s2). (as_i32 st, n, s2)) (OpWriteFile os (take (unat len) buffer) off (Context info) s)) srv (0, s1))))"

section \<open>Attributes\<close>

definition MirrorSetFileAttributes :: "'s win_os \<Rightarrow> 's dokan \<Rightarrow> 'c env \<Rightarrow> (responses \<Rightarrow> responses) \<Rightarrow> u64 \<Rightarrow> path \<Rightarrow> u32 \<Rightarrow> 'c server \<Rightarrow> 's
    \<Rightarrow> (u32 \<times> 'c server \<times> 's) result option" where
  "MirrorSetFileAttributes os dk e arrive tid p attributes srv s =
     nt_result dk (replicated e arrive tid (VFS_chmod p attributes)
       (\<lambda>s. in_i32 (Inr (OpSetFileAttributes os (translate_path p (e_path e)) attributes s))) srv s)"

definition MirrorSetFileTime :: "'s win_os \<Rightarrow> 's dokan \<Rightarrow> 'c env \<Rightarrow> (responses \<Rightarrow> responses) \<Rightarrow> u64 \<Rightarrow> path \<Rightarrow> FILETIME \<Rightarrow> FILETIME \<Rightarrow> FILETIME
    \<Rightarrow> DOKAN_FILE_INFO \<Rightarrow> 'c server \<Rightarrow> 's \<Rightarrow> (u32 \<times> 'c server \<times> 's) result option" where
  "MirrorSetFileTime os dk e arrive tid p creation access wr info srv s =
     nt_result dk (replicated e arrive tid
       (VFS_utimens p (timespec_of_filetime creation, timespec_of_filetime access, timespec_of_filetime wr))
       (\<lambda>s. in_i32 (OpSetFileTime os creation access wr (Context info) s)) srv s)"

definition MirrorMoveFile :: "'s win_os \<Rightarrow> 's dokan \<Rightarrow> 'c env \<Rightarrow> (responses \<Rightarrow> responses) \<Rightarrow> u64 \<Rightarrow> path \<Rightarrow> path \<Rightarrow> u32
    \<Rightarrow> DOKAN_FILE_INFO \<Rightarrow> 'c server \<Rightarrow> 's \<Rightarrow> (u32 \<times> 'c server \<times> 's) result option" where
  "MirrorMoveFile os dk e arrive tid p new_name replace info srv s =
     nt_result dk (replicated e arrive tid (VFS_rename p new_name replace)
       (\<lambda>s. in_i32 (Inr (OpMoveFile os (translate_path new_name (e_path e)) replace (Context info) s))) srv s)"

definition MirrorSetEndOfFile :: "'s win_os \<Rightarrow> 's dokan \<Rightarrow> 'c env \<Rightarrow> (responses \<Rightarrow> responses) \<Rightarrow> u64 \<Rightarrow> path \<Rightarrow> i64
    \<Rightarrow> DOKAN_FILE_INFO \<Rightarrow> 'c server \<Rightarrow> 's \<Rightarrow> (u32 \<times> 'c server \<times> 's) result option" where
  "MirrorSetEndOfFile os dk e arrive tid p offset info srv s =
     nt_result dk (replicated e arrive tid (VFS_truncate p offset) (\<lambda>s. in_i32 (OpSetEndOfFile os offset (Context info) s)) srv s)"

definition MirrorSetAllocationSize :: "'s win_os \<Rightarrow> 's dokan \<Rightarrow> 'c env \<Rightarrow> (responses \<Rightarrow> responses) \<Rightarrow> u64 \<Rightarrow> path \<Rightarrow> i64
    \<Rightarrow> DOKAN_FILE_INFO \<Rightarrow> 'c server \<Rightarrow> 's \<Rightarrow> (u32 \<times> 'c server \<times> 's) result option" where
  "MirrorSetAllocationSize os dk e arrive tid p sz info srv s =
     (let (ok, file_size) = GetFileSizeEx dk (Context info) s in
      if ok = 0 then Some (Inr (NtStatusFromWin32 dk (w_GetLastError os s), srv, s))
      else if file_size \<le>s sz then Some (Inr (STATUS_SUCCESS, srv, s))
      else nt_result dk (replicated e arrive tid (VFS_truncate p sz) (\<lambda>s. in_i32 (OpSetEndOfFile os sz (Context info) s)) srv s))"

definition MirrorSetFileSecurity :: "win_sec \<Rightarrow> 's win_os \<Rightarrow> 's dokan \<Rightarrow> 'c env \<Rightarrow> (responses \<Rightarrow> responses) \<Rightarrow> u64 \<Rightarrow> bool \<Rightarrow> path \<Rightarrow> u32
    \<Rightarrow> SECURITY_DESCRIPTOR \<Rightarrow> DOKAN_FILE_INFO \<Rightarrow> 'c server \<Rightarrow> 's \<Rightarrow> (u32 \<times> 'c server \<times> 's) result option" where
  "MirrorSetFileSecurity w os dk e arrive tid translate_sids p security descriptor info srv s =
     before_op (expect ''Failed to parse security'' (parse_security w (Some descriptor) (Some security) translate_sids)) (\<lambda>file_sec.
       nt_result dk (replicated e arrive tid (VFS_security p file_sec)
         (\<lambda>s. in_i32 (OpSetFileSecurity os security descriptor (Context info) s)) srv s))"

definition MirrorFlushFileBuffers :: "'s win_os \<Rightarrow> 's dokan \<Rightarrow> 'c env \<Rightarrow> (responses \<Rightarrow> responses) \<Rightarrow> u64 \<Rightarrow> path
    \<Rightarrow> DOKAN_FILE_INFO \<Rightarrow> 'c server \<Rightarrow> 's \<Rightarrow> (u32 \<times> 'c server \<times> 's) result option" where
  "MirrorFlushFileBuffers os dk e arrive tid p info srv s =
     nt_result dk (replicated e arrive tid (VFS_fsync p 0) (\<lambda>s. in_i32 (Inr (OpFlushFileBuffers os (Context info) s))) srv s)"

section \<open>Starting\<close>

datatype DokanResult = DSuccess | DError | DriveLetterError | DriverInstallError | StartError | MountError | MountPointError | VersionError

definition dokan_result :: "int \<Rightarrow> int + DokanResult" where
  "dokan_result v =
     (if v = 0 then Inr DSuccess
      else if v = -1 then Inr DSuccess
      else if v = -2 then Inr DSuccess
      else if v = -3 then Inr DSuccess
      else if v = -4 then Inr DSuccess
      else if v = -5 then Inr DSuccess
      else if v = -6 then Inr DSuccess
      else if v = -7 then Inr DSuccess
      else Inl v)"

record DOKAN_OPTIONS =
  Version :: "16 word"
  ThreadCount :: "16 word"
  Options :: u32
  GlobalContext :: u64
  MountPoint :: "path option"
  UNCName :: "path option"
  Timeout :: u32
  AllocationUnitSize :: u32
  SectorSize :: u32

definition dokan_options_zero :: "16 word \<Rightarrow> DOKAN_OPTIONS" where
  "dokan_options_zero version = \<lparr>Version = version, ThreadCount = 0, Options = 0, GlobalContext = 0, MountPoint = None, UNCName = None,
     Timeout = 0, AllocationUnitSize = 0, SectorSize = 0\<rparr>"

text \<open>The library below: the console, the loop of Dokan and the removal of a mount point.\<close>

record 's dokan_lib =
  SetConsoleCtrlHandler :: "bool \<Rightarrow> 's \<Rightarrow> int \<times> 's"
  DokanMain :: "DOKAN_OPTIONS \<Rightarrow> 's \<Rightarrow> int \<times> 's"
  DokanRemoveMountPoint :: "path option \<Rightarrow> 's \<Rightarrow> 's"

text \<open>\<open>CTRL_C_EVENT\<close> and the others; the mount point is the static that \<open>dokan_main\<close> sets.\<close>

definition exit_events :: "u32 list" where
  "exit_events = [0, 1, 2, 5, 6]"

definition ctrl_handler :: "'s dokan_lib \<Rightarrow> u32 \<Rightarrow> path option \<Rightarrow> 's \<Rightarrow> int \<times> 's" where
  "ctrl_handler l ctrl_type mount_point s =
     (if ctrl_type \<in> set exit_events
      then (1, DokanRemoveMountPoint l mount_point (snd (SetConsoleCtrlHandler l False s)))
      else (0, s))"

text \<open>With the static mount point, the state that the handler finds.\<close>

definition dokan_main :: "'s dokan_lib \<Rightarrow> DOKAN_OPTIONS \<Rightarrow> 's \<Rightarrow> ((int + DokanResult) \<times> path option \<times> 's) result" where
  "dokan_main l options s =
     (let mount_point = MountPoint options; (ok, s1) = SetConsoleCtrlHandler l True s in
      rbind (require (ok \<noteq> 0) ''Failed to set dokan exit handler'') (\<lambda>_.
        let (res, s2) = DokanMain l options s1 in Inr (dokan_result res, mount_point, s2)))"

end
