(* ===== verification/WinStart.thy ===== *)
theory WinStart
  imports StartUp DokanFs
begin

unbundle bit_operations_syntax

text \<open>
  Starting the server on Windows (\<open>server/mod.rs\<close>, Windows parts; \<open>copy_security\<close> of
  \<open>common/security_windows.rs\<close>): the mount point is looked for in its parent directory too, is taken
  over from another process by making it anew, and Dokan is started on it.

  The calls that both systems share are those of the machine of \<open>StartUp\<close>; the others are here.
\<close>

record 'h win_host =
  wh_full_path :: "path \<Rightarrow> 'h \<Rightarrow> path result"
  wh_read_dir :: "path \<Rightarrow> 'h \<Rightarrow> path result list result"
  wh_lock :: "path \<Rightarrow> 'h \<Rightarrow> (io_error + unit) \<times> 'h"
  wh_remove_dir :: "path \<Rightarrow> 'h \<Rightarrow> unit result \<times> 'h"
  wh_create_dir :: "path \<Rightarrow> 'h \<Rightarrow> unit result \<times> 'h"
  wh_get_security :: "int \<Rightarrow> u32 \<Rightarrow> u32 \<Rightarrow> 'h \<Rightarrow> int \<times> SECURITY_DESCRIPTOR \<times> u32 \<times> 'h"
  wh_AddPrivileges :: "'h \<Rightarrow> int \<times> 'h"

definition ERROR_SHARING_VIOLATION :: int where "ERROR_SHARING_VIOLATION = 32"
definition GENERIC_READ :: u32 where "GENERIC_READ = 0x80000000"
definition READ_CONTROL :: u32 where "READ_CONTROL = 0x00020000"
definition DOKAN_OPTION_DEBUG :: u32 where "DOKAN_OPTION_DEBUG = 1"
definition DOKAN_OPTION_STDERR :: u32 where "DOKAN_OPTION_STDERR = 2"
definition DOKAN_OPTION_ALT_STREAM :: u32 where "DOKAN_OPTION_ALT_STREAM = 4"

section \<open>The security of the mount point\<close>

definition DESC_LENGTH :: u32 where "DESC_LENGTH = 4096"

text \<open>\<open>with_file\<close>: the file is open while the function runs.\<close>

definition with_handle :: "'h win_os \<Rightarrow> path \<Rightarrow> open_opts \<Rightarrow> (int \<Rightarrow> 'h \<Rightarrow> 'a result \<times> 'h) \<Rightarrow> 'h \<Rightarrow> 'a result \<times> 'h" where
  "with_handle os p opts f h = (case w_open os p opts h of
       (Inl e, h1) \<Rightarrow> (Inl (IoErr e), h1)
     | (Inr fd, h1) \<Rightarrow> (let (r, h2) = f fd h1 in (r, w_CloseHandle os fd h2)))"

definition last_os_error :: "'h win_os \<Rightarrow> 'h \<Rightarrow> failure" where
  "last_os_error os h = IoErr (Os (as_i32 (w_GetLastError os h)))"

definition copy_security_win :: "'h win_os \<Rightarrow> 'h win_host \<Rightarrow> path \<Rightarrow> path \<Rightarrow> 'h \<Rightarrow> unit result \<times> 'h" where
  "copy_security_win os wh src dst h =
     (let info = 0x1 OR 0x2 OR 0x4 OR 0x8 in
      hbind (with_handle os src
         (oo_new\<lparr>oo_access := Some (ACCESS_SYSTEM_SECURITY OR GENERIC_READ OR READ_CONTROL), oo_attributes := FILE_FLAG_BACKUP_SEMANTICS\<rparr>)
         (\<lambda>fd h. let (ok, desc, needed, h1) = wh_get_security wh fd info DESC_LENGTH h in
            (if ok = 0 then Inl (last_os_error os h1) else Inr (desc, needed), h1)) h) (\<lambda>(desc, needed) h.
      hbind (require (needed \<le> DESC_LENGTH) ''Failed to copy really large descriptor, Denis is lazy.'', h) (\<lambda>_ h.
        with_handle os dst
         (oo_new\<lparr>oo_access := Some (ACCESS_SYSTEM_SECURITY OR GENERIC_WRITE OR WRITE_DAC), oo_attributes := FILE_FLAG_BACKUP_SEMANTICS\<rparr>)
         (\<lambda>fd h. let (ok, h1) = w_SetUserObjectSecurity os fd info desc h in
            (if ok = 0 then Inl (last_os_error os h1) else Inr (), h1)) h)))"

section \<open>The mount point\<close>

text \<open>\<open>Path::parent\<close>\<close>

definition path_parent :: "path \<Rightarrow> path option" where
  "path_parent p = (if p = [] \<or> p = [RootDir] then None else Some (butlast p))"

text \<open>A mount point of a file system that crashed is not there, but its parent still lists it.\<close>

definition mount_exists_win :: "'h host \<Rightarrow> 'h win_host \<Rightarrow> path \<Rightarrow> 'h \<Rightarrow> bool result" where
  "mount_exists_win host wh mount_path h =
     (if h_exists host mount_path h then Inr True
      else (case path_parent mount_path of
          None \<Rightarrow> Inr False
        | Some parent \<Rightarrow> rmap (\<lambda>es. Inr mount_path \<in> set es) (wh_read_dir wh parent h)))"

text \<open>
  The loop that takes the mount point over: open it alone; when another process has it, make it
  anew once and try again.
\<close>

function own_mount_path :: "'h win_os \<Rightarrow> 'h win_host \<Rightarrow> path \<Rightarrow> path \<Rightarrow> bool \<Rightarrow> 'h \<Rightarrow> unit result \<times> 'h" where
  "own_mount_path os wh mount_path backing recreated h =
     (let (r, h1) = wh_lock wh mount_path h in
      hbind (case r of Inr _ \<Rightarrow> Inr False
             | Inl e \<Rightarrow> rmap (\<lambda>n. n = ERROR_SHARING_VIOLATION) (unwrap ''Failed to get OS error code'' (raw_os_error e)), h1) (\<lambda>busy h2.
        if \<not> busy then (Inr (), h2)
        else if recreated then (Inl (IoErr (Other ''Failed to establish ownership of the mount path'')), h2)
        else hbind (hbind (hbind (wh_remove_dir wh mount_path h2)
               (\<lambda>_ h3. wh_create_dir wh mount_path h3))
               (\<lambda>_ h4. copy_security_win os wh backing mount_path h4))
               (\<lambda>_ h5. own_mount_path os wh mount_path backing True h5)))"
  by pat_completeness auto

termination
  by (relation "measure (\<lambda>(_, _, _, _, recreated, _). if recreated then 0 else 1)") auto

declare own_mount_path.simps [simp del]

definition figure_out_paths_win :: "'h host \<Rightarrow> 'h win_os \<Rightarrow> 'h win_host \<Rightarrow> string \<Rightarrow> string option \<Rightarrow> 'h \<Rightarrow> (path \<times> path) result \<times> 'h" where
  "figure_out_paths_win host os wh arg_mount arg_backing h =
     hbind (wh_full_path wh (path_of arg_mount) h, h) (\<lambda>mount_path h.
     hbind (mount_exists_win host wh mount_path h, h) (\<lambda>mount_exists h.
     hbind (backing_path host arg_backing mount_path h, h) (\<lambda>backing h.
     hbind (if \<not> h_exists host backing h \<and> mount_exists then h_rename host mount_path backing h else (Inr (), h)) (\<lambda>_ h.
     hbind (if h_exists host backing h \<and> \<not> mount_exists then
              hbind (h_create_dir_all host mount_path h) (\<lambda>_ h. copy_security_win os wh backing mount_path h)
            else if \<not> h_exists host backing h \<and> \<not> mount_exists then (Inl (IoErr (Other ''Mount path does not exist'')), h)
            else (Inr (), h)) (\<lambda>_ h.
     hbind (own_mount_path os wh mount_path backing False h) (\<lambda>_ h.
       (Inr (mount_path, backing), h)))))))"

section \<open>Dokan\<close>

definition dokan_options :: "16 word \<Rightarrow> path \<Rightarrow> bool \<Rightarrow> DOKAN_OPTIONS" where
  "dokan_options version mount_path debug =
     (dokan_options_zero version)\<lparr>MountPoint := Some mount_path,
        Options := DOKAN_OPTION_ALT_STREAM OR (if debug then DOKAN_OPTION_DEBUG OR DOKAN_OPTION_STDERR else 0)\<rparr>"

text \<open>The end of \<open>server_main\<close>: anything but success is a panic.\<close>

definition serve_dokan :: "'s dokan_lib \<Rightarrow> 16 word \<Rightarrow> path \<Rightarrow> bool \<Rightarrow> 's \<Rightarrow> 's result" where
  "serve_dokan l version mount_path debug s =
     rbind (dokan_main l (dokan_options version mount_path debug) s) (\<lambda>(res, _, s1).
       if res = Inr DSuccess then Inr s1 else Inl (Panicked ''Dokan error''))"

end
