(* ===== verification/WinLaws.thy ===== *)
theory WinLaws
  imports WinSecurity
begin

text \<open>Windows: what is sent is what arrives.\<close>

section \<open>Descriptors as text\<close>

lemma replace_names_skip:
  "delim \<notin> set m \<Longrightarrow> replace_names g (m @ x) = rmap (\<lambda>t. m @ t) (replace_names g x)"
proof (induction m)
  case Nil
  then show ?case by (cases "replace_names g x") simp_all
next
  case (Cons c m)
  then have "name_at (c # m @ x) = None" by (auto simp: name_at_def split: list.splits)
  then show ?case using Cons by (subst replace_names.simps) (cases "replace_names g x"; simp)
qed

lemma name_at_quoted:
  assumes "n \<noteq> []" "delim \<notin> set n" "CHR 0x0A \<notin> set n"
  shows "name_at (delim # n @ delim # x) = Some (n, x)"
proof (cases n)
  case (Cons c r)
  have "takeWhile (\<lambda>x. x \<noteq> delim \<and> x \<noteq> CHR 0x0A) (r @ delim # x) = r" using assms Cons by (intro takeWhile_eq_all_conv [THEN iffD2] trans [OF takeWhile_append2]) auto
  then show ?thesis using assms Cons by (auto simp: name_at_def)
qed (use assms in simp)

text \<open>
  The accounts of both machines: an identifier that has a name here has this name there, and the
  names can be quoted.
\<close>

definition same_accounts :: "win_sec \<Rightarrow> win_sec \<Rightarrow> bool" where
  "same_accounts a b \<longleftrightarrow> (\<forall>m t. name_for_sid a m = Inr t \<longrightarrow>
     t = m \<or> (\<exists>n. t = delim # n @ [delim] \<and> n \<noteq> [] \<and> delim \<notin> set n \<and> CHR 0x0A \<notin> set n \<and> sid_for_name b n = Inr m))"

lemma replace_back:
  "same_accounts a b \<Longrightarrow> delim \<notin> set s \<Longrightarrow> replace_sids (name_for_sid a) s = Inr t \<Longrightarrow> replace_names (sid_for_name b) t = Inr s"
proof (induction "name_for_sid a" s arbitrary: t rule: replace_sids.induct)
  case (1 s)
  show ?case
  proof (cases s)
    case Nil
    then show ?thesis using "1.prems" by (simp add: replace_sids.simps replace_names.simps)
  next
    case (Cons c r)
    show ?thesis
    proof (cases "sid_at s")
      case None
      obtain t' where t': "replace_sids (name_for_sid a) r = Inr t'" "t = c # t'"
        using "1.prems"(3) Cons None by (subst (asm) replace_sids.simps) (auto simp: rmap_eq_Inr)
      have "replace_names (sid_for_name b) t' = Inr r" using "1.hyps"(1) [OF Cons None "1.prems"(1) _ t'(1)] "1.prems"(2) Cons by simp
      then show ?thesis using replace_names_skip [of "[c]" "sid_for_name b" t'] "1.prems"(2) Cons t'(2) by auto
    next
      case (Some p)
      obtain m rest where p: "p = (m, rest)" by (cases p)
      have s: "s = m @ rest" using sid_at_split [of s m rest] Some p by simp
      obtain n t' where n: "name_for_sid a m = Inr n" "replace_sids (name_for_sid a) rest = Inr t'" "t = n @ t'"
        using "1.prems"(3) Cons Some p by (subst (asm) replace_sids.simps) (auto simp: rbind_eq_Inr rmap_eq_Inr)
      have IH: "replace_names (sid_for_name b) t' = Inr rest"
        using "1.hyps"(2) [OF Cons Some p [symmetric] "1.prems"(1) _ n(2)] "1.prems"(2) s by simp
      from "1.prems"(1) n(1) consider "n = m" | k where "n = delim # k @ [delim]" "k \<noteq> []" "delim \<notin> set k" "CHR 0x0A \<notin> set k" "sid_for_name b k = Inr m"
        unfolding same_accounts_def by blast
      then show ?thesis
      proof cases
        case 1
        then show ?thesis using IH n(3) s "1.prems"(2) replace_names_skip [of m "sid_for_name b" t'] by simp
      next
        case 2
        then have "name_at t = Some (k, t')" using n(3) name_at_quoted [of k t'] by simp
        then show ?thesis using 2 IH n(3) s by (subst replace_names.simps) simp
      qed
    qed
  qed
qed

text \<open>
  C21. A security descriptor survives its way as text: what one machine sends, with the identifiers
  of accounts replaced by names, becomes on the other one the descriptor of the very same text,
  when both know the same accounts; accounts without a name keep their identifiers.
\<close>

theorem descriptor_text_roundtrip:
  assumes "same_accounts a b" "parse_security a (Some d) info True = Inr sec"
    and "ws_desc_to_string a d (case info of None \<Rightarrow> default_info | Some i \<Rightarrow> i) = Inr text"
  shows "to_descriptor b sec = ws_string_to_desc b text"
proof -
  obtain t where t: "delim \<notin> set text" "replace_sids (name_for_sid a) text = Inr t" "sec = Windows t info"
    using assms(2,3) by (auto simp: parse_security_def rbind_eq_Inr split: option.splits)
  then show ?thesis using replace_back [OF assms(1) t(1,2)] by (simp add: to_descriptor_def)
qed

text \<open>Accounts for evaluation: one account, with the name \<open>bo\<close>.\<close>

definition one_account :: win_sec where
  "one_account = \<lparr>ws_sid_to_string = (\<lambda>b. Some ''S-1-5-7''), ws_string_to_sid = (\<lambda>m. if m = ''S-1-5-7'' then Some [7] else Some []),
     ws_lookup_account_sid = (\<lambda>b. if b = [7] then Inr (''d'', ''bo'') else Inl (IoErr (Os 1))),
     ws_lookup_account_name = (\<lambda>n. if n = ''bo'' then Inr [7] else Inl (IoErr (Os 1))),
     ws_desc_to_string = (\<lambda>d i. Inr ''O:S-1-5-7G:S-1-5-32''),
     ws_string_to_desc = (\<lambda>s. Inr \<lparr>Control = of_nat (length s), Owner = None, Group = None, Sacl = None, Dacl = None\<rparr>)\<rparr>"

lemma one_account_same: "same_accounts one_account one_account"
proof -
  have u: "utf8_valid (map of_char ''d'')" "utf8_valid (map of_char ''bo'')" by code_simp+
  show ?thesis
    using u by (auto simp: same_accounts_def name_for_sid_def string_to_sid_def lookup_account_def sid_for_name_def lookup_sid_def psid_to_string_def
        one_account_def delim_def split: if_splits)
qed

theorem descriptor_text_roundtrip_witness:
  "\<exists>d sec. parse_security one_account (Some d) None True = Inr sec \<and> sec = Windows (''O:'' @ [delim] @ ''bo'' @ [delim] @ ''G:S-1-5-32'') None
    \<and> to_descriptor one_account sec = ws_string_to_desc one_account ''O:S-1-5-7G:S-1-5-32''"
proof -
  let ?d = "\<lparr>Control = 0, Owner = None, Group = None, Sacl = None, Dacl = None\<rparr>"
  let ?sec = "Windows (''O:'' @ [delim] @ ''bo'' @ [delim] @ ''G:S-1-5-32'') None"
  have p: "parse_security one_account (Some ?d) None True = Inr ?sec" by code_simp
  have "to_descriptor one_account ?sec = ws_string_to_desc one_account ''O:S-1-5-7G:S-1-5-32''"
    by (rule descriptor_text_roundtrip [OF one_account_same p]) (simp add: one_account_def)
  then show ?thesis using p by blast
qed

end
