(* ===== verification/DokanLaws.thy ===== *)
theory DokanLaws
  imports WinStart WinLaws CommonLaws
begin

unbundle bit_operations_syntax

text \<open>Windows: what a write announces, how far a paging write reaches, and the start of Dokan.\<close>

section \<open>Differences\<close>

lemma diff_with_prefix:
  assumes "length old \<le> length buf"
  shows "diff_with old buf = Inr (map2 (\<lambda>a b. a XOR b) old buf @ drop (length old) buf)"
proof -
  have "map2 (\<lambda>a b. a XOR b) old (take (length old) buf) = map2 (\<lambda>a b. a XOR b) old buf"
    using assms by (intro nth_equalityI) auto
  then show ?thesis using assms by (simp add: diff_with_def xor_buf_def xor_prefix_def require_def min_def)
qed

lemma xor_prefix_again:
  fixes old new :: bytes
  assumes "length old \<le> length new"
  shows "(let d = map2 (\<lambda>a b. a XOR b) old new @ drop (length old) new in map2 (\<lambda>a b. a XOR b) old d @ drop (length old) d) = new"
  using assms
proof (induction old arbitrary: new)
  case (Cons a old)
  then show ?case by (cases new) (auto simp: Let_def xor.assoc [symmetric])
qed simp

lemma diff_with_twice:
  assumes "length old \<le> length new" "diff_with old new = Inr d"
  shows "length d = length new" "diff_with old d = Inr new"
proof -
  have d: "d = map2 (\<lambda>a b. a XOR b) old new @ drop (length old) new" using assms diff_with_prefix [of old new] by simp
  show len: "length d = length new" using assms(1) d by simp
  have "map2 (\<lambda>a b. a XOR b) old d @ drop (length old) d = new"
    using assms(1) xor_prefix_again [of old new] by (simp add: d Let_def)
  then show "diff_with old d = Inr new" using assms(1) len diff_with_prefix [of old d] by simp
qed

text \<open>
  C22. Writing with differences on Windows: a server that reads the old bytes announces a difference
  of the length of the new ones, and a client that finds the same old bytes in its file writes
  exactly the new bytes at the offset, also when the file ends within them.
\<close>

theorem dokan_diff_write_exact:
  assumes "w_seek_read os h (length new) off s = (Inr old, s1)" "length old \<le> length new"
    and "w_open os2 (translate_path p dir) (oo_new\<lparr>oo_write := True, oo_read := True\<rparr>) t = (Inr ch, t1)"
    and "w_seek_read os2 ch (length new) off t1 = (Inr old, t2)"
  shows "\<exists>d. win_write_call os True p new off h s = Inr (VFS_diff_write p off d, s1) \<and> length d = length new
    \<and> dispatch_win w os2 (VFS_diff_write p off d) dir t
        = rmap (\<lambda>(st, _, t3). (as_i32 st, w_CloseHandle os2 ch t3)) (OpWriteFile os2 (u32_len new) off ch t2)"
proof -
  obtain d where d: "diff_with old new = Inr d" using diff_with_prefix [OF assms(2)] by blast
  note twice = diff_with_twice [OF assms(2) d]
  have "dispatch_win w os2 (VFS_diff_write p off d) dir t
      = rmap (\<lambda>(st, _, t3). (as_i32 st, w_CloseHandle os2 ch t3)) (OpWriteFile os2 (u32_len new) off ch t2)"
    using assms(3,4) twice by (cases "OpWriteFile os2 (u32_len new) off ch t2") (auto simp: win_with_file_def win_diff_write_def err_or_ok_def)
  then show ?thesis using assms(1) d twice(1) by (auto simp: win_write_call_def)
qed

text \<open>A machine for evaluation: one file, every handle is 1.\<close>

definition one_file_os :: "bytes win_os" where
  "one_file_os = \<lparr>w_GetLastError = (\<lambda>s. 0), w_FlushFileBuffers = (\<lambda>h s. (1, s)), w_DeleteFileW = (\<lambda>p s. (1, [])),
     w_RemoveDirectoryW = (\<lambda>p s. (1, s)), w_SetUserObjectSecurity = (\<lambda>h i d s. (1, s)), w_SetFileTime = (\<lambda>h a b c s. (1, s)),
     w_SetFileAttributesW = (\<lambda>p a s. (1, s)), w_SetFilePointerEx = (\<lambda>h k s. (1, s)), w_SetEndOfFile = (\<lambda>h s. (1, s)),
     w_WriteFile = (\<lambda>h b lo hi s. (1, of_nat (length b), take (unat lo) s @ b @ drop (unat lo + length b) s)), w_CloseHandle = (\<lambda>h s. s),
     w_open = (\<lambda>p k s. (Inr 1, s)), w_seek_read = (\<lambda>h n off s. (Inr (take n (drop (unat off) s)), s)),
     OpCreateFile = (\<lambda>p d a b c e s. (0, 1, s)), OpCreateDirectory = (\<lambda>p d a b c e s. (0, 1, s)), OpMoveFile = (\<lambda>p r h s. (0, s))\<rparr>"

theorem dokan_diff_write_exact_witness:
  "\<exists>d. win_write_call one_file_os True [Normal ''a''] [5, 6, 7] 1 1 [1, 2, 3] = Inr (VFS_diff_write [Normal ''a''] 1 d, [1, 2, 3])
    \<and> dispatch_win one_account one_file_os (VFS_diff_write [Normal ''a''] 1 d) [RootDir] [1, 2, 3] = Inr (0, [1, 5, 6, 7])"
proof -
  have "w_seek_read one_file_os 1 (length [5, 6, 7 :: u8]) 1 [1, 2, 3] = (Inr [2, 3], [1, 2, 3])" by (simp add: one_file_os_def)
  moreover have "w_open one_file_os q o' t = (Inr 1, t)" for q o' t by (simp add: one_file_os_def)
  moreover have "OpWriteFile one_file_os (u32_len [5, 6, 7]) 1 1 [1, 2, 3] = Inr (0, 3, [1, 5, 6, 7])" by code_simp
  moreover have "w_CloseHandle one_file_os 1 t = t" for t by (simp add: one_file_os_def)
  ultimately show ?thesis
    using dokan_diff_write_exact [of one_file_os 1 "[5, 6, 7]" 1 "[1, 2, 3]" "[2, 3]" "[1, 2, 3]" one_file_os "[Normal ''a'']" "[RootDir]" "[1, 2, 3]" 1 "[1, 2, 3]" "[1, 2, 3]" one_account]
    by (auto simp: as_i32_def)
qed

section \<open>Paging writes\<close>

lemma paging_len_min:
  fixes size :: u64
  assumes "off < size" "unat size \<le> 2 ^ 63"
  shows "unat (paging_len size off len) = min (unat len) (unat size - unat off)"
proof -
  have o: "unat off < unat size" using assms(1) by (simp add: word_less_nat_alt)
  have l: "unat len < 2 ^ 32" using unsigned_less [of len] by simp
  have n: "unat (ucast len :: u64) = unat len" using l by (simp add: unsigned_ucast_eq take_bit_nat_eq_self)
  have sum: "unat (off + ucast len) = unat off + unat len"
    using o l n assms(2) by (subst unat_add_lem [THEN iffD1]) simp_all
  have diff: "unat (size - off) = unat size - unat off" using assms(1) by (simp add: unat_sub word_le_nat_alt word_less_nat_alt)
  show ?thesis
  proof (cases "size < off + ucast len")
    case True
    then have lt: "unat size - unat off < unat len" using sum o by (simp add: word_less_nat_alt)
    have "take_bit 64 (unat size - unat off) < 2 ^ 32"
      using lt l take_bit_nat_less_eq_self [of 64 "unat size - unat off"] by linarith
    then have "unat (drop_bit 32 (size - off)) = 0" using diff by (simp only: unsigned_drop_bit_eq) (simp add: drop_bit_eq_div)
    then have "drop_bit 32 (size - off) = 0" by (simp only: unsigned_eq_0_iff)
    moreover have "unat (ucast (size - off) :: u32) = unat size - unat off"
      using lt l diff by (simp add: unsigned_ucast_eq take_bit_nat_eq_self)
    ultimately show ?thesis using True lt by (simp add: paging_len_def)
  next
    case False
    then show ?thesis using sum o by (simp add: paging_len_def word_less_nat_alt)
  qed
qed

text \<open>
  C23. A paging write stays within the file: it is cut at the end of the file exactly, and one that
  starts behind the end writes nothing and succeeds.  A negative offset counts as behind the end.
\<close>

theorem paging_write_within_file:
  assumes "PagingIo info \<noteq> 0" "WriteToEndOfFile info = 0" "symlink_metadata dk p s = Inr m" "unat (wm_len m) \<le> 2 ^ 63"
  shows "if unat off < unat (wm_len m)
    then \<exists>len'. write_place dk p len off info s = Inr (WriteAt off len') \<and> unat off + unat len' = min (unat off + unat len) (unat (wm_len m))
    else write_place dk p len off info s = Inr (WriteStatus STATUS_SUCCESS)"
proof (cases "unat off < unat (wm_len m)")
  case True
  then have "off < wm_len m" by (simp add: word_less_nat_alt)
  from paging_len_min [OF this assms(4), of len] this True show ?thesis
    using assms(1-3) by (auto simp: write_place_def)
next
  case False
  then show ?thesis using assms(1-3) by (simp add: write_place_def word_le_nat_alt)
qed

text \<open>For evaluation: the file is the state, and the paging write comes from the cache manager.\<close>

definition one_file_dokan :: "bytes dokan" where
  "one_file_dokan = \<lparr>NtStatusFromWin32 = id, MapKernelToUserCreateFileFlags = (\<lambda>a b c d. (a, b, d)), OpenRequestorToken = (\<lambda>i s. (1, s)),
     ImpersonateLoggedOnUser = (\<lambda>h s. (1, s)), RevertToSelf = id, token_user = (\<lambda>h s. Inr [7]),
     GetFileSizeEx = (\<lambda>h s. (1, of_nat (length s))),
     symlink_metadata = (\<lambda>p s. Inr \<lparr>wm_is_dir = False, wm_attributes = 0, wm_len = of_nat (length s)\<rparr>)\<rparr>"

definition paging_info :: DOKAN_FILE_INFO where
  "paging_info = \<lparr>Context = 1, DokanContext = 0, ProcessId = 4, IsDirectory = 0, DeleteOnClose = 0, PagingIo = 1, SynchronousIo = 0, Nocache = 0, WriteToEndOfFile = 0\<rparr>"

theorem paging_write_within_file_witness:
  "(\<exists>len'. write_place one_file_dokan [Normal ''a''] 4096 2 paging_info [1, 2, 3] = Inr (WriteAt 2 len') \<and> unat len' = 1)
    \<and> write_place one_file_dokan [Normal ''a''] 4096 (-1) paging_info [1, 2, 3] = Inr (WriteStatus STATUS_SUCCESS)"
proof -
  let ?m = "\<lparr>wm_is_dir = False, wm_attributes = 0, wm_len = 3\<rparr>"
  have m: "symlink_metadata one_file_dokan [Normal ''a''] [1, 2, 3] = Inr ?m" by (simp add: one_file_dokan_def)
  have i: "PagingIo paging_info \<noteq> 0" "WriteToEndOfFile paging_info = 0" by (simp_all add: paging_info_def)
  have sz: "unat (wm_len ?m) \<le> 2 ^ 63" by simp
  have v: "unat (-1 :: 64 word) = 18446744073709551615" by (simp add: unsigned_minus_1_eq_mask mask_eq_exp_minus_1)
  show ?thesis
    using paging_write_within_file [OF i m sz, where off = 2 and len = 4096] paging_write_within_file [OF i m sz, where off = "-1" and len = 4096]
    by (auto simp: v)
qed

section \<open>Times\<close>

lemma filetime_roundtrip: "filetime_of_timespec (timespec_of_filetime ft) = ft"
proof -
  have "ucast (ucast x :: i64) = x" for x :: u32 by (auto simp: bit_eq_iff bit_ucast_iff)
  then show ?thesis by (simp add: filetime_of_timespec_def timespec_of_filetime_def)
qed

section \<open>The start\<close>

text \<open>Every error number of Dokan is turned into success, and the server ends as if it had been stopped.\<close>

lemma dokan_errors_are_success:
  assumes "snd (SetConsoleCtrlHandler l True s) = s1" "fst (SetConsoleCtrlHandler l True s) \<noteq> 0"
    and "DokanMain l (dokan_options version p debug) s1 = (code, s2)" "-7 \<le> code" "code \<le> 0"
  shows "serve_dokan l version p debug s = Inr s2"
proof -
  have "code \<in> {0, -1, -2, -3, -4, -5, -6, -7}" using assms(4,5) by auto
  then have "dokan_result code = Inr DSuccess" by (auto simp: dokan_result_def)
  then show ?thesis using assms by (auto simp: serve_dokan_def dokan_main_def require_def split: prod.splits)
qed

text \<open>The halves of the offset that stand for the end of the file are all ones; those of \<open>i64::MAX\<close> are not.\<close>

lemma write_to_end_offset: "overlapped (2 ^ 63 - 1) = (0xFFFFFFFF, 0x7FFFFFFF)"
  by code_simp

text \<open>Opening what is there announces no call, so the answer that it was there already is never given.\<close>

lemma open_existing_no_call: "create_call True is_dir OPEN_ALWAYS attributes p sec = Inr None"
  by (simp add: create_call_def OPEN_ALWAYS_def TRUNCATE_EXISTING_def CREATE_ALWAYS_def)

text \<open>A mount point that stays busy is made anew once, and then the start is refused.\<close>

lemma own_mount_path_busy:
  assumes "\<And>h. wh_lock wh mp h = (Inl (Os 32), h)" "wh_remove_dir wh mp h = (Inr (), h1)" "wh_create_dir wh mp h1 = (Inr (), h2)"
    and "copy_security_win os wh bk mp h2 = (Inr (), h3)"
  shows "own_mount_path os wh mp bk False h = (Inl (IoErr (Other ''Failed to establish ownership of the mount path'')), h3)"
proof -
  have busy: "own_mount_path os wh mp bk True h = (Inl (IoErr (Other ''Failed to establish ownership of the mount path'')), h)" for h
    using assms(1) by (subst own_mount_path.simps) (simp add: hbind_def ERROR_SHARING_VIOLATION_def raw_os_error_def unwrap_def)
  show ?thesis using assms by (subst own_mount_path.simps) (simp add: hbind_def ERROR_SHARING_VIOLATION_def raw_os_error_def unwrap_def busy)
qed

end
