(* ===== verification/FuseTable.thy ===== *)
theory FuseTable
  imports FuseRead StartUp
begin

text \<open>
  The table of callbacks of the mounted file system (\<open>fuse_operations\<close> of \<open>fuse_hl/fuseops.rs\<close>) and
  what \<open>fuse_main\<close> of \<open>fuse_hl/mod.rs\<close> enters into it: a request of the kernel is a value with the
  arguments of its callback, and serving it is running the handler of the table.

  The library answers a request without a handler itself; \<open>xmp_readdir\<close> and \<open>xmp_read_buf\<close>, which
  the repository has in C, are parameters.
\<close>

text \<open>One constructor per entry of the table, in its order; buffers to be filled are left out.\<close>

datatype fuse_operations =
    FO_getattr path "fuse_file_info option"
  | FO_readlink path nat
  | FO_mknod path u32 u64
  | FO_mkdir path u32
  | FO_unlink path
  | FO_rmdir path
  | FO_symlink path path
  | FO_rename path path u32
  | FO_link path path
  | FO_chmod path u32 "fuse_file_info option"
  | FO_chown path u32 u32 "fuse_file_info option"
  | FO_truncate path i64 "fuse_file_info option"
  | FO_open path fuse_file_info
  | FO_read path nat i64 "fuse_file_info option"
  | FO_write path bytes i64 "fuse_file_info option"
  | FO_statfs path
  | FO_flush path "fuse_file_info option"
  | FO_release path "fuse_file_info option"
  | FO_fsync path i32 "fuse_file_info option"
  | FO_setxattr path bytes bytes i32
  | FO_getxattr path bytes nat
  | FO_listxattr path nat
  | FO_removexattr path bytes
  | FO_opendir path fuse_file_info
  | FO_readdir path i64 fuse_file_info u32
  | FO_releasedir path "fuse_file_info option"
  | FO_fsyncdir path i32 "fuse_file_info option"
  | FO_init fuse_conn_info fuse_config
  | FO_destroy
  | FO_access path i32
  | FO_create path u32 "fuse_file_info option"
  | FO_lock path "fuse_file_info option" i32
  | FO_utimens path "Timespec \<times> Timespec" "fuse_file_info option"
  | FO_bmap path nat
  | FO_ioctl path i32 "fuse_file_info option" u32
  | FO_poll path "fuse_file_info option"
  | FO_write_buf path i64 "fuse_file_info option"
  | FO_read_buf path nat i64 "fuse_file_info option"
  | FO_flock path "fuse_file_info option" i32
  | FO_fallocate path i32 i64 i64 "fuse_file_info option"

text \<open>What a handler leaves beside its result: a file handle it has set, data it has put into a buffer.\<close>

datatype 'v fuse_out =
    Out_none
  | Out_handle fuse_file_info
  | Out_bytes bytes
  | Out_stat stat
  | Out_statvfs 'v
  | Out_init fuse_conn_info fuse_config

text \<open>The mounted file system: the server, the machine below it and the open directories.\<close>

record ('c, 's) mounted =
  m_server :: "'c server"
  m_disk :: 's
  m_dirs :: dirps

text \<open>What the process is started with.\<close>

record ('c, 's, 'v) mount_env =
  me_env :: "'c env"
  me_os :: "'s os"
  me_rd :: "('s, 'v) rd_os"
  me_diff_writes :: bool
  me_read_at :: "int \<Rightarrow> nat \<Rightarrow> i64 \<Rightarrow> 's \<Rightarrow> bytes result"
  me_box :: "dirps \<Rightarrow> int"
  me_readdir :: "path \<Rightarrow> i64 \<Rightarrow> fuse_file_info \<Rightarrow> u32 \<Rightarrow> 's \<Rightarrow> (int \<times> bytes \<times> 's) result"
  me_read_buf :: "path \<Rightarrow> nat \<Rightarrow> i64 \<Rightarrow> fuse_file_info option \<Rightarrow> 's \<Rightarrow> (int \<times> bytes \<times> 's) result"

text \<open>The thread that serves a request: its identity, the caller and the answers that arrive meanwhile.\<close>

record served_by =
  sb_tid :: u64
  sb_ctx :: fuse_context
  sb_arrive :: "responses \<Rightarrow> responses"

definition ENOSYS :: int where "ENOSYS = 38"

definition of_write :: "('c, 's) mounted \<Rightarrow> ('c, 's) handled \<Rightarrow> (int \<times> 'v fuse_out \<times> ('c, 's) mounted) result option" where
  "of_write m r = map_option (rmap (\<lambda>(res, srv, s). (res, Out_none, m\<lparr>m_server := srv, m_disk := s\<rparr>))) r"

definition of_create :: "('c, 's) mounted \<Rightarrow> ('c, fuse_file_info \<times> 's) handled \<Rightarrow> (int \<times> 'v fuse_out \<times> ('c, 's) mounted) result option" where
  "of_create m r = map_option (rmap (\<lambda>(res, srv, fi, s). (res, Out_handle fi, m\<lparr>m_server := srv, m_disk := s\<rparr>))) r"

definition of_read :: "('c, 's) mounted \<Rightarrow> ('o \<Rightarrow> 'v fuse_out) \<Rightarrow> (int \<times> 'o \<times> 's) result \<Rightarrow> (int \<times> 'v fuse_out \<times> ('c, 's) mounted) result option" where
  "of_read m out r = Some (rmap (\<lambda>(res, x, s). (res, out x, m\<lparr>m_disk := s\<rparr>)) r)"

text \<open>\<open>fuse_main\<close>: the handler of each entry.\<close>

definition fuse_main :: "('c, 's, 'v) mount_env \<Rightarrow> served_by \<Rightarrow> fuse_operations \<Rightarrow> ('c, 's) mounted
    \<Rightarrow> (int \<times> 'v fuse_out \<times> ('c, 's) mounted) result option" where
  "fuse_main me thr req m =
     (let e = me_env me; os = me_os me; rd = me_rd me; srv = m_server m; s = m_disk m;
          arrive = sb_arrive thr; tid = sb_tid thr; ctx = sb_ctx thr in
      case req of
        FO_mknod p md rdev \<Rightarrow> of_write m (do_mknod e os arrive tid ctx p md rdev srv s)
      | FO_mkdir p md \<Rightarrow> of_write m (do_mkdir e os arrive tid ctx p md srv s)
      | FO_symlink from to \<Rightarrow> of_write m (do_symlink e os arrive tid ctx from to srv s)
      | FO_unlink p \<Rightarrow> of_write m (do_unlink e os arrive tid p srv s)
      | FO_rmdir p \<Rightarrow> of_write m (do_rmdir e os arrive tid p srv s)
      | FO_rename from to flags \<Rightarrow> of_write m (do_rename e os arrive tid from to flags srv s)
      | FO_link from to \<Rightarrow> of_write m (do_link e os arrive tid ctx from to srv s)
      | FO_chmod p md fi \<Rightarrow> of_write m (do_chmod e os arrive tid p md fi srv s)
      | FO_chown p uid gid fi \<Rightarrow> of_write m (do_chown e os arrive tid p uid gid fi srv s)
      | FO_truncate p sz fi \<Rightarrow> of_write m (do_truncate e os arrive tid p sz fi srv s)
      | FO_create p md fi \<Rightarrow> of_create m (do_create e os arrive tid ctx p md fi srv s)
      | FO_write p buf off fi \<Rightarrow> of_write m (do_write e os (me_diff_writes me) (me_read_at me) arrive tid p buf off fi srv s)
      | FO_utimens p ts fi \<Rightarrow> of_write m (do_utimens e os arrive tid p ts fi srv s)
      | FO_fallocate p md off len fi \<Rightarrow> of_write m (do_fallocate e os arrive tid p md off len fi srv s)
      | FO_setxattr p name val flags \<Rightarrow> of_write m (do_setxattr e os arrive tid p name val flags srv s)
      | FO_removexattr p name \<Rightarrow> of_write m (do_removexattr e os arrive tid p name srv s)
      | FO_fsync p d fi \<Rightarrow> of_write m (do_fsync e os arrive tid p d fi srv s)
      | FO_init conn cfg \<Rightarrow> (case xmp_init conn cfg of (conn', cfg') \<Rightarrow> Some (Inr (0, Out_init conn' cfg', m)))
      | FO_getattr p fi \<Rightarrow> of_read m Out_stat (xmp_getattr e rd p fi s)
      | FO_readlink p n \<Rightarrow> of_read m Out_bytes (xmp_readlink e rd p n s)
      | FO_opendir p fi \<Rightarrow> Some (rmap (\<lambda>(res, fi', ds, s'). (res, Out_handle fi', m\<lparr>m_disk := s', m_dirs := ds\<rparr>))
            (xmp_opendir e rd (me_box me) p fi (m_dirs m) s))
      | FO_readdir p off fi flags \<Rightarrow> of_read m Out_bytes (me_readdir me p off fi flags s)
      | FO_releasedir p fi \<Rightarrow> Some (rmap (\<lambda>(res, ds, s'). (res, Out_none, m\<lparr>m_disk := s', m_dirs := ds\<rparr>)) (xmp_releasedir rd fi (m_dirs m) s))
      | FO_open p fi \<Rightarrow> of_read m Out_handle (xmp_open e rd p fi s)
      | FO_read p n off fi \<Rightarrow> of_read m Out_bytes (xmp_read e rd p n off fi s)
      | FO_read_buf p n off fi \<Rightarrow> of_read m Out_bytes (me_read_buf me p n off fi s)
      | FO_statfs p \<Rightarrow> of_read m Out_statvfs (xmp_statfs e rd p s)
      | FO_flush p fi \<Rightarrow> of_read m (\<lambda>_. Out_none) (rmap (\<lambda>(res, s'). (res, (), s')) (xmp_flush rd fi s))
      | FO_release p fi \<Rightarrow> of_read m (\<lambda>_. Out_none) (rmap (\<lambda>(res, s'). (res, (), s')) (xmp_release rd fi s))
      | FO_getxattr p name n \<Rightarrow> of_read m Out_bytes (xmp_getxattr e rd p name n s)
      | FO_listxattr p n \<Rightarrow> of_read m Out_bytes (xmp_listxattr e rd p n s)
      | _ \<Rightarrow> Some (Inr (- ENOSYS, Out_none, m)))"

text \<open>The requests of a session, one after the other; a panic ends it.\<close>

fun fuse_session :: "('c, 's, 'v) mount_env \<Rightarrow> (served_by \<times> fuse_operations) list \<Rightarrow> ('c, 's) mounted
    \<Rightarrow> ((int \<times> 'v fuse_out) list \<times> ('c, 's) mounted) result option" where
  "fuse_session me [] m = Some (Inr ([], m))"
| "fuse_session me ((thr, req) # rest) m = (case fuse_main me thr req m of
       None \<Rightarrow> None
     | Some (Inl f) \<Rightarrow> Some (Inl f)
     | Some (Inr (res, out, m1)) \<Rightarrow> map_option (rmap (\<lambda>(outs, m2). ((res, out) # outs, m2))) (fuse_session me rest m1))"

end
