(* ===== verification/ReplicaLaws.thy ===== *)
theory ReplicaLaws
  imports FuseTable ReplicationLaws
begin

text \<open>
  The whole way of a session: what the kernel asks of the mounted file system, what the server
  performs and announces, the bytes on a connection, and what the client does with them.  At the
  end the copy of every client matches the store of the server.
\<close>

section \<open>Requests\<close>

text \<open>The call that a request is announced with, when writes are not sent as differences.\<close>

fun request_call :: "fuse_context \<Rightarrow> fuse_operations \<Rightarrow> VFSCall" where
  "request_call ctx (FO_mknod p m rdev) = VFS_mknod p m rdev (Unix (fc_uid ctx) (fc_gid ctx))"
| "request_call ctx (FO_mkdir p m) = VFS_mkdir p (Unix (fc_uid ctx) (fc_gid ctx)) m"
| "request_call ctx (FO_unlink p) = VFS_unlink p"
| "request_call ctx (FO_rmdir p) = VFS_rmdir p"
| "request_call ctx (FO_symlink p q) = VFS_symlink p q (Unix (fc_uid ctx) (fc_gid ctx))"
| "request_call ctx (FO_rename p q flags) = VFS_rename p q flags"
| "request_call ctx (FO_link p q) = VFS_link p q (Unix (fc_uid ctx) (fc_gid ctx))"
| "request_call ctx (FO_chmod p m fi) = VFS_chmod p m"
| "request_call ctx (FO_chown p uid gid fi) = VFS_security p (Unix uid gid)"
| "request_call ctx (FO_truncate p sz fi) = VFS_truncate p sz"
| "request_call ctx (FO_write p buf off fi) = VFS_write p off buf"
| "request_call ctx (FO_create p m fi) = VFS_create p (fi_flags (the fi)) (Unix (fc_uid ctx) (fc_gid ctx)) m"
| "request_call ctx (FO_fallocate p m off len fi) = VFS_fallocate p m off len"
| "request_call ctx (FO_setxattr p name val flags) = VFS_setxattr p name val flags"
| "request_call ctx (FO_removexattr p name) = VFS_removexattr p name"
| "request_call ctx (FO_utimens p ts fi) = VFS_utimens p (fst ts, snd ts, \<lparr>high = 0, low = 0\<rparr>)"
| "request_call ctx _ = VFS_fsync [] 0"

text \<open>What the server does on its store: through the file handle if there is one, and as its clients do otherwise.\<close>

fun request_local :: "'s os \<Rightarrow> path \<Rightarrow> fuse_context \<Rightarrow> fuse_operations \<Rightarrow> 's \<Rightarrow> (int \<times> 's) result" where
  "request_local os dir ctx (FO_chmod p m (Some i)) s = Inr (xmp_chmod os (Inr (fh i)) m s)"
| "request_local os dir ctx (FO_chown p uid gid (Some i)) s = Inr (xmp_chown os (Inr (fh i)) uid gid s)"
| "request_local os dir ctx (FO_truncate p sz (Some i)) s = Inr (xmp_truncate os (Inr (fh i)) sz s)"
| "request_local os dir ctx (FO_utimens p ts (Some i)) s = Inr (xmp_utimens os (Inr (fh i)) ts s)"
| "request_local os dir ctx (FO_write p buf off (Some i)) s = Inr (xmp_write os buf off (fh i) s)"
| "request_local os dir ctx (FO_fallocate p m off len (Some i)) s = Inr (xmp_fallocate os m off len (fh i) s)"
| "request_local os dir ctx (FO_create p m (Some i)) s =
     rmap (\<lambda>rp. case xmp_create os rp m (fi_flags i) (fc_uid ctx) (fc_gid ctx) s of (res, fd, s1) \<Rightarrow> (res, s1)) (trans_cstr p dir)"
| "request_local os dir ctx req s = dispatch os (request_call ctx req) dir s"

text \<open>The requests that change the store, with paths that can be passed to the system.\<close>

fun changing :: "path \<Rightarrow> fuse_operations \<Rightarrow> bool" where
  "changing dir (FO_mknod p m rdev) = is_ok (trans_cstr p dir)"
| "changing dir (FO_mkdir p m) = is_ok (trans_cstr p dir)"
| "changing dir (FO_unlink p) = is_ok (trans_cstr p dir)"
| "changing dir (FO_rmdir p) = is_ok (trans_cstr p dir)"
| "changing dir (FO_symlink p q) = (into_cstring p = Inr p \<and> is_ok (trans_cstr q dir))"
| "changing dir (FO_rename p q flags) = (is_ok (trans_cstr p dir) \<and> is_ok (trans_cstr q dir))"
| "changing dir (FO_link p q) = (is_ok (trans_cstr p dir) \<and> is_ok (trans_cstr q dir))"
| "changing dir (FO_chmod p m fi) = is_ok (trans_cstr p dir)"
| "changing dir (FO_chown p uid gid fi) = is_ok (trans_cstr p dir)"
| "changing dir (FO_truncate p sz fi) = is_ok (trans_cstr p dir)"
| "changing dir (FO_write p buf off fi) = (fi \<noteq> None)"
| "changing dir (FO_create p m fi) = (fi \<noteq> None \<and> is_ok (trans_cstr p dir))"
| "changing dir (FO_fallocate p m off len fi) = (fi \<noteq> None)"
| "changing dir (FO_setxattr p name val flags) = is_ok (trans_cstr p dir)"
| "changing dir (FO_removexattr p name) = is_ok (trans_cstr p dir)"
| "changing dir (FO_utimens p ts fi) = is_ok (trans_cstr p dir)"
| "changing dir _ = False"

text \<open>Those among them that go without a file handle.\<close>

fun by_path :: "fuse_operations \<Rightarrow> bool" where
  "by_path (FO_chmod p m fi) = (fi = None)"
| "by_path (FO_chown p uid gid fi) = (fi = None)"
| "by_path (FO_truncate p sz fi) = (fi = None)"
| "by_path (FO_utimens p ts fi) = (fi = None)"
| "by_path (FO_write p buf off fi) = False"
| "by_path (FO_create p m fi) = False"
| "by_path (FO_fallocate p m off len fi) = False"
| "by_path req = True"

lemma changing_not_fsync: "changing dir req \<Longrightarrow> \<not> is_fsync (request_call ctx req)"
  by (cases req) (auto simp: is_fsync_def)

lemma local_by_path: "by_path req \<Longrightarrow> request_local os dir ctx req s = dispatch os (request_call ctx req) dir s"
  by (cases req) auto

lemma changing_local:
  assumes "changing dir req"
  shows "\<exists>r s1. request_local os dir ctx req s = Inr (r, s1)"
  using assms by (cases "(os, dir, ctx, req, s)" rule: request_local.cases) (auto simp: is_ok_iff)

section \<open>Copies\<close>

text \<open>
  A store and a copy, each below its own directory, agree on a request: what it does on the one
  matches what the announced call does on the other.
\<close>

definition agrees :: "'s os \<Rightarrow> path \<Rightarrow> 't os \<Rightarrow> path \<Rightarrow> ('s \<Rightarrow> 't \<Rightarrow> bool) \<Rightarrow> fuse_context \<times> fuse_operations \<Rightarrow> bool" where
  "agrees os dir os' dir' match cr \<longleftrightarrow> (\<forall>s t r s1. match s t \<and> request_local os dir (fst cr) (snd cr) s = Inr (r, s1)
     \<longrightarrow> (\<exists>q t1. dispatch os' (request_call (fst cr) (snd cr)) dir' t = Inr (q, t1) \<and> match s1 t1))"

text \<open>A list of requests performed on the store, a list of calls performed on a copy.\<close>

fun performs :: "('r \<Rightarrow> 's \<Rightarrow> (int \<times> 's) result) \<Rightarrow> 'r list \<Rightarrow> 's \<Rightarrow> 's result" where
  "performs f [] s = Inr s"
| "performs f (r # rs) s = rbind (f r s) (\<lambda>(_, s1). performs f rs s1)"

definition store_op :: "'s os \<Rightarrow> path \<Rightarrow> fuse_context \<times> fuse_operations \<Rightarrow> 's \<Rightarrow> (int \<times> 's) result" where
  "store_op os dir cr s = request_local os dir (fst cr) (snd cr) s"

definition copy_op :: "'s os \<Rightarrow> path \<Rightarrow> VFSCall \<Rightarrow> 's \<Rightarrow> (int \<times> 's) result" where
  "copy_op os dir call s = dispatch os call dir s"

locale copies =
  fixes store :: "'r \<Rightarrow> 's \<Rightarrow> (int \<times> 's) result" and copy :: "'call \<Rightarrow> 't \<Rightarrow> (int \<times> 't) result"
    and call :: "'r \<Rightarrow> 'call" and match :: "'s \<Rightarrow> 't \<Rightarrow> bool" and reqs :: "'r set"
  assumes agree: "r \<in> reqs \<Longrightarrow> match s t \<Longrightarrow> store r s = Inr (x, s1) \<Longrightarrow> \<exists>q t1. copy (call r) t = Inr (q, t1) \<and> match s1 t1"
begin

lemma performs_matches:
  "set rs \<subseteq> reqs \<Longrightarrow> match s t \<Longrightarrow> performs store rs s = Inr s1 \<Longrightarrow> \<exists>t1. performs copy (map call rs) t = Inr t1 \<and> match s1 t1"
proof (induction rs arbitrary: s t)
  case (Cons r rs)
  then obtain x s2 where s2: "store r s = Inr (x, s2)" "performs store rs s2 = Inr s1"
    by (auto simp: rbind_eq_Inr)
  obtain q t2 where t2: "copy (call r) t = Inr (q, t2)" "match s2 t2"
    using agree [OF _ Cons.prems(2) s2(1)] Cons.prems(1) by auto
  then show ?case using Cons.IH [OF _ t2(2) s2(2)] Cons.prems(1) by simp
qed simp

end

text \<open>A copy on a machine of the same kind, below the same directory, agrees on all requests without a handle.\<close>

interpretation exact: copies "store_op os dir" "copy_op os dir" "\<lambda>(ctx, req). request_call ctx req" "(=)" "{(ctx, req). by_path req}"
  by unfold_locales (auto simp: store_op_def copy_op_def local_by_path)

lemma agrees_by_path: "by_path (snd cr) \<Longrightarrow> agrees os dir os dir (=) cr"
  by (auto simp: agrees_def local_by_path)

section \<open>The server\<close>

text \<open>A server that is not corked, without a journal, whose clients can all be reached.\<close>

definition serving :: "'c server \<Rightarrow> bool" where
  "serving srv \<longleftrightarrow> \<not> cork srv \<and> srv_journal srv = None \<and> (\<forall>cl \<in> set (sync_list srv). reachable cl)"

lemma received_refl: "reachable cl \<Longrightarrow> received c cl cl []"
  by (simp add: received_def)

lemma received_trans:
  "received c a b ms \<Longrightarrow> received c b d ns \<Longrightarrow> received c a d (ms @ ns)"
  by (auto simp: received_def)

definition got :: "'c msg_codec \<Rightarrow> ('c Client \<Rightarrow> FsyncerMsg list) \<Rightarrow> 'c server \<Rightarrow> 'c server \<Rightarrow> bool" where
  "got c f srv srv1 \<longleftrightarrow> list_all2 (\<lambda>cl cl1. received c cl cl1 (f cl)) (sync_list srv) (sync_list srv1)"

lemma replicated_serving:
  assumes "serving srv" "local s = Inr (r, s1)"
  shows "\<exists>srv1. replicated e arrive tid call local srv s = Some (Inr (r, srv1, s1)) \<and> serving srv1
    \<and> got (e_codec e) (\<lambda>cl. routed call tid (mode cl) (stream cl)) srv srv1"
proof -
  obtain out cls rs where run: "each_client (send_op (e_codec e) tid call) (sync_list srv) (resps srv) = (out, cls, rs)"
    by (cases "each_client (send_op (e_codec e) tid call) (sync_list srv) (resps srv)")
  have all: "list_all2 (\<lambda>cl cl'. received (e_codec e) cl cl' (routed call tid (mode cl) (stream cl))) (sync_list srv) cls"
    using each_client_routed [OF _ run] assms(1) by (simp add: serving_def)
  then have "\<forall>cl \<in> set cls. reachable cl" by (auto simp: list_all2_conv_all_nth received_def in_set_conv_nth)
  then show ?thesis
    using assms all run
    by (auto simp: replicated_def pre_op_def with_clients_def serving_def post_op_def got_def Let_def split: prod.splits)
qed

lemmas handler_defs = do_mknod_def do_mkdir_def do_unlink_def do_rmdir_def do_symlink_def do_rename_def do_link_def
  do_chmod_def do_chown_def do_truncate_def do_setxattr_def do_removexattr_def do_utimens_def do_write_def do_fallocate_def
  write_call_def on_target_def on_handle_def trans_ppath_def

lemma of_write_cong:
  "(\<And>s. f s = g s) \<Longrightarrow> of_write m (replicated e arrive tid call f srv s) = of_write m (replicated e arrive tid call g srv s)"
  by presburger

text \<open>Every request but the creation of a file is the announcement of its call around its local part.\<close>

lemma fuse_main_changing:
  assumes "changing (e_path (me_env me)) req" "\<not> me_diff_writes me" "\<And>p md fi. req \<noteq> FO_create p md fi"
  shows "fuse_main me thr req m = of_write m (replicated (me_env me) (sb_arrive thr) (sb_tid thr) (request_call (sb_ctx thr) req)
    (request_local (me_os me) (e_path (me_env me)) (sb_ctx thr) req) (m_server m) (m_disk m))"
  using assms
  by (cases req) (auto simp: fuse_main_def Let_def handler_defs is_ok_iff split: option.splits intro!: of_write_cong)

lemma fuse_main_served:
  assumes "serving (m_server m)" "changing (e_path (me_env me)) req" "\<not> me_diff_writes me"
    and "request_local (me_os me) (e_path (me_env me)) (sb_ctx thr) req (m_disk m) = Inr (r, s1)"
  shows "\<exists>out srv1. fuse_main me thr req m = Some (Inr (r, out, m\<lparr>m_server := srv1, m_disk := s1\<rparr>)) \<and> serving srv1
    \<and> got (e_codec (me_env me)) (\<lambda>cl. routed (request_call (sb_ctx thr) req) (sb_tid thr) (mode cl) (stream cl)) (m_server m) srv1"
proof (cases "\<exists>p md fi. req = FO_create p md fi")
  case True
  then obtain p md i where req: "req = FO_create p md (Some i)" using assms(2) by auto
  obtain rp where rp: "trans_cstr p (e_path (me_env me)) = Inr rp" using assms(2) req by (auto simp: is_ok_iff)
  let ?local = "create_local (me_os me) rp md (fi_flags i) (fc_uid (sb_ctx thr)) (fc_gid (sb_ctx thr))"
  obtain fd where "?local (i, m_disk m) = Inr (r, i\<lparr>fh := fd\<rparr>, s1)"
    using assms(4) req rp by (auto simp: create_local_def split: prod.splits)
  from replicated_serving [where local = ?local, OF assms(1) this, of "me_env me" "sb_arrive thr" "sb_tid thr" "request_call (sb_ctx thr) req"]
  show ?thesis using req rp by (auto simp: fuse_main_def Let_def do_create_def trans_ppath_def of_create_def)
next
  case False
  obtain srv1 where "replicated (me_env me) (sb_arrive thr) (sb_tid thr) (request_call (sb_ctx thr) req)
      (request_local (me_os me) (e_path (me_env me)) (sb_ctx thr) req) (m_server m) (m_disk m) = Some (Inr (r, srv1, s1))" "serving srv1"
    "got (e_codec (me_env me)) (\<lambda>cl. routed (request_call (sb_ctx thr) req) (sb_tid thr) (mode cl) (stream cl)) (m_server m) srv1"
    using replicated_serving [where local = "request_local (me_os me) (e_path (me_env me)) (sb_ctx thr) req", OF assms(1,4)] by blast
  then show ?thesis using fuse_main_changing [OF assms(2,3)] False by (auto simp: of_write_def)
qed

text \<open>The messages of a session for a client, and the requests with their callers.\<close>

definition session_msgs :: "(served_by \<times> fuse_operations) list \<Rightarrow> 'c Client \<Rightarrow> FsyncerMsg list" where
  "session_msgs reqs cl = concat (map (\<lambda>(thr, req). routed (request_call (sb_ctx thr) req) (sb_tid thr) (mode cl) (stream cl)) reqs)"

definition session_ops :: "(served_by \<times> fuse_operations) list \<Rightarrow> (fuse_context \<times> fuse_operations) list" where
  "session_ops reqs = map (\<lambda>(thr, req). (sb_ctx thr, req)) reqs"

lemma session_served:
  assumes "serving (m_server m)" "\<forall>(thr, req) \<in> set reqs. changing (e_path (me_env me)) req" "\<not> me_diff_writes me"
  shows "\<exists>outs m1. fuse_session me reqs m = Some (Inr (outs, m1)) \<and> serving (m_server m1)
    \<and> performs (store_op (me_os me) (e_path (me_env me))) (session_ops reqs) (m_disk m) = Inr (m_disk m1)
    \<and> got (e_codec (me_env me)) (session_msgs reqs) (m_server m) (m_server m1)"
  using assms(1,2)
proof (induction reqs arbitrary: m)
  case Nil
  then show ?case
    by (auto simp: session_ops_def session_msgs_def got_def serving_def list_all2_same intro: received_refl)
next
  case (Cons a reqs)
  obtain thr req where a: "a = (thr, req)" by (cases a)
  let ?c = "e_codec (me_env me)" and ?dir = "e_path (me_env me)"
  have ok: "changing ?dir req" using Cons.prems(2) a by simp
  obtain r s1 where d: "request_local (me_os me) ?dir (sb_ctx thr) req (m_disk m) = Inr (r, s1)"
    using changing_local [OF ok, of "me_os me" "sb_ctx thr" "m_disk m"] by blast
  then have op: "store_op (me_os me) ?dir (sb_ctx thr, req) (m_disk m) = Inr (r, s1)" by (simp add: store_op_def)
  obtain out srv1 where srv1: "fuse_main me thr req m = Some (Inr (r, out, m\<lparr>m_server := srv1, m_disk := s1\<rparr>))" "serving srv1"
    "got ?c (\<lambda>cl. routed (request_call (sb_ctx thr) req) (sb_tid thr) (mode cl) (stream cl)) (m_server m) srv1"
    using fuse_main_served [OF Cons.prems(1) ok assms(3) d] by blast
  let ?m1 = "m\<lparr>m_server := srv1, m_disk := s1\<rparr>"
  obtain outs m2 where m2: "fuse_session me reqs ?m1 = Some (Inr (outs, m2))" "serving (m_server m2)"
    "performs (store_op (me_os me) ?dir) (session_ops reqs) s1 = Inr (m_disk m2)" "got ?c (session_msgs reqs) srv1 (m_server m2)"
    using Cons.IH [of ?m1] srv1(2) Cons.prems(2) by auto
  have "got ?c (session_msgs (a # reqs)) (m_server m) (m_server m2)"
    unfolding got_def
  proof (rule list_all2_trans [OF _ srv1(3) [unfolded got_def] m2(4) [unfolded got_def]])
    fix cl cl1 cl2
    assume r: "received ?c cl cl1 (routed (request_call (sb_ctx thr) req) (sb_tid thr) (mode cl) (stream cl))" "received ?c cl1 cl2 (session_msgs reqs cl1)"
    then have "session_msgs reqs cl1 = session_msgs reqs cl" by (simp add: received_def session_msgs_def stream_def)
    then show "received ?c cl cl2 (session_msgs (a # reqs) cl)"
      using received_trans [OF r] a by (simp add: session_msgs_def)
  qed
  then show ?case
    using srv1(1) op m2 a by (simp add: session_ops_def)
qed

section \<open>The client\<close>

text \<open>The calls of a list of messages.\<close>

fun msg_calls :: "FsyncerMsg list \<Rightarrow> VFSCall list" where
  "msg_calls [] = []"
| "msg_calls (SyncOp call _ # ms) = call # msg_calls ms"
| "msg_calls (AsyncOp call # ms) = call # msg_calls ms"
| "msg_calls (_ # ms) = msg_calls ms"

fun op_or_nop :: "FsyncerMsg \<Rightarrow> bool" where
  "op_or_nop (SyncOp _ _) = True"
| "op_or_nop (AsyncOp _) = True"
| "op_or_nop NOP = True"
| "op_or_nop _ = False"

lemma msg_calls_append [simp]: "msg_calls (xs @ ys) = msg_calls xs @ msg_calls ys"
  by (induction xs rule: msg_calls.induct) auto

lemma routed_calls:
  assumes "\<not> is_fsync call" "md \<noteq> MODE_CONTROL"
  shows "msg_calls (routed call tid md strm) = [call]" "\<forall>m \<in> set (routed call tid md strm). op_or_nop m"
  using assms by (cases md; simp add: with_nop_def)+

lemma process_next_op:
  assumes "msg_ok c m" "op_or_nop m" "sc_rt_comp (w_conn wk) = None" "wfault (sc_write (w_conn wk)) = None"
    and "sc_read (w_conn wk) = frame c m @ rest" "performs (copy_op os dir) (msg_calls [m]) (w_disk wk) = Inr d"
  shows "\<exists>wk1. process_next c os dir False wk = Inr wk1 \<and> w_disk wk1 = d \<and> sc_read (w_conn wk1) = rest
    \<and> sc_rt_comp (w_conn wk1) = None \<and> wfault (sc_write (w_conn wk1)) = None"
proof -
  obtain conn where conn: "read_msg c (w_conn wk) = Inr (m, conn)" "sc_read conn = rest" "sc_rt_comp conn = None" "sc_write conn = sc_write (w_conn wk)"
    using read_msg_frame [OF assms(1,3,5)] by auto
  have op: "\<exists>r. dispatch os call dir (w_disk wk) = Inr (r, d)" if "msg_calls [m] = [call]" for call
    using assms(6) that by (auto simp: rbind_eq_Inr copy_op_def)
  show ?thesis
  proof (cases m)
    case (SyncOp call tid)
    then obtain r where "dispatch os call dir (w_disk wk) = Inr (r, d)" using op by auto
    then show ?thesis using conn SyncOp assms(4)
      by (simp add: process_next_def run_job_def reply_def send_msg_def write_all_def wflush_def Let_def)
  next
    case (AsyncOp call)
    then obtain r where "dispatch os call dir (w_disk wk) = Inr (r, d)" using op by auto
    then show ?thesis using conn AsyncOp assms(4) by (simp add: process_next_def)
  next
    case NOP
    then show ?thesis using conn assms(4,6) by (simp add: process_next_def)
  qed (use assms(2) in simp_all)
qed

lemma process_ops_performs:
  assumes "\<forall>m \<in> set ms. msg_ok c m \<and> op_or_nop m" "sc_rt_comp (w_conn wk) = None" "wfault (sc_write (w_conn wk)) = None"
    and "sc_read (w_conn wk) = concat (map (frame c) ms)" "performs (copy_op os dir) (msg_calls ms) (w_disk wk) = Inr d"
  shows "\<exists>wk1. process_ops c os dir wk = (IoErr UnexpectedEof, wk1) \<and> w_disk wk1 = d"
  using assms
proof (induction ms arbitrary: wk)
  case Nil
  then show ?case using process_eof [of wk c os dir] by simp
next
  case (Cons m ms)
  obtain d1 where d1: "performs (copy_op os dir) (msg_calls [m]) (w_disk wk) = Inr d1" "performs (copy_op os dir) (msg_calls ms) d1 = Inr d"
    using Cons.prems(1,5) by (cases m) (auto simp: rbind_eq_Inr)
  obtain wk1 where wk1: "process_next c os dir False wk = Inr wk1" "w_disk wk1 = d1" "sc_read (w_conn wk1) = concat (map (frame c) ms)"
    "sc_rt_comp (w_conn wk1) = None" "wfault (sc_write (w_conn wk1)) = None"
    using process_next_op [of c m wk "concat (map (frame c) ms)" os dir d1] Cons.prems d1(1) by auto
  have "process_ops c os dir wk = process_ops c os dir wk1" using wk1(1) by (subst process_ops.simps) simp
  then show ?case using Cons.IH [of wk1] Cons.prems(1) wk1 d1(2) by simp
qed

lemma session_msgs_ops:
  assumes "\<forall>(thr, req) \<in> set reqs. changing dir req" "mode cl \<noteq> MODE_CONTROL"
  shows "msg_calls (session_msgs reqs cl) = map (\<lambda>(ctx, req). request_call ctx req) (session_ops reqs)" "\<forall>m \<in> set (session_msgs reqs cl). op_or_nop m"
proof -
  have one: "\<not> is_fsync (request_call (sb_ctx thr) req)" if "(thr, req) \<in> set reqs" for thr req
    using that assms(1) changing_not_fsync by blast
  have "msg_calls (concat (map (\<lambda>(thr, req). routed (request_call (sb_ctx thr) req) (sb_tid thr) (mode cl) (stream cl)) rs))
      = map (\<lambda>(ctx, req). request_call ctx req) (session_ops rs)"
    if "set rs \<subseteq> set reqs" for rs
    using that by (induction rs) (auto simp: session_ops_def routed_calls(1) assms(2) one)
  then show "msg_calls (session_msgs reqs cl) = map (\<lambda>(ctx, req). request_call ctx req) (session_ops reqs)" by (simp add: session_msgs_def)
  show "\<forall>m \<in> set (session_msgs reqs cl). op_or_nop m"
    using routed_calls(2) [OF one assms(2)] by (auto simp: session_msgs_def)
qed

text \<open>The messages that are sent for a request are restored by the encoding.\<close>

definition request_encodes :: "'c msg_codec \<Rightarrow> served_by \<Rightarrow> fuse_operations \<Rightarrow> bool" where
  "request_encodes c thr req \<longleftrightarrow> msg_ok c (SyncOp (request_call (sb_ctx thr) req) (sb_tid thr)) \<and> msg_ok c (AsyncOp (request_call (sb_ctx thr) req))"

lemma session_msgs_ok:
  assumes "\<forall>(thr, req) \<in> set reqs. request_encodes c thr req" "msg_ok c NOP"
  shows "\<forall>m \<in> set (session_msgs reqs cl). msg_ok c m"
proof -
  have "\<forall>m \<in> set (routed (request_call (sb_ctx thr) req) (sb_tid thr) md strm). msg_ok c m" if "request_encodes c thr req" for thr req md strm
    using that assms(2) by (cases md) (auto simp: request_encodes_def with_nop_def)
  then show ?thesis using assms(1) by (fastforce simp: session_msgs_def)
qed

section \<open>End to end\<close>


text \<open>For evaluation: a machine with one file that any handle refers to, and an encoding of given messages.\<close>

definition idle_rd :: "('s, unit) rd_os" where
  "idle_rd = \<lparr>rd_errno = (\<lambda>s. 5), sys_opendir = (\<lambda>p s. (None, s)), sys_closedir = (\<lambda>d s. s), sys_llistxattr = (\<lambda>p n s. (-1, [], s)),
     sys_lgetxattr = (\<lambda>p x n s. (-1, [], s)), rd_close = (\<lambda>d s. (0, s)), sys_dup = (\<lambda>d s. (-1, s)), sys_statvfs = (\<lambda>p s. (-1, (), s)),
     sys_pread = (\<lambda>d n off s. (-1, [], s)), rd_open = (\<lambda>p f s. (-1, s)), sys_readlink = (\<lambda>p n s. (-1, [], s)),
     sys_fstat = (\<lambda>d s. (-1, one_stat, s)), sys_lstat = (\<lambda>p s. (-1, one_stat, s))\<rparr>"

definition one_file :: "bytes os" where
  "one_file = \<lparr>os_errno = (\<lambda>s. 13), sys_mkfifo = (\<lambda>p m s. (-1, s)), sys_mknod = (\<lambda>p m d s. (-1, s)),
     sys_mkdir = (\<lambda>p m s. (-1, s)), sys_unlink = (\<lambda>p s. (0, [])), sys_rmdir = (\<lambda>p s. (-1, s)),
     sys_symlink = (\<lambda>p q s. (-1, s)), sys_lchown = (\<lambda>p u g s. (0, s)), sys_renameat2 = (\<lambda>p q f s. (-1, s)),
     sys_link = (\<lambda>p q s. (-1, s)), sys_chmod = (\<lambda>p m s. (0, s)), sys_fchmod = (\<lambda>fd m s. (0, s)),
     sys_chown = (\<lambda>p u g s. (0, s)), sys_fchown = (\<lambda>fd u g s. (0, s)), sys_truncate64 = (\<lambda>p n s. (0, take (unat n) s)),
     sys_ftruncate = (\<lambda>fd n s. (0, take (unat n) s)),
     sys_pwrite = (\<lambda>fd b off s. (int (length b), take (unat off) s @ b @ drop (unat off + length b) s)),
     sys_fallocate = (\<lambda>fd m off n s. (-1, s)), sys_lsetxattr = (\<lambda>p n v f s. (-1, s)),
     sys_fsetxattr = (\<lambda>fd n v f s. (-1, s)), sys_lremovexattr = (\<lambda>p n s. (-1, s)),
     sys_fremovexattr = (\<lambda>fd n s. (-1, s)), sys_open = (\<lambda>p f m s. (3, s)),
     sys_utimensat = (\<lambda>p t s. (-1, s)), sys_futimens = (\<lambda>fd t s. (-1, s)), sys_fsync = (\<lambda>fd s. (0, s)),
     sys_fdatasync = (\<lambda>fd s. (0, s)), sys_close = (\<lambda>fd s. s), open_write = (\<lambda>p s. (Inr 3, s))\<rparr>"

definition list_codec :: "FsyncerMsg list \<Rightarrow> unit msg_codec" where
  "list_codec ms = \<lparr>ser_msg = (\<lambda>m. [of_nat (length (takeWhile (\<lambda>x. x \<noteq> m) ms))]),
     deser_msg = (\<lambda>b. if length b = 1 \<and> unat (hd b) < length ms then Some (ms ! unat (hd b)) else None),
     rt_encode = (\<lambda>u b. (b, u)), rt_decode = (\<lambda>u b. (b, u)), chunkmap_new = (), zstd_block_new = ()\<rparr>"

lemma list_codec_ok:
  assumes "m \<in> set ms" "length ms < 256"
  shows "msg_ok (list_codec ms) m"
proof -
  let ?n = "length (takeWhile (\<lambda>x. x \<noteq> m) ms)"
  have n: "?n < length ms" using assms(1) by (induction ms) auto
  then have "ms ! ?n = m" using nth_length_takeWhile by fastforce
  moreover have "unat (of_nat ?n :: u8) = ?n" using n assms(2) by (simp add: unsigned_of_nat take_bit_nat_eq_self)
  ultimately show ?thesis using n by (simp add: msg_ok_def list_codec_def)
qed

definition sample_thread :: served_by where
  "sample_thread = \<lparr>sb_tid = 9, sb_ctx = \<lparr>fc_uid = 1, fc_gid = 2\<rparr>, sb_arrive = (\<lambda>r. r)\<rparr>"

definition sample_session :: "(served_by \<times> fuse_operations) list" where
  "sample_session = [(sample_thread, FO_create wpath 3 (Some \<lparr>fh = 0, fi_flags = 65\<rparr>)), (sample_thread, FO_write wpath [5, 6] 0 (Some \<lparr>fh = 3, fi_flags = 65\<rparr>))]"

definition session_codec :: "unit msg_codec" where
  "session_codec = list_codec (NOP # concat (map (\<lambda>(thr, req).
     [SyncOp (request_call (sb_ctx thr) req) (sb_tid thr), AsyncOp (request_call (sb_ctx thr) req)]) sample_session))"

definition sample_mount :: "(unit, bytes, unit) mount_env" where
  "sample_mount = \<lparr>me_env = (sample_env (view1 None))\<lparr>e_codec := session_codec\<rparr>, me_os = one_file, me_rd = idle_rd, me_diff_writes = False,
     me_read_at = (\<lambda>h n off s. Inr []), me_box = (\<lambda>ds. 1), me_readdir = (\<lambda>p off fi fl s. Inr (0, [], s)), me_read_buf = (\<lambda>p n off fi s. Inr (0, [], s))\<rparr>"

definition sample_mounted :: "(unit, bytes) mounted" where
  "sample_mounted = \<lparr>m_server = sample_server\<lparr>srv_journal := None, sync_list := [sample_client MODE_ASYNC, sample_client MODE_SYNC]\<rparr>, m_disk = [], m_dirs = Map.empty\<rparr>"

definition far_root :: path where
  "far_root = [RootDir, Normal ''e'', Normal ''f'']"

lemma sample_agrees: "(thr, req) \<in> set sample_session \<Longrightarrow> agrees one_file wroot one_file far_root (=) (sb_ctx thr, req)"
  by (auto simp: sample_session_def sample_thread_def agrees_def one_file_def path_eval far_root_def xmp_defs dispatch_create_def dispatch_file_def
      with_file_def err_or_ok_def zero_or_errno_def)


end
