(* ===== verification/FuseBits.thy ===== *)
theory FuseBits
  imports Common
begin

unbundle bit_operations_syntax

text \<open>
  The bit fields of \<open>fuse_file_info\<close> as the bindings have them (\<open>fuse/bindings.rs\<close>): a unit of bytes,
  fields of any width within it, and the accessors that the low-level front end calls.  The
  high-level front end declares the same word a second time, as flags (\<open>fuse_hl/fuseops.rs\<close>).

  The machine is little-endian; an index beyond the storage is a panic.
\<close>

section \<open>Units of bit fields\<close>

definition no_such_byte :: string where
  "no_such_byte = ''index out of bounds''"

definition bf_get_bit :: "bytes \<Rightarrow> nat \<Rightarrow> bool result" where
  "bf_get_bit storage index =
     rbind (require (index div 8 < length storage) no_such_byte) (\<lambda>_.
       let byte = storage ! (index div 8); bmask = push_bit (index mod 8) 1 in Inr (byte AND bmask = bmask))"

definition bf_set_bit :: "bytes \<Rightarrow> nat \<Rightarrow> bool \<Rightarrow> bytes result" where
  "bf_set_bit storage index val =
     rbind (require (index div 8 < length storage) no_such_byte) (\<lambda>_.
       let byte = storage ! (index div 8); bmask = push_bit (index mod 8) 1 in
       Inr (storage[index div 8 := (if val then byte OR bmask else byte AND NOT bmask)]))"

text \<open>\<open>for i in 0..bit_width\<close>, from \<open>i\<close> on.\<close>

fun bf_get_from :: "bytes \<Rightarrow> nat \<Rightarrow> nat \<Rightarrow> nat \<Rightarrow> u64 \<Rightarrow> u64 result" where
  "bf_get_from storage off i 0 val = Inr val"
| "bf_get_from storage off i (Suc n) val =
     rbind (bf_get_bit storage (i + off)) (\<lambda>b. bf_get_from storage off (Suc i) n (if b then val OR push_bit i 1 else val))"

definition bf_get :: "bytes \<Rightarrow> nat \<Rightarrow> nat \<Rightarrow> u64 result" where
  "bf_get storage bit_offset bit_width = bf_get_from storage bit_offset 0 bit_width 0"

fun bf_set_from :: "bytes \<Rightarrow> nat \<Rightarrow> nat \<Rightarrow> nat \<Rightarrow> u64 \<Rightarrow> bytes result" where
  "bf_set_from storage off i 0 val = Inr storage"
| "bf_set_from storage off i (Suc n) val =
     rbind (bf_set_bit storage (i + off) (val AND push_bit i 1 = push_bit i 1)) (\<lambda>st. bf_set_from st off (Suc i) n val)"

definition bf_set :: "bytes \<Rightarrow> nat \<Rightarrow> nat \<Rightarrow> u64 \<Rightarrow> bytes result" where
  "bf_set storage bit_offset bit_width val = bf_set_from storage bit_offset 0 bit_width val"

section \<open>The fields of a file handle\<close>

text \<open>The place of each field: its first bit and its width.\<close>

datatype fi_field = FI_writepage | FI_direct_io | FI_keep_cache | FI_flush | FI_nonseekable | FI_flock_release | FI_cache_readdir | FI_padding

fun fi_place :: "fi_field \<Rightarrow> nat \<times> nat" where
  "fi_place FI_writepage = (0, 1)"
| "fi_place FI_direct_io = (1, 1)"
| "fi_place FI_keep_cache = (2, 1)"
| "fi_place FI_flush = (3, 1)"
| "fi_place FI_nonseekable = (4, 1)"
| "fi_place FI_flock_release = (5, 1)"
| "fi_place FI_cache_readdir = (6, 1)"
| "fi_place FI_padding = (32, 26)"

text \<open>The accessors \<open>writepage()\<close>, \<open>set_writepage(val)\<close> and so on of the unit of eight bytes.\<close>

definition fi_get :: "fi_field \<Rightarrow> bytes \<Rightarrow> u32 result" where
  "fi_get f unit = rmap ucast (bf_get unit (fst (fi_place f)) (snd (fi_place f)))"

definition fi_set :: "fi_field \<Rightarrow> u32 \<Rightarrow> bytes \<Rightarrow> bytes result" where
  "fi_set f val unit = bf_set unit (fst (fi_place f)) (snd (fi_place f)) (ucast val)"

definition new_bitfield_1 :: "u32 \<Rightarrow> u32 \<Rightarrow> u32 \<Rightarrow> u32 \<Rightarrow> u32 \<Rightarrow> u32 \<Rightarrow> u32 \<Rightarrow> u32 \<Rightarrow> bytes result" where
  "new_bitfield_1 writepage direct_io keep_cache flush nonseekable flock_release cache_readdir padding =
     rbind (fi_set FI_writepage writepage (replicate 8 0)) (\<lambda>b.
     rbind (fi_set FI_direct_io direct_io b) (\<lambda>b.
     rbind (fi_set FI_keep_cache keep_cache b) (\<lambda>b.
     rbind (fi_set FI_flush flush b) (\<lambda>b.
     rbind (fi_set FI_nonseekable nonseekable b) (\<lambda>b.
     rbind (fi_set FI_flock_release flock_release b) (\<lambda>b.
     rbind (fi_set FI_cache_readdir cache_readdir b) (\<lambda>b.
       fi_set FI_padding padding b)))))))"

section \<open>The flags of the high-level front end\<close>

definition flag_writepage :: u32 where "flag_writepage = 1"
definition flag_direct_io :: u32 where "flag_direct_io = 2"
definition flag_keep_cache :: u32 where "flag_keep_cache = 4"
definition flag_flush :: u32 where "flag_flush = 8"
definition flag_nonseekable :: u32 where "flag_nonseekable = 16"
definition flag_cache_readdir :: u32 where "flag_cache_readdir = 32"

text \<open>The word of flags is the first half of the unit.\<close>

definition flags_of_unit :: "bytes \<Rightarrow> u32" where
  "flags_of_unit unit = rd32 (take 4 unit)"

end
