(* ===== verification/FuseBitsLaws.thy ===== *)
theory FuseBitsLaws
  imports FuseBits
begin

unbundle bit_operations_syntax

text \<open>Bit fields: what is set is read back, and nothing else changes.\<close>

section \<open>Bits of a unit\<close>

definition bf_bit :: "bytes \<Rightarrow> nat \<Rightarrow> bool" where
  "bf_bit st k = bit (st ! (k div 8)) (k mod 8)"

lemma and_exp_iff:
  fixes w :: "'a::len word"
  assumes "n < LENGTH('a)"
  shows "w AND 2 ^ n = 2 ^ n \<longleftrightarrow> bit w n"
proof
  assume e: "w AND 2 ^ n = 2 ^ n"
  have "bit (2 ^ n :: 'a word) n" using assms by (simp add: bit_exp_iff)
  then have "bit (w AND 2 ^ n) n" using e by simp
  then show "bit w n" by (simp add: bit_and_iff)
next
  assume "bit w n"
  then show "w AND 2 ^ n = 2 ^ n" by (intro bit_eqI) (auto simp: bit_and_iff bit_exp_iff)
qed

lemma bf_get_bit_eq: "k < 8 * length st \<Longrightarrow> bf_get_bit st k = Inr (bf_bit st k)"
  by (simp add: bf_get_bit_def bf_bit_def and_exp_iff require_def less_mult_imp_div_less mult.commute Let_def)

lemma bf_set_bit_ok:
  assumes "k < 8 * length st"
  shows "\<exists>st1. bf_set_bit st k v = Inr st1 \<and> length st1 = length st \<and> (\<forall>j. bf_bit st1 j = (if j = k then v else bf_bit st j))"
proof -
  have k: "k div 8 < length st" using assms by (simp add: less_mult_imp_div_less mult.commute)
  have "j = k" if "j div 8 = k div 8" "j mod 8 = k mod 8" for j using that by (metis div_mult_mod_eq)
  then show ?thesis
    using k by (auto simp: bf_set_bit_def bf_bit_def nth_list_update bit_or_iff bit_and_iff bit_not_iff bit_exp_iff Let_def require_def)
qed

lemma bf_set_from_ok:
  assumes "off + i + n \<le> 8 * length st" "i + n \<le> 64"
  shows "\<exists>st1. bf_set_from st off i n v = Inr st1 \<and> length st1 = length st
    \<and> (\<forall>j. bf_bit st1 j = (if off + i \<le> j \<and> j < off + i + n then bit v (j - off) else bf_bit st j))"
  using assms
proof (induction n arbitrary: st i)
  case (Suc n)
  have v: "(v AND 2 ^ i = 2 ^ i) = bit v i" using Suc.prems(2) by (intro and_exp_iff) simp
  obtain st1 where st1: "bf_set_bit st (i + off) (bit v i) = Inr st1" "length st1 = length st"
    "\<And>j. bf_bit st1 j = (if j = i + off then bit v i else bf_bit st j)"
    using bf_set_bit_ok [of "i + off" st "bit v i"] Suc.prems(1) by auto
  obtain st2 where st2: "bf_set_from st1 off (Suc i) n v = Inr st2" "length st2 = length st1"
    "\<And>j. bf_bit st2 j = (if off + Suc i \<le> j \<and> j < off + Suc i + n then bit v (j - off) else bf_bit st1 j)"
    using Suc.IH [of "Suc i" st1] Suc.prems st1(2) by auto
  have "bf_bit st2 j = (if off + i \<le> j \<and> j < off + i + Suc n then bit v (j - off) else bf_bit st j)" for j
    unfolding st2(3) st1(3) by (cases "j = off + i") auto
  then show ?case using st1(1,2) st2(1,2) v by simp
qed auto

lemma bf_get_from_ok:
  assumes "off + i + n \<le> 8 * length st" "i + n \<le> 64"
  shows "\<exists>w. bf_get_from st off i n v = Inr w \<and> (\<forall>j. bit w j = (bit v j \<or> i \<le> j \<and> j < i + n \<and> bf_bit st (j + off)))"
  using assms
proof (induction n arbitrary: i v)
  case (Suc n)
  have g: "bf_get_bit st (i + off) = Inr (bf_bit st (i + off))" using Suc.prems(1) by (intro bf_get_bit_eq) simp
  let ?v = "if bf_bit st (i + off) then v OR push_bit i 1 else v"
  obtain w where w: "bf_get_from st off (Suc i) n ?v = Inr w" "\<And>j. bit w j = (bit ?v j \<or> Suc i \<le> j \<and> j < Suc i + n \<and> bf_bit st (j + off))"
    using Suc.IH [of "Suc i" ?v] Suc.prems by auto
  have b: "bit ?v j = (bit v j \<or> j = i \<and> bf_bit st (i + off))" for j
    using Suc.prems(2) by (simp add: bit_or_iff bit_exp_iff) linarith
  have "bit w j = (bit v j \<or> i \<le> j \<and> j < i + Suc n \<and> bf_bit st (j + off))" for j
  proof (cases "j = i")
    case True
    then show ?thesis using w(2) [of j] b [of j] by simp
  next
    case False
    then have "Suc i \<le> j \<longleftrightarrow> i \<le> j" by auto
    then show ?thesis using w(2) [of j] b [of j] False by simp
  qed
  then show ?case using g w(1) by (intro exI [of _ w]) simp
qed auto

lemma bf_get_ok:
  assumes "off + n \<le> 8 * length st" "n \<le> 64"
  shows "\<exists>w. bf_get st off n = Inr w \<and> (\<forall>j. bit w j = (j < n \<and> bf_bit st (j + off)))"
  using bf_get_from_ok [of off 0 n st 0] assms by (simp add: bf_get_def)

lemma bf_set_ok:
  assumes "off + n \<le> 8 * length st" "n \<le> 64"
  shows "\<exists>st1. bf_set st off n v = Inr st1 \<and> length st1 = length st
    \<and> (\<forall>j. bf_bit st1 j = (if off \<le> j \<and> j < off + n then bit v (j - off) else bf_bit st j))"
  using bf_set_from_ok [of off 0 n st v] assms by (simp add: bf_set_def)

text \<open>
  A field that lies within its unit is set without a panic, the unit keeps its size, the field then
  reads as the low bits of the value, and every field that does not overlap with it reads as before.
\<close>

lemma bitfield_set_get:
  assumes "off + n \<le> 8 * length st" "n \<le> 64"
  shows "\<exists>st1. bf_set st off n v = Inr st1 \<and> length st1 = length st \<and> bf_get st1 off n = Inr (take_bit n v)
    \<and> (\<forall>off2 n2. off2 + n2 \<le> 8 * length st \<and> n2 \<le> 64 \<and> (off2 + n2 \<le> off \<or> off + n \<le> off2) \<longrightarrow> bf_get st1 off2 n2 = bf_get st off2 n2)"
proof -
  obtain st1 where st1: "bf_set st off n v = Inr st1" "length st1 = length st"
    "\<And>j. bf_bit st1 j = (if off \<le> j \<and> j < off + n then bit v (j - off) else bf_bit st j)"
    using bf_set_ok [OF assms, of v] by auto
  obtain w where w: "bf_get st1 off n = Inr w" "\<And>j. bit w j = (j < n \<and> bf_bit st1 (j + off))"
    using bf_get_ok [of off n st1] assms st1(2) by auto
  have "w = take_bit n v" by (rule bit_eqI) (auto simp: w(2) st1(3) bit_take_bit_iff)
  moreover have "bf_get st1 off2 n2 = bf_get st off2 n2"
    if o: "off2 + n2 \<le> 8 * length st" "n2 \<le> 64" "off2 + n2 \<le> off \<or> off + n \<le> off2" for off2 n2
  proof -
    obtain a b where ab: "bf_get st1 off2 n2 = Inr a" "bf_get st off2 n2 = Inr b"
      "\<And>j. bit a j = (j < n2 \<and> bf_bit st1 (j + off2))" "\<And>j. bit b j = (j < n2 \<and> bf_bit st (j + off2))"
      using bf_get_ok [of off2 n2 st1] bf_get_ok [of off2 n2 st] o(1,2) st1(2) by auto
    have "a = b" by (rule bit_eqI) (use o(3) in \<open>auto simp: ab(3,4) st1(3)\<close>)
    then show ?thesis using ab by simp
  qed
  ultimately show ?thesis using st1(1,2) w(1) by auto
qed

section \<open>The fields of a file handle\<close>

lemma fi_place_ok: "length st = 8 \<Longrightarrow> fst (fi_place f) + snd (fi_place f) \<le> 8 * length st \<and> snd (fi_place f) \<le> 32"
  by (cases f) simp_all

lemma fi_places_apart:
  "f \<noteq> g \<Longrightarrow> fst (fi_place g) + snd (fi_place g) \<le> fst (fi_place f) \<or> fst (fi_place f) + snd (fi_place f) \<le> fst (fi_place g)"
  by (cases f; cases g) simp_all

lemma take_bit_narrow: "n \<le> 32 \<Longrightarrow> ucast (take_bit n (ucast v :: u64)) = take_bit n (v :: u32)"
  by (rule bit_eqI) (auto simp: bit_ucast_iff bit_take_bit_iff)

text \<open>
  C17. The fields of a file handle are independent: each accessor sets its field of the eight bytes
  without a panic, the field then reads as the low bits of the value, cut to its width, and all
  the other fields read as before.
\<close>

theorem file_info_fields:
  assumes "length unit = 8"
  shows "\<exists>unit1. fi_set f v unit = Inr unit1 \<and> length unit1 = 8 \<and> fi_get f unit1 = Inr (take_bit (snd (fi_place f)) v)
    \<and> (\<forall>g. g \<noteq> f \<longrightarrow> fi_get g unit1 = fi_get g unit)"
proof -
  have w: "snd (fi_place g) \<le> 64" for g using fi_place_ok [OF assms, of g] by simp
  obtain u where u: "bf_set unit (fst (fi_place f)) (snd (fi_place f)) (ucast v) = Inr u" "length u = 8"
    "bf_get u (fst (fi_place f)) (snd (fi_place f)) = Inr (take_bit (snd (fi_place f)) (ucast v))"
    "\<forall>off2 n2. off2 + n2 \<le> 8 * length unit \<and> n2 \<le> 64 \<and> (off2 + n2 \<le> fst (fi_place f) \<or> fst (fi_place f) + snd (fi_place f) \<le> off2)
      \<longrightarrow> bf_get u off2 n2 = bf_get unit off2 n2"
    using bitfield_set_get [of "fst (fi_place f)" "snd (fi_place f)" unit "ucast v"] fi_place_ok [OF assms, of f] w [of f] assms by auto
  have "fi_get g u = fi_get g unit" if "g \<noteq> f" for g
    using u(4) fi_places_apart [of f g] that fi_place_ok [OF assms, of g] w [of g] by (simp add: fi_get_def)
  then show ?thesis
    using u(1-3) take_bit_narrow [of "snd (fi_place f)" v] fi_place_ok [OF assms, of f] by (simp add: fi_set_def fi_get_def)
qed

theorem file_info_fields_witness:
  "\<exists>unit1. fi_set FI_keep_cache 3 (replicate 8 0) = Inr unit1 \<and> fi_get FI_keep_cache unit1 = Inr 1 \<and> fi_get FI_direct_io unit1 = Inr 0"
proof -
  have "fi_get FI_direct_io (replicate 8 0) = Inr 0" by code_simp
  moreover have "take_bit (snd (fi_place FI_keep_cache)) (3 :: u32) = 1" by simp
  ultimately show ?thesis using file_info_fields [of "replicate 8 0" FI_keep_cache 3] by auto
qed

text \<open>
  The two front ends disagree on one field: a unit in which the bindings set \<open>cache_readdir\<close> does
  not show it in the flags of the high-level front end, which show it for \<open>flock_release\<close>.
\<close>

lemma cache_readdir_misplaced:
  "rmap flags_of_unit (new_bitfield_1 0 0 0 0 0 0 1 0) = Inr 64" "rmap flags_of_unit (new_bitfield_1 0 0 0 0 0 1 0 0) = Inr flag_cache_readdir"
  "rmap flags_of_unit (new_bitfield_1 1 0 0 0 0 0 0 0) = Inr flag_writepage" "rmap flags_of_unit (new_bitfield_1 0 1 0 0 0 0 0 0) = Inr flag_direct_io"
  "rmap flags_of_unit (new_bitfield_1 0 0 1 0 0 0 0 0) = Inr flag_keep_cache" "rmap flags_of_unit (new_bitfield_1 0 0 0 1 0 0 0 0) = Inr flag_flush"
  "rmap flags_of_unit (new_bitfield_1 0 0 0 0 1 0 0 0) = Inr flag_nonseekable"
  by code_simp+

end
