(* ===== verification/Net.thy ===== *)
theory Net
  imports Server
begin

text \<open>
  The sockets of the server (\<open>server/net.rs\<close>) and errors with their traces (\<open>error.rs\<close>).

  The socket calls of the system are a parameter: functions on a state.  \<open>write_all\<close> of the standard
  library, which the server calls on a connection, is written out as its loop; it ends with the
  system's help only, so it may have no answer.
\<close>

section \<open>Errors\<close>

record 'e Error =
  err_error :: 'e
  err_trace :: "(string \<times> u32) list"

definition from_error :: "'e \<Rightarrow> 'e Error" where
  "from_error e = \<lparr>err_error = e, err_trace = []\<rparr>"

text \<open>\<open>trace_err!\<close> at a position of the source, on an error that may have a trace already.\<close>

definition trace_err :: "string \<times> u32 \<Rightarrow> 'e Error \<Rightarrow> 'e Error" where
  "trace_err pos e = e\<lparr>err_trace := err_trace e @ [pos]\<rparr>"

definition trace_result :: "string \<times> u32 \<Rightarrow> 'e Error + 'a \<Rightarrow> 'e Error + 'a" where
  "trace_result pos r = (case r of Inr x \<Rightarrow> Inr x | Inl e \<Rightarrow> Inl (trace_err pos e))"

definition error_display :: "('e \<Rightarrow> string) \<Rightarrow> 'e Error \<Rightarrow> string" where
  "error_display fmt e = fmt (err_error e) @ '' from: '' @ concat (map (\<lambda>(f, l). f @ ''::'' @ show_nat (unat l) @ '' '') (err_trace e))"

definition error_debug :: "('e \<Rightarrow> string) \<Rightarrow> 'e Error \<Rightarrow> string" where
  "error_debug fmt e = fmt (err_error e) @ '' from: '' @ concat (map (\<lambda>(f, l). f @ '':'' @ show_nat (unat l) @ '' '') (err_trace e))"

section \<open>Sockets\<close>

record 's sock_os =
  sk_errno :: "'s \<Rightarrow> int"
  sk_send :: "int \<Rightarrow> bytes \<Rightarrow> i32 \<Rightarrow> 's \<Rightarrow> int \<times> 's"
  sk_setsockopt :: "int \<Rightarrow> i32 \<Rightarrow> i32 \<Rightarrow> i32 \<Rightarrow> 's \<Rightarrow> int \<times> 's"
  sk_accept_tcp :: "'s \<Rightarrow> (io_error + int \<times> string) \<times> 's"
  sk_accept_unix :: "'s \<Rightarrow> (io_error + int \<times> string) \<times> 's"
  sk_send_buffer :: "int \<Rightarrow> nat \<Rightarrow> 's \<Rightarrow> (io_error + unit) \<times> 's"
  sk_try_clone :: "int \<Rightarrow> 's \<Rightarrow> (io_error + int) \<times> 's"
  sk_close :: "int \<Rightarrow> 's \<Rightarrow> 's"

definition MSG_MORE :: i32 where "MSG_MORE = 0x8000"
definition SOL_TCP :: i32 where "SOL_TCP = 6"
definition TCP_CORK :: i32 where "TCP_CORK = 3"
definition EINTR :: int where "EINTR = 4"

text \<open>
  \<open>NagleFlush\<close>: what is written may wait for more, a flush takes the cork off and so pushes it out;
  whether that worked is not asked.
\<close>

definition nagle_write :: "'s sock_os \<Rightarrow> int \<Rightarrow> bytes \<Rightarrow> 's \<Rightarrow> (io_error + nat) \<times> 's" where
  "nagle_write os fd buf s =
     (let (res, s1) = sk_send os fd buf MSG_MORE s in
      if res = -1 then (Inl (Os (sk_errno os s1)), s1) else (Inr (nat (res mod 2 ^ 64)), s1))"

definition nagle_flush :: "'s sock_os \<Rightarrow> int \<Rightarrow> 's \<Rightarrow> (io_error + unit) \<times> 's" where
  "nagle_flush os fd s = (let (_, s1) = sk_setsockopt os fd SOL_TCP TCP_CORK 0 s in (Inr (), s1))"

text \<open>A stream that is not handed on is closed.\<close>

definition tcp_accept :: "'s sock_os \<Rightarrow> nat \<Rightarrow> 's \<Rightarrow> (io_error + int \<times> int \<times> string) \<times> 's" where
  "tcp_accept os buffer_size s = (case sk_accept_tcp os s of
       (Inl e, s1) \<Rightarrow> (Inl e, s1)
     | (Inr (fd, addr), s1) \<Rightarrow> (case sk_send_buffer os fd buffer_size s1 of
         (Inl e, s2) \<Rightarrow> (Inl e, sk_close os fd s2)
       | (Inr _, s2) \<Rightarrow> (case sk_try_clone os fd s2 of
           (Inl e, s3) \<Rightarrow> (Inl e, sk_close os fd s3)
         | (Inr fd2, s3) \<Rightarrow> (Inr (fd2, fd, addr), s3))))"

definition unix_accept :: "'s sock_os \<Rightarrow> nat \<Rightarrow> 's \<Rightarrow> (io_error + int \<times> int \<times> string) \<times> 's" where
  "unix_accept os buffer_size s = (case sk_accept_unix os s of
       (Inl e, s1) \<Rightarrow> (Inl e, s1)
     | (Inr (fd, addr), s1) \<Rightarrow> (case sk_try_clone os fd s1 of
         (Inl e, s2) \<Rightarrow> (Inl e, sk_close os fd s2)
       | (Inr fd2, s2) \<Rightarrow> (Inr (fd2, fd, addr), s2)))"

text \<open>\<open>Write::write_all\<close> on a writer: \<open>None\<close> while it goes on.\<close>

partial_function (option) std_write_all :: "(bytes \<Rightarrow> 's \<Rightarrow> (io_error + nat) \<times> 's) \<Rightarrow> bytes \<Rightarrow> 's \<Rightarrow> (unit result \<times> 's) option" where
  "std_write_all wr buf s =
     (if buf = [] then Some (Inr (), s)
      else (case wr buf s of
          (Inl e, s1) \<Rightarrow> if e = Os EINTR then std_write_all wr buf s1 else Some (Inl (IoErr e), s1)
        | (Inr n, s1) \<Rightarrow>
            if n = 0 then Some (Inl (IoErr (Other ''failed to write whole buffer'')), s1)
            else if length buf < n then Some (Inl (Panicked ''range start index out of range''), s1)
            else std_write_all wr (drop n buf) s1))"

end
