(* ===== verification/NetLaws.thy ===== *)
theory NetLaws
  imports Net
begin

text \<open>Sockets: a connection takes what is written to it, in order and to the end.\<close>

section \<open>Errors\<close>

text \<open>A trace lists the positions from the inside out, and the error itself stays what it was.\<close>

lemma trace_twice:
  "trace_result b (trace_result a (Inl (from_error e))) = Inl \<lparr>err_error = e, err_trace = [a, b]\<rparr>"
  "trace_result b (trace_result a (Inr x)) = Inr x"
  by (simp_all add: trace_result_def trace_err_def from_error_def)

section \<open>Writing\<close>

text \<open>
  What \<open>send\<close> promises on a descriptor: it takes some bytes from the front and delivers them behind
  those before, or it fails and delivers nothing; and it is not interrupted for ever, which a
  measure of the state bounds.
\<close>

definition sends_in_order :: "'s sock_os \<Rightarrow> int \<Rightarrow> ('s \<Rightarrow> bytes) \<Rightarrow> ('s \<Rightarrow> nat) \<Rightarrow> bool" where
  "sends_in_order os fd sent left \<longleftrightarrow> (\<forall>b s r s1. b \<noteq> [] \<and> sk_send os fd b MSG_MORE s = (r, s1) \<longrightarrow>
     (0 < r \<and> r < 2 ^ 63 \<and> nat r \<le> length b \<and> sent s1 = sent s @ take (nat r) b)
     \<or> (r = -1 \<and> sent s1 = sent s \<and> (sk_errno os s1 = EINTR \<longrightarrow> left s1 < left s)))"

lemma sends_in_orderD:
  assumes "sends_in_order os fd sent left" "b \<noteq> []" "sk_send os fd b MSG_MORE s = (r, s1)"
  obtains "0 < r" "r < 2 ^ 63" "nat r \<le> length b" "sent s1 = sent s @ take (nat r) b"
  | "r = -1" "sent s1 = sent s" "sk_errno os s1 = EINTR \<Longrightarrow> left s1 < left s"
  using assms unfolding sends_in_order_def by blast

text \<open>
  C16. Writing to a connection ends.  The loop of \<open>write_all\<close> over the socket writer of the server
  returns, however the system cuts the bytes and however often it is interrupted; a success means
  that all bytes have been delivered in order, behind what was there, and a failure that some
  prefix of them has.
\<close>

theorem nagle_write_all_returns:
  assumes "sends_in_order os fd sent left"
  shows "\<exists>r s1 n. std_write_all (nagle_write os fd) b s = Some (r, s1) \<and> n \<le> length b \<and> sent s1 = sent s @ take n b
    \<and> (r = Inr () \<longleftrightarrow> n = length b)"
proof (induction "(b, s)" arbitrary: b s rule: wf_induct_rule [OF wf_measures [of "[length \<circ> fst, left \<circ> snd]"]])
  case IH: 1
  show ?case
  proof (cases "b = []")
    case True
    then show ?thesis by (subst std_write_all.simps) auto
  next
    case False
    obtain x s1 where x: "sk_send os fd b MSG_MORE s = (x, s1)" by (cases "sk_send os fd b MSG_MORE s")
    from assms False x show ?thesis
    proof (cases rule: sends_in_orderD)
      case 1
      have w: "nagle_write os fd b s = (Inr (nat x), s1)" using 1 x by (simp add: nagle_write_def)
      have "((drop (nat x) b, s1), (b, s)) \<in> measures [length \<circ> fst, left \<circ> snd]" using 1 False by simp
      from IH [OF this] obtain r s2 n where n: "std_write_all (nagle_write os fd) (drop (nat x) b) s1 = Some (r, s2)"
        "n \<le> length (drop (nat x) b)" "sent s2 = sent s1 @ take n (drop (nat x) b)" "r = Inr () \<longleftrightarrow> n = length (drop (nat x) b)" by blast
      have "std_write_all (nagle_write os fd) b s = Some (r, s2)" using w n(1) 1 False by (subst std_write_all.simps) simp
      moreover have "sent s2 = sent s @ take (nat x + n) b" using n(3) 1(4) by (simp add: take_add)
      ultimately show ?thesis using n(2,4) 1(3) by (intro exI [of _ r] exI [of _ s2] exI [of _ "nat x + n"]) auto
    next
      case 2
      have w: "nagle_write os fd b s = (Inl (Os (sk_errno os s1)), s1)" using 2 x by (simp add: nagle_write_def)
      show ?thesis
      proof (cases "sk_errno os s1 = EINTR")
        case True
        then have "((b, s1), (b, s)) \<in> measures [length \<circ> fst, left \<circ> snd]" using 2(3) by simp
        from IH [OF this] show ?thesis using w True 2(2) False by (subst std_write_all.simps) simp
      next
        case no: False
        then have "std_write_all (nagle_write os fd) b s = Some (Inl (IoErr (Os (sk_errno os s1))), s1)" using w False by (subst std_write_all.simps) simp
        then show ?thesis using 2(2) False by (intro exI [of _ "Inl (IoErr (Os (sk_errno os s1)))"] exI [of _ s1] exI [of _ 0]) simp
      qed
    qed
  qed
qed

text \<open>
  For evaluation: a socket that takes three bytes at a time and is interrupted twice before; the
  state is what was delivered and how many interrupts are left.
\<close>

definition slow_socket :: "(bytes \<times> nat) sock_os" where
  "slow_socket = \<lparr>sk_errno = (\<lambda>s. EINTR),
     sk_send = (\<lambda>fd b fl (d, n). if n = 0 then (int (min 3 (length b)), (d @ take 3 b, 0)) else (-1, (d, n - 1))),
     sk_setsockopt = (\<lambda>fd l o' v s. (0, s)), sk_accept_tcp = (\<lambda>s. (Inl (Os 1), s)), sk_accept_unix = (\<lambda>s. (Inl (Os 1), s)),
     sk_send_buffer = (\<lambda>fd n s. (Inr (), s)), sk_try_clone = (\<lambda>fd s. (Inr fd, s)), sk_close = (\<lambda>fd s. s)\<rparr>"

theorem nagle_write_all_returns_witness:
  "\<exists>r s1 n. std_write_all (nagle_write slow_socket 4) [1, 2, 3, 4, 5] ([9], 2) = Some (r, s1) \<and> n \<le> 5
    \<and> fst s1 = [9] @ take n [1, 2, 3, 4, 5] \<and> (r = Inr () \<longleftrightarrow> n = 5)"
proof -
  have "sends_in_order slow_socket 4 fst snd"
    by (auto simp: sends_in_order_def slow_socket_def min_def split: if_splits)
  from nagle_write_all_returns [OF this, of "[1, 2, 3, 4, 5]" "([9], 2)"] show ?thesis by (simp add: eval_nat_numeral)
qed

end
