(* ===== verification/SnapshotFile.thy ===== *)
theory SnapshotFile
  imports SnapshotEncode
begin

text \<open>
  The file of a snapshot: what \<open>finalize\<close> leaves on disk is what \<open>open\<close> finds again.
\<close>

section \<open>Laying the file out\<close>

text \<open>With little waste compaction leaves everything where it is.\<close>

lemma compact_files_idle:
  assumes "end_of_free fl = Inr e" "below_five_percent (wasted_space fl) e"
  shows "compact_files fs fl f = Inr (fs, fl, f)"
  using assms by (induction fs) (auto split: option.splits)

lemma compact_idle:
  assumes "end_of_free (free_list s) = Inr e" "below_five_percent (wasted_space (free_list s)) e"
  shows "compact s = Inr s"
  using compact_files_idle [OF assms] by (simp add: compact_def)

text \<open>The last free region starts behind all blocks and behind the header.\<close>

lemma end_of_free_last:
  assumes "arena base fl" "frontier base T fl" "T < USIZE_MAX" "end_of_free fl = Inr e"
  obtains w where "(e, w) \<in> set fl" "e \<le> base + T" "e + w = base + USIZE_MAX" "base \<le> e"
proof -
  obtain a w where a: "(a, w) \<in> set fl" "a \<le> base + T" "a + w = base + USIZE_MAX" "\<And>k v. (k, v) \<in> set fl \<Longrightarrow> k \<le> a"
    using frontier_region [OF assms(1-3)] by blast
  have ne: "fl \<noteq> []" and e: "e = fst (last fl)" using assms(4) by (auto simp: end_of_free_def om_last_def split: if_splits)
  have "sorted_wrt (<) (keys fl)" "regions base (set fl)" using assms(1) by (auto simp: arena_def om_ok_def)
  have "a \<le> e"
    using \<open>sorted_wrt (<) (keys fl)\<close> a(1) unfolding e
    by (induction fl) (auto intro: order_less_imp_le last_in_set)
  moreover have "e \<le> a" using a(4) [of e "snd (last fl)"] ne e by simp
  ultimately have "e = a" by simp
  then show thesis using that [of w] a regionsD(1) [OF \<open>regions base (set fl)\<close> a(1)] by simp
qed

lemma block_before_end:
  assumes "in_arena base b" "span b \<inter> free_set fl = {}" "(e, w) \<in> set fl" "e + w = base + USIZE_MAX"
  shows "location b + bsize b \<le> e"
proof (rule ccontr)
  assume "\<not> location b + bsize b \<le> e"
  then have "location b + bsize b - 1 \<in> span b" "e \<le> location b + bsize b - 1" "location b + bsize b - 1 < e + w"
    using assms(1,4) by (auto simp: span_def in_arena_def)
  then show False using assms(2,3) by (force simp: free_set_def cover_def)
qed

text \<open>The bytes of the finished file: header, data, table.\<close>

definition laid_out :: "snap_codec \<Rightarrow> Snapshot \<Rightarrow> nat \<Rightarrow> bytes" where
  "laid_out c s e =
     (let d = take e (fdata (serialised s)) @ replicate (e - length (fdata (serialised s))) 0;
          rest = drop (sh_size c) d @ ser_files c (s_files s)
      in ser_sh c ((s_header s)\<lparr>s_checksum := hash_reader (crc_update c) 0 rest, ft_offset := e\<rparr>) @ rest)"

definition header_law :: "snap_codec \<Rightarrow> bool" where
  "header_law c \<longleftrightarrow> (\<forall>h. ft_offset h < 2 ^ 64 \<and> s_from h < 2 ^ 64 \<and> s_to h < 2 ^ 64 \<longrightarrow>
     length (ser_sh c h) = sh_size c \<and> (\<forall>r. deser_sh c (ser_sh c h @ r) = Some h))"

lemma put_at_end: "put_bytes d (length d) b = d @ b"
  by (simp add: put_bytes_def)

lemma put_at_front: "length b \<le> length d \<Longrightarrow> put_bytes d 0 b = b @ drop (length b) d"
  by (auto simp: put_bytes_def)

lemma finalize_lays_out:
  assumes "compact s = Inr s" "end_of_free (free_list s) = Inr e" "no_fault (serialised s)" "sh_size c \<le> e"
    and "\<And>cs. length (ser_sh c ((s_header s)\<lparr>s_checksum := cs, ft_offset := e\<rparr>)) = sh_size c"
  shows "finalize c s = Inr ((serialised s)\<lparr>fdata := laid_out c s e\<rparr>)"
proof -
  define d where "d = take e (fdata (serialised s)) @ replicate (e - length (fdata (serialised s))) 0"
  have d: "length d = e" by (auto simp: d_def)
  have nf: "wr_fault (serialised s) = None" using assms(3) by (simp add: no_fault_def)
  show ?thesis
    using assms(1,2,4) nf put_at_end [of d "ser_files c (s_files s)"] d assms(5)
    by (simp add: finalize_def set_len_def write_all_at_def fput_def Let_def laid_out_def put_at_front flip: d_def)
qed


lemma laid_out_byte:
  assumes "\<And>cs. length (ser_sh c ((s_header s)\<lparr>s_checksum := cs, ft_offset := e\<rparr>)) = sh_size c" "sh_size c \<le> x" "x < e"
  shows "fbyte (f\<lparr>fdata := laid_out c s e\<rparr>) x = fbyte (serialised s) x"
proof -
  define d where "d = take e (fdata (serialised s)) @ replicate (e - length (fdata (serialised s))) 0"
  have d: "length d = e" "d ! x = fbyte (serialised s) x"
    using assms(3) by (auto simp: d_def fbyte_def nth_append min_def)
  then show ?thesis
    using assms diff_less_mono [OF assms(3,2)] by (simp add: laid_out_def Let_def fbyte_def nth_append flip: d_def)
qed

lemma laid_out_parts:
  assumes "\<And>cs. length (ser_sh c ((s_header s)\<lparr>s_checksum := cs, ft_offset := e\<rparr>)) = sh_size c" "sh_size c \<le> e"
  shows "drop e (laid_out c s e) = ser_files c (s_files s)"
    "laid_out c s e = ser_sh c ((s_header s)\<lparr>s_checksum := hash_reader (crc_update c) 0 (drop (sh_size c) (laid_out c s e)), ft_offset := e\<rparr>)
       @ drop (sh_size c) (laid_out c s e)"
  using assms by (simp_all add: laid_out_def Let_def)

section \<open>The file and the snapshot\<close>

text \<open>
  C11. A snapshot survives its file.  With less than five percent of waste, finishing a snapshot
  succeeds, and opening the file gives the same table of files, with the same bytes for each path,
  and a header whose checksum is that of everything behind it.
\<close>

theorem snapshot_file_roundtrip:
  assumes "snap_ok (sh_size c) N s" "frontier (sh_size c) T (free_list s)" "sh_size c + T < 2 ^ 64" "T < USIZE_MAX"
    and "end_of_free (free_list s) = Inr e" "below_five_percent (wasted_space (free_list s)) e"
    and "header_law c" "deser_files c (ser_files c (s_files s)) = Some (s_files s)" "s_from (s_header s) < 2 ^ 64" "s_to (s_header s) < 2 ^ 64"
  shows "\<exists>f s'. finalize c s = Inr f \<and> snapshot_open c f = Inr s' \<and> s_files s' = s_files s \<and> (\<forall>p. stored s' p = stored s p)
    \<and> ft_offset (s_header s') = e \<and> s_checksum (s_header s') = hash_reader (crc_update c) 0 (drop (sh_size c) (fdata f))"
proof -
  have inv: "blocks_ok (sh_size c) N (others s p) (free_list s, serialised s, blocks_of s p)" for p using assms(1) by (simp add: snap_ok_def)
  obtain w where e: "(e, w) \<in> set (free_list s)" "e \<le> sh_size c + T" "e + w = sh_size c + USIZE_MAX" "sh_size c \<le> e"
    by (rule end_of_free_last [OF blocks_okD(1) [OF inv] assms(2,4,5)])
  have law: "length (ser_sh c ((s_header s)\<lparr>s_checksum := cs, ft_offset := e\<rparr>)) = sh_size c"
    "deser_sh c (ser_sh c ((s_header s)\<lparr>s_checksum := cs, ft_offset := e\<rparr>) @ r) = Some ((s_header s)\<lparr>s_checksum := cs, ft_offset := e\<rparr>)" for cs r
    using assms(3,7,9,10) e(2) by (simp_all add: header_law_def)
  define f where "f = (serialised s)\<lparr>fdata := laid_out c s e\<rparr>"
  have fin: "finalize c s = Inr f"
    unfolding f_def using finalize_lays_out [OF compact_idle [OF assms(5,6)] assms(5) blocks_okD(2) [OF inv] e(4) law(1)] .
  define s' where "s' = \<lparr>s_header = (s_header s)\<lparr>s_checksum := hash_reader (crc_update c) 0 (drop (sh_size c) (laid_out c s e)), ft_offset := e\<rparr>,
     s_files = s_files s, serialised = f, free_list = om_insert e USIZE_MAX []\<rparr>"
  have "deser_sh c (laid_out c s e) = Some (s_header s')"
    using law(2) by (subst laid_out_parts(2) [OF law(1) e(4)]) (simp add: s'_def)
  then have op: "snapshot_open c f = Inr s'"
    using laid_out_parts(1) [OF law(1) e(4)] assms(8) by (simp add: snapshot_open_def f_def s'_def)
  have "content f (blocks_of s p) i = content (serialised s) (blocks_of s p) i" for p i
  proof (rule content_cong [OF blocks_okD(3) [OF inv], where Y = "{sh_size c..<e}"])
    fix b assume b: "b \<in> set (blocks_of s p)"
    show "span (snd b) \<subseteq> {sh_size c..<e}"
      using block_before_end [OF blocks_okD(7,9) [OF inv b] e(1,3)] blocks_okD(7) [OF inv b] by (auto simp: span_def in_arena_def)
  qed (use laid_out_byte [OF law(1)] in \<open>simp add: f_def\<close>)
  then have "stored s' p = stored s p" for p by (auto simp: stored_def s'_def blocks_of_def fun_eq_iff)
  then show ?thesis using fin op by (intro exI [of _ f] exI [of _ s']) (simp add: s'_def f_def)
qed


text \<open>For evaluation: a header in fixed-size little-endian fields, and a snapshot with one file of three bytes.\<close>

definition le64 :: "nat \<Rightarrow> bytes" where
  "le64 n = le32 (of_nat n) @ le32 (of_nat (n div 2 ^ 32))"

definition rd64 :: "bytes \<Rightarrow> nat" where
  "rd64 b = unat (rd32 (take 4 b)) + 2 ^ 32 * unat (rd32 (take 4 (drop 4 b)))"

lemma length_le64 [simp]: "length (le64 n) = 8"
  by (simp add: le64_def)

lemma rd64_le64:
  assumes "n < 2 ^ 64"
  shows "rd64 (le64 n) = n"
proof -
  have "n div 2 ^ 32 < 2 ^ 32" using assms by (simp add: less_mult_imp_div_less)
  then show ?thesis by (simp add: rd64_def le64_def unat_of_nat take_bit_eq_mod)
qed

definition one_snapshot :: Snapshot where
  "one_snapshot = \<lparr>s_header = \<lparr>s_ty = ST_Forward, ft_offset = 0, s_from = 5, s_to = 6, s_checksum = 0\<rparr>,
     s_files = [([RootDir], opened_file\<lparr>f_data := Some [(0, \<lparr>location = 29, bsize = 3\<rparr>)]\<rparr>)],
     serialised = \<lparr>fdata = replicate 29 0 @ [1, 2, 3], rd_fault = None, wr_fault = None\<rparr>, free_list = [(32, USIZE_MAX - 3)]\<rparr>"

definition ty_byte :: "SnapshotType \<Rightarrow> u8" where
  "ty_byte t = (case t of ST_Forward \<Rightarrow> 0 | ST_Bidirectional \<Rightarrow> 1 | ST_Undo \<Rightarrow> 2)"

definition byte_ty :: "u8 \<Rightarrow> SnapshotType" where
  "byte_ty b = (if b = 0 then ST_Forward else if b = 1 then ST_Bidirectional else ST_Undo)"

definition file_sc :: snap_codec where
  "file_sc = \<lparr>sh_size = 29,
     ser_sh = (\<lambda>h. ty_byte (s_ty h) # le64 (ft_offset h) @ le64 (s_from h) @ le64 (s_to h) @ le32 (s_checksum h)),
     deser_sh = (\<lambda>b. Some \<lparr>s_ty = byte_ty (hd b), ft_offset = rd64 (take 8 (tl b)), s_from = rd64 (take 8 (drop 8 (tl b))),
        s_to = rd64 (take 8 (drop 16 (tl b))), s_checksum = rd32 (take 4 (drop 24 (tl b)))\<rparr>),
     ser_files = (\<lambda>fs. [7]), deser_files = (\<lambda>b. if b = [7] then Some (s_files one_snapshot) else None),
     crc_update = (\<lambda>d b. d + of_nat (length b)), hash_order = (\<lambda>m. m)\<rparr>"

lemma file_sc_law: "header_law file_sc"
  unfolding header_law_def
proof (intro allI impI conjI)
  fix h :: Header and r :: bytes
  assume "ft_offset h < 2 ^ 64 \<and> s_from h < 2 ^ 64 \<and> s_to h < 2 ^ 64"
  moreover have "byte_ty (ty_byte t) = t" for t by (cases t) (simp_all add: byte_ty_def ty_byte_def)
  ultimately show "deser_sh file_sc (ser_sh file_sc h @ r) = Some h" by (simp add: file_sc_def rd64_le64)
qed (simp add: file_sc_def)

lemma one_snapshot_ok: "snap_ok 29 8 one_snapshot"
proof -
  have b: "blocks_of one_snapshot p = (if p = [RootDir] then [(0, \<lparr>location = 29, bsize = 3\<rparr>)] else [])" for p
    by (simp add: blocks_of_def one_snapshot_def om_get_def)
  have o: "others one_snapshot p = (if p = [RootDir] then {} else {29..<32})" for p
    by (auto simp: others_def b spans_def span_def)
  show ?thesis
    unfolding snap_ok_def b o
    by (auto simp: blocks_ok_def one_snapshot_def om_ok_def arena_def regions_def no_fault_def blocks_apart_def in_arena_def span_def free_set_def
        cover_def flen_def USIZE_MAX_def)
qed

theorem snapshot_file_roundtrip_witness:
  "\<exists>f s'. finalize file_sc one_snapshot = Inr f \<and> snapshot_open file_sc f = Inr s' \<and> map (stored s' [RootDir]) [0, 1, 2, 3] = [Some 1, Some 2, Some 3, None]"
proof -
  have "snap_ok (sh_size file_sc) 8 one_snapshot" using one_snapshot_ok by (simp add: file_sc_def)
  moreover have "frontier (sh_size file_sc) 3 (free_list one_snapshot)"
    by (auto simp: frontier_def file_sc_def one_snapshot_def free_set_def cover_def USIZE_MAX_def)
  moreover have "sh_size file_sc + 3 < 2 ^ 64" "3 < USIZE_MAX" "end_of_free (free_list one_snapshot) = Inr 32"
    "below_five_percent (wasted_space (free_list one_snapshot)) 32"
    "deser_files file_sc (ser_files file_sc (s_files one_snapshot)) = Some (s_files one_snapshot)"
    "s_from (s_header one_snapshot) < 2 ^ 64" "s_to (s_header one_snapshot) < 2 ^ 64"
    by (simp_all add: file_sc_def one_snapshot_def USIZE_MAX_def end_of_free_def om_last_def wasted_space_def below_five_percent_def)
  ultimately obtain f s' where r: "finalize file_sc one_snapshot = Inr f" "snapshot_open file_sc f = Inr s'" "\<forall>p. stored s' p = stored one_snapshot p"
    using snapshot_file_roundtrip [OF _ _ _ _ _ _ file_sc_law] by blast
  moreover have "map (stored one_snapshot [RootDir]) [0, 1, 2, 3] = [Some 1, Some 2, Some 3, None]"
    by (simp add: stored_def blocks_of_def one_snapshot_def om_get_def content_def fbyte_def nth_append)
  ultimately show ?thesis by auto
qed

end
