(* ===== verification/MainCmd.thy ===== *)
theory MainCmd
  imports Cli Viewer Rsync Snapshot
begin

text \<open>
  What \<open>main\<close> does with the matched command line (\<open>main.rs\<close>), the commands on snapshots
  (\<open>snapshot/mod.rs\<close>), and the lines that a viewed journal shows for the entries of the
  bidirectional log (\<open>describe\<close> of \<open>journal/bilog.rs\<close>).

  Files on disk are a map from their names; debug output of values is a parameter.
\<close>

section \<open>The commands\<close>

datatype main_run =
    Server_main
  | Client_main
  | Snapshot_main
  | Viewer_main
  | Checksum_main
  | Control_main
  | Fakeshell_main

text \<open>Whether \<open>DEBUG\<close> is on, and the command that is run.\<close>

definition main_command :: "ArgMatches \<Rightarrow> (bool \<times> main_run) result" where
  "main_command m =
     rmap (\<lambda>r. (is_present m ''debug'', r))
       (case subcommand_name m of
          None \<Rightarrow> Inl (Panicked ''you must provide a command'')
        | Some n \<Rightarrow>
            if n = ''server'' then Inr Server_main
            else if n = ''client'' then Inr Client_main
            else if n = ''snapshot'' then Inr Snapshot_main
            else if n = ''journal'' then Inr Viewer_main
            else if n = ''checksum'' then Inr Checksum_main
            else if n = ''control'' then Inr Control_main
            else if n = ''fakeshell'' then Inr Fakeshell_main
            else Inl (Panicked ''you must provide a command''))"

text \<open>\<open>str::parse::<i32>\<close>: an optional sign and at least one decimal digit, within 32 bits.\<close>

definition parse_i32 :: "string \<Rightarrow> int option" where
  "parse_i32 s =
     (let neg = s \<noteq> [] \<and> hd s = CHR ''-'';
          t = (if s \<noteq> [] \<and> (hd s = CHR ''-'' \<or> hd s = CHR ''+'') then tl s else s) in
      if t = [] then None
      else Option.bind (parse_digits 0 t) (\<lambda>n.
        let v = (if neg then - int n else int n) in if - (2 ^ 31) \<le> v \<and> v < 2 ^ 31 then Some v else None))"

text \<open>
  The command that \<open>rsync\<close> starts instead of a remote shell: the descriptors of the connection,
  which it takes over to the bridge together with its own standard output and input.
\<close>

definition fakeshell_main :: "ArgMatches \<Rightarrow> (int \<times> int \<times> int \<times> int \<times> bool) result" where
  "fakeshell_main m =
     rbind (unwrap no_value (subcommand_matches m ''fakeshell'')) (\<lambda>fm.
     rbind (get_value fm ''netin'') (\<lambda>i.
     rbind (unwrap ''Invalid integer'' (parse_i32 i)) (\<lambda>netin.
     rbind (get_value fm ''netout'') (\<lambda>out.
     rbind (unwrap ''Invalid integer'' (parse_i32 out)) (\<lambda>netout.
       Inr (netin, netout, 1, 0, True))))))"

section \<open>Snapshots\<close>

type_synonym disk_files = "string \<Rightarrow> bfile option"

text \<open>The snapshot that a command works on: an existing file is parsed, a new one is created empty.\<close>

definition snapshot_for :: "snap_codec \<Rightarrow> bfile result \<Rightarrow> nat \<Rightarrow> nat \<Rightarrow> string \<Rightarrow> disk_files \<Rightarrow> (Snapshot \<times> disk_files) result" where
  "snapshot_for sc create t1 t2 snapshot_path files = (case files snapshot_path of
       Some f \<Rightarrow> rmap (\<lambda>s. (s, files)) (expect ''Failed to parse snapshot'' (snapshot_open sc f))
     | None \<Rightarrow> rmap (\<lambda>f. (snapshot_new sc f t1 t2, files(snapshot_path \<mapsto> f))) (expect ''Failed to open snapshot file'' create))"

text \<open>\<open>None\<close> when the steps are used up.\<close>

definition snapshot_main :: "nat \<Rightarrow> VFSCall codec \<Rightarrow> snap_codec \<Rightarrow> 's os \<Rightarrow> (path \<Rightarrow> path result) \<Rightarrow> bfile result \<Rightarrow> nat \<Rightarrow> nat \<Rightarrow> sfs
    \<Rightarrow> ArgMatches \<Rightarrow> disk_files \<Rightarrow> 's \<Rightarrow> (disk_files \<times> 's) result option" where
  "snapshot_main n c sc os canonize create t1 t2 d m files st =
     (case rbind (unwrap no_value (subcommand_matches m ''snapshot'')) (\<lambda>sm.
           rbind (get_value sm ''snapshot-path'') (\<lambda>sp. rmap (\<lambda>r. (sm, sp, r)) (snapshot_for sc create t1 t2 sp files))) of
        Inl e \<Rightarrow> Some (Inl e)
      | Inr (sm, snapshot_path, snapshot, files1) \<Rightarrow>
          if subcommand_name sm = Some ''merge'' then
            (case rbind (unwrap no_value (subcommand_matches sm ''merge'')) (\<lambda>mm.
                  rbind (get_value mm ''with'') (\<lambda>jp. unwrap ''Failed to open journal file'' (files1 jp))) of
               Inl e \<Rightarrow> Some (Inl e)
             | Inr jf \<Rightarrow> map_option (rmap (\<lambda>f. (files1(snapshot_path \<mapsto> f), st))) (snapshot_merge n c sc jf t2 d snapshot))
          else if subcommand_name sm = Some ''apply'' then
            (case rbind (unwrap no_value (subcommand_matches sm ''apply'')) (\<lambda>am.
                  rbind (get_value am ''backing-store'') (\<lambda>b. expect ''Failed to get absolute path'' (canonize (path_of b)))) of
               Inl e \<Rightarrow> Some (Inl e)
             | Inr fs_path \<Rightarrow>
                 map_option (rmap (\<lambda>st'. (files1, st'))) (apply_all n sc (serialised snapshot) os fs_path (snapshot_apply snapshot) st))
          else Some (Inl (Panicked ''internal error: entered unreachable code'')))"

section \<open>Descriptions\<close>

definition bilog_describe :: "(BilogEntry \<Rightarrow> string) \<Rightarrow> (path \<Rightarrow> string) \<Rightarrow> (bytes \<Rightarrow> string) \<Rightarrow> bool \<Rightarrow> BilogEntry \<Rightarrow> string" where
  "bilog_describe dbg_entry dbg dbg_name detail e =
     (if detail then dbg_entry e
      else (case e of
          BE_chmod x \<Rightarrow> dbg (chmod_path x) @ '' changed permissions''
        | BE_chown x \<Rightarrow> dbg (chown_path x) @ '' changed onwership''
        | BE_utimens x \<Rightarrow> dbg (utimens_path x) @ '' changed mtime/ctime''
        | BE_rename x \<Rightarrow> dbg (rename_from x) @ '' and '' @ dbg (rename_to x) @ '' exchanged names''
        | BE_dir x \<Rightarrow> dbg (dir_path x) @ '' created or removed directory''
        | BE_symlink x \<Rightarrow> dbg (symlink_to x) @ '' created or removed symlink''
        | BE_link x \<Rightarrow> dbg (link_to x) @ '' created or removed link''
        | BE_node x \<Rightarrow> dbg (node_path x) @ '' created or removed special file''
        | BE_file x \<Rightarrow> dbg (file_path x) @ '' created or removed normal file''
        | BE_filestore p _ \<Rightarrow> dbg p @ '' recovered or deleted filestore file''
        | BE_truncate x \<Rightarrow> dbg (trunc_path x) @ '' truncated or extended file''
        | BE_write x \<Rightarrow> dbg (write_path x) @ '' changed contents at offset '' @ show_fd (sint (write_offset x))
        | BE_xattr x \<Rightarrow> dbg (xattr_path x) @ '' set, changed or removed extended attribute '' @ dbg_name (xattr_name x)))"

end
