(* ===== verification/MainCmdLaws.thy ===== *)
theory MainCmdLaws
  imports MainCmd CliLaws CommonLaws
begin

text \<open>The program's commands: which are run, what they are given, what a viewer shows.\<close>

text \<open>Every declared command is run, and no other name is.\<close>

lemma main_runs_declared:
  "(\<exists>r. main_command (ArgMatches a (Some (n, sm))) = Inr r) \<longleftrightarrow> n \<in> app_name ` set (app_subs fsyncer_app)"
  by (auto simp: main_command_def subcommand_name_def fsyncer_app_def client_cmd_def server_cmd_def journal_cmd_def snapshot_cmd_def
      checksum_cmd_def control_cmd_def fakeshell_cmd_def)

lemma parse_i32_show_fd:
  assumes "- (2 ^ 31) \<le> fd" "fd < 2 ^ 31"
  shows "parse_i32 (show_fd fd) = Some fd"
proof -
  have d: "show_nat n \<noteq> []" "hd (show_nat n) \<noteq> CHR ''-''" "hd (show_nat n) \<noteq> CHR ''+''" for n
  proof -
    have "hd (show_nat n) \<in> digit_char ` {..<10}" using show_nat_digits [of n] hd_in_set by blast
    then obtain k where k: "k < 10" "hd (show_nat n) = digit_char k" by auto
    have "\<forall>d \<in> set [0..<10]. digit_char d \<noteq> CHR ''-''" by code_simp
    moreover have "k \<in> set [0..<10]" using k(1) by simp
    ultimately show "hd (show_nat n) \<noteq> CHR ''-''" unfolding k(2) by blast
    show "hd (show_nat n) \<noteq> CHR ''+''" unfolding k(2) using digit_char_plain [OF k(1)] by simp
  qed (use show_nat_digits in blast)
  show ?thesis
  proof (cases "fd < 0")
    case True
    then have "parse_digits 0 (show_nat (nat (- fd))) = Some (nat (- fd))" using assms by (intro parse_digits_show) simp
    then show ?thesis using True assms d(1) by (simp add: parse_i32_def show_fd_def del: show_nat.simps)
  next
    case False
    then have "parse_digits 0 (show_nat (nat fd)) = Some (nat fd)" using assms by (intro parse_digits_show) simp
    then show ?thesis using False assms d by (simp add: parse_i32_def show_fd_def del: show_nat.simps)
  qed
qed

text \<open>The descriptors that the server writes into the command of \<open>rsync\<close> are those that the command reads.\<close>

lemma fakeshell_gets_descriptors:
  assumes "- (2 ^ 31) \<le> nin" "nin < 2 ^ 31" "- (2 ^ 31) \<le> nout" "nout < 2 ^ 31"
  shows "fakeshell_main (ArgMatches a (Some (''fakeshell'', ArgMatches [(''netin'', [show_fd nin]), (''netout'', [show_fd nout])] None)))
    = Inr (nin, nout, 1, 0, True)"
  using assms by (simp add: fakeshell_main_def subcommand_matches_def get_value_def value_of_def parse_i32_show_fd)

text \<open>Applying a snapshot that does not exist creates an empty file and succeeds without a call.\<close>

lemma snapshot_apply_missing:
  assumes "files ''s.snap'' = None" "canonize (path_of b) = Inr target"
  shows "snapshot_main (Suc n) c sc os canonize (Inr f) t1 t2 d
      (ArgMatches a (Some (''snapshot'', ArgMatches [(''snapshot-path'', [''s.snap''])] (Some (''apply'', ArgMatches [(''backing-store'', [b])] None)))))
      files st = Some (Inr (files(''s.snap'' \<mapsto> f), st))"
  using assms
  by (simp add: snapshot_main_def snapshot_for_def subcommand_matches_def subcommand_name_def get_value_def value_of_def snapshot_apply_def snapshot_new_def
      apply_next.simps)

text \<open>A line for an entry names a path that the entry affects, so that the filter of the viewer and its output speak of the same files.\<close>

lemma described_path_affected:
  "\<exists>p rest. p \<in> set (bilog_affected_paths e) \<and> bilog_describe dbg_entry dbg dbg_name False e = dbg p @ rest"
  by (cases e) (auto simp: bilog_describe_def)

end
