(* ===== verification/WinMem.thy ===== *)
theory WinMem
  imports Server
begin

text \<open>
  Windows helpers of \<open>common/mod.rs\<close>: strings of 16-bit units, canonical paths, memory that the
  system has allocated, and the hash of a directory tree.

  A pointer to units is the buffer that starts there; reading beyond its end is an error value, and
  so is writing.  A string of the system is its units.  \<open>GetFullPathNameW\<close> is a parameter: its
  answer and what it has written.
\<close>

type_synonym wstr = "16 word list"

section \<open>Wide strings\<close>

definition wcslen :: "wstr \<Rightarrow> nat result" where
  "wcslen s = (if 0 \<in> set s then Inr (length (takeWhile (\<lambda>u. u \<noteq> 0) s)) else Inl (Panicked ''read beyond the buffer''))"

definition wstr_to_os :: "wstr \<Rightarrow> wstr result" where
  "wstr_to_os s = rmap (\<lambda>len. take len s) (wcslen s)"

definition os_to_wstr :: "wstr \<Rightarrow> wstr" where
  "os_to_wstr s = s @ [0]"

text \<open>The translation of a path below the root of the server is a function on strings here.\<close>

definition trans_wstr :: "(wstr \<Rightarrow> wstr) \<Rightarrow> wstr \<Rightarrow> wstr result" where
  "trans_wstr translate p = rmap (\<lambda>q. os_to_wstr (translate q)) (wstr_to_os p)"

text \<open>The handlers in C ask for a translated path in a buffer of theirs.\<close>

definition win_translate_path :: "(wstr \<Rightarrow> wstr) \<Rightarrow> wstr \<Rightarrow> wstr \<Rightarrow> wstr result" where
  "win_translate_path translate buf p =
     rbind (trans_wstr translate p) (\<lambda>real_path.
     rbind (require (length real_path < length buf) ''assertion failed: real_path.len() < path_len as usize'') (\<lambda>_.
       Inr (real_path @ drop (length real_path) buf)))"

section \<open>Canonical paths\<close>

definition MAX_PATH :: nat where "MAX_PATH = 32767"

text \<open>The mark of a path that may be long: two backslashes, a question mark, a backslash.\<close>

definition long_mark :: wstr where "long_mark = [0x5C, 0x5C, 0x3F, 0x5C]"

definition canonize_path_win :: "(wstr \<Rightarrow> nat \<Rightarrow> nat \<times> wstr) \<Rightarrow> io_error \<Rightarrow> wstr \<Rightarrow> wstr result" where
  "canonize_path_win full_path_name last_error p =
     (let wpath = os_to_wstr p; (ret, written) = full_path_name wpath MAX_PATH in
      if ret = 0 then Inl (IoErr last_error)
      else if MAX_PATH < 4 + length written then Inl (Panicked ''write beyond the buffer'')
      else wstr_to_os (long_mark @ written @ replicate (MAX_PATH - (4 + length written)) 0))"

section \<open>Memory of the system\<close>

text \<open>A box owns a pointer and the boxes that it has borrowed.\<close>

datatype WinapiBox = WinapiBox (box_ptr: u64) (box_borrows: "WinapiBox list")

definition box_from_raw :: "u64 \<Rightarrow> WinapiBox result" where
  "box_from_raw t = rmap (\<lambda>_. WinapiBox t []) (require (t \<noteq> 0) ''assertion failed: !t.is_null()'')"

text \<open>A borrowed box is taken apart: its pointer goes to a new one, the box itself is forgotten.\<close>

definition add_borrow :: "WinapiBox \<Rightarrow> WinapiBox \<Rightarrow> WinapiBox result" where
  "add_borrow a b = rmap (\<lambda>n. WinapiBox (box_ptr a) (box_borrows a @ [n])) (box_from_raw (box_ptr b))"

text \<open>The calls of \<open>LocalFree\<close> when a box is dropped: its own pointer, then its fields.\<close>

fun box_drop :: "WinapiBox \<Rightarrow> u64 list" where
  "box_drop (WinapiBox t bs) = t # concat (map box_drop bs)"

section \<open>Hash of a tree\<close>

datatype win_hash_item = WPath path | WKind file_kind | WAttributes u32 | WLen u64 | WModified nat

record win_walk_meta =
  ww_attributes :: u32
  ww_is_dir :: bool
  ww_len :: u64
  ww_modified :: "nat result"

record win_walk_entry =
  ww_path :: path
  ww_kind :: file_kind
  ww_meta :: "win_walk_meta result"

definition win_hash_entry :: "win_walk_entry \<Rightarrow> win_hash_item list result" where
  "win_hash_entry e =
     (if ww_path e = [] then Inr []
      else rbind (ww_meta e) (\<lambda>m. rbind (ww_modified m) (\<lambda>t.
        Inr ([WPath (ww_path e), WKind (ww_kind e), WAttributes (ww_attributes m)] @ (if \<not> ww_is_dir m then [WLen (ww_len m)] else [])
          @ [WModified t]))))"

fun win_hash_feed :: "win_walk_entry result list \<Rightarrow> win_hash_item list result" where
  "win_hash_feed [] = Inr []"
| "win_hash_feed (r # rs) = rbind r (\<lambda>e. rbind (win_hash_entry e) (\<lambda>xs. rmap (\<lambda>hs. xs @ hs) (win_hash_feed rs)))"

definition hash_metadata_win :: "(win_hash_item list \<Rightarrow> u64) \<Rightarrow> win_walk_entry result list \<Rightarrow> u64 result" where
  "hash_metadata_win finish walk = rmap finish (win_hash_feed walk)"

end
