(* ===== verification/WinMemLaws.thy ===== *)
theory WinMemLaws
  imports WinMem "HOL-Library.Multiset"
begin

text \<open>The Windows helpers: strings that survive, paths that do not fit, memory that is given back.\<close>

lemma wstr_roundtrip: "wstr_to_os (os_to_wstr s) = Inr (takeWhile (\<lambda>u. u \<noteq> 0) s)"
proof -
  have "takeWhile (\<lambda>u. u \<noteq> 0) (s @ [0]) = takeWhile (\<lambda>u. u \<noteq> 0) s" by (induction s) auto
  moreover have "take (length (takeWhile (\<lambda>u. u \<noteq> 0) (s @ [0]))) (s @ [0]) = takeWhile (\<lambda>u. u \<noteq> 0) (s @ [0])"
    by (metis takeWhile_eq_take)
  ultimately show ?thesis by (simp add: wstr_to_os_def os_to_wstr_def wcslen_def)
qed

text \<open>A string up to the first zero of a buffer.\<close>

lemma wstr_to_os_zero:
  assumes "0 \<notin> set w"
  shows "wstr_to_os (w @ 0 # r) = Inr w"
proof -
  have "takeWhile (\<lambda>u. u \<noteq> 0) (w @ 0 # r) = w" using assms by (induction w) auto
  then show ?thesis by (simp add: wstr_to_os_def wcslen_def)
qed

text \<open>A handler in C finds the translated path in its buffer, whose length has not changed, or the call panics.\<close>

lemma win_translate_path_reads:
  assumes "win_translate_path translate buf (os_to_wstr p) = Inr buf'" "0 \<notin> set p" "0 \<notin> set (translate p)"
  shows "wstr_to_os buf' = Inr (translate p)" "length buf' = length buf"
proof -
  have "wstr_to_os (os_to_wstr p) = Inr p" using wstr_to_os_zero [OF assms(2), of "[]"] by (simp add: os_to_wstr_def)
  then have b: "buf' = translate p @ 0 # drop (length (translate p) + 1) buf" "length (translate p) + 1 < length buf"
    using assms(1) by (auto simp: win_translate_path_def trans_wstr_def os_to_wstr_def require_def split: if_splits)
  then show "wstr_to_os buf' = Inr (translate p)" "length buf' = length buf" using wstr_to_os_zero [OF assms(3)] by simp_all
qed

text \<open>What the system promises: the full name with its end if it fits into the buffer, else the size that it would take.\<close>

definition gives_full_name :: "(wstr \<Rightarrow> nat \<Rightarrow> nat \<times> wstr) \<Rightarrow> (wstr \<Rightarrow> wstr) \<Rightarrow> bool" where
  "gives_full_name gfn name \<longleftrightarrow> (\<forall>p n. name p \<noteq> [] \<and> 0 \<notin> set (name p)
     \<and> gfn p n = (if length (name p) < n then (length (name p), name p @ [0]) else (length (name p) + 1, [])))"

text \<open>
  A canonical path is the full name behind the mark of long paths.  The size that is told to the
  system does not count the mark: four lengths of names write beyond the buffer, and a name that is
  longer still gives the mark alone, as a success.
\<close>

lemma canonize_path_win_cases:
  assumes "gives_full_name gfn name"
  shows "canonize_path_win gfn le p =
    (if length (name (os_to_wstr p)) < MAX_PATH - 4 then Inr (long_mark @ name (os_to_wstr p))
     else if length (name (os_to_wstr p)) < MAX_PATH then Inl (Panicked ''write beyond the buffer'')
     else Inr long_mark)"
proof -
  define q where "q = name (os_to_wstr p)"
  have q: "q \<noteq> []" "0 \<notin> set q" "gfn (os_to_wstr p) MAX_PATH = (if length q < MAX_PATH then (length q, q @ [0]) else (length q + 1, []))"
    using assms by (auto simp: gives_full_name_def q_def)
  have l: "0 \<notin> set long_mark" by (simp add: long_mark_def)
  consider "length q < MAX_PATH - 4" | "MAX_PATH - 4 \<le> length q" "length q < MAX_PATH" | "MAX_PATH \<le> length q" by linarith
  then show ?thesis
  proof cases
    case 1
    then have "canonize_path_win gfn le p = wstr_to_os ((long_mark @ q) @ 0 # replicate (MAX_PATH - (5 + length q)) 0)"
      using q(1,3) by (simp add: canonize_path_win_def MAX_PATH_def)
    then show ?thesis using 1 wstr_to_os_zero [of "long_mark @ q"] l q(2) by (simp add: q_def)
  next
    case 2
    then show ?thesis using q(1,3) by (simp add: canonize_path_win_def MAX_PATH_def flip: q_def)
  next
    case 3
    have "replicate (MAX_PATH - 4) (0 :: 16 word) = 0 # replicate (MAX_PATH - 5) 0"
      by (simp add: MAX_PATH_def flip: replicate_Suc)
    moreover have "\<not> MAX_PATH < 4" by (simp add: MAX_PATH_def)
    ultimately have "canonize_path_win gfn le p = wstr_to_os (long_mark @ 0 # replicate (MAX_PATH - 5) 0)"
      using 3 q(3) by (simp add: canonize_path_win_def)
    then show ?thesis using 3 wstr_to_os_zero [OF l] by (simp add: MAX_PATH_def flip: q_def)
  qed
qed

text \<open>
  A box with a borrowed one gives back what both own, except for what the borrowed one had borrowed
  itself: that is never freed.
\<close>

lemma add_borrow_drops:
  assumes "add_borrow a b = Inr c"
  shows "mset (box_drop c) + mset (concat (map box_drop (box_borrows b))) = mset (box_drop a) + mset (box_drop b)"
proof -
  have "c = WinapiBox (box_ptr a) (box_borrows a @ [WinapiBox (box_ptr b) []])"
    using assms by (auto simp: add_borrow_def box_from_raw_def require_def split: if_splits)
  then show ?thesis by (cases a; cases b) simp
qed

text \<open>Two trees that differ in the time of one file are fed to the hasher as different.\<close>

lemma hash_win_sees_times:
  assumes "ww_path e \<noteq> []" "ww_meta e = Inr m" "ww_modified m = Inr t" "t \<noteq> t'"
  shows "win_hash_feed [Inr e] \<noteq> win_hash_feed [Inr (e\<lparr>ww_meta := Inr (m\<lparr>ww_modified := Inr t'\<rparr>)\<rparr>)]"
  using assms by (simp add: win_hash_entry_def)

end
