(* ===== verification/Spec2Isabelle.thy ===== *)
theory Spec2Isabelle
  imports CommonLaws BilogLaws DispatchLaws FileStoreLaws JournalLaws RecoveryLaws ReverseLaws SnapshotLaws
    FuseLaws ServerLaws ReplicationLaws CorkLaws IoLimitLaws ViewerLaws SnapshotEncode
    FuseReadLaws FuseLlLaws FuseSessionLaws RsyncLaws StartUpLaws CliLaws DokanLaws
    ReplicaLaws FuseBitsLaws NetLaws SnapshotFile MainCmdLaws WinMemLaws
begin

text \<open>
  A verification library for fsyncer, a replicating file system.

  \<^bold>\<open>The program.\<close>  A server mounts a file system with FUSE on top of a backing store.  Each
  operation that changes the store becomes a \<open>VFSCall\<close>; \<open>pre_op\<close> sends it to the connected
  clients and writes it to a journal, the operation is performed on the store, and \<open>post_op\<close>
  waits for the clients that have to answer.  A client reads the calls from its connection,
  dispatches them on its own copy and acknowledges them.  The journal is a ring of blocks in a
  file; its entries are the calls themselves (forward journal) or entries that can be applied in
  both directions (bidirectional log).  A journal can be viewed, replayed, and merged into a
  snapshot, which holds the net effect of many calls and is applied to a copy later.

  \<^bold>\<open>Theories and sources\<close> (paths below \<open>src/\<close>).  For each part there is a theory with the
  definitions and one or more with its properties.
  \<^item> \<open>Prelude\<close>: machine integers, the type of results, byte words, exclusive-or facts.
  \<^item> \<open>Common\<close> and \<open>CommonLaws\<close>: \<open>fsyncd/src/common/mod.rs\<close>, \<open>file_security.rs\<close>, \<open>ffi.rs\<close>.
    Calls and messages as datatypes, path translation, sizes, run-length coding.
  \<^item> \<open>OpsUnix\<close> and \<open>DispatchLaws\<close>: \<open>common/ops_unix.rs\<close> and \<open>client/dispatch_unix.rs\<close>.  One
    definition per \<open>xmp_\<close> wrapper and \<open>dispatch\<close> over all calls.
  \<^item> \<open>ByteFile\<close> and \<open>OrdMap\<close>: positioned file access and ordered maps of the standard library.
  \<^item> \<open>Bilog\<close> and \<open>BilogLaws\<close>: \<open>journal/bilog.rs\<close>, \<open>journal/mod.rs\<close>, \<open>journal/forward.rs\<close>,
    \<open>journal/mdata.rs\<close>.  \<open>new\<close>, \<open>xor\<close>, \<open>apply\<close> and \<open>old\<close> of all twelve entry types.
  \<^item> \<open>FileStore\<close> and \<open>FileStoreLaws\<close>: \<open>journal/filestore.rs\<close>, the store of deleted files.
  \<^item> \<open>Store\<close>, \<open>StoreLaws\<close>, \<open>JournalLaws\<close>, \<open>RecoveryLaws\<close>, \<open>ReverseLaws\<close>:
    \<open>journal/store.rs\<close>, the journal on disk, its writing, recovery and both iterators.
  \<^item> \<open>Viewer\<close> and \<open>ViewerLaws\<close>: \<open>journal/viewer.rs\<close>.
  \<^item> \<open>Snapshot\<close>, \<open>AllocLaws\<close>, \<open>SnapshotWrite\<close>, \<open>SnapshotEncode\<close>, \<open>SnapshotFile\<close> and \<open>SnapshotLaws\<close>:
    \<open>snapshot/forward.rs\<close> and \<open>snapshot/mod.rs\<close>.
  \<^item> \<open>Server\<close>, \<open>ServerLaws\<close>, \<open>CorkLaws\<close>: \<open>server/client.rs\<close>, \<open>server/mod.rs\<close> and
    \<open>hash_metadata\<close>.
  \<^item> \<open>ClientConn\<close> and \<open>ReplicationLaws\<close>: \<open>client/mod.rs\<close>, and both ends together.
  \<^item> \<open>FuseHl\<close> and \<open>FuseLaws\<close>: \<open>fuse_hl/write_unix.rs\<close>, every handler that changes the store.
  \<^item> \<open>FuseRead\<close> and \<open>FuseReadLaws\<close>: \<open>fuse_hl/read_unix.rs\<close>, the handlers that only read.
  \<^item> \<open>FuseTable\<close> and \<open>ReplicaLaws\<close>: the table of callbacks in \<open>fuse_hl/fuseops.rs\<close> and \<open>fuse_main\<close> of
    \<open>fuse_hl/mod.rs\<close>: requests as values, a session as a list of requests, and the whole way of a
    request from the kernel to the copy of a client.
  \<^item> \<open>FuseBits\<close> and \<open>FuseBitsLaws\<close>: the bit fields of \<open>fuse/bindings.rs\<close> and the flags of
    \<open>fuse_hl/fuseops.rs\<close>.
  \<^item> \<open>Net\<close> and \<open>NetLaws\<close>: \<open>server/net.rs\<close> and \<open>error.rs\<close>.
  \<^item> \<open>FuseLl\<close>, \<open>FuseLlOps\<close> and \<open>FuseLlLaws\<close>: \<open>fuse_ll/mod.rs\<close>, the low-level front end: its table
    of inodes and one definition per method; the requests of \<open>fuse/src/ops.rs\<close>.
  \<^item> \<open>FuseSession\<close> and \<open>FuseSessionLaws\<close>: \<open>fuse/src/lib.rs\<close>, replies, callbacks and \<open>mount\<close>.
  \<^item> \<open>Rsync\<close> and \<open>RsyncLaws\<close>: \<open>common/rsync.rs\<close>, the bridge of the first synchronisation.
  \<^item> \<open>StartUp\<close> and \<open>StartUpLaws\<close>: the start of the server in \<open>server/mod.rs\<close>, \<open>fuse_hl/mod.rs\<close> and
    \<open>common/security_unix.rs\<close>.
  \<^item> \<open>Cli\<close> and \<open>CliLaws\<close>: \<open>main.rs\<close> and \<open>client_main\<close>: the declared command line and what reads it.
  \<^item> \<open>MainCmd\<close> and \<open>MainCmdLaws\<close>: the choice of the command in \<open>main.rs\<close>, \<open>snapshot_main\<close> of
    \<open>snapshot/mod.rs\<close>, and the descriptions of the entries of the bidirectional log.
  \<^item> \<open>WinMem\<close> and \<open>WinMemLaws\<close>: the Windows helpers of \<open>common/mod.rs\<close>.
  \<^item> \<open>WinSecurity\<close> and \<open>WinLaws\<close>: \<open>common/security_windows.rs\<close>, descriptors as text.
  \<^item> \<open>OpsWin\<close>: \<open>common/ops_windows.rs\<close>, \<open>client/dispatch_windows.rs\<close> and the times of Windows.
  \<^item> \<open>DokanFs\<close>, \<open>WinStart\<close> and \<open>DokanLaws\<close>: \<open>dokan/write_windows.rs\<close>, the package \<open>dokan/src/lib.rs\<close> and
    the Windows parts of \<open>server/mod.rs\<close>.
  \<^item> \<open>IoLimit\<close> and \<open>IoLimitLaws\<close>: \<open>iolimit/src/lib.rs\<close>.

  \<^bold>\<open>Conventions.\<close>  A fallible function answers in \<open>failure + 'a\<close>: an I/O error or a panic with
  its message.  Arithmetic on \<open>usize\<close> wraps where the source does not check it, as in the release
  profile.  A mutable receiver is a record that is returned updated; the responses that the
  server shares between threads live in a store with their reference counts, and a function that
  blocks is split where it blocks (\<open>cork_send\<close> and \<open>cork_wait\<close>), or answers \<open>None\<close> while it would
  block (\<open>pre_op\<close> on a corked server).

  \<^bold>\<open>Parameters\<close>, for code that is not in the repository: the system calls (\<open>'s os\<close>, functions on
  a state \<open>'s\<close>), the view of the file system that the log reads (\<open>fs_view\<close>), the bincode encodings
  (\<open>codec\<close>, \<open>snap_codec\<close>, \<open>msg_codec\<close>) with the round-trip laws stated as hypotheses where a
  property needs them, checksums, the block and stream compressors, the processes that
  are started, the FUSE library, the Windows API and Dokan, the addresses of boxes, the argument and URL parsers, sockets, the
  regular expression of the viewer, and the clock.

  \<^bold>\<open>Interfaces.\<close>  \<open>pfile\<close> is the contract of a file with positioned access, \<open>ordered_map\<close> that of
  \<open>BTreeMap\<close>, \<open>append_log\<close> that of the journal as its writers and readers use it, \<open>allocator\<close> that
  of the free list, \<open>xor_entry\<close> and \<open>toggle_entry\<close> those of the entries of the bidirectional log,
  \<open>copies\<close> that of a store and a copy that both perform the same operations.
  Each is interpreted on the definitions of the model.

  \<^bold>\<open>What is shown.\<close>
  \<^item> Paths: a translated path stays below the root, and so does every path that \<open>dispatch\<close> passes
    to the operating system; results are zero or negated error numbers, with the exceptions stated.
  \<^item> Journal: entries written to a journal are read back in order, forward and in reverse, as long
    as the ring has not given them up; a write appends one entry and drops whole blocks of old
    ones at most; opening recovers the entries behind a stale header; the replay of a journal
    performs the calls that were written.  Three properties state where the code departs from this
    (a block that is filled exactly, a stale entry that comes back, a header never written).
  \<^item> Bidirectional log: an entry recorded before an operation undoes it and redoes it again, for
    the metadata entries, directories, removed nodes and links; attributes and the four entry
    types that fail are described branch by branch.
  \<^item> Deleted files: the quota holds after each store, the eviction ends, tokens are ordered.
  \<^item> Snapshots: the allocator hands out disjoint regions and joins what it gets back; a write
    overlays the bytes of its file and no others, whichever way the blocks are laid out; a snapshot
    with little waste survives its file; and what
    merging and applying lose.
  \<^item> The whole way: after a session of requests that change the store, each client that performs what
    it has received holds a copy that matches the store, whatever its mode, if store and copy agree
    on single requests; copies of equal machines do.
  \<^item> Replication: what the server announces is what it performs; each client receives exactly
    the message for its mode; a synchronous operation is performed once by the client and its
    result reaches the waiting thread; no operation stands between a cork and its uncork on any
    connection, in every interleaving of the threads (\<open>cork_step\<close>).
  \<^item> Writing to a connection ends, with all bytes delivered in order or an error and a prefix.  The bit
    fields of a file handle are independent of each other.
  \<^item> The rate limiter keeps its rate.
  \<^item> Reading handlers leave no descriptor open.  In the low-level front end every inode number that
    the kernel holds stays live, in every sequence of requests and forgets (\<open>ll_step\<close>), and the
    count is off by one, so that no inode is ever given back; a directory listing ends and fits
    its buffer; inodes are entered with a descriptor that is closed.  A session gives back all it
    took however it ends, but serves a file system without methods.
  \<^item> The bridge of the first synchronisation hands each process exactly what the other one said.
  \<^item> Windows: a security descriptor survives its way as text between machines that know the same
    accounts; a difference that the server announces makes the client write the new bytes; a paging
    write ends with the file; the start of Dokan hides its errors.
  \<^item> Start: which directories are in place afterwards, which values the commands find.

  \<^bold>\<open>Fuel and termination.\<close>  The loops over a stream or a buffer are total, with the length of the
  rest as measure.  The journal iterators and the application of a snapshot take a number of steps
  and answer \<open>None\<close> when it is used up; the properties say which number is enough (one more than
  the number of entries for a forward iteration, and for a directory listing).

  \<^bold>\<open>Not modelled.\<close>  The generated bindings apart from their bit fields: declarations of the C library
  and tests of their layout, without behaviour of the program; the handlers and operations that
  the repository has in C (\<open>xmp_readdir\<close>, \<open>xmp_read_buf\<close>, \<open>read_windows.c\<close>, \<open>OpCreateFile\<close> and its
  neighbours); the splitting of Windows paths into components, which the standard library does; the
  matching of process arguments, which a package does; the profiler of a feature; build scripts; messages
  printed for the user.  Compaction of a snapshot is modelled, and what it loses is stated as a
  finding of the manifest; the round trip of the file is shown where it has nothing to do.
\<close>

end
